(* ===== verification/Prelude.thy ===== *)
theory Prelude
  imports Main "HOL-Library.Sublist"
begin

text \<open>
  Shared vocabulary of the development: the collections the component proofs use, the
  outcome type of an operation that can bring the program down, and the list and map
  lemmas that several components need.
\<close>

named_theorems boost_law \<open>consequences of the documented behaviour of the Boost parameters\<close>
named_theorems device_def \<open>unfolding of the enumeration constants of AstroDeviceDef.h\<close>
named_theorems kv_def \<open>unfolding of the key-value message constructors and printers\<close>
named_theorems obss_frame \<open>fields an observation-system operation leaves alone\<close>
named_theorems obss_def \<open>unfolding of small observation-system helpers\<close>

section \<open>Outcomes\<close>

text \<open>
  C++ exceptions thrown by the standard conversions, and the ways in which the daemon
  itself is brought down. Every operation that can do so returns a sum, \<open>Inl\<close> the reason.
\<close>

datatype exn = InvalidArgument | OutOfRange

datatype crash =
    NullDeref          \<comment> \<open>member access through an empty shared_ptr\<close>
  | Uncaught exn       \<comment> \<open>exception that leaves the message thread\<close>
  | BufferOverrun      \<comment> \<open>write past a fixed-size array\<close>
  | BadIndex           \<comment> \<open>read outside an array\<close>
  | DanglingRef        \<comment> \<open>use of a reference to a destroyed element\<close>

definition bindR :: "'e + 'a \<Rightarrow> ('a \<Rightarrow> 'e + 'b) \<Rightarrow> 'e + 'b" where
  "bindR m f = (case m of Inl e \<Rightarrow> Inl e | Inr a \<Rightarrow> f a)"

lemma bindR_simps [simp]:
  "bindR (Inl e) f = Inl e"
  "bindR (Inr a) f = f a"
  by (simp_all add: bindR_def)

lemma bindR_Inr_iff: "bindR m f = Inr b \<longleftrightarrow> (\<exists>a. m = Inr a \<and> f a = Inr b)"
  by (cases m) auto

lemma bindR_cong [fundef_cong]:
  "m = m' \<Longrightarrow> (\<And>a. m' = Inr a \<Longrightarrow> f a = f' a) \<Longrightarrow> bindR m f = bindR m' f'"
  by (cases m') auto

lemma bindR_Inr_right [simp]: "bindR m Inr = m"
  by (cases m) auto

text \<open>A loop over a list that stops at the first error.\<close>

fun foldR :: "('x \<Rightarrow> 's \<Rightarrow> 'e + 's) \<Rightarrow> 'x list \<Rightarrow> 's \<Rightarrow> 'e + 's" where
  "foldR f [] s = Inr s"
| "foldR f (x # xs) s = bindR (f x s) (foldR f xs)"

text \<open>The same for steps that may never return.\<close>

definition andthen :: "('e + 'a) option \<Rightarrow> ('a \<Rightarrow> ('e + 'b) option) \<Rightarrow> ('e + 'b) option" where
  "andthen m f = (case m of None \<Rightarrow> None | Some (Inl e) \<Rightarrow> Some (Inl e) | Some (Inr a) \<Rightarrow> f a)"

lemma andthen_simps [simp]:
  "andthen None f = None" "andthen (Some (Inl e)) f = Some (Inl e)" "andthen (Some (Inr a)) f = f a"
  by (simp_all add: andthen_def)

lemma andthen_cases:
  obtains "m = None" | e where "m = Some (Inl e)" | a where "m = Some (Inr a)"
  by (metis not_None_eq old.sum.exhaust)

lemma andthen_assoc: "andthen (andthen m f) g = andthen m (\<lambda>a. andthen (f a) g)"
  by (rule andthen_cases [of m]) simp_all

lemma andthen_unit [simp]: "andthen m (\<lambda>a. Some (Inr a)) = m"
  by (rule andthen_cases [of m]) simp_all

fun foldO :: "('x \<Rightarrow> 's \<Rightarrow> ('e + 's) option) \<Rightarrow> 'x list \<Rightarrow> 's \<Rightarrow> ('e + 's) option" where
  "foldO f [] s = Some (Inr s)"
| "foldO f (x # xs) s = andthen (f x s) (foldO f xs)"

lemma foldO_append: "foldO f (xs @ ys) s = andthen (foldO f xs s) (foldO f ys)"
proof (induction xs arbitrary: s)
  case (Cons x xs)
  then have "foldO f (xs @ ys) = (\<lambda>s. andthen (foldO f xs s) (foldO f ys))" by auto
  then show ?case by (simp add: andthen_assoc)
qed simp

lemma foldO_invariant:
  assumes "\<And>x s s'. P s \<Longrightarrow> f x s = Some (Inr s') \<Longrightarrow> P s'" and "P s"
  shows "foldO f xs s = Some (Inr s') \<Longrightarrow> P s'"
  using assms(2)
proof (induction xs arbitrary: s)
  case (Cons x xs)
  then show ?case using assms(1) by (cases rule: andthen_cases [of "f x s"]) auto
qed simp

lemma foldR_append: "foldR f (xs @ ys) s = bindR (foldR f xs s) (foldR f ys)"
  by (induction xs arbitrary: s) (auto simp: bindR_def split: sum.splits)

lemma foldR_invariant:
  assumes "\<And>x s s'. x \<in> set xs \<Longrightarrow> P s \<Longrightarrow> f x s = Inr s' \<Longrightarrow> P s'"
  shows "P s \<Longrightarrow> foldR f xs s = Inr s' \<Longrightarrow> P s'"
  using assms
proof (induction xs arbitrary: s)
  case Nil
  then show ?case by simp
next
  case (Cons x xs)
  from Cons.prems(2) obtain t where t: "f x s = Inr t" "foldR f xs t = Inr s'"
    by (auto simp: bindR_Inr_iff)
  from Cons.prems(1,3) t(1) have "P t" by auto
  with Cons.IH [OF _ t(2)] Cons.prems(3) show ?case by auto
qed

lemma foldR_total:
  assumes "\<And>x s. x \<in> set xs \<Longrightarrow> \<exists>s'. f x s = Inr s'"
  shows "\<exists>s'. foldR f xs s = Inr s'"
  using assms
proof (induction xs arbitrary: s)
  case Nil
  then show ?case by simp
next
  case (Cons x xs)
  then obtain t where "f x s = Inr t" by force
  with Cons show ?case by auto
qed

section \<open>First match in a list\<close>

text \<open>
  The source scans its containers with \<open>for (it = begin; it != end; ++it) if (match) {...; break;}\<close>:
  the body runs on the first matching element only.
\<close>

fun upd_first :: "('a \<Rightarrow> bool) \<Rightarrow> ('a \<Rightarrow> 'a) \<Rightarrow> 'a list \<Rightarrow> 'a list" where
  "upd_first P f [] = []"
| "upd_first P f (x # xs) = (if P x then f x # xs else x # upd_first P f xs)"

fun erase_first :: "('a \<Rightarrow> bool) \<Rightarrow> 'a list \<Rightarrow> 'a list" where
  "erase_first P [] = []"
| "erase_first P (x # xs) = (if P x then xs else x # erase_first P xs)"

lemma upd_first_id: "find P xs = None \<Longrightarrow> upd_first P f xs = xs"
  by (induction xs) (auto split: if_splits)

lemma length_upd_first [simp]: "length (upd_first P f xs) = length xs"
  by (induction xs) auto

lemma upd_first_split:
  assumes "find P xs = Some x"
  obtains ys zs where "xs = ys @ x # zs" and "P x" and "\<forall>y \<in> set ys. \<not> P y"
    and "\<And>f. upd_first P f xs = ys @ f x # zs"
    and "erase_first P xs = ys @ zs"
proof -
  from assms have "\<exists>ys zs. xs = ys @ x # zs \<and> P x \<and> (\<forall>y \<in> set ys. \<not> P y)
    \<and> (\<forall>f. upd_first P f xs = ys @ f x # zs) \<and> erase_first P xs = ys @ zs"
  proof (induction xs)
    case Nil
    then show ?case by simp
  next
    case (Cons a xs)
    show ?case
    proof (cases "P a")
      case True
      with Cons.prems show ?thesis by (intro exI [of _ "[]"] exI [of _ xs]) auto
    next
      case False
      with Cons.prems have "find P xs = Some x" by simp
      with Cons.IH obtain ys zs where "xs = ys @ x # zs \<and> P x \<and> (\<forall>y \<in> set ys. \<not> P y)
          \<and> (\<forall>f. upd_first P f xs = ys @ f x # zs) \<and> erase_first P xs = ys @ zs"
        by blast
      with False show ?thesis by (intro exI [of _ "a # ys"] exI [of _ zs]) auto
    qed
  qed
  then show thesis using that by blast
qed

lemma map_upd_first:
  "(\<And>x. P x \<Longrightarrow> g (f x) = g x) \<Longrightarrow> map g (upd_first P f xs) = map g xs"
  by (induction xs) auto

lemma erase_first_id: "find P xs = None \<Longrightarrow> erase_first P xs = xs"
  by (induction xs) (auto split: if_splits)

lemma set_erase_first: "set (erase_first P xs) \<subseteq> set xs"
  by (induction xs) auto

lemma erase_first_subseq: "subseq (erase_first P xs) xs"
  by (induction xs) auto

lemma length_erase_first_Some:
  "find P xs = Some x \<Longrightarrow> Suc (length (erase_first P xs)) = length xs"
  by (erule upd_first_split) simp

lemma find_Some_mem: "find P xs = Some x \<Longrightarrow> x \<in> set xs \<and> P x"
  by (auto simp: find_Some_iff)

lemma find_upd_first:
  "(\<And>x. P x \<Longrightarrow> P (f x)) \<Longrightarrow> find P (upd_first P f xs) = map_option f (find P xs)"
  by (induction xs) auto

text \<open>Counting the elements with a property, the abstract value behind the counters.\<close>

definition count_if :: "('a \<Rightarrow> bool) \<Rightarrow> 'a list \<Rightarrow> nat" where
  "count_if P xs = length (filter P xs)"

lemma count_if_simps [simp]:
  "count_if P [] = 0"
  "count_if P (x # xs) = (if P x then Suc (count_if P xs) else count_if P xs)"
  "count_if P (xs @ ys) = count_if P xs + count_if P ys"
  by (simp_all add: count_if_def)

lemma count_if_le: "count_if P xs \<le> length xs"
  by (simp add: count_if_def)

lemma count_if_pos: "x \<in> set xs \<Longrightarrow> P x \<Longrightarrow> 0 < count_if P xs"
  by (induction xs) auto

lemma count_if_0_iff: "count_if P xs = 0 \<longleftrightarrow> (\<forall>x \<in> set xs. \<not> P x)"
  by (induction xs) auto

lemma count_if_upd_first:
  assumes "find Q xs = Some x"
  shows "int (count_if P (upd_first Q f xs))
    = int (count_if P xs) - of_bool (P x) + of_bool (P (f x))"
  using assms by (rule upd_first_split) (auto simp: of_bool_def)

section \<open>Strings\<close>

lemma dropWhile_none: "(\<forall>c \<in> set s. \<not> P c) \<Longrightarrow> dropWhile P s = s"
  by (cases s) auto

lemma takeWhile_stop: "(\<forall>c \<in> set s. P c) \<Longrightarrow> \<not> P d \<Longrightarrow> takeWhile P (s @ d # t) = s"
  by (induction s) auto

lemma dropWhile_stop: "(\<forall>c \<in> set s. P c) \<Longrightarrow> \<not> P d \<Longrightarrow> dropWhile P (s @ d # t) = d # t"
  by (induction s) auto

end
