(* ===== verification/Cpp_Std.thy ===== *)
theory Cpp_Std
  imports Prelude
begin

text \<open>
  The part of C++ and of its standard library that the sources use: 32-bit \<open>int\<close>, the
  \<open>ctype.h\<close> predicates, decimal printing and \<open>snprintf\<close> padding, \<open>std::stoi\<close>, \<open>atoi\<close>,
  and binary64 \<open>double\<close> with its arithmetic, \<open>std::stod\<close>, stream output and the cast to \<open>int\<close>.
  A \<open>char\<close> is a byte, a \<open>std::string\<close> a list of them.
\<close>

section \<open>Integers\<close>

text \<open>\<open>int\<close> values are HOL integers; where the code can leave the 32-bit range the wrapped value is taken.\<close>

definition INT_MAX :: int where "INT_MAX = 2147483647"
definition INT_MIN :: int where "INT_MIN = - 2147483648"

definition in_s32 :: "int \<Rightarrow> bool" where
  "in_s32 n \<longleftrightarrow> INT_MIN \<le> n \<and> n \<le> INT_MAX"

definition s32 :: "int \<Rightarrow> int" where
  "s32 n = (n + 2147483648) mod 4294967296 - 2147483648"

lemma s32_id [simp]: "in_s32 n \<Longrightarrow> s32 n = n"
  by (simp add: s32_def in_s32_def INT_MIN_def INT_MAX_def)

lemma s32_range [simp]: "in_s32 (s32 n)"
proof -
  have "0 \<le> (n + 2147483648) mod 4294967296" "(n + 2147483648) mod 4294967296 < 4294967296"
    by simp_all
  then show ?thesis by (simp add: s32_def in_s32_def INT_MIN_def INT_MAX_def)
qed

lemma in_s32_small: "\<bar>n\<bar> \<le> 2147483647 \<Longrightarrow> in_s32 n"
  unfolding in_s32_def INT_MIN_def INT_MAX_def by arith

section \<open>Characters\<close>

definition code_of :: "char \<Rightarrow> int" where
  "code_of c = of_char c"

definition isdigit :: "char \<Rightarrow> bool" where
  "isdigit c \<longleftrightarrow> 48 \<le> code_of c \<and> code_of c \<le> 57"

definition isalpha :: "char \<Rightarrow> bool" where
  "isalpha c \<longleftrightarrow> 65 \<le> code_of c \<and> code_of c \<le> 90 \<or> 97 \<le> code_of c \<and> code_of c \<le> 122"

definition isspace :: "char \<Rightarrow> bool" where
  "isspace c \<longleftrightarrow> code_of c = 32 \<or> 9 \<le> code_of c \<and> code_of c \<le> 13"

definition tolower :: "char \<Rightarrow> char" where
  "tolower c = (if 65 \<le> code_of c \<and> code_of c \<le> 90 then char_of (code_of c + 32) else c)"

definition digit_char :: "int \<Rightarrow> char" where
  "digit_char d = char_of (48 + d)"

definition digit_val :: "char \<Rightarrow> int" where
  "digit_val c = code_of c - 48"

lemma code_of_digit_char [simp]: "0 \<le> d \<Longrightarrow> d < 10 \<Longrightarrow> code_of (digit_char d) = 48 + d"
  by (simp add: code_of_def digit_char_def)

lemma isdigit_digit_char [simp]: "0 \<le> d \<Longrightarrow> d < 10 \<Longrightarrow> isdigit (digit_char d)"
  by (simp add: isdigit_def)

lemma digit_val_digit_char [simp]: "0 \<le> d \<Longrightarrow> d < 10 \<Longrightarrow> digit_val (digit_char d) = d"
  by (simp add: digit_val_def)

lemma isdigit_not_space: "isdigit c \<Longrightarrow> \<not> isspace c"
  by (auto simp: isdigit_def isspace_def)

lemma isdigit_char_neq:
  assumes "isdigit c"
  shows "c \<noteq> CHR ''+''" "c \<noteq> CHR ''-''" "c \<noteq> CHR '',''" "c \<noteq> CHR ''=''" "c \<noteq> CHR ''%''"
    "c \<noteq> CHR '' ''" "c \<noteq> CHR ''.''" "c \<noteq> CHR ''T''" "c \<noteq> CHR ''R''" "c \<noteq> CHR 0x0A"
  using assms by (auto simp: isdigit_def code_of_def)

lemma tolower_idem [simp]: "tolower (tolower c) = tolower c"
  by (simp add: tolower_def code_of_def)

lemma tolower_chars [simp]:
  "tolower (CHR ''A'') = CHR ''a''"
  "tolower (CHR ''B'') = CHR ''b''"
  "tolower (CHR ''C'') = CHR ''c''"
  "tolower (CHR ''D'') = CHR ''d''"
  "tolower (CHR ''E'') = CHR ''e''"
  "tolower (CHR ''F'') = CHR ''f''"
  "tolower (CHR ''G'') = CHR ''g''"
  "tolower (CHR ''H'') = CHR ''h''"
  "tolower (CHR ''I'') = CHR ''i''"
  "tolower (CHR ''J'') = CHR ''j''"
  "tolower (CHR ''K'') = CHR ''k''"
  "tolower (CHR ''L'') = CHR ''l''"
  "tolower (CHR ''M'') = CHR ''m''"
  "tolower (CHR ''N'') = CHR ''n''"
  "tolower (CHR ''O'') = CHR ''o''"
  "tolower (CHR ''P'') = CHR ''p''"
  "tolower (CHR ''Q'') = CHR ''q''"
  "tolower (CHR ''R'') = CHR ''r''"
  "tolower (CHR ''S'') = CHR ''s''"
  "tolower (CHR ''T'') = CHR ''t''"
  "tolower (CHR ''U'') = CHR ''u''"
  "tolower (CHR ''V'') = CHR ''v''"
  "tolower (CHR ''W'') = CHR ''w''"
  "tolower (CHR ''X'') = CHR ''x''"
  "tolower (CHR ''Y'') = CHR ''y''"
  "tolower (CHR ''Z'') = CHR ''z''"
  "tolower (CHR ''a'') = CHR ''a''"
  "tolower (CHR ''b'') = CHR ''b''"
  "tolower (CHR ''c'') = CHR ''c''"
  "tolower (CHR ''d'') = CHR ''d''"
  "tolower (CHR ''e'') = CHR ''e''"
  "tolower (CHR ''f'') = CHR ''f''"
  "tolower (CHR ''g'') = CHR ''g''"
  "tolower (CHR ''h'') = CHR ''h''"
  "tolower (CHR ''i'') = CHR ''i''"
  "tolower (CHR ''j'') = CHR ''j''"
  "tolower (CHR ''k'') = CHR ''k''"
  "tolower (CHR ''l'') = CHR ''l''"
  "tolower (CHR ''m'') = CHR ''m''"
  "tolower (CHR ''n'') = CHR ''n''"
  "tolower (CHR ''o'') = CHR ''o''"
  "tolower (CHR ''p'') = CHR ''p''"
  "tolower (CHR ''q'') = CHR ''q''"
  "tolower (CHR ''r'') = CHR ''r''"
  "tolower (CHR ''s'') = CHR ''s''"
  "tolower (CHR ''t'') = CHR ''t''"
  "tolower (CHR ''u'') = CHR ''u''"
  "tolower (CHR ''v'') = CHR ''v''"
  "tolower (CHR ''w'') = CHR ''w''"
  "tolower (CHR ''x'') = CHR ''x''"
  "tolower (CHR ''y'') = CHR ''y''"
  "tolower (CHR ''z'') = CHR ''z''"
  "tolower (CHR ''0'') = CHR ''0''"
  "tolower (CHR ''1'') = CHR ''1''"
  "tolower (CHR ''2'') = CHR ''2''"
  "tolower (CHR ''3'') = CHR ''3''"
  "tolower (CHR ''4'') = CHR ''4''"
  "tolower (CHR ''5'') = CHR ''5''"
  "tolower (CHR ''6'') = CHR ''6''"
  "tolower (CHR ''7'') = CHR ''7''"
  "tolower (CHR ''8'') = CHR ''8''"
  "tolower (CHR ''9'') = CHR ''9''"
  "tolower (CHR ''_'') = CHR ''_''"
  by (simp_all add: tolower_def code_of_def char_of_eq_iff)

section \<open>Decimal output\<close>

text \<open>Decimal digits of a non-negative integer.\<close>

function show_dec :: "int \<Rightarrow> string" where
  "show_dec n = (if n < 10 then [digit_char n] else show_dec (n div 10) @ [digit_char (n mod 10)])"
  by pat_completeness auto
termination
  by (relation "measure nat") auto

declare show_dec.simps [simp del]

definition show_int :: "int \<Rightarrow> string" where
  "show_int n = (if n < 0 then CHR ''-'' # show_dec (- n) else show_dec n)"

text \<open>\<open>snprintf\<close> conversion \<open>%[+][0]<width>d\<close>.\<close>

definition fmt_d :: "bool \<Rightarrow> bool \<Rightarrow> nat \<Rightarrow> int \<Rightarrow> string" where
  "fmt_d pls zero w n =
     (let sg = (if n < 0 then ''-'' else if pls then ''+'' else []);
          ds = show_dec \<bar>n\<bar>;
          pad = w - length sg - length ds
      in if zero then sg @ replicate pad (CHR ''0'') @ ds
         else replicate pad (CHR '' '') @ sg @ ds)"

text \<open>\<open>snprintf(buff, size, ...)\<close> keeps at most \<open>size - 1\<close> characters.\<close>

definition snprintf_cut :: "nat \<Rightarrow> string \<Rightarrow> string" where
  "snprintf_cut sz s = take (sz - 1) s"

section \<open>Decimal input\<close>

definition dec_val :: "string \<Rightarrow> int" where
  "dec_val s = foldl (\<lambda>a c. 10 * a + digit_val c) 0 s"

text \<open>Optional sign of the \<open>strto*\<close> family: is the number negative, and the rest.\<close>

fun strto_sign :: "string \<Rightarrow> bool \<times> string" where
  "strto_sign [] = (False, [])"
| "strto_sign (c # cs) =
     (if c = CHR ''-'' then (True, cs) else if c = CHR ''+'' then (False, cs) else (False, c # cs))"

text \<open>\<open>strtol(s, &end, 10)\<close>: \<open>None\<close> where no digits are found, the unbounded value otherwise.\<close>

definition strtol10 :: "string \<Rightarrow> int option" where
  "strtol10 s =
     (let (neg, t) = strto_sign (dropWhile isspace s); ds = takeWhile isdigit t
      in if ds = [] then None else Some (if neg then - dec_val ds else dec_val ds))"

definition stoi :: "string \<Rightarrow> exn + int" where
  "stoi s = (case strtol10 s of
       None \<Rightarrow> Inl InvalidArgument
     | Some n \<Rightarrow> if in_s32 n then Inr n else Inl OutOfRange)"

definition clamp64 :: "int \<Rightarrow> int" where
  "clamp64 n = max (- 9223372036854775808) (min 9223372036854775807 n)"

text \<open>\<open>atoi\<close>: \<open>strtol\<close> saturates at the 64-bit \<open>long\<close>, then the value is cut to 32 bits.\<close>

definition atoi :: "string \<Rightarrow> int" where
  "atoi s = (case strtol10 s of None \<Rightarrow> 0 | Some n \<Rightarrow> s32 (clamp64 n))"

subsection \<open>Printing and reading integers\<close>

lemma show_dec_digits: "0 \<le> n \<Longrightarrow> \<forall>c \<in> set (show_dec n). isdigit c"
proof (induction n rule: show_dec.induct)
  case (1 n)
  then show ?case by (subst show_dec.simps) auto
qed

lemma show_dec_nonempty [simp]: "show_dec n \<noteq> []"
  by (subst show_dec.simps) simp

lemma dec_val_snoc [simp]: "dec_val (s @ [c]) = 10 * dec_val s + digit_val c"
  by (simp add: dec_val_def)

lemma dec_val_show_dec [simp]: "0 \<le> n \<Longrightarrow> dec_val (show_dec n) = n"
proof (induction n rule: show_dec.induct)
  case (1 n)
  show ?case
  proof (cases "n < 10")
    case True
    with 1 show ?thesis by (subst show_dec.simps) (simp add: dec_val_def)
  next
    case False
    with 1 show ?thesis by (subst show_dec.simps) simp
  qed
qed

lemma dec_val_zeros: "dec_val (replicate k (CHR ''0'') @ s) = dec_val s"
proof (induction k)
  case (Suc k)
  have "dec_val (CHR ''0'' # t) = dec_val t" for t
    by (simp add: dec_val_def digit_val_def code_of_def)
  with Suc show ?case by simp
qed simp

lemma strto_sign_digits: "s \<noteq> [] \<Longrightarrow> isdigit (hd s) \<Longrightarrow> strto_sign s = (False, s)"
  by (cases s) (auto dest: isdigit_char_neq)

lemma dropWhile_space_digit: "s \<noteq> [] \<Longrightarrow> isdigit (hd s) \<Longrightarrow> dropWhile isspace s = s"
  by (cases s) (auto dest: isdigit_not_space)

lemma takeWhile_all: "\<forall>c \<in> set ds. P c \<Longrightarrow> takeWhile P ds = ds"
  by (simp add: takeWhile_eq_all_conv)

lemma strtol10_digits:
  assumes "ds \<noteq> []" and "\<forall>c \<in> set ds. isdigit c"
  shows "strtol10 ds = Some (dec_val ds)"
proof -
  from assms have hd: "isdigit (hd ds)" by simp
  show ?thesis
    by (simp add: strtol10_def dropWhile_space_digit [OF assms(1) hd]
        strto_sign_digits [OF assms(1) hd] takeWhile_all [OF assms(2)] assms(1) Let_def)
qed

lemma strtol10_neg_digits:
  assumes "ds \<noteq> []" and "\<forall>c \<in> set ds. isdigit c"
  shows "strtol10 (CHR ''-'' # ds) = Some (- dec_val ds)"
  by (simp add: strtol10_def isspace_def code_of_def takeWhile_all [OF assms(2)] assms(1) Let_def)

lemma strtol10_show_int [simp]: "strtol10 (show_int n) = Some n"
  using show_dec_digits [of n] show_dec_digits [of "- n"]
  by (cases "n < 0") (simp_all add: show_int_def strtol10_digits strtol10_neg_digits)

lemma stoi_show_int: "in_s32 n \<Longrightarrow> stoi (show_int n) = Inr n"
  by (simp add: stoi_def)

lemma stoi_range: "stoi s = Inr n \<Longrightarrow> in_s32 n"
  by (auto simp: stoi_def split: option.splits if_splits)

lemma atoi_range: "in_s32 (atoi s)"
proof (cases "strtol10 s")
  case None
  then show ?thesis by (simp add: atoi_def in_s32_def INT_MIN_def INT_MAX_def)
qed (simp add: atoi_def)

lemma show_int_nonempty [simp]: "show_int n \<noteq> []"
  by (simp add: show_int_def)

lemma show_int_chars: "c \<in> set (show_int n) \<Longrightarrow> isdigit c \<or> c = CHR ''-''"
  using show_dec_digits [of n] show_dec_digits [of "- n"]
  by (auto simp: show_int_def split: if_splits)

lemma length_show_dec_le: "0 \<le> n \<Longrightarrow> n < 10 ^ k \<Longrightarrow> 0 < k \<Longrightarrow> length (show_dec n) \<le> k"
proof (induction k arbitrary: n)
  case 0
  then show ?case by simp
next
  case (Suc k)
  show ?case
  proof (cases "n < 10")
    case True
    then show ?thesis by (subst show_dec.simps) simp
  next
    case False
    with Suc.prems have "k \<noteq> 0" by (cases k) auto
    moreover from Suc.prems have "n div 10 < 10 ^ k" by simp
    ultimately have "length (show_dec (n div 10)) \<le> k" using Suc by simp
    with False show ?thesis by (subst show_dec.simps) simp
  qed
qed

lemma fmt_d0_digits: "0 \<le> n \<Longrightarrow> \<forall>c \<in> set (fmt_d False True w n). isdigit c"
  using show_dec_digits by (auto simp: fmt_d_def Let_def isdigit_def code_of_def)

lemma fmt_d0_nonempty [simp]: "fmt_d pls z w n \<noteq> []"
  by (simp add: fmt_d_def Let_def)

lemma strtol10_fmt_d0: "0 \<le> n \<Longrightarrow> strtol10 (fmt_d False True w n) = Some n"
  by (subst strtol10_digits) (simp_all add: fmt_d0_digits, simp add: fmt_d_def Let_def dec_val_zeros)

lemma length_fmt_d0:
  "0 \<le> n \<Longrightarrow> n < 10 ^ w \<Longrightarrow> 0 < w \<Longrightarrow> length (fmt_d False True w n) = w"
  using length_show_dec_le [of n w] by (simp add: fmt_d_def Let_def)

end
