(* ===== verification/Boost_Env.thy ===== *)
theory Boost_Env
  imports Cpp_Std
begin

text \<open>
  The third-party functions the daemon calls (Boost.Algorithm, Boost.Utility, Boost.DateTime,
  Boost.Format) are not part of the repository. They are the fields of a record that every
  definition takes as an argument; \<open>boost_ok\<close> states what their documentation promises and the
  code relies on, and \<open>boost_ref\<close> is an executable instance that keeps the promise, used by
  the witnesses. A time stamp (\<open>boost::posix_time::ptime\<close> from \<open>second_clock\<close>) is a number of
  seconds since the epoch.
\<close>

type_synonym ptime = int

text \<open>A queued message: its priority, then \<open>id\<close>, \<open>par1\<close>, \<open>par2\<close>.\<close>

type_synonym mqmsg = "nat \<times> int \<times> int \<times> int"

record boost =
  iequals :: "string \<Rightarrow> string \<Rightarrow> bool"       \<comment> \<open>\<open>algorithm::iequals\<close>\<close>
  trim :: "string \<Rightarrow> string"                    \<comment> \<open>\<open>algorithm::trim\<close>, the trimmed copy\<close>
  split_on :: "string \<Rightarrow> string \<Rightarrow> string list" \<comment> \<open>\<open>split\<close> with \<open>is_any_of(seps)\<close>, \<open>token_compress_on\<close>\<close>
  sref_find :: "string \<Rightarrow> string \<Rightarrow> int"        \<comment> \<open>\<open>string_ref::find\<close> cast to \<open>int\<close>, -1 where absent\<close>
  iso_date :: "ptime \<Rightarrow> string"                 \<comment> \<open>\<open>to_iso_extended_string(date())\<close>\<close>
  tod_str :: "ptime \<Rightarrow> string"                  \<comment> \<open>\<open>to_simple_string(time_of_day())\<close>\<close>
  iso_ext :: "ptime \<Rightarrow> string"                  \<comment> \<open>\<open>to_iso_extended_string(ptime)\<close>\<close>
  from_iso :: "string \<Rightarrow> ptime option"          \<comment> \<open>\<open>from_iso_extended_string\<close>, \<open>None\<close> where it throws\<close>
  ymd_of :: "ptime \<Rightarrow> int \<times> int \<times> int"         \<comment> \<open>year, month, day of the date\<close>
  hms_of :: "ptime \<Rightarrow> int \<times> int \<times> int"         \<comment> \<open>hours, minutes, seconds of the day\<close>
  format_d :: "nat \<Rightarrow> int \<Rightarrow> string"            \<comment> \<open>\<open>format("%0<w>d")\<close>\<close>
  cb_push :: "nat \<Rightarrow> string \<Rightarrow> char \<Rightarrow> string"  \<comment> \<open>\<open>circular_buffer::push_back\<close> at a capacity\<close>
  cb_erase :: "string \<Rightarrow> nat \<Rightarrow> string"         \<comment> \<open>\<open>circular_buffer::erase_begin\<close>\<close>
  mq_receive :: "mqmsg list \<Rightarrow> mqmsg \<times> mqmsg list"
    \<comment> \<open>\<open>message_queue::receive\<close> on a queue with messages, in the order they were sent\<close>

section \<open>Documented behaviour\<close>

definition iequals_doc :: "string \<Rightarrow> string \<Rightarrow> bool" where
  "iequals_doc a b \<longleftrightarrow> map tolower a = map tolower b"

definition trim_doc :: "string \<Rightarrow> string" where
  "trim_doc s = rev (dropWhile isspace (rev (dropWhile isspace s)))"

text \<open>Runs of separators count as one; a leading or trailing run still delimits an empty token.\<close>

function split_doc :: "(char \<Rightarrow> bool) \<Rightarrow> string \<Rightarrow> string list" where
  "split_doc P [] = [[]]"
| "split_doc P (c # cs) =
     (if P c then [] # split_doc P (dropWhile P cs)
      else (case split_doc P cs of t # ts \<Rightarrow> (c # t) # ts | [] \<Rightarrow> [[c]]))"
  by pat_completeness auto
termination
  by (relation "measure (\<lambda>(P, s). length s)") (auto simp: le_imp_less_Suc length_dropWhile_le)

fun find_doc :: "string \<Rightarrow> string \<Rightarrow> int" where
  "find_doc p [] = (if p = [] then 0 else - 1)"
| "find_doc p (c # cs) =
     (if take (length p) (c # cs) = p then 0
      else let r = find_doc p cs in if r < 0 then - 1 else r + 1)"

definition date_chars :: "string \<Rightarrow> bool" where
  "date_chars s \<longleftrightarrow> (\<forall>c \<in> set s. isdigit c \<or> c = CHR ''-'')"

definition time_chars :: "string \<Rightarrow> bool" where
  "time_chars s \<longleftrightarrow> (\<forall>c \<in> set s. isdigit c \<or> c = CHR '':'')"

text \<open>The message of highest priority leaves first, the oldest one among equals.\<close>

fun mq_doc :: "mqmsg list \<Rightarrow> mqmsg \<times> mqmsg list" where
  "mq_doc [] = ((0, 0, 0, 0), [])"
| "mq_doc [m] = (m, [])"
| "mq_doc (m # n # q) =
     (let (b, rest) = mq_doc (n # q) in if fst b \<le> fst m then (m, n # q) else (b, m # rest))"

definition boost_ok :: "boost \<Rightarrow> bool" where
  "boost_ok B \<longleftrightarrow>
     (\<forall>a b. iequals B a b = iequals_doc a b) \<and>
     (\<forall>s. trim B s = trim_doc s) \<and>
     (\<forall>p s. split_on B p s = split_doc (\<lambda>c. c \<in> set p) s) \<and>
     (\<forall>p s. sref_find B s p = find_doc p s) \<and>
     (\<forall>t. length (iso_date B t) = 10 \<and> date_chars (iso_date B t)) \<and>
     (\<forall>t. length (tod_str B t) = 8 \<and> time_chars (tod_str B t)) \<and>
     (\<forall>t. iso_ext B t = iso_date B t @ ''T'' @ tod_str B t) \<and>
     (\<forall>w n. format_d B w n = fmt_d False True w n) \<and>
     (\<forall>cap xs c. 0 < cap \<longrightarrow> cb_push B cap xs c = drop (length xs + 1 - cap) (xs @ [c])) \<and>
     (\<forall>xs n. n \<le> length xs \<longrightarrow> cb_erase B xs n = drop n xs) \<and>
     (\<forall>q. q \<noteq> [] \<longrightarrow> mq_receive B q = mq_doc q)"

lemma boost_laws [boost_law]:
  assumes "boost_ok B"
  shows "iequals B a b = iequals_doc a b" "trim B s = trim_doc s"
    "split_on B p s = split_doc (\<lambda>c. c \<in> set p) s" "sref_find B s p = find_doc p s"
    "format_d B w n = fmt_d False True w n" "iso_ext B t = iso_date B t @ ''T'' @ tod_str B t"
  using assms by (simp_all add: boost_ok_def)

text \<open>A full circular buffer drops its oldest element; erasing takes elements from the front.\<close>

lemma boost_buffer:
  assumes "boost_ok B"
  shows "0 < cap \<Longrightarrow> cb_push B cap xs c = drop (length xs + 1 - cap) (xs @ [c])"
    "n \<le> length xs \<Longrightarrow> cb_erase B xs n = drop n xs"
  using assms by (simp_all add: boost_ok_def)

lemma boost_queue: "boost_ok B \<Longrightarrow> q \<noteq> [] \<Longrightarrow> mq_receive B q = mq_doc q"
  by (simp add: boost_ok_def)

lemma boost_clock:
  assumes "boost_ok B"
  shows "length (iso_date B t) = 10" "date_chars (iso_date B t)"
    "length (tod_str B t) = 8" "time_chars (tod_str B t)"
  using assms by (simp_all add: boost_ok_def)

section \<open>A conforming instance\<close>

text \<open>Civil date of a day number (days since 1970-01-01), proleptic Gregorian.\<close>

definition civil_of_days :: "int \<Rightarrow> int \<times> int \<times> int" where
  "civil_of_days z0 =
     (let z = z0 + 719468; era = z div 146097; doe = z - era * 146097;
          yoe = (doe - doe div 1460 + doe div 36524 - doe div 146096) div 365;
          doy = doe - (365 * yoe + yoe div 4 - yoe div 100);
          mp = (5 * doy + 2) div 153;
          d = doy - (153 * mp + 2) div 5 + 1;
          m = (if mp < 10 then mp + 3 else mp - 9);
          y = yoe + era * 400 + (if m \<le> 2 then 1 else 0)
      in (y, m, d))"

definition ref_date :: "ptime \<Rightarrow> string" where
  "ref_date t = (let (y, m, d) = civil_of_days (t div 86400)
     in fmt_d False True 4 (y mod 10000) @ ''-'' @ fmt_d False True 2 (m mod 100)
        @ ''-'' @ fmt_d False True 2 (d mod 100))"

definition ref_hms :: "ptime \<Rightarrow> int \<times> int \<times> int" where
  "ref_hms t = (let s = t mod 86400 in (s div 3600, (s div 60) mod 60, s mod 60))"

definition ref_time :: "ptime \<Rightarrow> string" where
  "ref_time t = (let (h, m, s) = ref_hms t
     in fmt_d False True 2 (h mod 100) @ '':'' @ fmt_d False True 2 (m mod 100)
        @ '':'' @ fmt_d False True 2 (s mod 100))"

text \<open>Reading back \<open>YYYY-MM-DDThh:mm:ss\<close>.\<close>

definition days_of_civil :: "int \<Rightarrow> int \<Rightarrow> int \<Rightarrow> int" where
  "days_of_civil y0 m d =
     (let y = (if m \<le> 2 then y0 - 1 else y0); era = y div 400; yoe = y - era * 400;
          doy = (153 * (if 2 < m then m - 3 else m + 9) + 2) div 5 + d - 1;
          doe = yoe * 365 + yoe div 4 - yoe div 100 + doy
      in era * 146097 + doe - 719468)"

definition ref_from_iso :: "string \<Rightarrow> ptime option" where
  "ref_from_iso s =
     (let f = (\<lambda>i n. take n (drop i s)) in
      if length s = 19 \<and> s ! 4 = CHR ''-'' \<and> s ! 7 = CHR ''-'' \<and> s ! 10 = CHR ''T''
         \<and> s ! 13 = CHR '':'' \<and> s ! 16 = CHR '':''
         \<and> list_all isdigit (f 0 4 @ f 5 2 @ f 8 2 @ f 11 2 @ f 14 2 @ f 17 2)
      then Some (86400 * days_of_civil (dec_val (f 0 4)) (dec_val (f 5 2)) (dec_val (f 8 2))
             + 3600 * dec_val (f 11 2) + 60 * dec_val (f 14 2) + dec_val (f 17 2))
      else None)"

definition boost_ref :: boost where
  "boost_ref = \<lparr> iequals = iequals_doc, trim = trim_doc,
     split_on = (\<lambda>p s. split_doc (\<lambda>c. c \<in> set p) s),
     sref_find = (\<lambda>s p. find_doc p s),
     iso_date = ref_date, tod_str = ref_time,
     iso_ext = (\<lambda>t. ref_date t @ ''T'' @ ref_time t), from_iso = ref_from_iso,
     ymd_of = (\<lambda>t. civil_of_days (t div 86400)), hms_of = ref_hms,
     format_d = fmt_d False True,
     cb_push = (\<lambda>cap xs c. drop (length xs + 1 - cap) (xs @ [c])), cb_erase = (\<lambda>xs n. drop n xs),
     mq_receive = mq_doc \<rparr>"

lemma date_chars_fmt: "0 \<le> n \<Longrightarrow> date_chars (fmt_d False True w n)"
  using fmt_d0_digits by (auto simp: date_chars_def)

lemma time_chars_fmt: "0 \<le> n \<Longrightarrow> time_chars (fmt_d False True w n)"
  using fmt_d0_digits by (auto simp: time_chars_def)

lemma date_chars_append [simp]: "date_chars (a @ b) \<longleftrightarrow> date_chars a \<and> date_chars b"
  by (auto simp: date_chars_def)

lemma time_chars_append [simp]: "time_chars (a @ b) \<longleftrightarrow> time_chars a \<and> time_chars b"
  by (auto simp: time_chars_def)

lemma date_chars_Cons [simp]: "date_chars (c # s) \<longleftrightarrow> (isdigit c \<or> c = CHR ''-'') \<and> date_chars s"
  by (auto simp: date_chars_def)

lemma time_chars_Cons [simp]: "time_chars (c # s) \<longleftrightarrow> (isdigit c \<or> c = CHR '':'') \<and> time_chars s"
  by (auto simp: time_chars_def)

lemma ref_date_ok: "length (ref_date t) = 10 \<and> date_chars (ref_date t)"
  by (cases "civil_of_days (t div 86400)")
     (simp add: ref_date_def length_fmt_d0 date_chars_fmt)

lemma ref_time_ok: "length (ref_time t) = 8 \<and> time_chars (ref_time t)"
  by (cases "ref_hms t")
     (simp add: ref_time_def length_fmt_d0 time_chars_fmt)

theorem boost_ref_ok: "boost_ok boost_ref"
  using ref_date_ok ref_time_ok by (simp add: boost_ok_def boost_ref_def)

section \<open>Facts about the documented behaviour\<close>

lemma iequals_doc_refl [simp]: "iequals_doc a a"
  by (simp add: iequals_doc_def)

lemma iequals_doc_sym: "iequals_doc a b \<longleftrightarrow> iequals_doc b a"
  by (auto simp: iequals_doc_def)

lemma iequals_doc_trans: "iequals_doc a b \<Longrightarrow> iequals_doc b c \<Longrightarrow> iequals_doc a c"
  by (simp add: iequals_doc_def)

lemma iequals_doc_length: "iequals_doc a b \<Longrightarrow> length a = length b"
  by (metis iequals_doc_def length_map)

lemma iequals_doc_Nil [simp]: "iequals_doc a [] \<longleftrightarrow> a = []" "iequals_doc [] a \<longleftrightarrow> a = []"
  by (auto simp: iequals_doc_def)

lemma split_doc_nonempty [simp]: "split_doc P s \<noteq> []"
  by (induction P s rule: split_doc.induct) (auto split: list.splits)

lemma split_doc_none: "\<forall>c \<in> set s. \<not> P c \<Longrightarrow> split_doc P s = [s]"
  by (induction s) auto

lemma split_doc_token:
  assumes "\<forall>c \<in> set t. \<not> P c" and "P sep" and "s = [] \<or> \<not> P (hd s)"
  shows "split_doc P (t @ sep # s) = t # split_doc P s"
proof -
  have "dropWhile P s = s" using assms(3) by (cases s) auto
  with assms(1,2) show ?thesis by (induction t) auto
qed

text \<open>Splitting a list of terminated, separator-free, non-empty tokens gives the tokens back.\<close>

lemma split_doc_concat:
  assumes "\<forall>t \<in> set ts. t \<noteq> [] \<and> (\<forall>c \<in> set t. \<not> P c)" and "P sep"
  shows "split_doc P (concat (map (\<lambda>t. t @ [sep]) ts)) = ts @ [[]]"
  using assms
proof (induction ts)
  case Nil
  then show ?case by simp
next
  case (Cons t ts)
  let ?s = "concat (map (\<lambda>t. t @ [sep]) ts)"
  have "?s = [] \<or> \<not> P (hd ?s)"
    using Cons.prems by (cases ts) (auto simp: hd_append)
  then have "split_doc P (t @ sep # ?s) = t # split_doc P ?s"
    using Cons.prems by (intro split_doc_token) auto
  with Cons show ?case by simp
qed

lemma trim_doc_id:
  "s \<noteq> [] \<Longrightarrow> \<not> isspace (hd s) \<Longrightarrow> \<not> isspace (last s) \<Longrightarrow> trim_doc s = s"
proof -
  assume a: "s \<noteq> []" "\<not> isspace (hd s)" "\<not> isspace (last s)"
  from a have "dropWhile isspace s = s" by (cases s) auto
  moreover from a have "dropWhile isspace (rev s) = rev s"
    by (cases s rule: rev_cases) auto
  ultimately show ?thesis by (simp add: trim_doc_def)
qed

lemma find_doc_range: "- 1 \<le> find_doc p s"
  by (induction p s rule: find_doc.induct) (auto simp: Let_def)

lemma find_doc_take:
  "find_doc p s = int n \<Longrightarrow> take (length p) (drop n s) = p \<and> n \<le> length s"
proof (induction p s arbitrary: n rule: find_doc.induct)
  case (1 p)
  then show ?case by (auto split: if_splits)
next
  case (2 p c cs)
  then show ?case
    by (cases n) (auto simp: Let_def split: if_splits)
qed

lemma find_doc_prefix [simp]: "find_doc p (p @ b) = 0"
proof (cases "p @ b")
  case (Cons c cs)
  then have "take (length p) (c # cs) = p" by (metis append_eq_conv_conj)
  with Cons show ?thesis by simp
qed simp

lemma find_doc_upto:
  "(\<forall>i < length a. take (length p) (drop i (a @ p @ b)) \<noteq> p) \<Longrightarrow> find_doc p (a @ p @ b) = int (length a)"
proof (induction a)
  case Nil
  then show ?case by simp
next
  case (Cons c a)
  have "take (length p) (c # a @ p @ b) \<noteq> p" using Cons.prems by force
  moreover have "\<forall>i < length a. take (length p) (drop i (a @ p @ b)) \<noteq> p"
    using Cons.prems by force
  ultimately show ?case using Cons.IH by simp
qed

text \<open>What \<open>receive\<close> returns is in the queue, nothing before it has its priority or more.\<close>

lemma mq_doc_split:
  assumes "q \<noteq> []"
  shows "\<exists>a m b. q = a @ m # b \<and> mq_doc q = (m, a @ b)
    \<and> (\<forall>x \<in> set a. fst x < fst m) \<and> (\<forall>x \<in> set b. fst x \<le> fst m)"
  using assms
proof (induction q rule: mq_doc.induct)
  case 1
  then show ?case by simp
next
  case (2 m)
  then show ?case by (intro exI [of _ "[]"] exI [of _ m] exI [of _ "[]"]) auto
next
  case (3 m n q)
  then obtain a k b where IH: "n # q = a @ k # b" "mq_doc (n # q) = (k, a @ b)"
    "\<forall>x \<in> set a. fst x < fst k" "\<forall>x \<in> set b. fst x \<le> fst k" by blast
  show ?case
  proof (cases "fst k \<le> fst m")
    case True
    have "fst x \<le> fst m" if "x \<in> set (n # q)" for x
      using that IH True by (fastforce simp: IH(1))
    then show ?thesis
      using True IH(2) by (intro exI [of _ "[]"] exI [of _ m] exI [of _ "n # q"]) simp
  next
    case False
    then have "mq_doc (m # n # q) = (k, (m # a) @ b)" using IH(2) by simp
    moreover have "m # n # q = (m # a) @ k # b" using IH(1) by simp
    moreover have "\<forall>x \<in> set (m # a). fst x < fst k" using IH(3) False by simp
    ultimately show ?thesis using IH(4) by blast
  qed
qed

end
