(* ===== verification/Cpp_Double.thy ===== *)
theory Cpp_Double
  imports Cpp_Std
begin

text \<open>
  IEEE 754 binary64 as the sources use it. A finite value is a sign, a magnitude and a power
  of two; every operation computes the exact result on integers and rounds it once to 53
  bits, ties to even, with gradual underflow at \<open>2 ^ -1074\<close> and overflow to infinity.
  Finite values are kept with an odd magnitude (or zero), so equality of the representation
  is equality of the value, signed zeros apart.
\<close>

datatype double = Fin bool int int | Inf bool | NaN

section \<open>Rounding\<close>

text \<open>Nearest integer to \<open>p / q\<close>, ties to even.\<close>

definition rne :: "int \<Rightarrow> int \<Rightarrow> int" where
  "rne p q = (let d = p div q; r = p mod q
              in if q < 2 * r \<or> (2 * r = q \<and> odd d) then d + 1 else d)"

function bits :: "int \<Rightarrow> int" where
  "bits n = (if n \<le> 0 then 0 else 1 + bits (n div 2))"
  by pat_completeness auto
termination
  by (relation "measure nat") auto

function canon :: "int \<Rightarrow> int \<Rightarrow> int \<times> int" where
  "canon m e = (if m \<le> 0 then (0, 0) else if even m then canon (m div 2) (e + 1) else (m, e))"
  by pat_completeness auto
termination
  by (relation "measure (\<lambda>(m, e). nat m)") auto

declare bits.simps [simp del] canon.simps [simp del]

definition mk_double :: "bool \<Rightarrow> int \<Rightarrow> int \<Rightarrow> double" where
  "mk_double s m e =
     (let sh = max (bits m - 53) (-1074 - e);
          (m', e') = (if sh \<le> 0 then (m, e) else (rne m (2 ^ nat sh), e + sh))
      in if m' \<noteq> 0 \<and> 1024 < bits m' + e' then Inf s
         else (let (m'', e'') = canon m' e' in Fin s m'' e''))"

text \<open>The double nearest to \<open>n / d\<close>: enough quotient bits, with a sticky bit for the rest.\<close>

definition double_of_frac :: "bool \<Rightarrow> int \<Rightarrow> int \<Rightarrow> double" where
  "double_of_frac s n d =
     (let k = bits d + 56; q = (n * 2 ^ nat k) div d; r = (n * 2 ^ nat k) mod d
      in mk_double s (2 * q + (if r = 0 then 0 else 1)) (- k - 1))"

text \<open>The double nearest to \<open>n * 10 ^ k\<close>.\<close>

definition double_of_dec :: "bool \<Rightarrow> int \<Rightarrow> int \<Rightarrow> double" where
  "double_of_dec s n k =
     (if 0 \<le> k then mk_double s (n * 10 ^ nat k) 0 else double_of_frac s n (10 ^ nat (- k)))"

definition double_of_int :: "int \<Rightarrow> double" where
  "double_of_int n = mk_double (n < 0) \<bar>n\<bar> 0"

abbreviation dzero :: double where "dzero \<equiv> Fin False 0 0"

section \<open>Arithmetic and comparison\<close>

definition scaled :: "bool \<Rightarrow> int \<Rightarrow> int \<Rightarrow> int \<Rightarrow> int" where
  "scaled s m e k = (if s then - 1 else 1) * (m * 2 ^ nat (e - k))"

fun dneg :: "double \<Rightarrow> double" where
  "dneg (Fin s m e) = Fin (\<not> s) m e"
| "dneg (Inf s) = Inf (\<not> s)"
| "dneg NaN = NaN"

fun dabs :: "double \<Rightarrow> double" where
  "dabs (Fin s m e) = Fin False m e"
| "dabs (Inf s) = Inf False"
| "dabs NaN = NaN"

fun dadd :: "double \<Rightarrow> double \<Rightarrow> double" where
  "dadd (Fin s m e) (Fin s' m' e') =
     (let k = min e e'; v = scaled s m e k + scaled s' m' e' k
      in if v = 0 then Fin (s \<and> s') 0 0 else mk_double (v < 0) \<bar>v\<bar> k)"
| "dadd (Inf s) (Inf s') = (if s = s' then Inf s else NaN)"
| "dadd (Inf s) (Fin _ _ _) = Inf s"
| "dadd (Fin _ _ _) (Inf s) = Inf s"
| "dadd _ _ = NaN"

definition dsub :: "double \<Rightarrow> double \<Rightarrow> double" where
  "dsub a b = dadd a (dneg b)"

fun dmul :: "double \<Rightarrow> double \<Rightarrow> double" where
  "dmul (Fin s m e) (Fin s' m' e') = mk_double (s \<noteq> s') (m * m') (e + e')"
| "dmul (Inf s) (Fin s' m _) = (if m = 0 then NaN else Inf (s \<noteq> s'))"
| "dmul (Fin s' m _) (Inf s) = (if m = 0 then NaN else Inf (s \<noteq> s'))"
| "dmul (Inf s) (Inf s') = Inf (s \<noteq> s')"
| "dmul _ _ = NaN"

fun dlt :: "double \<Rightarrow> double \<Rightarrow> bool" where
  "dlt (Fin s m e) (Fin s' m' e') =
     (let k = min e e' in scaled s m e k < scaled s' m' e' k)"
| "dlt (Fin _ _ _) (Inf s) = (\<not> s)"
| "dlt (Inf s) (Fin _ _ _) = s"
| "dlt (Inf s) (Inf s') = (s \<and> \<not> s')"
| "dlt _ _ = False"

fun deq :: "double \<Rightarrow> double \<Rightarrow> bool" where
  "deq (Fin s m e) (Fin s' m' e') =
     (let k = min e e' in scaled s m e k = scaled s' m' e' k)"
| "deq (Inf s) (Inf s') = (s = s')"
| "deq _ _ = False"

text \<open>
  Cast to \<open>int\<close>: truncation towards zero. Out of range (and for NaN) the cast is undefined
  in C++; the model takes the value the x86-64 instruction gives.
\<close>

fun int_cast :: "double \<Rightarrow> int" where
  "int_cast (Fin s m e) =
     (let t = (if 0 \<le> e then m * 2 ^ nat e else m div 2 ^ nat (- e));
          n = (if s then - t else t)
      in if in_s32 n then n else INT_MIN)"
| "int_cast _ = INT_MIN"

section \<open>Reading: std::stod\<close>

definition xdigit_val :: "char \<Rightarrow> int option" where
  "xdigit_val c = (if isdigit c then Some (digit_val c)
     else let l = code_of (tolower c) in if 97 \<le> l \<and> l \<le> 102 then Some (l - 87) else None)"

definition isxdigit :: "char \<Rightarrow> bool" where
  "isxdigit c \<longleftrightarrow> xdigit_val c \<noteq> None"

definition hex_val :: "string \<Rightarrow> int" where
  "hex_val s = foldl (\<lambda>a c. 16 * a + (case xdigit_val c of Some d \<Rightarrow> d | None \<Rightarrow> 0)) 0 s"

text \<open>Mantissa: digits, an optional point, digits. Integer part, fraction part, rest.\<close>

definition split_mantissa :: "(char \<Rightarrow> bool) \<Rightarrow> string \<Rightarrow> string \<times> string \<times> string" where
  "split_mantissa P s =
     (let ip = takeWhile P s; r = dropWhile P s
      in case r of
           c # r' \<Rightarrow> if c = CHR ''.'' then (ip, takeWhile P r', dropWhile P r') else (ip, [], r)
         | [] \<Rightarrow> (ip, [], []))"

text \<open>Exponent introduced by the letter \<open>x\<close>; 0 where it is absent or has no digits.\<close>

definition parse_exponent :: "char \<Rightarrow> string \<Rightarrow> int" where
  "parse_exponent x s = (case s of
       c # r \<Rightarrow> if tolower c = x then
            (let (neg, t) = strto_sign r; ds = takeWhile isdigit t
             in if ds = [] then 0 else if neg then - dec_val ds else dec_val ds)
          else 0
     | [] \<Rightarrow> 0)"

definition starts_ci :: "string \<Rightarrow> string \<Rightarrow> bool" where
  "starts_ci p s \<longleftrightarrow> map tolower (take (length p) s) = p"

text \<open>
  \<open>strtod\<close> leaves \<open>ERANGE\<close> on overflow, and on a non-zero value below \<open>2 ^ -1022\<close> that is not
  exact; \<open>std::stod\<close> turns both into \<open>out_of_range\<close>. The exact value is \<open>n * b ^ k\<close>.
\<close>

definition range_checked :: "bool \<Rightarrow> double \<Rightarrow> exn + double" where
  "range_checked tiny d = (case d of
       Inf _ \<Rightarrow> Inl OutOfRange
     | _ \<Rightarrow> if tiny then Inl OutOfRange else Inr d)"

text \<open>Non-zero \<open>n / q\<close> is below the least normal number and not a multiple of \<open>2 ^ -1074\<close>.\<close>

definition inexact_tiny :: "int \<Rightarrow> int \<Rightarrow> bool" where
  "inexact_tiny n q \<longleftrightarrow> n \<noteq> 0 \<and> n * 2 ^ 1022 < q \<and> \<not> q dvd n * 2 ^ 1074"

definition stod :: "string \<Rightarrow> exn + double" where
  "stod s =
     (let (neg, t) = strto_sign (dropWhile isspace s) in
      if starts_ci ''inf'' t then Inr (Inf neg)
      else if starts_ci ''nan'' t then Inr NaN
      else let (hi, hf, hr) = split_mantissa isxdigit (drop 2 t) in
      if starts_ci ''0x'' t \<and> hi @ hf \<noteq> [] then
        (let n = hex_val (hi @ hf); e = parse_exponent (CHR ''p'') hr - 4 * int (length hf)
         in range_checked (if e < 0 then inexact_tiny n (2 ^ nat (- e)) else False) (mk_double neg n e))
      else let (di, df, dr) = split_mantissa isdigit t in
      if di @ df = [] then Inl InvalidArgument
      else let n = dec_val (di @ df); k = parse_exponent (CHR ''e'') dr - int (length df)
           in range_checked (if k < 0 then inexact_tiny n (10 ^ nat (- k)) else False)
                (double_of_dec neg n k))"

section \<open>Writing: stream output, six significant digits\<close>

fun dexp_up :: "nat \<Rightarrow> int \<Rightarrow> int \<Rightarrow> int \<Rightarrow> int" where
  "dexp_up 0 p q x = x"
| "dexp_up (Suc f) p q x = (if 10 * q \<le> p then dexp_up f p (10 * q) (x + 1) else x)"

fun dexp_down :: "nat \<Rightarrow> int \<Rightarrow> int \<Rightarrow> int \<Rightarrow> int" where
  "dexp_down 0 p q x = x"
| "dexp_down (Suc f) p q x = (if p < q then dexp_down f (10 * p) q (x - 1) else x)"

text \<open>
  Decimal exponent of \<open>p / q\<close>: the \<open>x\<close> with \<open>10 ^ x \<le> p / q < 10 ^ (x + 1)\<close>. A double is
  below \<open>2 ^ 1024\<close> and, unless zero, at least \<open>2 ^ -1074\<close>, so 400 steps are enough.
\<close>

definition dec_exponent :: "int \<Rightarrow> int \<Rightarrow> int" where
  "dec_exponent p q = (if q \<le> p then dexp_up 400 p q 0 else dexp_down 400 p q 0)"

definition strip_zeros :: "string \<Rightarrow> string" where
  "strip_zeros s = rev (dropWhile (\<lambda>c. c = CHR ''0'') (rev s))"

definition with_point :: "string \<Rightarrow> string \<Rightarrow> string" where
  "with_point ip fp = (if strip_zeros fp = [] then ip else ip @ ''.'' @ strip_zeros fp)"

definition show_exp10 :: "int \<Rightarrow> string" where
  "show_exp10 x = ''e'' @ (if x < 0 then ''-'' else ''+'') @ fmt_d False True 2 \<bar>x\<bar>"

definition show_frac6 :: "int \<Rightarrow> int \<Rightarrow> string" where
  "show_frac6 p q =
     (let x0 = dec_exponent p q;
          d0 = (if x0 \<le> 5 then rne (p * 10 ^ nat (5 - x0)) q else rne p (q * 10 ^ nat (x0 - 5)));
          (d, x) = (if d0 = 1000000 then (100000, x0 + 1) else (d0, x0));
          ds = show_dec d
      in if x < -4 \<or> 6 \<le> x then with_point (take 1 ds) (drop 1 ds) @ show_exp10 x
         else if 0 \<le> x then with_point (take (nat x + 1) ds) (drop (nat x + 1) ds)
         else with_point ''0'' (replicate (nat (- x) - 1) (CHR ''0'') @ ds))"

fun show_double :: "double \<Rightarrow> string" where
  "show_double (Fin s m e) =
     (if s then ''-'' else '''') @
     (if m = 0 then ''0''
      else if 0 \<le> e then show_frac6 (m * 2 ^ nat e) 1 else show_frac6 m (2 ^ nat (- e)))"
| "show_double (Inf s) = (if s then ''-inf'' else ''inf'')"
| "show_double NaN = ''nan''"

section \<open>Facts\<close>

lemma rne_exact [simp]: "0 < q \<Longrightarrow> rne (k * q) q = k"
  by (simp add: rne_def Let_def)

text \<open>The rounded quotient is within half a unit of the exact one.\<close>

lemma rne_error:
  assumes "0 < q"
  shows "2 * \<bar>rne p q * q - p\<bar> \<le> q"
proof -
  define d r where "d = p div q" and "r = p mod q"
  have p: "p = d * q + r" by (simp add: d_def r_def)
  have "0 \<le> r" "r < q" using assms by (simp_all add: r_def)
  then show ?thesis
    unfolding rne_def Let_def d_def [symmetric] r_def [symmetric]
    by (auto simp: p algebra_simps)
qed

lemma canon_value:
  "canon m e = (m', e') \<Longrightarrow> 0 < m \<Longrightarrow> e \<le> e' \<and> m = m' * 2 ^ nat (e' - e) \<and> odd m'"
proof (induction m e arbitrary: m' e' rule: canon.induct)
  case (1 m e)
  show ?case
  proof (cases "even m")
    case True
    with "1.prems" have "canon (m div 2) (e + 1) = (m', e')" "0 < m div 2"
      by (auto simp: canon.simps [of m e])
    with "1.IH" [of m' e'] True "1.prems" have ih: "e + 1 \<le> e'" "m div 2 = m' * 2 ^ nat (e' - (e + 1))" "odd m'"
      by auto
    have "nat (e' - e) = Suc (nat (e' - (e + 1)))" using ih(1) by simp
    moreover have "m = 2 * (m' * 2 ^ nat (e' - (e + 1)))"
      using True ih(2) by (metis dvd_mult_div_cancel)
    ultimately have "m = m' * 2 ^ nat (e' - e)" by simp
    with ih show ?thesis by simp
  next
    case False
    with "1.prems" show ?thesis by (auto simp: canon.simps [of m e])
  qed
qed

lemma canon_0 [simp]: "canon 0 e = (0, 0)"
  by (simp add: canon.simps)

lemma bits_le: "n < 2 ^ k \<Longrightarrow> bits n \<le> int k"
proof (induction n arbitrary: k rule: bits.induct)
  case (1 n)
  show ?case
  proof (cases "n \<le> 0")
    case False
    with "1.prems" obtain j where j: "k = Suc j" by (cases k) auto
    with "1.prems" have "n div 2 < 2 ^ j" by simp
    with "1.IH" False j have "bits (n div 2) \<le> int j" by simp
    with False j show ?thesis by (subst bits.simps) simp
  qed (simp add: bits.simps)
qed

text \<open>Integers below \<open>2 ^ 53\<close> are exact, and the cast brings them back.\<close>

lemma mk_double_exact:
  assumes "m < 2 ^ 53" and "-1074 \<le> e" and "e \<le> 900"
  shows "mk_double s m e = (let (m', e') = canon m e in Fin s m' e')"
proof -
  have b: "bits m \<le> 53" using bits_le [OF assms(1)] by simp
  then have "max (bits m - 53) (-1074 - e) \<le> 0" using assms(2) by simp
  moreover have "\<not> 1024 < bits m + e" using b assms(3) by simp
  ultimately show ?thesis by (simp add: mk_double_def Let_def)
qed

lemma int_cast_double_of_int:
  assumes "in_s32 n"
  shows "int_cast (double_of_int n) = n"
proof -
  obtain m e where c: "canon \<bar>n\<bar> 0 = (m, e)" by fastforce
  have "\<bar>n\<bar> < 2 ^ 53" using assms by (auto simp: in_s32_def INT_MIN_def INT_MAX_def)
  then have d: "double_of_int n = Fin (n < 0) m e"
    by (simp add: double_of_int_def mk_double_exact c)
  show ?thesis
  proof (cases "n = 0")
    case True
    with c d assms show ?thesis by (auto simp: in_s32_def INT_MIN_def INT_MAX_def)
  next
    case False
    with canon_value [OF c] have "0 \<le> e" "\<bar>n\<bar> = m * 2 ^ nat e" by auto
    then have "(if 0 \<le> e then m * 2 ^ nat e else m div 2 ^ nat (- e)) = \<bar>n\<bar>" by simp
    with assms show ?thesis by (simp add: d Let_def)
  qed
qed

lemma int_cast_range: "in_s32 (int_cast d)"
  by (cases d) (auto simp: Let_def in_s32_def INT_MIN_def INT_MAX_def)

end
