(* ===== verification/Astro_Device_Def.thy ===== *)
theory Astro_Device_Def
  imports Prelude
begin

text \<open>
  The constants of \<open>AstroDeviceDef.h\<close>: device, command and state codes, with the tables of their
  printed names. The codes are unscoped C++ enumerators, stored in and compared as \<open>int\<close>, and
  values from the network are not validated, so they are integer constants here. A printed name
  table is the list of its entries; adjacent string literals without a comma are one entry, as
  the compiler sees them.
\<close>

section \<open>Codes PEER\<close>

definition PEER_CLIENT :: int where [device_def]: "PEER_CLIENT = 0"
definition PEER_MOUNT_GWAC :: int where [device_def]: "PEER_MOUNT_GWAC = 1"
definition PEER_MOUNT_GFT :: int where [device_def]: "PEER_MOUNT_GFT = 2"
definition PEER_CAMERA_GWAC :: int where [device_def]: "PEER_CAMERA_GWAC = 3"
definition PEER_CAMERA_GFT :: int where [device_def]: "PEER_CAMERA_GFT = 4"
definition PEER_FOCUS :: int where [device_def]: "PEER_FOCUS = 5"
definition PEER_DATAPROC :: int where [device_def]: "PEER_DATAPROC = 6"
definition PEER_LAST :: int where [device_def]: "PEER_LAST = 7"

section \<open>Codes COORSYS\<close>

definition COORSYS_MIN :: int where [device_def]: "COORSYS_MIN = - 1"
definition COORSYS_ALTAZ :: int where [device_def]: "COORSYS_ALTAZ = 0"
definition COORSYS_EQUA :: int where [device_def]: "COORSYS_EQUA = 1"
definition COORSYS_ORBIT :: int where [device_def]: "COORSYS_ORBIT = 2"
definition COORSYS_MAX :: int where [device_def]: "COORSYS_MAX = 3"

definition DESC_TYPE_COORSYS :: "string list" where
  "DESC_TYPE_COORSYS = [''AltAzimuth'', ''Equatorial'', ''TwoLineElement'']"

section \<open>Codes MOUNT\<close>

definition MOUNT_MIN :: int where [device_def]: "MOUNT_MIN = - 1"
definition MOUNT_ERROR :: int where [device_def]: "MOUNT_ERROR = 0"
definition MOUNT_FREEZE :: int where [device_def]: "MOUNT_FREEZE = 1"
definition MOUNT_HOMING :: int where [device_def]: "MOUNT_HOMING = 2"
definition MOUNT_HOMED :: int where [device_def]: "MOUNT_HOMED = 3"
definition MOUNT_PARKING :: int where [device_def]: "MOUNT_PARKING = 4"
definition MOUNT_PARKED :: int where [device_def]: "MOUNT_PARKED = 5"
definition MOUNT_SLEWING :: int where [device_def]: "MOUNT_SLEWING = 6"
definition MOUNT_TRACKING :: int where [device_def]: "MOUNT_TRACKING = 7"
definition MOUNT_GUIDING :: int where [device_def]: "MOUNT_GUIDING = 8"
definition MOUNT_MAX :: int where [device_def]: "MOUNT_MAX = 9"

definition DESC_STATE_MOUNT :: "string list" where
  "DESC_STATE_MOUNT = [''Error'', ''Freeze'', ''Homing'', ''Homed'', ''Parking'', ''Parked'', ''Slewing'', ''Tracking'', ''Guiding'']"

section \<open>Codes DEROT\<close>

definition DEROT_MIN :: int where [device_def]: "DEROT_MIN = - 1"
definition DEROT_ERROR :: int where [device_def]: "DEROT_ERROR = 0"
definition DEROT_TRACK :: int where [device_def]: "DEROT_TRACK = 1"
definition DEROT_MOVING :: int where [device_def]: "DEROT_MOVING = 2"
definition DEROT_MAX :: int where [device_def]: "DEROT_MAX = 3"

definition DESC_STATE_DEROT :: "string list" where
  "DESC_STATE_DEROT = [''Error'', ''Tracking'', ''Slewing'']"

section \<open>Codes DOME\<close>

definition DOME_MIN :: int where [device_def]: "DOME_MIN = - 1"
definition DOME_CLOSE :: int where [device_def]: "DOME_CLOSE = 0"
definition DOME_OPEN :: int where [device_def]: "DOME_OPEN = 1"
definition DOME_STOP :: int where [device_def]: "DOME_STOP = 2"
definition DOME_MOVABS :: int where [device_def]: "DOME_MOVABS = 3"
definition DOME_MOVREL :: int where [device_def]: "DOME_MOVREL = 4"
definition DOME_MAX :: int where [device_def]: "DOME_MAX = 5"

definition DESC_CMD_SLIT :: "string list" where
  "DESC_CMD_SLIT = [''Close'', ''Open'', ''Stop'', ''MoveAbs'', ''MoveRel'']"

section \<open>Codes SLIT\<close>

definition SLIT_MIN :: int where [device_def]: "SLIT_MIN = - 1"
definition SLIT_ERROR :: int where [device_def]: "SLIT_ERROR = 0"
definition SLIT_OPENING :: int where [device_def]: "SLIT_OPENING = 1"
definition SLIT_OPEN :: int where [device_def]: "SLIT_OPEN = 2"
definition SLIT_FULLY_OPEN :: int where [device_def]: "SLIT_FULLY_OPEN = 3"
definition SLIT_CLOSING :: int where [device_def]: "SLIT_CLOSING = 4"
definition SLIT_CLOSED :: int where [device_def]: "SLIT_CLOSED = 5"
definition SLIT_MAX :: int where [device_def]: "SLIT_MAX = 6"

definition DESC_STATE_SLIT :: "string list" where
  "DESC_STATE_SLIT = [''Error'', ''Opening'', ''Open'', ''Fully Open'', ''Closing'', ''Closed'']"

section \<open>Codes MCC\<close>

definition MCC_MIN :: int where [device_def]: "MCC_MIN = - 1"
definition MCC_CLOSE :: int where [device_def]: "MCC_CLOSE = 0"
definition MCC_OPEN :: int where [device_def]: "MCC_OPEN = 1"
definition MCC_MAX :: int where [device_def]: "MCC_MAX = 2"

definition DESC_CMD_MCOVER :: "string list" where
  "DESC_CMD_MCOVER = [''Close'', ''Open'']"

section \<open>Codes MC\<close>

definition MC_MIN :: int where [device_def]: "MC_MIN = - 1"
definition MC_ERROR :: int where [device_def]: "MC_ERROR = 0"
definition MC_OPENING :: int where [device_def]: "MC_OPENING = 1"
definition MC_OPEN :: int where [device_def]: "MC_OPEN = 2"
definition MC_CLOSING :: int where [device_def]: "MC_CLOSING = 3"
definition MC_CLOSED :: int where [device_def]: "MC_CLOSED = 4"
definition MC_MAX :: int where [device_def]: "MC_MAX = 5"

definition DESC_STATE_MCOVER :: "string list" where
  "DESC_STATE_MCOVER = [''Error'', ''Opening'', ''Opened'', ''Closing'', ''Closed'']"

section \<open>Codes FOCUS\<close>

definition FOCUS_MIN :: int where [device_def]: "FOCUS_MIN = - 1"
definition FOCUS_ERROR :: int where [device_def]: "FOCUS_ERROR = 0"
definition FOCUS_FREEZE :: int where [device_def]: "FOCUS_FREEZE = 1"
definition FOCUS_MOVING :: int where [device_def]: "FOCUS_MOVING = 2"
definition FOCUS_MAX :: int where [device_def]: "FOCUS_MAX = 3"

definition DESC_STATE_FOCUS :: "string list" where
  "DESC_STATE_FOCUS = [''Error'', ''Freeze'', ''Moving'']"

section \<open>Codes IMGTYP\<close>

definition IMGTYP_MIN :: int where [device_def]: "IMGTYP_MIN = - 1"
definition IMGTYP_BIAS :: int where [device_def]: "IMGTYP_BIAS = 0"
definition IMGTYP_DARK :: int where [device_def]: "IMGTYP_DARK = 1"
definition IMGTYP_FLAT :: int where [device_def]: "IMGTYP_FLAT = 2"
definition IMGTYP_OBJECT :: int where [device_def]: "IMGTYP_OBJECT = 3"
definition IMGTYP_LIGHT :: int where [device_def]: "IMGTYP_LIGHT = 3"
definition IMGTYP_FOCUS :: int where [device_def]: "IMGTYP_FOCUS = 4"
definition IMGTYP_MAX :: int where [device_def]: "IMGTYP_MAX = 5"

definition DESC_TYPE_IMGTYPE :: "string list" where
  "DESC_TYPE_IMGTYPE = [''BIAS'', ''DARKFLAT'', ''OBJECTFOCUS'']"

section \<open>Codes EXP\<close>

definition EXP_MIN :: int where [device_def]: "EXP_MIN = - 1"
definition EXP_START :: int where [device_def]: "EXP_START = 0"
definition EXP_STOP :: int where [device_def]: "EXP_STOP = 1"
definition EXP_PAUSE :: int where [device_def]: "EXP_PAUSE = 2"
definition EXP_MAX :: int where [device_def]: "EXP_MAX = 3"

definition DESC_CMD_EXPOSE :: "string list" where
  "DESC_CMD_EXPOSE = [''Start'', ''Stop'', ''Pause'']"

section \<open>Codes CAMERA\<close>

definition CAMERA_MIN :: int where [device_def]: "CAMERA_MIN = - 1"
definition CAMERA_ERROR :: int where [device_def]: "CAMERA_ERROR = 0"
definition CAMERA_IDLE :: int where [device_def]: "CAMERA_IDLE = 1"
definition CAMERA_EXPOSE :: int where [device_def]: "CAMERA_EXPOSE = 2"
definition CAMERA_IMGRDY :: int where [device_def]: "CAMERA_IMGRDY = 3"
definition CAMERA_MAX :: int where [device_def]: "CAMERA_MAX = 4"

definition DESC_STATE_CAMERA :: "string list" where
  "DESC_STATE_CAMERA = [''Error'', ''Idle'', ''Exposing'', ''ImageReady'']"

section \<open>Codes CAMCTL\<close>

definition CAMCTL_MIN :: int where [device_def]: "CAMCTL_MIN = - 1"
definition CAMCTL_ERROR :: int where [device_def]: "CAMCTL_ERROR = 0"
definition CAMCTL_IDLE :: int where [device_def]: "CAMCTL_IDLE = 1"
definition CAMCTL_EXPOSING :: int where [device_def]: "CAMCTL_EXPOSING = 2"
definition CAMCTL_IMGRDY :: int where [device_def]: "CAMCTL_IMGRDY = 3"
definition CAMCTL_PAUSEED :: int where [device_def]: "CAMCTL_PAUSEED = 4"
definition CAMCTL_WAIT_TIME :: int where [device_def]: "CAMCTL_WAIT_TIME = 5"
definition CAMCTL_WAIT_FLAT :: int where [device_def]: "CAMCTL_WAIT_FLAT = 6"
definition CAMCTL_MAX :: int where [device_def]: "CAMCTL_MAX = 7"

definition DESC_STATE_CAMCTL :: "string list" where
  "DESC_STATE_CAMCTL = [''Error'', ''Idle'', ''Exposing'', ''ImageReady'', ''Paused'', ''WaitTime'', ''WaitFlat'']"

section \<open>Codes OBSPLAN\<close>

definition OBSPLAN_MIN :: int where [device_def]: "OBSPLAN_MIN = - 1"
definition OBSPLAN_ERROR :: int where [device_def]: "OBSPLAN_ERROR = 0"
definition OBSPLAN_CATALOGED :: int where [device_def]: "OBSPLAN_CATALOGED = 1"
definition OBSPLAN_ALLOCATED :: int where [device_def]: "OBSPLAN_ALLOCATED = 2"
definition OBSPLAN_WAITING :: int where [device_def]: "OBSPLAN_WAITING = 3"
definition OBSPLAN_RUNNING :: int where [device_def]: "OBSPLAN_RUNNING = 4"
definition OBSPLAN_OVER :: int where [device_def]: "OBSPLAN_OVER = 5"
definition OBSPLAN_INTERRUPTED :: int where [device_def]: "OBSPLAN_INTERRUPTED = 6"
definition OBSPLAN_ABANDONED :: int where [device_def]: "OBSPLAN_ABANDONED = 7"
definition OBSPLAN_DELETED :: int where [device_def]: "OBSPLAN_DELETED = 8"
definition OBSPLAN_MAX :: int where [device_def]: "OBSPLAN_MAX = 9"

definition DESC_STATE_OBSPLAN :: "string list" where
  "DESC_STATE_OBSPLAN = [''Error'', ''Cataloged'', ''Allocated'', ''Waiting'', ''Running'', ''Over'', ''Interrupted'', ''Abandoned'', ''Deleted'']"

section \<open>Codes ODT\<close>

definition ODT_MIN :: int where [device_def]: "ODT_MIN = - 1"
definition ODT_DAYTIME :: int where [device_def]: "ODT_DAYTIME = 0"
definition ODT_FLAT :: int where [device_def]: "ODT_FLAT = 1"
definition ODT_NIGHT :: int where [device_def]: "ODT_NIGHT = 2"
definition ODT_MAX :: int where [device_def]: "ODT_MAX = 3"

definition DESC_TYPE_ODT :: "string list" where
  "DESC_TYPE_ODT = [''Daytime'', ''Flat'', ''Night'']"

section \<open>Reading a name table\<close>

text \<open>\<open>DESC_X[code]\<close>: outside the table the read is out of bounds.\<close>

definition desc_at :: "string list \<Rightarrow> int \<Rightarrow> crash + string" where
  "desc_at tbl i = (if 0 \<le> i \<and> i < int (length tbl) then Inr (tbl ! nat i) else Inl BadIndex)"

lemma desc_at_ok_iff: "(\<exists>n. desc_at tbl i = Inr n) \<longleftrightarrow> 0 \<le> i \<and> i < int (length tbl)"
  by (simp add: desc_at_def)

text \<open>The tables that name every code of their enumeration.\<close>

lemmas desc_tables = DESC_TYPE_COORSYS_def DESC_STATE_MOUNT_def DESC_STATE_DEROT_def
  DESC_CMD_SLIT_def DESC_STATE_SLIT_def DESC_CMD_MCOVER_def DESC_STATE_MCOVER_def
  DESC_STATE_FOCUS_def DESC_TYPE_IMGTYPE_def DESC_CMD_EXPOSE_def DESC_STATE_CAMERA_def
  DESC_STATE_CAMCTL_def DESC_STATE_OBSPLAN_def DESC_TYPE_ODT_def

definition named_codes :: "(string list \<times> int) list" where
  "named_codes =
     [(DESC_TYPE_COORSYS, COORSYS_MAX), (DESC_STATE_MOUNT, MOUNT_MAX), (DESC_STATE_DEROT, DEROT_MAX),
      (DESC_CMD_SLIT, DOME_MAX), (DESC_STATE_SLIT, SLIT_MAX), (DESC_CMD_MCOVER, MCC_MAX),
      (DESC_STATE_MCOVER, MC_MAX), (DESC_STATE_FOCUS, FOCUS_MAX), (DESC_CMD_EXPOSE, EXP_MAX),
      (DESC_STATE_CAMERA, CAMERA_MAX), (DESC_STATE_CAMCTL, CAMCTL_MAX),
      (DESC_STATE_OBSPLAN, OBSPLAN_MAX), (DESC_TYPE_ODT, ODT_MAX)]"

lemma named_codes_complete: "\<forall>(tbl, mx) \<in> set named_codes. int (length tbl) = mx"
  by (simp add: named_codes_def desc_tables device_def)

lemma mount_name_defined: "MOUNT_MIN < st \<and> st < MOUNT_MAX \<longleftrightarrow> (\<exists>n. desc_at DESC_STATE_MOUNT st = Inr n)"
  by (simp add: desc_at_ok_iff desc_tables device_def) arith

end
