(* ===== verification/Proto_KV.thy ===== *)
theory Proto_KV
  imports Cpp_Double Astro_Device_Def
begin

text \<open>
  The messages of the key-value protocol (\<open>ProtoKVBase.h\<close>, \<open>ProtoKV.h\<close>): one record per
  struct, extending the record of \<open>KVBase\<close>; its default constructor \<open><struct>_new\<close>; and its
  printer \<open><struct>_ToString\<close>, which gives a line \<open>type key=value,key=value,...\<close>. Structs that
  add no field (\<open>KVAbort\<close>, \<open>KVPark\<close>, \<open>KVHome\<close>, \<open>KVTrack\<close>, \<open>KVFocusSync\<close>) are \<open>kvbase\<close>, and
  \<open>KVTakeImage\<close> is \<open>kvappplan\<close>. Members that a constructor leaves uninitialised take whatever
  the memory held: constructors take a \<open>raw\<close> memory that supplies those values by field name.
\<close>

record raw =
  rawi :: "string \<Rightarrow> int"
  rawd :: "string \<Rightarrow> double"

section \<open>Key-value pairs\<close>

record keyvalpair =
  keyword :: string
  kvalue :: string

type_synonym kvvec = "keyvalpair list"

definition join_kv :: "string \<Rightarrow> string \<Rightarrow> string" where
  "join_kv key val = key @ ''='' @ val @ '',''"

definition join_int :: "string \<Rightarrow> int \<Rightarrow> string" where
  "join_int key val = join_kv key (show_int val)"

definition join_dbl :: "string \<Rightarrow> double \<Rightarrow> string" where
  "join_dbl key val = join_kv key (show_double val)"

definition endl :: string where "endl = [CHR 0x0A]"

text \<open>\<open>if (v.size()) ss << join_kv(key, v)\<close>\<close>

definition join_opt :: "string \<Rightarrow> string \<Rightarrow> string" where
  "join_opt key val = (if val = [] then [] else join_kv key val)"

section \<open>KVBase\<close>

record kvbase =
  kv_type :: string
  kv_utc :: string
  kv_gid :: string
  kv_uid :: string
  kv_cid :: string

definition KVBase_new :: "string \<Rightarrow> kvbase" where [kv_def]:
  "KVBase_new t = \<lparr>kv_type = t, kv_utc = [], kv_gid = [], kv_uid = [], kv_cid = []\<rparr>"

text \<open>Assignment copies the identification but not the type.\<close>

definition KVBase_assign :: "'a kvbase_scheme \<Rightarrow> 'b kvbase_scheme \<Rightarrow> 'a kvbase_scheme" where
  "KVBase_assign this other =
     this\<lparr>kv_utc := kv_utc other, kv_gid := kv_gid other, kv_uid := kv_uid other, kv_cid := kv_cid other\<rparr>"

definition KVBase_ToString :: "'a kvbase_scheme \<Rightarrow> string" where
  "KVBase_ToString p = kv_type p @ '' ''
     @ join_opt ''utc'' (kv_utc p)
     @ join_opt ''gid'' (kv_gid p)
     @ join_opt ''uid'' (kv_uid p)
     @ join_opt ''cid'' (kv_cid p)"

section \<open>Operator names\<close>

definition KVTYPE_APPGWAC :: string where [kv_def]: "KVTYPE_APPGWAC = ''append_gwac''"
definition KVTYPE_APPPLAN :: string where [kv_def]: "KVTYPE_APPPLAN = ''append_plan''"
definition KVTYPE_CHKPLAN :: string where [kv_def]: "KVTYPE_CHKPLAN = ''check_plan''"
definition KVTYPE_RMVPLAN :: string where [kv_def]: "KVTYPE_RMVPLAN = ''remove_plan''"
definition KVTYPE_PLAN :: string where [kv_def]: "KVTYPE_PLAN = ''plan''"
definition KVTYPE_ABORT :: string where [kv_def]: "KVTYPE_ABORT = ''abort''"
definition KVTYPE_OBSS :: string where [kv_def]: "KVTYPE_OBSS = ''obss''"
definition KVTYPE_SLEWTO :: string where [kv_def]: "KVTYPE_SLEWTO = ''slew''"
definition KVTYPE_PARK :: string where [kv_def]: "KVTYPE_PARK = ''park''"
definition KVTYPE_GUIDE :: string where [kv_def]: "KVTYPE_GUIDE = ''guide''"
definition KVTYPE_HOME :: string where [kv_def]: "KVTYPE_HOME = ''home''"
definition KVTYPE_SYNC :: string where [kv_def]: "KVTYPE_SYNC = ''sync''"
definition KVTYPE_TRACK :: string where [kv_def]: "KVTYPE_TRACK = ''track''"
definition KVTYPE_TRACKVEL :: string where [kv_def]: "KVTYPE_TRACKVEL = ''trackvel''"
definition KVTYPE_MOUNT :: string where [kv_def]: "KVTYPE_MOUNT = ''mount''"
definition KVTYPE_TKIMG :: string where [kv_def]: "KVTYPE_TKIMG = ''take_image''"
definition KVTYPE_EXPOSE :: string where [kv_def]: "KVTYPE_EXPOSE = ''expose''"
definition KVTYPE_CAMSET :: string where [kv_def]: "KVTYPE_CAMSET = ''camset''"
definition KVTYPE_CAMERA :: string where [kv_def]: "KVTYPE_CAMERA = ''camera''"
definition KVTYPE_FOCUS :: string where [kv_def]: "KVTYPE_FOCUS = ''focus''"
definition KVTYPE_FOCUS_SYNC :: string where [kv_def]: "KVTYPE_FOCUS_SYNC = ''focus_sync''"
definition KVTYPE_FWHM :: string where [kv_def]: "KVTYPE_FWHM = ''fwhm''"
definition KVTYPE_DEROT :: string where [kv_def]: "KVTYPE_DEROT = ''derot''"
definition KVTYPE_DOME :: string where [kv_def]: "KVTYPE_DOME = ''dome''"
definition KVTYPE_MCOVER :: string where [kv_def]: "KVTYPE_MCOVER = ''mcover''"
definition KVTYPE_FILTER :: string where [kv_def]: "KVTYPE_FILTER = ''filter''"
definition KVTYPE_GEOSITE :: string where [kv_def]: "KVTYPE_GEOSITE = ''geosite''"

section \<open>Observation plans\<close>

record kvappplan = kvbase +
  ap_plan_sn :: string
  ap_objid :: string
  ap_obstype :: string
  ap_coorsys :: int
  ap_ra :: double
  ap_dec :: double
  ap_epoch :: double
  ap_azi :: double
  ap_ele :: double
  ap_tle1 :: string
  ap_tle2 :: string
  ap_imgtype :: string
  ap_filter :: string
  ap_exptime :: double
  ap_delay :: double
  ap_frmcnt :: int
  ap_loopcnt :: int
  ap_priority :: int
  ap_plan_begin :: string
  ap_plan_end :: string
  ap_kvs :: kvvec

definition KVAppPlan_new :: kvappplan where
  "KVAppPlan_new = \<lparr>kv_type = KVTYPE_APPPLAN, kv_utc = [], kv_gid = [], kv_uid = [], kv_cid = [],
     ap_plan_sn = [], ap_objid = [], ap_obstype = [], ap_coorsys = 0,
     ap_ra = dzero, ap_dec = dzero, ap_epoch = double_of_int 2000, ap_azi = dzero, ap_ele = dzero,
     ap_tle1 = [], ap_tle2 = [], ap_imgtype = [], ap_filter = [],
     ap_exptime = dzero, ap_delay = dzero, ap_frmcnt = 1, ap_loopcnt = 1, ap_priority = 0,
     ap_plan_begin = [], ap_plan_end = [], ap_kvs = []\<rparr>"

definition KVAppPlan_ToString :: "kvappplan \<Rightarrow> string" where
  "KVAppPlan_ToString p = KVBase_ToString p
     @ join_opt ''plan_sn'' (ap_plan_sn p)
     @ join_opt ''objid'' (ap_objid p)
     @ join_opt ''obstype'' (ap_obstype p)
     @ join_int ''coor_sys'' (ap_coorsys p)
     @ (if ap_coorsys p = 0 then
          join_dbl ''ra'' (ap_ra p) @ join_dbl ''dec'' (ap_dec p) @ join_dbl ''epoch'' (ap_epoch p)
        else if ap_coorsys p = 1 then
          join_dbl ''azi'' (ap_azi p) @ join_dbl ''ele'' (ap_ele p)
        else
          join_kv ''tle1'' (ap_tle1 p) @ join_kv ''tle2'' (ap_tle2 p))
     @ join_kv ''imgtype'' (ap_imgtype p)
     @ join_opt ''filter'' (ap_filter p)
     @ join_dbl ''exptime'' (ap_exptime p)
     @ join_dbl ''delay'' (ap_delay p)
     @ join_int ''frmcnt'' (ap_frmcnt p)
     @ join_int ''loopcnt'' (ap_loopcnt p)
     @ join_int ''priority'' (ap_priority p)
     @ join_opt ''plan_beg'' (ap_plan_begin p)
     @ join_opt ''plan_end'' (ap_plan_end p)
     @ concat (map (\<lambda>it. join_kv (keyword it) (kvalue it)) (ap_kvs p))
     @ endl"

record kvcheckplan = kvbase +
  cp_plan_sn :: string

definition KVCheckPlan_new :: kvcheckplan where
  "KVCheckPlan_new = kvbase.extend (KVBase_new KVTYPE_CHKPLAN) (kvcheckplan.fields [])"

definition KVCheckPlan_ToString :: "kvcheckplan \<Rightarrow> string" where
  "KVCheckPlan_ToString p = KVBase_ToString p @ join_opt ''plan_sn'' (cp_plan_sn p) @ endl"

record kvremoveplan = kvbase +
  rp_plan_sn :: string

definition KVRemovePlan_new :: kvremoveplan where
  "KVRemovePlan_new = kvbase.extend (KVBase_new KVTYPE_RMVPLAN) (kvremoveplan.fields [])"

definition KVRemovePlan_ToString :: "kvremoveplan \<Rightarrow> string" where
  "KVRemovePlan_ToString p = KVBase_ToString p @ join_opt ''plan_sn'' (rp_plan_sn p) @ endl"

record kvplan = kvbase +
  pl_plan_sn :: string
  pl_tm_start :: string
  pl_tm_stop :: string
  pl_state :: int

definition KVPlan_new :: "raw \<Rightarrow> kvplan" where
  "KVPlan_new R = kvbase.extend (KVBase_new KVTYPE_PLAN) (kvplan.fields [] [] [] (rawi R ''state''))"

definition KVPlan_ToString :: "kvplan \<Rightarrow> string" where
  "KVPlan_ToString p = KVBase_ToString p
     @ join_opt ''plan_sn'' (pl_plan_sn p)
     @ join_opt ''tm_start'' (pl_tm_start p)
     @ join_opt ''tm_stop'' (pl_tm_stop p)
     @ join_int ''state'' (pl_state p)
     @ endl"

definition KVAbort_new :: kvbase where "KVAbort_new = KVBase_new KVTYPE_ABORT"

definition KVAbort_ToString :: "kvbase \<Rightarrow> string" where
  "KVAbort_ToString p = KVBase_ToString p @ endl"

record kvobss = kvbase +
  os_state :: int
  os_mount :: int
  os_camera :: int

definition KVOBSS_new :: "raw \<Rightarrow> kvobss" where
  "KVOBSS_new R = kvbase.extend (KVBase_new KVTYPE_OBSS)
     (kvobss.fields (rawi R ''state'') (rawi R ''mount'') (rawi R ''camera''))"

definition KVOBSS_ToString :: "kvobss \<Rightarrow> string" where
  "KVOBSS_ToString p = KVBase_ToString p
     @ join_int ''state'' (os_state p)
     @ join_int ''mount'' (os_mount p)
     @ join_int ''camera'' (os_camera p)
     @ endl"

section \<open>Mount\<close>

record kvslewto = kvbase +
  sl_coorsys :: int
  sl_ra :: double
  sl_dec :: double
  sl_epoch :: double
  sl_azi :: double
  sl_ele :: double
  sl_tle1 :: string
  sl_tle2 :: string

definition KVSlewto_new :: "raw \<Rightarrow> kvslewto" where
  "KVSlewto_new R = kvbase.extend (KVBase_new KVTYPE_SLEWTO)
     (kvslewto.fields 0 (rawd R ''ra'') (rawd R ''dec'') (rawd R ''epoch'')
        (rawd R ''azi'') (rawd R ''ele'') [] [])"

definition KVSlewto_ToString :: "kvslewto \<Rightarrow> string" where
  "KVSlewto_ToString p = KVBase_ToString p
     @ join_int ''coorsys'' (sl_coorsys p)
     @ (if sl_coorsys p = COORSYS_EQUA then
          join_dbl ''ra'' (sl_ra p) @ join_dbl ''dec'' (sl_dec p) @ join_dbl ''epoch'' (sl_epoch p)
        else if sl_coorsys p = COORSYS_ALTAZ then
          join_dbl ''azi'' (sl_azi p) @ join_dbl ''ele'' (sl_ele p)
        else
          join_kv ''tle1'' (sl_tle1 p) @ join_kv ''tle2'' (sl_tle2 p))
     @ endl"

definition KVPark_new :: kvbase where "KVPark_new = KVBase_new KVTYPE_PARK"

definition KVPark_ToString :: "kvbase \<Rightarrow> string" where
  "KVPark_ToString p = KVBase_ToString p @ endl"

record kvguide = kvbase +
  gd_result :: int
  gd_op :: int
  gd_ra :: int
  gd_dec :: int

definition KVGuide_new :: kvguide where
  "KVGuide_new = kvbase.extend (KVBase_new KVTYPE_GUIDE) (kvguide.fields 0 0 0 0)"

definition KVGuide_ToString :: "kvguide \<Rightarrow> string" where
  "KVGuide_ToString p = KVBase_ToString p
     @ join_int ''result'' (gd_result p)
     @ join_int ''op'' (gd_op p)
     @ (if 0 < \<bar>gd_ra p\<bar> \<or> 0 < \<bar>gd_dec p\<bar> then
          join_int ''ra'' (gd_ra p) @ join_int ''dec'' (gd_dec p)
        else [])
     @ endl"

definition KVHome_new :: kvbase where "KVHome_new = KVBase_new KVTYPE_HOME"

definition KVHome_ToString :: "kvbase \<Rightarrow> string" where
  "KVHome_ToString p = KVBase_ToString p @ endl"

record kvsync = kvbase +
  sy_ra :: double
  sy_dec :: double
  sy_epoch :: double

definition KVSync_new :: "raw \<Rightarrow> kvsync" where
  "KVSync_new R = kvbase.extend (KVBase_new KVTYPE_SYNC)
     (kvsync.fields (rawd R ''ra'') (rawd R ''dec'') (rawd R ''epoch''))"

definition KVSync_ToString :: "kvsync \<Rightarrow> string" where
  "KVSync_ToString p = KVBase_ToString p
     @ join_dbl ''ra'' (sy_ra p)
     @ join_dbl ''dec'' (sy_dec p)
     @ join_dbl ''epoch'' (sy_epoch p)
     @ endl"

definition KVTrack_new :: kvbase where "KVTrack_new = KVBase_new KVTYPE_TRACK"

definition KVTrack_ToString :: "kvbase \<Rightarrow> string" where
  "KVTrack_ToString p = KVBase_ToString p @ endl"

record kvtrackvel = kvbase +
  tv_ra :: double
  tv_dec :: double

definition KVTrackVel_new :: "raw \<Rightarrow> kvtrackvel" where
  "KVTrackVel_new R = kvbase.extend (KVBase_new KVTYPE_TRACKVEL)
     (kvtrackvel.fields (rawd R ''ra'') (rawd R ''dec''))"

definition KVTrackVel_ToString :: "kvtrackvel \<Rightarrow> string" where
  "KVTrackVel_ToString p = KVBase_ToString p
     @ join_dbl ''ra'' (tv_ra p)
     @ join_dbl ''dec'' (tv_dec p)
     @ endl"

record kvmount = kvbase +
  mt_state :: int
  mt_errcode :: int
  mt_mjd :: double
  mt_lst :: double
  mt_ra :: double
  mt_dec :: double
  mt_ra2k :: double
  mt_dec2k :: double
  mt_azi :: double
  mt_ele :: double
  mt_objra :: double
  mt_objdec :: double

definition KVMount_new :: kvmount where
  "KVMount_new = (let k = double_of_int 1000; m1 = double_of_int (- 1) in
     kvbase.extend (KVBase_new KVTYPE_MOUNT)
       (kvmount.fields MOUNT_ERROR 1 m1 m1 k k k k k k k k))"

definition KVMount_ToString :: "kvmount \<Rightarrow> string" where
  "KVMount_ToString p = KVBase_ToString p
     @ join_int ''state'' (mt_state p)
     @ join_int ''errcode'' (mt_errcode p)
     @ join_dbl ''mjd'' (mt_mjd p)
     @ join_dbl ''lst'' (mt_lst p)
     @ join_dbl ''ra'' (mt_ra p)
     @ join_dbl ''dec'' (mt_dec p)
     @ join_dbl ''ra2k'' (mt_ra2k p)
     @ join_dbl ''dec2k'' (mt_dec2k p)
     @ join_dbl ''azi'' (mt_azi p)
     @ join_dbl ''ele'' (mt_ele p)
     @ endl"

section \<open>Camera\<close>

definition KVTakeImage_new :: kvappplan where
  "KVTakeImage_new = KVAppPlan_new\<lparr>kv_type := KVTYPE_TKIMG\<rparr>"

definition KVTakeImage_ToString :: "kvappplan \<Rightarrow> string" where
  "KVTakeImage_ToString p = KVAppPlan_ToString p"

record kvexpose = kvbase +
  ex_command :: int
  ex_frmno :: int
  ex_loopno :: int

definition KVExpose_new :: "raw \<Rightarrow> kvexpose" where
  "KVExpose_new R = kvbase.extend (KVBase_new KVTYPE_EXPOSE) (kvexpose.fields (rawi R ''command'') 0 1)"

definition KVExpose_ToString :: "kvexpose \<Rightarrow> string" where
  "KVExpose_ToString p = KVBase_ToString p
     @ join_int ''command'' (ex_command p)
     @ join_int ''frmno'' (ex_frmno p)
     @ join_int ''loopno'' (ex_loopno p)
     @ endl"

record kvcamset = kvbase +
  cs_opType :: int
  cs_bitDepth :: int
  cs_iADC :: int
  cs_iReadPort :: int
  cs_iReadRate :: int
  cs_iVSRate :: int
  cs_iGain :: int
  cs_coolSet :: int
  cs_bitPixel :: int
  cs_ADC :: string
  cs_readPort :: string
  cs_readRate :: string
  cs_vsRate :: double
  cs_gain :: double

definition KVCamSet_new :: "raw \<Rightarrow> kvcamset" where
  "KVCamSet_new R = kvbase.extend (KVBase_new KVTYPE_CAMSET)
     (kvcamset.fields (- 1) (rawi R ''bitDepth'') (rawi R ''iADC'') (rawi R ''iReadPort'')
        (rawi R ''iReadRate'') (rawi R ''iVSRate'') (rawi R ''iGain'') (rawi R ''coolSet'')
        (rawi R ''bitPixel'') [] [] [] (rawd R ''vsRate'') (rawd R ''gain''))"

definition KVCamSet_ToString :: "kvcamset \<Rightarrow> string" where
  "KVCamSet_ToString p = KVBase_ToString p
     @ join_int ''optype'' (cs_opType p)
     @ (if cs_opType p \<noteq> 0 then
          (if cs_opType p = 2 then
             join_int ''bitDepth'' (cs_bitDepth p)
             @ join_int ''iADC'' (cs_iADC p)
             @ join_int ''iReadPort'' (cs_iReadPort p)
             @ join_int ''iReadRate'' (cs_iReadRate p)
             @ join_int ''iVSRate'' (cs_iVSRate p)
             @ join_int ''iGain'' (cs_iGain p)
             @ join_int ''coolSet'' (cs_coolSet p)
           else [])
          @ join_int ''bitPixel'' (cs_bitPixel p)
          @ join_kv ''ADC'' (cs_ADC p)
          @ join_kv ''readPort'' (cs_readPort p)
          @ join_kv ''readRate'' (cs_readRate p)
          @ join_dbl ''vsRate'' (cs_vsRate p)
          @ join_dbl ''gain'' (cs_gain p)
        else [])
     @ endl"

record kvcamera = kvbase +
  cm_state :: int
  cm_errcode :: int
  cm_left :: double
  cm_percent :: double
  cm_coolget :: int
  cm_imgtype :: string
  cm_filter :: string
  cm_freedisk :: int
  cm_plan_sn :: string
  cm_loopno :: int
  cm_frmno :: int
  cm_fileName :: string

definition KVCamera_new :: "raw \<Rightarrow> kvcamera" where
  "KVCamera_new R = kvbase.extend (KVBase_new KVTYPE_CAMERA)
     (kvcamera.fields (rawi R ''state'') (rawi R ''errcode'') (rawd R ''left'') (rawd R ''percent'')
        (rawi R ''coolget'') [] [] (rawi R ''freedisk'') [] (rawi R ''loopno'') (rawi R ''frmno'') [])"

definition KVCamera_ToString :: "kvcamera \<Rightarrow> string" where
  "KVCamera_ToString p = KVBase_ToString p
     @ join_int ''state'' (cm_state p)
     @ join_int ''errcode'' (cm_errcode p)
     @ join_dbl ''left'' (cm_left p)
     @ join_dbl ''percent'' (cm_percent p)
     @ join_int ''coolget'' (cm_coolget p)
     @ join_kv ''imgtype'' (cm_imgtype p)
     @ join_kv ''filter'' (cm_filter p)
     @ join_int ''freedisk'' (cm_freedisk p)
     @ join_kv ''plan_sn'' (cm_plan_sn p)
     @ join_int ''loopno'' (cm_loopno p)
     @ join_int ''frmno'' (cm_frmno p)
     @ join_kv ''filename'' (cm_fileName p)
     @ endl"

section \<open>Focuser, derotator, dome, mirror cover, filter, site\<close>

record kvfocus = kvbase +
  fc_opType :: int
  fc_state :: int
  fc_relPos :: int
  fc_pos :: int
  fc_posTar :: int

definition KVFocus_new :: kvfocus where
  "KVFocus_new = kvbase.extend (KVBase_new KVTYPE_FOCUS) (kvfocus.fields 0 0 0 999999 999999)"

definition KVFocus_ToString :: "kvfocus \<Rightarrow> string" where
  "KVFocus_ToString p = KVBase_ToString p
     @ join_int ''optype'' (fc_opType p)
     @ (if fc_opType p = 0 then
          join_int ''state'' (fc_state p) @ join_int ''pos'' (fc_pos p) @ join_int ''posTar'' (fc_posTar p)
        else if fc_opType p = 1 then join_int ''relpos'' (fc_relPos p)
        else [])
     @ endl"

definition KVFocusSync_new :: kvbase where "KVFocusSync_new = KVBase_new KVTYPE_FOCUS_SYNC"

definition KVFocusSync_ToString :: "kvbase \<Rightarrow> string" where
  "KVFocusSync_ToString p = KVBase_ToString p @ endl"

record kvfwhm = kvbase +
  fw_value :: double
  fw_tmimg :: string

definition KVFWHM_new :: "raw \<Rightarrow> kvfwhm" where
  "KVFWHM_new R = kvbase.extend (KVBase_new KVTYPE_FWHM) (kvfwhm.fields (rawd R ''value'') [])"

definition KVFWHM_ToString :: "kvfwhm \<Rightarrow> string" where
  "KVFWHM_ToString p = KVBase_ToString p
     @ join_dbl ''value'' (fw_value p)
     @ join_kv ''tmimg'' (fw_tmimg p)
     @ endl"

record kvderot = kvbase +
  dr_opType :: int
  dr_command :: int
  dr_state :: int
  dr_posTar :: double
  dr_pos :: double

definition KVDerot_new :: "raw \<Rightarrow> kvderot" where
  "KVDerot_new R = kvbase.extend (KVBase_new KVTYPE_DEROT)
     (kvderot.fields (- 1) (- 1) (rawi R ''state'') (rawd R ''posTar'') (rawd R ''pos''))"

definition KVDerot_ToString :: "kvderot \<Rightarrow> string" where
  "KVDerot_ToString p = KVBase_ToString p
     @ join_int ''optype'' (dr_opType p)
     @ (if dr_opType p = 0 then
          join_int ''state'' (dr_state p) @ join_dbl ''pos'' (dr_pos p)
        else if dr_opType p = 1 then
          join_int ''command'' (dr_command p) @ join_dbl ''postar'' (dr_posTar p)
        else [])
     @ endl"

record kvdome = kvbase +
  dm_opType :: int
  dm_command :: int
  dm_state :: int
  dm_azi :: double
  dm_ele :: double
  dm_aziObj :: double
  dm_eleObj :: double

definition KVDome_new :: "raw \<Rightarrow> kvdome" where
  "KVDome_new R = kvbase.extend (KVBase_new KVTYPE_DOME)
     (kvdome.fields (- 1) (- 1) (rawi R ''state'') (rawd R ''azi'') (rawd R ''ele'')
        (rawd R ''aziObj'') (rawd R ''eleObj''))"

definition KVDome_ToString :: "kvdome \<Rightarrow> string" where
  "KVDome_ToString p = KVBase_ToString p
     @ join_int ''optype'' (dm_opType p)
     @ (if dm_opType p = 0 then
          join_int ''state'' (dm_state p) @ join_dbl ''azi'' (dm_azi p) @ join_dbl ''ele'' (dm_ele p)
        else if dm_opType p = 1 then join_int ''command'' (dm_command p)
        else [])
     @ join_dbl ''aziobj'' (dm_aziObj p)
     @ join_dbl ''eleobj'' (dm_eleObj p)
     @ endl"

record kvmirrcover = kvbase +
  mc_opType :: int
  mc_command :: int
  mc_state :: int

definition KVMirrCover_new :: "raw \<Rightarrow> kvmirrcover" where
  "KVMirrCover_new R = kvbase.extend (KVBase_new KVTYPE_MCOVER)
     (kvmirrcover.fields (- 1) (- 1) (rawi R ''state''))"

definition KVMirrCover_ToString :: "kvmirrcover \<Rightarrow> string" where
  "KVMirrCover_ToString p = KVBase_ToString p
     @ join_int ''optype'' (mc_opType p)
     @ (if mc_opType p = 0 then join_int ''state'' (mc_state p)
        else if mc_opType p = 1 then join_int ''command'' (mc_command p)
        else [])
     @ endl"

record kvfilter = kvbase +
  fl_opType :: int
  fl_name :: string

definition KVFilter_new :: kvfilter where
  "KVFilter_new = kvbase.extend (KVBase_new KVTYPE_FILTER) (kvfilter.fields (- 1) [])"

definition KVFilter_ToString :: "kvfilter \<Rightarrow> string" where
  "KVFilter_ToString p = KVBase_ToString p
     @ join_int ''optype'' (fl_opType p)
     @ join_kv ''name'' (fl_name p)
     @ endl"

record kvgeosite = kvbase +
  gs_opType :: int
  gs_name :: string
  gs_lon :: double
  gs_lat :: double
  gs_alt :: double

definition KVGeoSite_new :: "raw \<Rightarrow> kvgeosite" where
  "KVGeoSite_new R = kvbase.extend (KVBase_new KVTYPE_GEOSITE)
     (kvgeosite.fields (- 1) [] (rawd R ''lon'') (rawd R ''lat'') (rawd R ''alt''))"

definition KVGeoSite_ToString :: "kvgeosite \<Rightarrow> string" where
  "KVGeoSite_ToString p = KVBase_ToString p
     @ join_int ''optype'' (gs_opType p)
     @ (if gs_opType p \<noteq> 0 then
          join_kv ''name'' (gs_name p)
          @ join_dbl ''lon'' (gs_lon p)
          @ join_dbl ''lat'' (gs_lat p)
          @ join_dbl ''alt'' (gs_alt p)
        else [])
     @ endl"

section \<open>The messages a received line can give\<close>

text \<open>A \<open>KVBasePtr\<close> with the dynamic type of the object it points to.\<close>

datatype kvmsg =
    MAppPlan kvappplan | MCheckPlan kvcheckplan | MRemovePlan kvremoveplan | MPlan kvplan
  | MAbort kvbase | MOBSS kvobss | MSlewto kvslewto | MPark kvbase | MGuide kvguide
  | MHome kvbase | MSync kvsync | MTrack kvbase | MTrackVel kvtrackvel | MMount kvmount
  | MExpose kvexpose | MCamSet kvcamset | MCamera kvcamera | MFocus kvfocus
  | MFocusSync kvbase | MFWHM kvfwhm | MDerot kvderot | MDome kvdome
  | MMirrCover kvmirrcover | MFilter kvfilter

fun msg_base :: "kvmsg \<Rightarrow> kvbase" where
  "msg_base (MAppPlan p) = kvbase.truncate p"
| "msg_base (MCheckPlan p) = kvbase.truncate p"
| "msg_base (MRemovePlan p) = kvbase.truncate p"
| "msg_base (MPlan p) = kvbase.truncate p"
| "msg_base (MAbort p) = p"
| "msg_base (MOBSS p) = kvbase.truncate p"
| "msg_base (MSlewto p) = kvbase.truncate p"
| "msg_base (MPark p) = p"
| "msg_base (MGuide p) = kvbase.truncate p"
| "msg_base (MHome p) = p"
| "msg_base (MSync p) = kvbase.truncate p"
| "msg_base (MTrack p) = p"
| "msg_base (MTrackVel p) = kvbase.truncate p"
| "msg_base (MMount p) = kvbase.truncate p"
| "msg_base (MExpose p) = kvbase.truncate p"
| "msg_base (MCamSet p) = kvbase.truncate p"
| "msg_base (MCamera p) = kvbase.truncate p"
| "msg_base (MFocus p) = kvbase.truncate p"
| "msg_base (MFocusSync p) = p"
| "msg_base (MFWHM p) = kvbase.truncate p"
| "msg_base (MDerot p) = kvbase.truncate p"
| "msg_base (MDome p) = kvbase.truncate p"
| "msg_base (MMirrCover p) = kvbase.truncate p"
| "msg_base (MFilter p) = kvbase.truncate p"

text \<open>The constructors, unfolded.\<close>

lemmas kv_new = KVBase_new_def KVAppPlan_new_def KVCheckPlan_new_def KVRemovePlan_new_def KVPlan_new_def
  KVAbort_new_def KVOBSS_new_def KVSlewto_new_def KVPark_new_def KVGuide_new_def KVHome_new_def
  KVSync_new_def KVTrack_new_def KVTrackVel_new_def KVMount_new_def KVTakeImage_new_def
  KVExpose_new_def KVCamSet_new_def KVCamera_new_def KVFocus_new_def KVFocusSync_new_def
  KVFWHM_new_def KVDerot_new_def KVDome_new_def KVMirrCover_new_def KVFilter_new_def KVGeoSite_new_def

lemmas kv_record_defs = kvbase.defs kvappplan.defs kvcheckplan.defs kvremoveplan.defs kvplan.defs
  kvobss.defs kvslewto.defs kvguide.defs kvsync.defs kvtrackvel.defs kvmount.defs kvexpose.defs
  kvcamset.defs kvcamera.defs kvfocus.defs kvfwhm.defs kvderot.defs kvdome.defs kvmirrcover.defs
  kvfilter.defs kvgeosite.defs

end
