(* ===== verification/KV_Protocol.thy ===== *)
theory KV_Protocol
  imports Boost_Env Proto_KV
begin

text \<open>
  The resolver of the key-value protocol (\<open>KVProtocol.cpp\<close>). A received line is cut into the
  operator and the text behind it (\<open>parse_line\<close>), the text into key-value pairs and the
  identification (\<open>resolve_kv_list\<close>), and the operator selects the routine that fills the
  message (\<open>dispatch\<close>, \<open>resolve_...\<close>). Each routine is a loop over the pairs whose body can
  throw; its handlers release the message and then read its \<open>type\<close>, so an exception of
  \<open>std::stoi\<close> or \<open>std::stod\<close> ends in \<open>NullDeref\<close> (\<open>catch_numeric\<close>). The text handed to
  \<open>Resolve\<close> is a C string: a list of characters without NUL.
\<close>

section \<open>Key-value pairs\<close>

definition resolve_kv_pair :: "boost \<Rightarrow> string \<Rightarrow> (string \<times> string) option" where
  "resolve_kv_pair B kv = (case split_on B ''='' kv of
       [t0, t1] \<Rightarrow> (let k = trim B t0; v = trim B t1
                    in if k = [] \<or> v = [] then None else Some (k, v))
     | _ \<Rightarrow> None)"

definition resolve_kv_step :: "boost \<Rightarrow> kvvec \<times> kvbase \<Rightarrow> string \<Rightarrow> kvvec \<times> kvbase" where
  "resolve_kv_step B st tok = (case st of (kvs, basis) \<Rightarrow>
     (case resolve_kv_pair B tok of
        None \<Rightarrow> (kvs, basis)
      | Some (k, v) \<Rightarrow>
          if iequals B k ''utc'' then (kvs, basis\<lparr>kv_utc := v\<rparr>)
          else if iequals B k ''gid'' then (kvs, basis\<lparr>kv_gid := v\<rparr>)
          else if iequals B k ''uid'' then (kvs, basis\<lparr>kv_uid := v\<rparr>)
          else if iequals B k ''cid'' then (kvs, basis\<lparr>kv_cid := v\<rparr>)
          else (kvs @ [\<lparr>keyword = k, kvalue = v\<rparr>], basis)))"

definition resolve_kv_list :: "boost \<Rightarrow> string \<Rightarrow> kvvec \<times> kvbase" where
  "resolve_kv_list B str = foldl (resolve_kv_step B) ([], KVBase_new []) (split_on B '','' str)"

section \<open>Filling the messages\<close>

definition num_int :: "keyvalpair \<Rightarrow> (int \<Rightarrow> 'p) \<Rightarrow> exn + 'p" where
  "num_int it f = bindR (stoi (kvalue it)) (\<lambda>x. Inr (f x))"

definition num_dbl :: "keyvalpair \<Rightarrow> (double \<Rightarrow> 'p) \<Rightarrow> exn + 'p" where
  "num_dbl it f = bindR (stod (kvalue it)) (\<lambda>x. Inr (f x))"

text \<open>\<open>catch (...) { proto.reset(); _gLog.Write(..., proto->type.c_str(), ...); }\<close>\<close>

definition catch_numeric :: "('p \<Rightarrow> kvmsg) \<Rightarrow> exn + 'p \<Rightarrow> crash + kvmsg option" where
  "catch_numeric ctor r = (case r of Inl e \<Rightarrow> Inl NullDeref | Inr p \<Rightarrow> Inr (Some (ctor p)))"

definition resolve_append_plan_step :: "boost \<Rightarrow> keyvalpair \<Rightarrow> kvappplan \<Rightarrow> exn + kvappplan" where
  "resolve_append_plan_step B it p =
    (if iequals B (keyword it) ''plan_sn'' then Inr (p\<lparr>ap_plan_sn := kvalue it\<rparr>)
     else if iequals B (keyword it) ''objid'' then Inr (p\<lparr>ap_objid := kvalue it\<rparr>)
     else if iequals B (keyword it) ''obstype'' then Inr (p\<lparr>ap_obstype := kvalue it\<rparr>)
     else if iequals B (keyword it) ''coor_sys'' then num_int it (\<lambda>x. p\<lparr>ap_coorsys := x\<rparr>)
     else if iequals B (keyword it) ''ra'' then num_dbl it (\<lambda>x. p\<lparr>ap_ra := x\<rparr>)
     else if iequals B (keyword it) ''dec'' then num_dbl it (\<lambda>x. p\<lparr>ap_dec := x\<rparr>)
     else if iequals B (keyword it) ''ecoch'' then num_dbl it (\<lambda>x. p\<lparr>ap_epoch := x\<rparr>)
     else if iequals B (keyword it) ''azi'' then num_dbl it (\<lambda>x. p\<lparr>ap_azi := x\<rparr>)
     else if iequals B (keyword it) ''ele'' then num_dbl it (\<lambda>x. p\<lparr>ap_ele := x\<rparr>)
     else if iequals B (keyword it) ''tle1'' then Inr (p\<lparr>ap_tle1 := kvalue it\<rparr>)
     else if iequals B (keyword it) ''tle2'' then Inr (p\<lparr>ap_tle2 := kvalue it\<rparr>)
     else if iequals B (keyword it) ''imgtype'' then Inr (p\<lparr>ap_imgtype := kvalue it\<rparr>)
     else if iequals B (keyword it) ''filter'' then Inr (p\<lparr>ap_filter := kvalue it\<rparr>)
     else if iequals B (keyword it) ''exptime'' then num_dbl it (\<lambda>x. p\<lparr>ap_exptime := x\<rparr>)
     else if iequals B (keyword it) ''delay'' then num_dbl it (\<lambda>x. p\<lparr>ap_delay := x\<rparr>)
     else if iequals B (keyword it) ''frmcnt'' then num_int it (\<lambda>x. p\<lparr>ap_frmcnt := x\<rparr>)
     else if iequals B (keyword it) ''loopcnt'' then num_int it (\<lambda>x. p\<lparr>ap_loopcnt := x\<rparr>)
     else if iequals B (keyword it) ''priority'' then num_int it (\<lambda>x. p\<lparr>ap_priority := x\<rparr>)
     else if iequals B (keyword it) ''plan_beg'' then Inr (p\<lparr>ap_plan_begin := kvalue it\<rparr>)
     else if iequals B (keyword it) ''plan_end'' then Inr (p\<lparr>ap_plan_end := kvalue it\<rparr>)
     else Inr (p\<lparr>ap_kvs := ap_kvs p @ [it]\<rparr>))"

text \<open>Repair of the optional items.\<close>

definition append_plan_defaults :: "boost \<Rightarrow> kvappplan \<Rightarrow> kvappplan" where
  "append_plan_defaults B p =
    (let p1 = (if ap_imgtype p = [] then
                 p\<lparr>ap_imgtype := (if dlt (dabs (ap_exptime p)) (double_of_dec False 1 (- 3)) then ''BIAS'' else ''OBJECT'')\<rparr>
               else p)
     in if ap_objid p1 = [] then
          p1\<lparr>ap_objid := (if iequals B (ap_imgtype p1) ''BIAS'' then ''bias''
                          else if iequals B (ap_imgtype p1) ''DARK'' then ''dark''
                          else if iequals B (ap_imgtype p1) ''FLAT'' then ''flat''
                          else if iequals B (ap_imgtype p1) ''FOCUS'' then ''focs''
                          else ''objt'')\<rparr>
        else p1)"

definition resolve_append_plan_kvs :: "boost \<Rightarrow> kvvec \<Rightarrow> exn + kvappplan" where
  "resolve_append_plan_kvs B kvs =
     bindR (foldR (resolve_append_plan_step B) kvs
              (KVAppPlan_new\<lparr>ap_coorsys := COORSYS_EQUA, ap_epoch := double_of_int 2000\<rparr>))
           (\<lambda>p. Inr (append_plan_defaults B p))"

definition resolve_append_plan :: "boost \<Rightarrow> raw \<Rightarrow> kvvec \<Rightarrow> crash + kvmsg option" where
  "resolve_append_plan B R kvs = catch_numeric MAppPlan (resolve_append_plan_kvs B kvs)"

text \<open>\<open>if (proto.unique()) proto->type = ...\<close>: a fresh message has one owner.\<close>

definition retype :: "string \<Rightarrow> kvmsg option \<Rightarrow> kvmsg option" where
  "retype t m = (case m of Some (MAppPlan p) \<Rightarrow> Some (MAppPlan (p\<lparr>kv_type := t\<rparr>)) | _ \<Rightarrow> m)"

definition resolve_append_gwac :: "boost \<Rightarrow> raw \<Rightarrow> kvvec \<Rightarrow> crash + kvmsg option" where
  "resolve_append_gwac B R kvs =
     bindR (resolve_append_plan B R kvs) (\<lambda>m. Inr (retype KVTYPE_APPGWAC m))"

definition resolve_take_image :: "boost \<Rightarrow> raw \<Rightarrow> kvvec \<Rightarrow> crash + kvmsg option" where
  "resolve_take_image B R kvs =
     bindR (resolve_append_plan B R kvs) (\<lambda>m. Inr (retype KVTYPE_TKIMG m))"

definition resolve_check_plan_step :: "boost \<Rightarrow> keyvalpair \<Rightarrow> kvcheckplan \<Rightarrow> exn + kvcheckplan" where
  "resolve_check_plan_step B it p =
    (if iequals B (keyword it) ''plan_sn'' then Inr (p\<lparr>cp_plan_sn := kvalue it\<rparr>)
     else Inr p)"

definition resolve_check_plan :: "boost \<Rightarrow> raw \<Rightarrow> kvvec \<Rightarrow> crash + kvmsg option" where
  "resolve_check_plan B R kvs = catch_numeric MCheckPlan (foldR (resolve_check_plan_step B) kvs KVCheckPlan_new)"

definition resolve_remove_plan_step :: "boost \<Rightarrow> keyvalpair \<Rightarrow> kvremoveplan \<Rightarrow> exn + kvremoveplan" where
  "resolve_remove_plan_step B it p =
    (if iequals B (keyword it) ''plan_sn'' then Inr (p\<lparr>rp_plan_sn := kvalue it\<rparr>)
     else Inr p)"

definition resolve_remove_plan :: "boost \<Rightarrow> raw \<Rightarrow> kvvec \<Rightarrow> crash + kvmsg option" where
  "resolve_remove_plan B R kvs = catch_numeric MRemovePlan (foldR (resolve_remove_plan_step B) kvs KVRemovePlan_new)"

definition resolve_plan_step :: "boost \<Rightarrow> keyvalpair \<Rightarrow> kvplan \<Rightarrow> exn + kvplan" where
  "resolve_plan_step B it p =
    (if iequals B (keyword it) ''state'' then num_int it (\<lambda>x. p\<lparr>pl_state := x\<rparr>)
     else if iequals B (keyword it) ''plan_sn'' then Inr (p\<lparr>pl_plan_sn := kvalue it\<rparr>)
     else if iequals B (keyword it) ''tm_start'' then Inr (p\<lparr>pl_tm_start := kvalue it\<rparr>)
     else if iequals B (keyword it) ''tm_stop'' then Inr (p\<lparr>pl_tm_stop := kvalue it\<rparr>)
     else Inr p)"

definition resolve_plan :: "boost \<Rightarrow> raw \<Rightarrow> kvvec \<Rightarrow> crash + kvmsg option" where
  "resolve_plan B R kvs = catch_numeric MPlan (foldR (resolve_plan_step B) kvs (KVPlan_new R))"

definition resolve_abort :: "boost \<Rightarrow> raw \<Rightarrow> kvvec \<Rightarrow> crash + kvmsg option" where
  "resolve_abort B R kvs = Inr (Some (MAbort KVAbort_new))"

definition resolve_obss_step :: "boost \<Rightarrow> keyvalpair \<Rightarrow> kvobss \<Rightarrow> exn + kvobss" where
  "resolve_obss_step B it p =
    (if iequals B (keyword it) ''state'' then num_int it (\<lambda>x. p\<lparr>os_state := x\<rparr>)
     else if iequals B (keyword it) ''mount'' then num_int it (\<lambda>x. p\<lparr>os_mount := x\<rparr>)
     else if iequals B (keyword it) ''camera'' then num_int it (\<lambda>x. p\<lparr>os_camera := x\<rparr>)
     else Inr p)"

definition resolve_obss :: "boost \<Rightarrow> raw \<Rightarrow> kvvec \<Rightarrow> crash + kvmsg option" where
  "resolve_obss B R kvs = catch_numeric MOBSS (foldR (resolve_obss_step B) kvs (KVOBSS_new R))"

definition resolve_mount_step :: "boost \<Rightarrow> keyvalpair \<Rightarrow> kvmount \<Rightarrow> exn + kvmount" where
  "resolve_mount_step B it p =
    (if iequals B (keyword it) ''state'' then num_int it (\<lambda>x. p\<lparr>mt_state := x\<rparr>)
     else if iequals B (keyword it) ''errcode'' then num_int it (\<lambda>x. p\<lparr>mt_errcode := x\<rparr>)
     else if iequals B (keyword it) ''mjd'' then num_dbl it (\<lambda>x. p\<lparr>mt_mjd := x\<rparr>)
     else if iequals B (keyword it) ''lst'' then num_dbl it (\<lambda>x. p\<lparr>mt_lst := x\<rparr>)
     else if iequals B (keyword it) ''ra'' then num_dbl it (\<lambda>x. p\<lparr>mt_ra := x\<rparr>)
     else if iequals B (keyword it) ''dec'' then num_dbl it (\<lambda>x. p\<lparr>mt_dec := x\<rparr>)
     else if iequals B (keyword it) ''ra2k'' then num_dbl it (\<lambda>x. p\<lparr>mt_ra2k := x\<rparr>)
     else if iequals B (keyword it) ''dec2k'' then num_dbl it (\<lambda>x. p\<lparr>mt_dec2k := x\<rparr>)
     else if iequals B (keyword it) ''azi'' then num_dbl it (\<lambda>x. p\<lparr>mt_azi := x\<rparr>)
     else if iequals B (keyword it) ''ele'' then num_dbl it (\<lambda>x. p\<lparr>mt_ele := x\<rparr>)
     else Inr p)"

definition resolve_mount :: "boost \<Rightarrow> raw \<Rightarrow> kvvec \<Rightarrow> crash + kvmsg option" where
  "resolve_mount B R kvs = catch_numeric MMount (foldR (resolve_mount_step B) kvs KVMount_new)"

definition resolve_camera_step :: "boost \<Rightarrow> keyvalpair \<Rightarrow> kvcamera \<Rightarrow> exn + kvcamera" where
  "resolve_camera_step B it p =
    (if iequals B (keyword it) ''state'' then num_int it (\<lambda>x. p\<lparr>cm_state := x\<rparr>)
     else if iequals B (keyword it) ''errcode'' then num_int it (\<lambda>x. p\<lparr>cm_errcode := x\<rparr>)
     else if iequals B (keyword it) ''left'' then num_dbl it (\<lambda>x. p\<lparr>cm_left := x\<rparr>)
     else if iequals B (keyword it) ''percent'' then num_dbl it (\<lambda>x. p\<lparr>cm_percent := x\<rparr>)
     else if iequals B (keyword it) ''freedisk'' then num_int it (\<lambda>x. p\<lparr>cm_freedisk := x\<rparr>)
     else if iequals B (keyword it) ''coolget'' then num_int it (\<lambda>x. p\<lparr>cm_coolget := x\<rparr>)
     else if iequals B (keyword it) ''loopno'' then num_int it (\<lambda>x. p\<lparr>cm_loopno := x\<rparr>)
     else if iequals B (keyword it) ''frmno'' then num_int it (\<lambda>x. p\<lparr>cm_frmno := x\<rparr>)
     else if iequals B (keyword it) ''imgtype'' then Inr (p\<lparr>cm_imgtype := kvalue it\<rparr>)
     else if iequals B (keyword it) ''filter'' then Inr (p\<lparr>cm_filter := kvalue it\<rparr>)
     else if iequals B (keyword it) ''filename'' then Inr (p\<lparr>cm_fileName := kvalue it\<rparr>)
     else if iequals B (keyword it) ''plan_sn'' then Inr (p\<lparr>cm_plan_sn := kvalue it\<rparr>)
     else Inr p)"

definition resolve_camera :: "boost \<Rightarrow> raw \<Rightarrow> kvvec \<Rightarrow> crash + kvmsg option" where
  "resolve_camera B R kvs = catch_numeric MCamera (foldR (resolve_camera_step B) kvs (KVCamera_new R))"

definition resolve_home :: "boost \<Rightarrow> raw \<Rightarrow> kvvec \<Rightarrow> crash + kvmsg option" where
  "resolve_home B R kvs = Inr (Some (MHome KVHome_new))"

definition resolve_sync_step :: "boost \<Rightarrow> keyvalpair \<Rightarrow> kvsync \<Rightarrow> exn + kvsync" where
  "resolve_sync_step B it p =
    (if iequals B (keyword it) ''ra'' then num_dbl it (\<lambda>x. p\<lparr>sy_ra := x\<rparr>)
     else if iequals B (keyword it) ''dec'' then num_dbl it (\<lambda>x. p\<lparr>sy_dec := x\<rparr>)
     else if iequals B (keyword it) ''ecoch'' then num_dbl it (\<lambda>x. p\<lparr>sy_epoch := x\<rparr>)
     else Inr p)"

definition resolve_sync :: "boost \<Rightarrow> raw \<Rightarrow> kvvec \<Rightarrow> crash + kvmsg option" where
  "resolve_sync B R kvs = catch_numeric MSync (foldR (resolve_sync_step B) kvs ((KVSync_new R)\<lparr>sy_epoch := double_of_int 2000\<rparr>))"

definition resolve_park :: "boost \<Rightarrow> raw \<Rightarrow> kvvec \<Rightarrow> crash + kvmsg option" where
  "resolve_park B R kvs = Inr (Some (MPark KVPark_new))"

definition resolve_slewto_step :: "boost \<Rightarrow> keyvalpair \<Rightarrow> kvslewto \<Rightarrow> exn + kvslewto" where
  "resolve_slewto_step B it p =
    (if iequals B (keyword it) ''coor_sys'' then num_int it (\<lambda>x. p\<lparr>sl_coorsys := x\<rparr>)
     else if iequals B (keyword it) ''ra'' then num_dbl it (\<lambda>x. p\<lparr>sl_ra := x\<rparr>)
     else if iequals B (keyword it) ''dec'' then num_dbl it (\<lambda>x. p\<lparr>sl_dec := x\<rparr>)
     else if iequals B (keyword it) ''ecoch'' then num_dbl it (\<lambda>x. p\<lparr>sl_epoch := x\<rparr>)
     else if iequals B (keyword it) ''azi'' then num_dbl it (\<lambda>x. p\<lparr>sl_azi := x\<rparr>)
     else if iequals B (keyword it) ''ele'' then num_dbl it (\<lambda>x. p\<lparr>sl_ele := x\<rparr>)
     else if iequals B (keyword it) ''tle1'' then Inr (p\<lparr>sl_tle1 := kvalue it\<rparr>)
     else if iequals B (keyword it) ''tle2'' then Inr (p\<lparr>sl_tle2 := kvalue it\<rparr>)
     else Inr p)"

definition resolve_slewto :: "boost \<Rightarrow> raw \<Rightarrow> kvvec \<Rightarrow> crash + kvmsg option" where
  "resolve_slewto B R kvs = catch_numeric MSlewto (foldR (resolve_slewto_step B) kvs ((KVSlewto_new R)\<lparr>sl_coorsys := COORSYS_EQUA, sl_epoch := double_of_int 2000\<rparr>))"

definition resolve_guide_step :: "boost \<Rightarrow> keyvalpair \<Rightarrow> kvguide \<Rightarrow> exn + kvguide" where
  "resolve_guide_step B it p =
    (if iequals B (keyword it) ''ra'' then num_int it (\<lambda>x. p\<lparr>gd_ra := x\<rparr>)
     else if iequals B (keyword it) ''dec'' then num_int it (\<lambda>x. p\<lparr>gd_dec := x\<rparr>)
     else if iequals B (keyword it) ''result'' then num_int it (\<lambda>x. p\<lparr>gd_result := x\<rparr>)
     else if iequals B (keyword it) ''op'' then num_int it (\<lambda>x. p\<lparr>gd_op := x\<rparr>)
     else Inr p)"

definition resolve_guide :: "boost \<Rightarrow> raw \<Rightarrow> kvvec \<Rightarrow> crash + kvmsg option" where
  "resolve_guide B R kvs = catch_numeric MGuide (foldR (resolve_guide_step B) kvs KVGuide_new)"

definition resolve_track :: "boost \<Rightarrow> raw \<Rightarrow> kvvec \<Rightarrow> crash + kvmsg option" where
  "resolve_track B R kvs = Inr (Some (MTrack KVTrack_new))"

definition resolve_trackvel_step :: "boost \<Rightarrow> keyvalpair \<Rightarrow> kvtrackvel \<Rightarrow> exn + kvtrackvel" where
  "resolve_trackvel_step B it p =
    (if iequals B (keyword it) ''ra'' then num_dbl it (\<lambda>x. p\<lparr>tv_ra := x\<rparr>)
     else if iequals B (keyword it) ''dec'' then num_dbl it (\<lambda>x. p\<lparr>tv_dec := x\<rparr>)
     else Inr p)"

definition resolve_trackvel :: "boost \<Rightarrow> raw \<Rightarrow> kvvec \<Rightarrow> crash + kvmsg option" where
  "resolve_trackvel B R kvs = catch_numeric MTrackVel (foldR (resolve_trackvel_step B) kvs (KVTrackVel_new R))"

definition resolve_expose_step :: "boost \<Rightarrow> keyvalpair \<Rightarrow> kvexpose \<Rightarrow> exn + kvexpose" where
  "resolve_expose_step B it p =
    (if iequals B (keyword it) ''command'' then num_int it (\<lambda>x. p\<lparr>ex_command := x\<rparr>)
     else if iequals B (keyword it) ''frmno'' then num_int it (\<lambda>x. p\<lparr>ex_frmno := x\<rparr>)
     else if iequals B (keyword it) ''loopno'' then num_int it (\<lambda>x. p\<lparr>ex_loopno := x\<rparr>)
     else Inr p)"

definition resolve_expose :: "boost \<Rightarrow> raw \<Rightarrow> kvvec \<Rightarrow> crash + kvmsg option" where
  "resolve_expose B R kvs = catch_numeric MExpose (foldR (resolve_expose_step B) kvs (KVExpose_new R))"

definition resolve_camset_step :: "boost \<Rightarrow> keyvalpair \<Rightarrow> kvcamset \<Rightarrow> exn + kvcamset" where
  "resolve_camset_step B it p =
    (if iequals B (keyword it) ''optype'' then num_int it (\<lambda>x. p\<lparr>cs_opType := x\<rparr>)
     else if iequals B (keyword it) ''bitDepth'' then num_int it (\<lambda>x. p\<lparr>cs_bitDepth := x\<rparr>)
     else if iequals B (keyword it) ''iADC'' then num_int it (\<lambda>x. p\<lparr>cs_iADC := x\<rparr>)
     else if iequals B (keyword it) ''iReadPort'' then num_int it (\<lambda>x. p\<lparr>cs_iReadPort := x\<rparr>)
     else if iequals B (keyword it) ''iReadRate'' then num_int it (\<lambda>x. p\<lparr>cs_iReadRate := x\<rparr>)
     else if iequals B (keyword it) ''iVSRate'' then num_int it (\<lambda>x. p\<lparr>cs_iVSRate := x\<rparr>)
     else if iequals B (keyword it) ''iGain'' then num_int it (\<lambda>x. p\<lparr>cs_iGain := x\<rparr>)
     else if iequals B (keyword it) ''coolSet'' then num_int it (\<lambda>x. p\<lparr>cs_coolSet := x\<rparr>)
     else if iequals B (keyword it) ''bitPixel'' then num_int it (\<lambda>x. p\<lparr>cs_bitPixel := x\<rparr>)
     else if iequals B (keyword it) ''ADC'' then Inr (p\<lparr>cs_ADC := kvalue it\<rparr>)
     else if iequals B (keyword it) ''readPort'' then Inr (p\<lparr>cs_readPort := kvalue it\<rparr>)
     else if iequals B (keyword it) ''readRate'' then Inr (p\<lparr>cs_readRate := kvalue it\<rparr>)
     else if iequals B (keyword it) ''vsRate'' then num_dbl it (\<lambda>x. p\<lparr>cs_vsRate := x\<rparr>)
     else if iequals B (keyword it) ''gain'' then num_dbl it (\<lambda>x. p\<lparr>cs_gain := x\<rparr>)
     else Inr p)"

definition resolve_camset :: "boost \<Rightarrow> raw \<Rightarrow> kvvec \<Rightarrow> crash + kvmsg option" where
  "resolve_camset B R kvs = catch_numeric MCamSet (foldR (resolve_camset_step B) kvs (KVCamSet_new R))"

definition resolve_focus_step :: "boost \<Rightarrow> keyvalpair \<Rightarrow> kvfocus \<Rightarrow> exn + kvfocus" where
  "resolve_focus_step B it p =
    (if iequals B (keyword it) ''optype'' then num_int it (\<lambda>x. p\<lparr>fc_opType := x\<rparr>)
     else if iequals B (keyword it) ''state'' then num_int it (\<lambda>x. p\<lparr>fc_state := x\<rparr>)
     else if iequals B (keyword it) ''relpos'' then num_int it (\<lambda>x. p\<lparr>fc_relPos := x\<rparr>)
     else if iequals B (keyword it) ''pos'' then num_int it (\<lambda>x. p\<lparr>fc_pos := x\<rparr>)
     else if iequals B (keyword it) ''posTar'' then num_int it (\<lambda>x. p\<lparr>fc_posTar := x\<rparr>)
     else Inr p)"

definition resolve_focus :: "boost \<Rightarrow> raw \<Rightarrow> kvvec \<Rightarrow> crash + kvmsg option" where
  "resolve_focus B R kvs = catch_numeric MFocus (foldR (resolve_focus_step B) kvs KVFocus_new)"

definition resolve_focus_sync :: "boost \<Rightarrow> raw \<Rightarrow> kvvec \<Rightarrow> crash + kvmsg option" where
  "resolve_focus_sync B R kvs = Inr (Some (MFocusSync KVFocusSync_new))"

definition resolve_fwhm_step :: "boost \<Rightarrow> keyvalpair \<Rightarrow> kvfwhm \<Rightarrow> exn + kvfwhm" where
  "resolve_fwhm_step B it p =
    (if iequals B (keyword it) ''value'' then num_dbl it (\<lambda>x. p\<lparr>fw_value := x\<rparr>)
     else if iequals B (keyword it) ''tmimg'' then Inr (p\<lparr>fw_tmimg := kvalue it\<rparr>)
     else Inr p)"

definition resolve_fwhm :: "boost \<Rightarrow> raw \<Rightarrow> kvvec \<Rightarrow> crash + kvmsg option" where
  "resolve_fwhm B R kvs = catch_numeric MFWHM (foldR (resolve_fwhm_step B) kvs (KVFWHM_new R))"

definition resolve_derot_step :: "boost \<Rightarrow> keyvalpair \<Rightarrow> kvderot \<Rightarrow> exn + kvderot" where
  "resolve_derot_step B it p =
    (if iequals B (keyword it) ''optype'' then num_int it (\<lambda>x. p\<lparr>dr_opType := x\<rparr>)
     else if iequals B (keyword it) ''command'' then num_int it (\<lambda>x. p\<lparr>dr_command := x\<rparr>)
     else if iequals B (keyword it) ''state'' then num_int it (\<lambda>x. p\<lparr>dr_state := x\<rparr>)
     else if iequals B (keyword it) ''postar'' then num_dbl it (\<lambda>x. p\<lparr>dr_posTar := x\<rparr>)
     else if iequals B (keyword it) ''pos'' then num_dbl it (\<lambda>x. p\<lparr>dr_pos := x\<rparr>)
     else Inr p)"

definition resolve_derot :: "boost \<Rightarrow> raw \<Rightarrow> kvvec \<Rightarrow> crash + kvmsg option" where
  "resolve_derot B R kvs = catch_numeric MDerot (foldR (resolve_derot_step B) kvs (KVDerot_new R))"

definition resolve_dome_step :: "boost \<Rightarrow> keyvalpair \<Rightarrow> kvdome \<Rightarrow> exn + kvdome" where
  "resolve_dome_step B it p =
    (if iequals B (keyword it) ''optype'' then num_int it (\<lambda>x. p\<lparr>dm_opType := x\<rparr>)
     else if iequals B (keyword it) ''command'' then num_int it (\<lambda>x. p\<lparr>dm_command := x\<rparr>)
     else if iequals B (keyword it) ''state'' then num_int it (\<lambda>x. p\<lparr>dm_state := x\<rparr>)
     else if iequals B (keyword it) ''azi'' then num_dbl it (\<lambda>x. p\<lparr>dm_azi := x\<rparr>)
     else if iequals B (keyword it) ''ele'' then num_dbl it (\<lambda>x. p\<lparr>dm_ele := x\<rparr>)
     else if iequals B (keyword it) ''aziobj'' then num_dbl it (\<lambda>x. p\<lparr>dm_aziObj := x\<rparr>)
     else if iequals B (keyword it) ''eleobj'' then num_dbl it (\<lambda>x. p\<lparr>dm_eleObj := x\<rparr>)
     else Inr p)"

definition resolve_dome :: "boost \<Rightarrow> raw \<Rightarrow> kvvec \<Rightarrow> crash + kvmsg option" where
  "resolve_dome B R kvs = catch_numeric MDome (foldR (resolve_dome_step B) kvs (KVDome_new R))"

definition resolve_mcover_step :: "boost \<Rightarrow> keyvalpair \<Rightarrow> kvmirrcover \<Rightarrow> exn + kvmirrcover" where
  "resolve_mcover_step B it p =
    (if iequals B (keyword it) ''optype'' then num_int it (\<lambda>x. p\<lparr>mc_opType := x\<rparr>)
     else if iequals B (keyword it) ''command'' then num_int it (\<lambda>x. p\<lparr>mc_command := x\<rparr>)
     else if iequals B (keyword it) ''state'' then num_int it (\<lambda>x. p\<lparr>mc_state := x\<rparr>)
     else Inr p)"

definition resolve_mcover :: "boost \<Rightarrow> raw \<Rightarrow> kvvec \<Rightarrow> crash + kvmsg option" where
  "resolve_mcover B R kvs = catch_numeric MMirrCover (foldR (resolve_mcover_step B) kvs (KVMirrCover_new R))"

definition resolve_filter_step :: "boost \<Rightarrow> keyvalpair \<Rightarrow> kvfilter \<Rightarrow> exn + kvfilter" where
  "resolve_filter_step B it p =
    (if iequals B (keyword it) ''optype'' then num_int it (\<lambda>x. p\<lparr>fl_opType := x\<rparr>)
     else if iequals B (keyword it) ''name'' then Inr (p\<lparr>fl_name := kvalue it\<rparr>)
     else Inr p)"

definition resolve_filter :: "boost \<Rightarrow> raw \<Rightarrow> kvvec \<Rightarrow> crash + kvmsg option" where
  "resolve_filter B R kvs = catch_numeric MFilter (foldR (resolve_filter_step B) kvs KVFilter_new)"


text \<open>
  \<open>resolve_geosite\<close> is the one routine \<open>Resolve\<close> never calls; its \<open>name\<close> arm assigns the
  number \<open>std::stod\<close> reads to a string, that is, the one character with that code.
\<close>

definition resolve_geosite_step :: "boost \<Rightarrow> keyvalpair \<Rightarrow> kvgeosite \<Rightarrow> exn + kvgeosite" where
  "resolve_geosite_step B it p =
    (if iequals B (keyword it) ''optype'' then num_int it (\<lambda>x. p\<lparr>gs_opType := x\<rparr>)
     else if iequals B (keyword it) ''name'' then num_dbl it (\<lambda>x. p\<lparr>gs_name := [char_of (nat (int_cast x mod 256))]\<rparr>)
     else if iequals B (keyword it) ''lon'' then num_dbl it (\<lambda>x. p\<lparr>gs_lon := x\<rparr>)
     else if iequals B (keyword it) ''lat'' then num_dbl it (\<lambda>x. p\<lparr>gs_lat := x\<rparr>)
     else if iequals B (keyword it) ''alt'' then num_dbl it (\<lambda>x. p\<lparr>gs_alt := x\<rparr>)
     else Inr p)"

definition resolve_geosite :: "boost \<Rightarrow> raw \<Rightarrow> kvvec \<Rightarrow> crash + kvgeosite" where
  "resolve_geosite B R kvs =
     (case foldR (resolve_geosite_step B) kvs (KVGeoSite_new R) of
        Inl e \<Rightarrow> Inl NullDeref | Inr p \<Rightarrow> Inr p)"

section \<open>Resolving a line\<close>

text \<open>The operator with its first character in lower case, and the text behind it.\<close>

definition parse_line :: "string \<Rightarrow> char \<times> string \<times> string" where
  "parse_line rcvd =
     (let p0 = dropWhile (\<lambda>c. c = CHR '' '') rcvd;
          ch = (case p0 of [] \<Rightarrow> CHR 0x00 | c # _ \<Rightarrow> tolower c);
          type = takeWhile (\<lambda>c. c \<noteq> CHR '' '') p0;
          rest = dropWhile (\<lambda>c. c = CHR '' '') (dropWhile (\<lambda>c. c \<noteq> CHR '' '') p0)
      in (ch, type, rest))"

definition dispatch :: "boost \<Rightarrow> raw \<Rightarrow> char \<Rightarrow> string \<Rightarrow> kvvec \<Rightarrow> crash + kvmsg option" where
  "dispatch B R ch type kvs =
    (if ch = CHR ''a'' then
       bindR (if iequals B type KVTYPE_APPPLAN then resolve_append_plan B R kvs else Inr None)
         (\<lambda>proto. if iequals B type KVTYPE_APPGWAC then resolve_append_gwac B R kvs
                  else if iequals B type KVTYPE_ABORT then resolve_abort B R kvs
                  else Inr proto)
     else if ch = CHR ''c'' then
       (if iequals B type KVTYPE_CHKPLAN then resolve_check_plan B R kvs
        else if iequals B type KVTYPE_CAMERA then resolve_camera B R kvs
        else if iequals B type KVTYPE_CAMSET then resolve_camset B R kvs
        else Inr None)
     else if ch = CHR ''d'' then
       (if iequals B type KVTYPE_DEROT then resolve_derot B R kvs
        else if iequals B type KVTYPE_DOME then resolve_dome B R kvs
        else Inr None)
     else if ch = CHR ''f'' then
       (if iequals B type KVTYPE_FOCUS then resolve_focus B R kvs
        else if iequals B type KVTYPE_FOCUS_SYNC then resolve_focus_sync B R kvs
        else if iequals B type KVTYPE_FWHM then resolve_fwhm B R kvs
        else if iequals B type KVTYPE_FILTER then resolve_filter B R kvs
        else Inr None)
     else if ch = CHR ''m'' then
       (if iequals B type KVTYPE_MOUNT then resolve_mount B R kvs
        else if iequals B type KVTYPE_MCOVER then resolve_mcover B R kvs
        else Inr None)
     else if ch = CHR ''p'' then
       (if iequals B type KVTYPE_PLAN then resolve_plan B R kvs
        else if iequals B type KVTYPE_PARK then resolve_park B R kvs
        else Inr None)
     else if ch = CHR ''s'' then
       (if iequals B type KVTYPE_SLEWTO then resolve_slewto B R kvs
        else if iequals B type KVTYPE_SYNC then resolve_sync B R kvs
        else Inr None)
     else if ch = CHR ''t'' then
       (if iequals B type KVTYPE_TKIMG then resolve_take_image B R kvs
        else if iequals B type KVTYPE_TRACK then resolve_track B R kvs
        else if iequals B type KVTYPE_TRACKVEL then resolve_trackvel B R kvs
        else Inr None)
     else if iequals B type KVTYPE_EXPOSE then resolve_expose B R kvs
     else if iequals B type KVTYPE_GUIDE then resolve_guide B R kvs
     else if iequals B type KVTYPE_HOME then resolve_home B R kvs
     else if iequals B type KVTYPE_OBSS then resolve_obss B R kvs
     else if iequals B type KVTYPE_RMVPLAN then resolve_remove_plan B R kvs
     else Inr None)"

text \<open>\<open>*proto = basis\<close>\<close>

fun msg_assign :: "kvmsg \<Rightarrow> kvbase \<Rightarrow> kvmsg" where
  "msg_assign (MAppPlan p) b = MAppPlan (KVBase_assign p b)"
| "msg_assign (MCheckPlan p) b = MCheckPlan (KVBase_assign p b)"
| "msg_assign (MRemovePlan p) b = MRemovePlan (KVBase_assign p b)"
| "msg_assign (MPlan p) b = MPlan (KVBase_assign p b)"
| "msg_assign (MAbort p) b = MAbort (KVBase_assign p b)"
| "msg_assign (MOBSS p) b = MOBSS (KVBase_assign p b)"
| "msg_assign (MSlewto p) b = MSlewto (KVBase_assign p b)"
| "msg_assign (MPark p) b = MPark (KVBase_assign p b)"
| "msg_assign (MGuide p) b = MGuide (KVBase_assign p b)"
| "msg_assign (MHome p) b = MHome (KVBase_assign p b)"
| "msg_assign (MSync p) b = MSync (KVBase_assign p b)"
| "msg_assign (MTrack p) b = MTrack (KVBase_assign p b)"
| "msg_assign (MTrackVel p) b = MTrackVel (KVBase_assign p b)"
| "msg_assign (MMount p) b = MMount (KVBase_assign p b)"
| "msg_assign (MExpose p) b = MExpose (KVBase_assign p b)"
| "msg_assign (MCamSet p) b = MCamSet (KVBase_assign p b)"
| "msg_assign (MCamera p) b = MCamera (KVBase_assign p b)"
| "msg_assign (MFocus p) b = MFocus (KVBase_assign p b)"
| "msg_assign (MFocusSync p) b = MFocusSync (KVBase_assign p b)"
| "msg_assign (MFWHM p) b = MFWHM (KVBase_assign p b)"
| "msg_assign (MDerot p) b = MDerot (KVBase_assign p b)"
| "msg_assign (MDome p) b = MDome (KVBase_assign p b)"
| "msg_assign (MMirrCover p) b = MMirrCover (KVBase_assign p b)"
| "msg_assign (MFilter p) b = MFilter (KVBase_assign p b)"

definition Resolve :: "boost \<Rightarrow> raw \<Rightarrow> string \<Rightarrow> crash + kvmsg option" where
  "Resolve B R rcvd =
     (let (ch, type, rest) = parse_line rcvd;
          (kvs, basis) = (if rest \<noteq> [] then resolve_kv_list B rest else ([], KVBase_new []))
      in bindR (dispatch B R ch type kvs)
           (\<lambda>proto. Inr (map_option (\<lambda>m. msg_assign m basis) proto)))"

end
