(* ===== verification/KV_Codec.thy ===== *)
theory KV_Codec
  imports KV_Protocol
begin

text \<open>
  Printing and resolving key-value messages are inverse. The shared part (cutting the line,
  separating the identification from the pairs) is proved once in the locale \<open>kv_codec\<close>; each
  message type is an instance of it: its printer, its list of printed pairs, its resolving
  routine, and the messages for which the pairs determine the message.
\<close>

section \<open>Texts made of pairs\<close>

definition clean :: "string \<Rightarrow> bool" where
  "clean s \<longleftrightarrow> CHR '','' \<notin> set s \<and> CHR ''='' \<notin> set s \<and> CHR 0x0A \<notin> set s
     \<and> (s = [] \<or> \<not> isspace (hd s) \<and> \<not> isspace (last s))"

lemma clean_notin:
  assumes "clean s"
  shows "CHR '','' \<notin> set s" "CHR ''='' \<notin> set s" "CHR 0x0A \<notin> set s"
  using assms by (simp_all only: clean_def not_False_eq_True simp_thms)

lemma notin_all: "d \<notin> set s \<Longrightarrow> \<forall>c \<in> set s. c \<notin> set [d]"
  by auto

lemma clean_head: "clean s \<Longrightarrow> s \<noteq> [] \<Longrightarrow> hd s \<noteq> CHR '' ''"
proof -
  assume a: "clean s" "s \<noteq> []"
  then have "\<not> isspace (hd s)" by (simp add: clean_def)
  moreover have "isspace (CHR '' '')" by (simp add: isspace_def code_of_def)
  ultimately show ?thesis by metis
qed

definition kv_text :: "(string \<times> string) list \<Rightarrow> string" where
  "kv_text ps = concat (map (\<lambda>(k, v). join_kv k v) ps)"

lemma kv_text_simps [simp]:
  "kv_text [] = []"
  "kv_text ((k, v) # ps) = join_kv k v @ kv_text ps"
  "kv_text (ps @ qs) = kv_text ps @ kv_text qs"
  by (simp_all add: kv_text_def)

definition base_keys :: "string list" where
  "base_keys = [''utc'', ''gid'', ''uid'', ''cid'']"

text \<open>A key of a message: not empty, without separators, not one of the identification keys.\<close>

definition key_ok :: "string \<Rightarrow> bool" where
  "key_ok k \<longleftrightarrow> k \<noteq> [] \<and> clean k \<and> (\<forall>b \<in> set base_keys. \<not> iequals_doc k b)"

definition base_pairs :: "kvbase \<Rightarrow> (string \<times> string) list" where
  "base_pairs b = filter (\<lambda>(k, v). v \<noteq> [])
     [(''utc'', kv_utc b), (''gid'', kv_gid b), (''uid'', kv_uid b), (''cid'', kv_cid b)]"

definition base_ok :: "kvbase \<Rightarrow> bool" where
  "base_ok b \<longleftrightarrow> clean (kv_utc b) \<and> clean (kv_gid b) \<and> clean (kv_uid b) \<and> clean (kv_cid b)"

text \<open>The pairs a resolver sees: the parser drops a pair with an empty value.\<close>

definition kv_items :: "(string \<times> string) list \<Rightarrow> kvvec" where
  "kv_items ps = map (\<lambda>(k, v). \<lparr>keyword = k, kvalue = v\<rparr>) (filter (\<lambda>(k, v). v \<noteq> []) ps)"

lemma kv_items_simps [simp]:
  "kv_items [] = []"
  "kv_items ((k, v) # ps) = (if v = [] then kv_items ps else \<lparr>keyword = k, kvalue = v\<rparr> # kv_items ps)"
  "kv_items (ps @ qs) = kv_items ps @ kv_items qs"
  by (simp_all add: kv_items_def)

lemma trim_clean: "clean s \<Longrightarrow> trim_doc s = s"
  by (cases "s = []") (auto simp: clean_def trim_doc_id, simp add: trim_doc_def)

lemma resolve_kv_pair_clean:
  assumes "boost_ok B" and "clean k" and "k \<noteq> []" and "clean v"
  shows "resolve_kv_pair B (k @ ''='' @ v) = (if v = [] then None else Some (k, v))"
proof -
  let ?P = "\<lambda>c. c \<in> set ''=''"
  have none: "\<forall>c \<in> set s. \<not> ?P c" if "clean s" for s
    using notin_all [OF clean_notin(2) [OF that]] by simp
  have "v = [] \<or> \<not> ?P (hd v)" using none [OF assms(4)] by (cases v) simp_all
  with none [OF assms(2)] have "split_doc ?P (k @ CHR ''='' # v) = k # split_doc ?P v"
    by (intro split_doc_token) simp_all
  then have "split_doc ?P (k @ CHR ''='' # v) = [k, v]"
    using split_doc_none [OF none [OF assms(4)]] by simp
  then show ?thesis
    using assms by (simp add: resolve_kv_pair_def boost_laws trim_clean Let_def)
qed

lemma resolve_kv_pair_empty: "boost_ok B \<Longrightarrow> resolve_kv_pair B [] = None"
  by (simp add: resolve_kv_pair_def boost_laws)

lemma split_kv_text:
  assumes "boost_ok B" and "\<forall>(k, v) \<in> set ps. clean k \<and> k \<noteq> [] \<and> clean v"
  shows "split_on B '','' (kv_text ps) = map (\<lambda>(k, v). k @ ''='' @ v) ps @ [[]]"
proof -
  let ?ts = "map (\<lambda>(k, v). k @ ''='' @ v) ps"
  have "kv_text ps = concat (map (\<lambda>t. t @ [CHR '','']) ?ts)"
    by (induction ps) (auto simp: join_kv_def)
  moreover have "split_doc (\<lambda>c. c \<in> set '','') (concat (map (\<lambda>t. t @ [CHR '','']) ?ts)) = ?ts @ [[]]"
    using assms(2) by (intro split_doc_concat) (auto dest: clean_notin(1))
  ultimately show ?thesis by (simp add: boost_laws [OF assms(1)])
qed

text \<open>One pair of the list, seen through the documented behaviour.\<close>

definition take_pair :: "kvvec \<times> kvbase \<Rightarrow> string \<times> string \<Rightarrow> kvvec \<times> kvbase" where
  "take_pair st kv = (case st of (kvs, basis) \<Rightarrow> (case kv of (k, v) \<Rightarrow>
     if v = [] then (kvs, basis)
     else if iequals_doc k ''utc'' then (kvs, basis\<lparr>kv_utc := v\<rparr>)
     else if iequals_doc k ''gid'' then (kvs, basis\<lparr>kv_gid := v\<rparr>)
     else if iequals_doc k ''uid'' then (kvs, basis\<lparr>kv_uid := v\<rparr>)
     else if iequals_doc k ''cid'' then (kvs, basis\<lparr>kv_cid := v\<rparr>)
     else (kvs @ [\<lparr>keyword = k, kvalue = v\<rparr>], basis)))"

lemma resolve_kv_list_text:
  assumes "boost_ok B" and "\<forall>(k, v) \<in> set ps. clean k \<and> k \<noteq> [] \<and> clean v"
  shows "resolve_kv_list B (kv_text ps) = foldl take_pair ([], KVBase_new []) ps"
proof -
  have "foldl (resolve_kv_step B) st (map (\<lambda>(k, v). k @ ''='' @ v) ps) = foldl take_pair st ps" for st
    using assms(2)
  proof (induction ps arbitrary: st)
    case Nil
    then show ?case by simp
  next
    case (Cons kv ps)
    obtain k v where kv: "kv = (k, v)" by fastforce
    with Cons.prems have "resolve_kv_pair B (k @ ''='' @ v) = (if v = [] then None else Some (k, v))"
      by (intro resolve_kv_pair_clean assms(1)) auto
    then have "resolve_kv_step B st (k @ ''='' @ v) = take_pair st kv"
      by (cases st) (simp add: resolve_kv_step_def take_pair_def kv boost_laws [OF assms(1)])
    with Cons kv show ?case by simp
  qed
  moreover have "resolve_kv_step B st [] = st" for st
    by (cases st) (simp add: resolve_kv_step_def resolve_kv_pair_empty assms(1))
  ultimately show ?thesis by (simp add: resolve_kv_list_def split_kv_text [OF assms])
qed

lemma foldl_take_pair:
  "\<forall>(k, v) \<in> set ps. key_ok k \<Longrightarrow> foldl take_pair (kvs, b) ps = (kvs @ kv_items ps, b)"
  by (induction ps arbitrary: kvs) (auto simp: take_pair_def key_ok_def base_keys_def)

lemma foldl_take_base:
  "foldl take_pair ([], KVBase_new []) (base_pairs b) = ([], b\<lparr>kv_type := []\<rparr>)"
  by (cases b) (simp add: base_pairs_def take_pair_def KVBase_new_def iequals_doc_def)

lemma base_pairs_clean: "base_ok b \<Longrightarrow> \<forall>(k, v) \<in> set (base_pairs b). clean k \<and> k \<noteq> [] \<and> clean v"
  by (auto simp: base_pairs_def base_ok_def) (auto simp: clean_def isspace_def code_of_def)

lemma KVBase_ToString_text: "KVBase_ToString b = kv_type b @ '' '' @ kv_text (base_pairs b)"
  by (simp add: KVBase_ToString_def base_pairs_def join_opt_def)

theorem resolve_printed_pairs:
  assumes "boost_ok B" and "base_ok b" and "\<forall>(k, v) \<in> set ps. key_ok k \<and> clean v"
  shows "resolve_kv_list B (kv_text (base_pairs b @ ps)) = (kv_items ps, b\<lparr>kv_type := []\<rparr>)"
proof -
  have "\<forall>(k, v) \<in> set (base_pairs b @ ps). clean k \<and> k \<noteq> [] \<and> clean v"
    using base_pairs_clean [OF assms(2)] assms(3) by (auto simp: key_ok_def)
  from resolve_kv_list_text [OF assms(1) this] show ?thesis
    using assms(3) by (simp add: foldl_take_base, subst foldl_take_pair) auto
qed

section \<open>Cutting a printed line\<close>

definition op_name :: "string \<Rightarrow> bool" where
  "op_name t \<longleftrightarrow> t \<noteq> [] \<and> CHR '' '' \<notin> set t \<and> CHR 0x0A \<notin> set t"

lemma kv_text_head: "\<forall>(k, v) \<in> set ps. clean k \<and> k \<noteq> [] \<Longrightarrow> kv_text ps = [] \<or> hd (kv_text ps) \<noteq> CHR '' ''"
  by (cases ps) (auto simp: join_kv_def clean_head)

lemma parse_line_print:
  assumes "op_name t" and "\<forall>(k, v) \<in> set ps. clean k \<and> k \<noteq> []"
  shows "parse_line (t @ '' '' @ kv_text ps) = (tolower (hd t), t, kv_text ps)"
proof -
  let ?s = "kv_text ps"
  from assms(1) have t: "t \<noteq> []" "\<forall>c \<in> set t. c \<noteq> CHR '' ''" by (auto simp: op_name_def)
  have 1: "dropWhile (\<lambda>c. c = CHR '' '') (t @ '' '' @ ?s) = t @ CHR '' '' # ?s"
    using t by (cases t) auto
  have 2: "takeWhile (\<lambda>c. c \<noteq> CHR '' '') (t @ CHR '' '' # ?s) = t"
    using t by (intro takeWhile_stop) auto
  have 3: "dropWhile (\<lambda>c. c \<noteq> CHR '' '') (t @ CHR '' '' # ?s) = CHR '' '' # ?s"
    using t by (intro dropWhile_stop) auto
  have 4: "dropWhile (\<lambda>c. c = CHR '' '') ?s = ?s"
    using kv_text_head [OF assms(2)] by (cases ?s) auto
  show ?thesis
    using t unfolding parse_line_def 1 Let_def 2 3 by (cases t) (auto simp: 4)
qed

text \<open>The text of a printed message up to the end of the line, as the connection hands it over.\<close>

definition line_of :: "string \<Rightarrow> string" where
  "line_of s = takeWhile (\<lambda>c. c \<noteq> CHR 0x0A) s"

lemma kv_text_no_newline:
  "\<forall>(k, v) \<in> set ps. clean k \<and> clean v \<Longrightarrow> CHR 0x0A \<notin> set (kv_text ps)"
  by (induction ps) (auto simp: join_kv_def dest: clean_notin(3))

lemma line_of_endl: "CHR 0x0A \<notin> set s \<Longrightarrow> line_of (s @ endl) = s"
  unfolding line_of_def endl_def by (rule takeWhile_stop) auto

section \<open>Message codecs\<close>

locale kv_codec =
  fixes print :: "'p \<Rightarrow> string"
    and base :: "'p \<Rightarrow> kvbase"
    and pairs :: "'p \<Rightarrow> (string \<times> string) list"
    and wf :: "raw \<Rightarrow> 'p \<Rightarrow> bool"
    and fill :: "boost \<Rightarrow> raw \<Rightarrow> kvvec \<Rightarrow> crash + kvmsg option"
    and msg :: "'p \<Rightarrow> kvmsg"
    and op :: string
  assumes print_law: "print p = KVBase_ToString (base p) @ kv_text (pairs p) @ endl"
    and op_law: "op_name op"
    and type_law: "wf R p \<Longrightarrow> kv_type (base p) = op"
    and base_law: "wf R p \<Longrightarrow> base_ok (base p)"
    and pairs_law: "wf R p \<Longrightarrow> (k, v) \<in> set (pairs p) \<Longrightarrow> key_ok k \<and> clean v"
    and dispatch_law: "boost_ok B \<Longrightarrow> dispatch B R (tolower (hd op)) op kvs = fill B R kvs"
    and fill_law: "boost_ok B \<Longrightarrow> wf R p \<Longrightarrow>
      \<exists>m. fill B R (kv_items (pairs p)) = Inr (Some m) \<and> msg_assign m (base p) = msg p"
begin

lemma line:
  assumes "wf R p"
  shows "line_of (print p) = op @ '' '' @ kv_text (base_pairs (base p) @ pairs p)"
proof -
  let ?s = "op @ '' '' @ kv_text (base_pairs (base p) @ pairs p)"
  have "print p = ?s @ endl"
    by (simp add: print_law KVBase_ToString_text type_law [OF assms])
  moreover have "CHR 0x0A \<notin> set (kv_text (base_pairs (base p) @ pairs p))"
    using base_pairs_clean [OF base_law [OF assms]] pairs_law [OF assms]
    by (intro kv_text_no_newline) (auto simp: key_ok_def)
  ultimately show ?thesis
    using op_law by (simp only:) (rule line_of_endl, auto simp: op_name_def)
qed

theorem resolve_print:
  assumes "boost_ok B" and "wf R p"
  shows "Resolve B R (line_of (print p)) = Inr (Some (msg p))"
proof -
  let ?ps = "base_pairs (base p) @ pairs p"
  have prs: "\<forall>(k, v) \<in> set (pairs p). key_ok k \<and> clean v" using pairs_law [OF assms(2)] by blast
  have cl: "\<forall>(k, v) \<in> set ?ps. clean k \<and> k \<noteq> []"
    using base_pairs_clean [OF base_law [OF assms(2)]] prs by (auto simp: key_ok_def)
  have kvs: "(if kv_text ?ps \<noteq> [] then resolve_kv_list B (kv_text ?ps) else ([], KVBase_new []))
      = (kv_items (pairs p), (base p)\<lparr>kv_type := []\<rparr>)"
  proof (cases "kv_text ?ps = []")
    case True
    then have "?ps = []" by (cases ?ps) (auto simp: join_kv_def)
    then show ?thesis
      using foldl_take_base [of "base p"] True by simp
  next
    case False
    then show ?thesis using resolve_printed_pairs [OF assms(1) base_law [OF assms(2)] prs] by simp
  qed
  obtain m where "fill B R (kv_items (pairs p)) = Inr (Some m)" and "msg_assign m (base p) = msg p"
    using fill_law [OF assms] by blast
  moreover have "msg_assign m ((base p)\<lparr>kv_type := []\<rparr>) = msg_assign m (base p)" for m
    by (cases m) (simp_all add: KVBase_assign_def)
  ultimately show ?thesis
    unfolding Resolve_def line [OF assms(2)] parse_line_print [OF op_law cl] Let_def prod.case kvs
    by (simp add: dispatch_law [OF assms(1)])
qed

end

end
