(* ===== verification/KV_Messages.thy ===== *)
theory KV_Messages
  imports KV_Codec
begin

text \<open>
  The message types of \<open>ProtoKV.h\<close> as instances of \<open>kv_codec\<close>. For each type: \<open><type>_pairs\<close>, the
  pairs its printer writes; \<open><type>_wf\<close>, the messages those pairs determine (texts without
  separators, numbers that survive printing, members that are not printed at the value the
  constructor gives them); the interpretation. Observation plans follow in \<open>KV_Plan_Codec\<close>.
\<close>

section \<open>Shared facts\<close>

definition opt_pair :: "string \<Rightarrow> string \<Rightarrow> (string \<times> string) list" where
  "opt_pair k v = (if v = [] then [] else [(k, v)])"

lemma kv_text_opt [simp]: "kv_text (opt_pair k v) = join_opt k v"
  by (simp add: opt_pair_def join_opt_def)

lemma set_opt_pair: "(a, b) \<in> set (opt_pair k v) \<longleftrightarrow> v \<noteq> [] \<and> a = k \<and> b = v"
  by (auto simp: opt_pair_def)

lemma kv_items_opt [simp]: "kv_items (opt_pair k v) = kv_items [(k, v)]"
  by (simp add: opt_pair_def)

lemma clean_show_int [simp]: "clean (show_int n)"
proof -
  have c: "\<forall>c \<in> set (show_int n). c \<noteq> CHR '','' \<and> c \<noteq> CHR ''='' \<and> c \<noteq> CHR 0x0A \<and> \<not> isspace c"
    using show_int_chars [of _ n] by (fastforce dest: isdigit_char_neq isdigit_not_space simp: isspace_def code_of_def)
  have "hd (show_int n) \<in> set (show_int n)" "last (show_int n) \<in> set (show_int n)" by simp_all
  with c show ?thesis unfolding clean_def by blast
qed

definition dbl_ok :: "double \<Rightarrow> bool" where
  "dbl_ok x \<longleftrightarrow> stod (show_double x) = Inr x \<and> clean (show_double x) \<and> show_double x \<noteq> []"

lemma dbl_okD: "dbl_ok x \<Longrightarrow> stod (show_double x) = Inr x" "dbl_ok x \<Longrightarrow> clean (show_double x)"
  "dbl_ok x \<Longrightarrow> show_double x \<noteq> []"
  by (simp_all add: dbl_ok_def)

lemma key_ok_eval: "key_ok k \<longleftrightarrow> k \<noteq> [] \<and> clean k \<and> map tolower k \<notin> {''utc'', ''gid'', ''uid'', ''cid''}"
  by (simp add: key_ok_def base_keys_def iequals_doc_def) 

lemma codec_keys:
  "key_ok ''ADC''"
  "key_ok ''azi''"
  "key_ok ''aziobj''"
  "key_ok ''bitDepth''"
  "key_ok ''bitPixel''"
  "key_ok ''camera''"
  "key_ok ''command''"
  "key_ok ''coolSet''"
  "key_ok ''coolget''"
  "key_ok ''coor_sys''"
  "key_ok ''coorsys''"
  "key_ok ''dec''"
  "key_ok ''dec2k''"
  "key_ok ''delay''"
  "key_ok ''ecoch''"
  "key_ok ''ele''"
  "key_ok ''eleobj''"
  "key_ok ''epoch''"
  "key_ok ''errcode''"
  "key_ok ''exptime''"
  "key_ok ''filename''"
  "key_ok ''filter''"
  "key_ok ''freedisk''"
  "key_ok ''frmcnt''"
  "key_ok ''frmno''"
  "key_ok ''gain''"
  "key_ok ''iADC''"
  "key_ok ''iGain''"
  "key_ok ''iReadPort''"
  "key_ok ''iReadRate''"
  "key_ok ''iVSRate''"
  "key_ok ''imgtype''"
  "key_ok ''left''"
  "key_ok ''loopcnt''"
  "key_ok ''loopno''"
  "key_ok ''lst''"
  "key_ok ''mjd''"
  "key_ok ''mount''"
  "key_ok ''name''"
  "key_ok ''objid''"
  "key_ok ''obstype''"
  "key_ok ''op''"
  "key_ok ''optype''"
  "key_ok ''percent''"
  "key_ok ''plan_beg''"
  "key_ok ''plan_end''"
  "key_ok ''plan_sn''"
  "key_ok ''pos''"
  "key_ok ''posTar''"
  "key_ok ''postar''"
  "key_ok ''priority''"
  "key_ok ''ra''"
  "key_ok ''ra2k''"
  "key_ok ''readPort''"
  "key_ok ''readRate''"
  "key_ok ''relpos''"
  "key_ok ''result''"
  "key_ok ''state''"
  "key_ok ''tle1''"
  "key_ok ''tle2''"
  "key_ok ''tm_start''"
  "key_ok ''tm_stop''"
  "key_ok ''tmimg''"
  "key_ok ''value''"
  "key_ok ''vsRate''"
  by (simp_all add: key_ok_eval clean_def isspace_def code_of_def)

lemmas codec_print = join_int_def join_dbl_def KVBase_ToString_def kvbase.defs

lemmas codec_fill = boost_laws iequals_doc_def num_int_def num_dbl_def catch_numeric_def stoi_show_int
  KVBase_assign_def dbl_okD KVBase_new_def device_def

section \<open>Messages\<close>

subsection \<open>KVCheckPlan\<close>

definition check_plan_pairs :: "kvcheckplan \<Rightarrow> (string \<times> string) list" where
  "check_plan_pairs p = opt_pair ''plan_sn'' (cp_plan_sn p)"

definition check_plan_wf :: "raw \<Rightarrow> kvcheckplan \<Rightarrow> bool" where
  "check_plan_wf R p \<longleftrightarrow> kv_type p = KVTYPE_CHKPLAN
     \<and> base_ok (kvbase.truncate p)
     \<and> clean (cp_plan_sn p)"

interpretation check_plan_codec: kv_codec KVCheckPlan_ToString kvbase.truncate check_plan_pairs check_plan_wf resolve_check_plan MCheckPlan KVTYPE_CHKPLAN
proof (unfold_locales, goal_cases)
  case 1 show ?case by (simp add: KVCheckPlan_ToString_def check_plan_pairs_def codec_print)
next
  case 2 show ?case by (simp add: op_name_def KVTYPE_CHKPLAN_def)
next
  case 3 then show ?case by (simp add: check_plan_wf_def kvbase.defs)
next
  case 4 then show ?case by (simp add: check_plan_wf_def)
next
  case (5 R p k v)
  then have "(k, v) \<in> set (check_plan_pairs p)" "check_plan_wf R p" by simp_all
  then show ?case
    by (auto simp: check_plan_wf_def check_plan_pairs_def set_opt_pair codec_keys dbl_okD split: if_splits)
next
  case 6 then show ?case by (simp add: dispatch_def kv_def codec_fill)
next
  case (7 B R p) then show ?case
    by (cases p) (auto simp: check_plan_wf_def check_plan_pairs_def resolve_check_plan_def resolve_check_plan_step_def KVCheckPlan_new_def
        codec_fill kv_record_defs Let_def)
qed

subsection \<open>KVRemovePlan\<close>

definition remove_plan_pairs :: "kvremoveplan \<Rightarrow> (string \<times> string) list" where
  "remove_plan_pairs p = opt_pair ''plan_sn'' (rp_plan_sn p)"

definition remove_plan_wf :: "raw \<Rightarrow> kvremoveplan \<Rightarrow> bool" where
  "remove_plan_wf R p \<longleftrightarrow> kv_type p = KVTYPE_RMVPLAN
     \<and> base_ok (kvbase.truncate p)
     \<and> clean (rp_plan_sn p)"

interpretation remove_plan_codec: kv_codec KVRemovePlan_ToString kvbase.truncate remove_plan_pairs remove_plan_wf resolve_remove_plan MRemovePlan KVTYPE_RMVPLAN
proof (unfold_locales, goal_cases)
  case 1 show ?case by (simp add: KVRemovePlan_ToString_def remove_plan_pairs_def codec_print)
next
  case 2 show ?case by (simp add: op_name_def KVTYPE_RMVPLAN_def)
next
  case 3 then show ?case by (simp add: remove_plan_wf_def kvbase.defs)
next
  case 4 then show ?case by (simp add: remove_plan_wf_def)
next
  case (5 R p k v)
  then have "(k, v) \<in> set (remove_plan_pairs p)" "remove_plan_wf R p" by simp_all
  then show ?case
    by (auto simp: remove_plan_wf_def remove_plan_pairs_def set_opt_pair codec_keys dbl_okD split: if_splits)
next
  case 6 then show ?case by (simp add: dispatch_def kv_def codec_fill)
next
  case (7 B R p) then show ?case
    by (cases p) (auto simp: remove_plan_wf_def remove_plan_pairs_def resolve_remove_plan_def resolve_remove_plan_step_def KVRemovePlan_new_def
        codec_fill kv_record_defs Let_def)
qed

subsection \<open>KVPlan\<close>

definition plan_pairs :: "kvplan \<Rightarrow> (string \<times> string) list" where
  "plan_pairs p = opt_pair ''plan_sn'' (pl_plan_sn p) @ opt_pair ''tm_start'' (pl_tm_start p) @ opt_pair ''tm_stop'' (pl_tm_stop p) @ [(''state'', show_int (pl_state p))]"

definition plan_wf :: "raw \<Rightarrow> kvplan \<Rightarrow> bool" where
  "plan_wf R p \<longleftrightarrow> kv_type p = KVTYPE_PLAN
     \<and> base_ok (kvbase.truncate p)
     \<and> clean (pl_plan_sn p)
     \<and> clean (pl_tm_start p)
     \<and> clean (pl_tm_stop p)
     \<and> in_s32 (pl_state p)"

interpretation plan_codec: kv_codec KVPlan_ToString kvbase.truncate plan_pairs plan_wf resolve_plan MPlan KVTYPE_PLAN
proof (unfold_locales, goal_cases)
  case 1 show ?case by (simp add: KVPlan_ToString_def plan_pairs_def codec_print)
next
  case 2 show ?case by (simp add: op_name_def KVTYPE_PLAN_def)
next
  case 3 then show ?case by (simp add: plan_wf_def kvbase.defs)
next
  case 4 then show ?case by (simp add: plan_wf_def)
next
  case (5 R p k v)
  then have "(k, v) \<in> set (plan_pairs p)" "plan_wf R p" by simp_all
  then show ?case
    by (auto simp: plan_wf_def plan_pairs_def set_opt_pair codec_keys dbl_okD split: if_splits)
next
  case 6 then show ?case by (simp add: dispatch_def kv_def codec_fill)
next
  case (7 B R p) then show ?case
    by (cases p) (auto simp: plan_wf_def plan_pairs_def resolve_plan_def resolve_plan_step_def KVPlan_new_def
        codec_fill kv_record_defs Let_def)
qed

subsection \<open>KVAbort\<close>

definition abort_pairs :: "kvbase \<Rightarrow> (string \<times> string) list" where
  "abort_pairs p = []"

definition abort_wf :: "raw \<Rightarrow> kvbase \<Rightarrow> bool" where
  "abort_wf R p \<longleftrightarrow> kv_type p = KVTYPE_ABORT
     \<and> base_ok p"

interpretation abort_codec: kv_codec KVAbort_ToString id abort_pairs abort_wf resolve_abort MAbort KVTYPE_ABORT
proof (unfold_locales, goal_cases)
  case 1 show ?case by (simp add: KVAbort_ToString_def abort_pairs_def codec_print)
next
  case 2 show ?case by (simp add: op_name_def KVTYPE_ABORT_def)
next
  case 3 then show ?case by (simp add: abort_wf_def kvbase.defs)
next
  case 4 then show ?case by (simp add: abort_wf_def)
next
  case (5 R p k v)
  then show ?case by (simp add: abort_pairs_def)
next
  case 6 then show ?case by (simp add: dispatch_def kv_def codec_fill)
next
  case (7 B R p) then show ?case
    by (cases p) (auto simp: abort_wf_def abort_pairs_def resolve_abort_def KVAbort_new_def
        codec_fill kv_record_defs Let_def)
qed

subsection \<open>KVPark\<close>

definition park_pairs :: "kvbase \<Rightarrow> (string \<times> string) list" where
  "park_pairs p = []"

definition park_wf :: "raw \<Rightarrow> kvbase \<Rightarrow> bool" where
  "park_wf R p \<longleftrightarrow> kv_type p = KVTYPE_PARK
     \<and> base_ok p"

interpretation park_codec: kv_codec KVPark_ToString id park_pairs park_wf resolve_park MPark KVTYPE_PARK
proof (unfold_locales, goal_cases)
  case 1 show ?case by (simp add: KVPark_ToString_def park_pairs_def codec_print)
next
  case 2 show ?case by (simp add: op_name_def KVTYPE_PARK_def)
next
  case 3 then show ?case by (simp add: park_wf_def kvbase.defs)
next
  case 4 then show ?case by (simp add: park_wf_def)
next
  case (5 R p k v)
  then show ?case by (simp add: park_pairs_def)
next
  case 6 then show ?case by (simp add: dispatch_def kv_def codec_fill)
next
  case (7 B R p) then show ?case
    by (cases p) (auto simp: park_wf_def park_pairs_def resolve_park_def KVPark_new_def
        codec_fill kv_record_defs Let_def)
qed

subsection \<open>KVHome\<close>

definition home_pairs :: "kvbase \<Rightarrow> (string \<times> string) list" where
  "home_pairs p = []"

definition home_wf :: "raw \<Rightarrow> kvbase \<Rightarrow> bool" where
  "home_wf R p \<longleftrightarrow> kv_type p = KVTYPE_HOME
     \<and> base_ok p"

interpretation home_codec: kv_codec KVHome_ToString id home_pairs home_wf resolve_home MHome KVTYPE_HOME
proof (unfold_locales, goal_cases)
  case 1 show ?case by (simp add: KVHome_ToString_def home_pairs_def codec_print)
next
  case 2 show ?case by (simp add: op_name_def KVTYPE_HOME_def)
next
  case 3 then show ?case by (simp add: home_wf_def kvbase.defs)
next
  case 4 then show ?case by (simp add: home_wf_def)
next
  case (5 R p k v)
  then show ?case by (simp add: home_pairs_def)
next
  case 6 then show ?case by (simp add: dispatch_def kv_def codec_fill)
next
  case (7 B R p) then show ?case
    by (cases p) (auto simp: home_wf_def home_pairs_def resolve_home_def KVHome_new_def
        codec_fill kv_record_defs Let_def)
qed

subsection \<open>KVTrack\<close>

definition track_pairs :: "kvbase \<Rightarrow> (string \<times> string) list" where
  "track_pairs p = []"

definition track_wf :: "raw \<Rightarrow> kvbase \<Rightarrow> bool" where
  "track_wf R p \<longleftrightarrow> kv_type p = KVTYPE_TRACK
     \<and> base_ok p"

interpretation track_codec: kv_codec KVTrack_ToString id track_pairs track_wf resolve_track MTrack KVTYPE_TRACK
proof (unfold_locales, goal_cases)
  case 1 show ?case by (simp add: KVTrack_ToString_def track_pairs_def codec_print)
next
  case 2 show ?case by (simp add: op_name_def KVTYPE_TRACK_def)
next
  case 3 then show ?case by (simp add: track_wf_def kvbase.defs)
next
  case 4 then show ?case by (simp add: track_wf_def)
next
  case (5 R p k v)
  then show ?case by (simp add: track_pairs_def)
next
  case 6 then show ?case by (simp add: dispatch_def kv_def codec_fill)
next
  case (7 B R p) then show ?case
    by (cases p) (auto simp: track_wf_def track_pairs_def resolve_track_def KVTrack_new_def
        codec_fill kv_record_defs Let_def)
qed

subsection \<open>KVFocusSync\<close>

definition focus_sync_pairs :: "kvbase \<Rightarrow> (string \<times> string) list" where
  "focus_sync_pairs p = []"

definition focus_sync_wf :: "raw \<Rightarrow> kvbase \<Rightarrow> bool" where
  "focus_sync_wf R p \<longleftrightarrow> kv_type p = KVTYPE_FOCUS_SYNC
     \<and> base_ok p"

interpretation focus_sync_codec: kv_codec KVFocusSync_ToString id focus_sync_pairs focus_sync_wf resolve_focus_sync MFocusSync KVTYPE_FOCUS_SYNC
proof (unfold_locales, goal_cases)
  case 1 show ?case by (simp add: KVFocusSync_ToString_def focus_sync_pairs_def codec_print)
next
  case 2 show ?case by (simp add: op_name_def KVTYPE_FOCUS_SYNC_def)
next
  case 3 then show ?case by (simp add: focus_sync_wf_def kvbase.defs)
next
  case 4 then show ?case by (simp add: focus_sync_wf_def)
next
  case (5 R p k v)
  then show ?case by (simp add: focus_sync_pairs_def)
next
  case 6 then show ?case by (simp add: dispatch_def kv_def codec_fill)
next
  case (7 B R p) then show ?case
    by (cases p) (auto simp: focus_sync_wf_def focus_sync_pairs_def resolve_focus_sync_def KVFocusSync_new_def
        codec_fill kv_record_defs Let_def)
qed

subsection \<open>KVOBSS\<close>

definition obss_pairs :: "kvobss \<Rightarrow> (string \<times> string) list" where
  "obss_pairs p = [(''state'', show_int (os_state p))] @ [(''mount'', show_int (os_mount p))] @ [(''camera'', show_int (os_camera p))]"

definition obss_wf :: "raw \<Rightarrow> kvobss \<Rightarrow> bool" where
  "obss_wf R p \<longleftrightarrow> kv_type p = KVTYPE_OBSS
     \<and> base_ok (kvbase.truncate p)
     \<and> in_s32 (os_state p)
     \<and> in_s32 (os_mount p)
     \<and> in_s32 (os_camera p)"

interpretation obss_codec: kv_codec KVOBSS_ToString kvbase.truncate obss_pairs obss_wf resolve_obss MOBSS KVTYPE_OBSS
proof (unfold_locales, goal_cases)
  case 1 show ?case by (simp add: KVOBSS_ToString_def obss_pairs_def codec_print)
next
  case 2 show ?case by (simp add: op_name_def KVTYPE_OBSS_def)
next
  case 3 then show ?case by (simp add: obss_wf_def kvbase.defs)
next
  case 4 then show ?case by (simp add: obss_wf_def)
next
  case (5 R p k v)
  then have "(k, v) \<in> set (obss_pairs p)" "obss_wf R p" by simp_all
  then show ?case
    by (auto simp: obss_wf_def obss_pairs_def set_opt_pair codec_keys dbl_okD split: if_splits)
next
  case 6 then show ?case by (simp add: dispatch_def kv_def codec_fill)
next
  case (7 B R p) then show ?case
    by (cases p) (auto simp: obss_wf_def obss_pairs_def resolve_obss_def resolve_obss_step_def KVOBSS_new_def
        codec_fill kv_record_defs Let_def)
qed

subsection \<open>KVSlewto\<close>

definition slewto_pairs :: "kvslewto \<Rightarrow> (string \<times> string) list" where
  "slewto_pairs p = [(''coorsys'', show_int (sl_coorsys p))]
     @ (if sl_coorsys p = COORSYS_EQUA then [(''ra'', show_double (sl_ra p))] @ [(''dec'', show_double (sl_dec p))] @ [(''epoch'', show_double (sl_epoch p))]
        else if sl_coorsys p = COORSYS_ALTAZ then [(''azi'', show_double (sl_azi p))] @ [(''ele'', show_double (sl_ele p))]
        else [(''tle1'', sl_tle1 p)] @ [(''tle2'', sl_tle2 p)])"

definition slewto_wf :: "raw \<Rightarrow> kvslewto \<Rightarrow> bool" where
  "slewto_wf R p \<longleftrightarrow> kv_type p = KVTYPE_SLEWTO
     \<and> base_ok (kvbase.truncate p)
     \<and> dbl_ok (sl_ra p)
     \<and> dbl_ok (sl_dec p)
     \<and> dbl_ok (sl_epoch p)
     \<and> sl_coorsys p = COORSYS_EQUA
     \<and> sl_epoch p = double_of_int 2000
     \<and> sl_azi p = rawd R ''azi''
     \<and> sl_ele p = rawd R ''ele''
     \<and> sl_tle1 p = []
     \<and> sl_tle2 p = []"

interpretation slewto_codec: kv_codec KVSlewto_ToString kvbase.truncate slewto_pairs slewto_wf resolve_slewto MSlewto KVTYPE_SLEWTO
proof (unfold_locales, goal_cases)
  case 1 show ?case by (simp add: KVSlewto_ToString_def slewto_pairs_def codec_print)
next
  case 2 show ?case by (simp add: op_name_def KVTYPE_SLEWTO_def)
next
  case 3 then show ?case by (simp add: slewto_wf_def kvbase.defs)
next
  case 4 then show ?case by (simp add: slewto_wf_def)
next
  case (5 R p k v)
  then have "(k, v) \<in> set (slewto_pairs p)" "slewto_wf R p" by simp_all
  then show ?case
    by (auto simp: slewto_wf_def slewto_pairs_def set_opt_pair codec_keys dbl_okD split: if_splits)
next
  case 6 then show ?case by (simp add: dispatch_def kv_def codec_fill)
next
  case (7 B R p) then show ?case
    by (cases p) (auto simp: slewto_wf_def slewto_pairs_def resolve_slewto_def resolve_slewto_step_def KVSlewto_new_def
        codec_fill kv_record_defs Let_def)
qed

subsection \<open>KVGuide\<close>

definition guide_pairs :: "kvguide \<Rightarrow> (string \<times> string) list" where
  "guide_pairs p = [(''result'', show_int (gd_result p))] @ [(''op'', show_int (gd_op p))]
     @ (if 0 < \<bar>gd_ra p\<bar> \<or> 0 < \<bar>gd_dec p\<bar> then [(''ra'', show_int (gd_ra p))] @ [(''dec'', show_int (gd_dec p))] else [])"

definition guide_wf :: "raw \<Rightarrow> kvguide \<Rightarrow> bool" where
  "guide_wf R p \<longleftrightarrow> kv_type p = KVTYPE_GUIDE
     \<and> base_ok (kvbase.truncate p)
     \<and> in_s32 (gd_result p)
     \<and> in_s32 (gd_op p)
     \<and> in_s32 (gd_ra p)
     \<and> in_s32 (gd_dec p)"

interpretation guide_codec: kv_codec KVGuide_ToString kvbase.truncate guide_pairs guide_wf resolve_guide MGuide KVTYPE_GUIDE
proof (unfold_locales, goal_cases)
  case 1 show ?case by (simp add: KVGuide_ToString_def guide_pairs_def codec_print)
next
  case 2 show ?case by (simp add: op_name_def KVTYPE_GUIDE_def)
next
  case 3 then show ?case by (simp add: guide_wf_def kvbase.defs)
next
  case 4 then show ?case by (simp add: guide_wf_def)
next
  case (5 R p k v)
  then have "(k, v) \<in> set (guide_pairs p)" "guide_wf R p" by simp_all
  then show ?case
    by (auto simp: guide_wf_def guide_pairs_def set_opt_pair codec_keys dbl_okD split: if_splits)
next
  case 6 then show ?case by (simp add: dispatch_def kv_def codec_fill)
next
  case (7 B R p) then show ?case
    by (cases p) (auto simp: guide_wf_def guide_pairs_def resolve_guide_def resolve_guide_step_def KVGuide_new_def
        codec_fill kv_record_defs Let_def)
qed

subsection \<open>KVSync\<close>

definition sync_pairs :: "kvsync \<Rightarrow> (string \<times> string) list" where
  "sync_pairs p = [(''ra'', show_double (sy_ra p))] @ [(''dec'', show_double (sy_dec p))] @ [(''epoch'', show_double (sy_epoch p))]"

definition sync_wf :: "raw \<Rightarrow> kvsync \<Rightarrow> bool" where
  "sync_wf R p \<longleftrightarrow> kv_type p = KVTYPE_SYNC
     \<and> base_ok (kvbase.truncate p)
     \<and> dbl_ok (sy_ra p)
     \<and> dbl_ok (sy_dec p)
     \<and> dbl_ok (sy_epoch p)
     \<and> sy_epoch p = double_of_int 2000"

interpretation sync_codec: kv_codec KVSync_ToString kvbase.truncate sync_pairs sync_wf resolve_sync MSync KVTYPE_SYNC
proof (unfold_locales, goal_cases)
  case 1 show ?case by (simp add: KVSync_ToString_def sync_pairs_def codec_print)
next
  case 2 show ?case by (simp add: op_name_def KVTYPE_SYNC_def)
next
  case 3 then show ?case by (simp add: sync_wf_def kvbase.defs)
next
  case 4 then show ?case by (simp add: sync_wf_def)
next
  case (5 R p k v)
  then have "(k, v) \<in> set (sync_pairs p)" "sync_wf R p" by simp_all
  then show ?case
    by (auto simp: sync_wf_def sync_pairs_def set_opt_pair codec_keys dbl_okD split: if_splits)
next
  case 6 then show ?case by (simp add: dispatch_def kv_def codec_fill)
next
  case (7 B R p) then show ?case
    by (cases p) (auto simp: sync_wf_def sync_pairs_def resolve_sync_def resolve_sync_step_def KVSync_new_def
        codec_fill kv_record_defs Let_def)
qed

subsection \<open>KVTrackVel\<close>

definition trackvel_pairs :: "kvtrackvel \<Rightarrow> (string \<times> string) list" where
  "trackvel_pairs p = [(''ra'', show_double (tv_ra p))] @ [(''dec'', show_double (tv_dec p))]"

definition trackvel_wf :: "raw \<Rightarrow> kvtrackvel \<Rightarrow> bool" where
  "trackvel_wf R p \<longleftrightarrow> kv_type p = KVTYPE_TRACKVEL
     \<and> base_ok (kvbase.truncate p)
     \<and> dbl_ok (tv_ra p)
     \<and> dbl_ok (tv_dec p)"

interpretation trackvel_codec: kv_codec KVTrackVel_ToString kvbase.truncate trackvel_pairs trackvel_wf resolve_trackvel MTrackVel KVTYPE_TRACKVEL
proof (unfold_locales, goal_cases)
  case 1 show ?case by (simp add: KVTrackVel_ToString_def trackvel_pairs_def codec_print)
next
  case 2 show ?case by (simp add: op_name_def KVTYPE_TRACKVEL_def)
next
  case 3 then show ?case by (simp add: trackvel_wf_def kvbase.defs)
next
  case 4 then show ?case by (simp add: trackvel_wf_def)
next
  case (5 R p k v)
  then have "(k, v) \<in> set (trackvel_pairs p)" "trackvel_wf R p" by simp_all
  then show ?case
    by (auto simp: trackvel_wf_def trackvel_pairs_def set_opt_pair codec_keys dbl_okD split: if_splits)
next
  case 6 then show ?case by (simp add: dispatch_def kv_def codec_fill)
next
  case (7 B R p) then show ?case
    by (cases p) (auto simp: trackvel_wf_def trackvel_pairs_def resolve_trackvel_def resolve_trackvel_step_def KVTrackVel_new_def
        codec_fill kv_record_defs Let_def)
qed

subsection \<open>KVMount\<close>

definition mount_pairs :: "kvmount \<Rightarrow> (string \<times> string) list" where
  "mount_pairs p = [(''state'', show_int (mt_state p))] @ [(''errcode'', show_int (mt_errcode p))] @ [(''mjd'', show_double (mt_mjd p))] @ [(''lst'', show_double (mt_lst p))] @ [(''ra'', show_double (mt_ra p))] @ [(''dec'', show_double (mt_dec p))] @ [(''ra2k'', show_double (mt_ra2k p))] @ [(''dec2k'', show_double (mt_dec2k p))] @ [(''azi'', show_double (mt_azi p))] @ [(''ele'', show_double (mt_ele p))]"

definition mount_wf :: "raw \<Rightarrow> kvmount \<Rightarrow> bool" where
  "mount_wf R p \<longleftrightarrow> kv_type p = KVTYPE_MOUNT
     \<and> base_ok (kvbase.truncate p)
     \<and> in_s32 (mt_state p)
     \<and> in_s32 (mt_errcode p)
     \<and> dbl_ok (mt_mjd p)
     \<and> dbl_ok (mt_lst p)
     \<and> dbl_ok (mt_ra p)
     \<and> dbl_ok (mt_dec p)
     \<and> dbl_ok (mt_ra2k p)
     \<and> dbl_ok (mt_dec2k p)
     \<and> dbl_ok (mt_azi p)
     \<and> dbl_ok (mt_ele p)
     \<and> mt_objra p = double_of_int 1000
     \<and> mt_objdec p = double_of_int 1000"

interpretation mount_codec: kv_codec KVMount_ToString kvbase.truncate mount_pairs mount_wf resolve_mount MMount KVTYPE_MOUNT
proof (unfold_locales, goal_cases)
  case 1 show ?case by (simp add: KVMount_ToString_def mount_pairs_def codec_print)
next
  case 2 show ?case by (simp add: op_name_def KVTYPE_MOUNT_def)
next
  case 3 then show ?case by (simp add: mount_wf_def kvbase.defs)
next
  case 4 then show ?case by (simp add: mount_wf_def)
next
  case (5 R p k v)
  then have "(k, v) \<in> set (mount_pairs p)" "mount_wf R p" by simp_all
  then show ?case
    by (auto simp: mount_wf_def mount_pairs_def set_opt_pair codec_keys dbl_okD split: if_splits)
next
  case 6 then show ?case by (simp add: dispatch_def kv_def codec_fill)
next
  case (7 B R p) then show ?case
    by (cases p) (auto simp: mount_wf_def mount_pairs_def resolve_mount_def resolve_mount_step_def KVMount_new_def
        codec_fill kv_record_defs Let_def)
qed

subsection \<open>KVExpose\<close>

definition expose_pairs :: "kvexpose \<Rightarrow> (string \<times> string) list" where
  "expose_pairs p = [(''command'', show_int (ex_command p))] @ [(''frmno'', show_int (ex_frmno p))] @ [(''loopno'', show_int (ex_loopno p))]"

definition expose_wf :: "raw \<Rightarrow> kvexpose \<Rightarrow> bool" where
  "expose_wf R p \<longleftrightarrow> kv_type p = KVTYPE_EXPOSE
     \<and> base_ok (kvbase.truncate p)
     \<and> in_s32 (ex_command p)
     \<and> in_s32 (ex_frmno p)
     \<and> in_s32 (ex_loopno p)"

interpretation expose_codec: kv_codec KVExpose_ToString kvbase.truncate expose_pairs expose_wf resolve_expose MExpose KVTYPE_EXPOSE
proof (unfold_locales, goal_cases)
  case 1 show ?case by (simp add: KVExpose_ToString_def expose_pairs_def codec_print)
next
  case 2 show ?case by (simp add: op_name_def KVTYPE_EXPOSE_def)
next
  case 3 then show ?case by (simp add: expose_wf_def kvbase.defs)
next
  case 4 then show ?case by (simp add: expose_wf_def)
next
  case (5 R p k v)
  then have "(k, v) \<in> set (expose_pairs p)" "expose_wf R p" by simp_all
  then show ?case
    by (auto simp: expose_wf_def expose_pairs_def set_opt_pair codec_keys dbl_okD split: if_splits)
next
  case 6 then show ?case by (simp add: dispatch_def kv_def codec_fill)
next
  case (7 B R p) then show ?case
    by (cases p) (auto simp: expose_wf_def expose_pairs_def resolve_expose_def resolve_expose_step_def KVExpose_new_def
        codec_fill kv_record_defs Let_def)
qed

subsection \<open>KVCamSet\<close>

definition camset_pairs :: "kvcamset \<Rightarrow> (string \<times> string) list" where
  "camset_pairs p = [(''optype'', show_int (cs_opType p))]
     @ (if cs_opType p \<noteq> 0 then
         (if cs_opType p = 2 then [(''bitDepth'', show_int (cs_bitDepth p))] @ [(''iADC'', show_int (cs_iADC p))] @ [(''iReadPort'', show_int (cs_iReadPort p))] @ [(''iReadRate'', show_int (cs_iReadRate p))] @ [(''iVSRate'', show_int (cs_iVSRate p))] @ [(''iGain'', show_int (cs_iGain p))] @ [(''coolSet'', show_int (cs_coolSet p))] else [])
         @ [(''bitPixel'', show_int (cs_bitPixel p))] @ [(''ADC'', cs_ADC p)] @ [(''readPort'', cs_readPort p)] @ [(''readRate'', cs_readRate p)] @ [(''vsRate'', show_double (cs_vsRate p))] @ [(''gain'', show_double (cs_gain p))]
        else [])"

definition camset_wf :: "raw \<Rightarrow> kvcamset \<Rightarrow> bool" where
  "camset_wf R p \<longleftrightarrow> kv_type p = KVTYPE_CAMSET
     \<and> base_ok (kvbase.truncate p)
     \<and> in_s32 (cs_opType p)
     \<and> (if cs_opType p = 2 then in_s32 (cs_bitDepth p) \<and> in_s32 (cs_iADC p) \<and> in_s32 (cs_iReadPort p) \<and> in_s32 (cs_iReadRate p) \<and> in_s32 (cs_iVSRate p) \<and> in_s32 (cs_iGain p) \<and> in_s32 (cs_coolSet p)
        else cs_bitDepth p = rawi R ''bitDepth'' \<and> cs_iADC p = rawi R ''iADC'' \<and> cs_iReadPort p = rawi R ''iReadPort'' \<and> cs_iReadRate p = rawi R ''iReadRate'' \<and> cs_iVSRate p = rawi R ''iVSRate'' \<and> cs_iGain p = rawi R ''iGain'' \<and> cs_coolSet p = rawi R ''coolSet'')
     \<and> (if cs_opType p \<noteq> 0 then in_s32 (cs_bitPixel p) \<and> clean (cs_ADC p) \<and> clean (cs_readPort p) \<and> clean (cs_readRate p) \<and> dbl_ok (cs_vsRate p) \<and> dbl_ok (cs_gain p)
        else cs_bitPixel p = rawi R ''bitPixel'' \<and> cs_ADC p = [] \<and> cs_readPort p = [] \<and> cs_readRate p = [] \<and> cs_vsRate p = rawd R ''vsRate'' \<and> cs_gain p = rawd R ''gain'')"

interpretation camset_codec: kv_codec KVCamSet_ToString kvbase.truncate camset_pairs camset_wf resolve_camset MCamSet KVTYPE_CAMSET
proof (unfold_locales, goal_cases)
  case 1 show ?case by (simp add: KVCamSet_ToString_def camset_pairs_def codec_print)
next
  case 2 show ?case by (simp add: op_name_def KVTYPE_CAMSET_def)
next
  case 3 then show ?case by (simp add: camset_wf_def kvbase.defs)
next
  case 4 then show ?case by (simp add: camset_wf_def)
next
  case (5 R p k v)
  then have "(k, v) \<in> set (camset_pairs p)" "camset_wf R p" by simp_all
  then show ?case
    by (auto simp: camset_wf_def camset_pairs_def set_opt_pair codec_keys dbl_okD split: if_splits)
next
  case 6 then show ?case by (simp add: dispatch_def kv_def codec_fill)
next
  case (7 B R p) then show ?case
    by (cases p) (auto simp: camset_wf_def camset_pairs_def resolve_camset_def resolve_camset_step_def KVCamSet_new_def
        codec_fill kv_record_defs Let_def)
qed

subsection \<open>KVCamera\<close>

definition camera_pairs :: "kvcamera \<Rightarrow> (string \<times> string) list" where
  "camera_pairs p = [(''state'', show_int (cm_state p))] @ [(''errcode'', show_int (cm_errcode p))] @ [(''left'', show_double (cm_left p))] @ [(''percent'', show_double (cm_percent p))] @ [(''coolget'', show_int (cm_coolget p))] @ [(''imgtype'', cm_imgtype p)] @ [(''filter'', cm_filter p)] @ [(''freedisk'', show_int (cm_freedisk p))] @ [(''plan_sn'', cm_plan_sn p)] @ [(''loopno'', show_int (cm_loopno p))] @ [(''frmno'', show_int (cm_frmno p))] @ [(''filename'', cm_fileName p)]"

definition camera_wf :: "raw \<Rightarrow> kvcamera \<Rightarrow> bool" where
  "camera_wf R p \<longleftrightarrow> kv_type p = KVTYPE_CAMERA
     \<and> base_ok (kvbase.truncate p)
     \<and> in_s32 (cm_state p)
     \<and> in_s32 (cm_errcode p)
     \<and> dbl_ok (cm_left p)
     \<and> dbl_ok (cm_percent p)
     \<and> in_s32 (cm_coolget p)
     \<and> clean (cm_imgtype p)
     \<and> clean (cm_filter p)
     \<and> in_s32 (cm_freedisk p)
     \<and> clean (cm_plan_sn p)
     \<and> in_s32 (cm_loopno p)
     \<and> in_s32 (cm_frmno p)
     \<and> clean (cm_fileName p)"

interpretation camera_codec: kv_codec KVCamera_ToString kvbase.truncate camera_pairs camera_wf resolve_camera MCamera KVTYPE_CAMERA
proof (unfold_locales, goal_cases)
  case 1 show ?case by (simp add: KVCamera_ToString_def camera_pairs_def codec_print)
next
  case 2 show ?case by (simp add: op_name_def KVTYPE_CAMERA_def)
next
  case 3 then show ?case by (simp add: camera_wf_def kvbase.defs)
next
  case 4 then show ?case by (simp add: camera_wf_def)
next
  case (5 R p k v)
  then have "(k, v) \<in> set (camera_pairs p)" "camera_wf R p" by simp_all
  then show ?case
    by (auto simp: camera_wf_def camera_pairs_def set_opt_pair codec_keys dbl_okD split: if_splits)
next
  case 6 then show ?case by (simp add: dispatch_def kv_def codec_fill)
next
  case (7 B R p) then show ?case
    by (cases p) (auto simp: camera_wf_def camera_pairs_def resolve_camera_def resolve_camera_step_def KVCamera_new_def
        codec_fill kv_record_defs Let_def)
qed

subsection \<open>KVFocus\<close>

definition focus_pairs :: "kvfocus \<Rightarrow> (string \<times> string) list" where
  "focus_pairs p = [(''optype'', show_int (fc_opType p))]
     @ (if fc_opType p = 0 then [(''state'', show_int (fc_state p))] @ [(''pos'', show_int (fc_pos p))] @ [(''posTar'', show_int (fc_posTar p))]
        else if fc_opType p = 1 then [(''relpos'', show_int (fc_relPos p))] else [])"

definition focus_wf :: "raw \<Rightarrow> kvfocus \<Rightarrow> bool" where
  "focus_wf R p \<longleftrightarrow> kv_type p = KVTYPE_FOCUS
     \<and> base_ok (kvbase.truncate p)
     \<and> in_s32 (fc_opType p)
     \<and> (if fc_opType p = 0 then in_s32 (fc_state p) \<and> in_s32 (fc_pos p) \<and> in_s32 (fc_posTar p) \<and> fc_relPos p = 0
        else if fc_opType p = 1 then in_s32 (fc_relPos p) \<and> fc_state p = 0 \<and> fc_pos p = 999999 \<and> fc_posTar p = 999999
        else fc_relPos p = 0 \<and> fc_state p = 0 \<and> fc_pos p = 999999 \<and> fc_posTar p = 999999)"

interpretation focus_codec: kv_codec KVFocus_ToString kvbase.truncate focus_pairs focus_wf resolve_focus MFocus KVTYPE_FOCUS
proof (unfold_locales, goal_cases)
  case 1 show ?case by (simp add: KVFocus_ToString_def focus_pairs_def codec_print)
next
  case 2 show ?case by (simp add: op_name_def KVTYPE_FOCUS_def)
next
  case 3 then show ?case by (simp add: focus_wf_def kvbase.defs)
next
  case 4 then show ?case by (simp add: focus_wf_def)
next
  case (5 R p k v)
  then have "(k, v) \<in> set (focus_pairs p)" "focus_wf R p" by simp_all
  then show ?case
    by (auto simp: focus_wf_def focus_pairs_def set_opt_pair codec_keys dbl_okD split: if_splits)
next
  case 6 then show ?case by (simp add: dispatch_def kv_def codec_fill)
next
  case (7 B R p) then show ?case
    by (cases p) (auto simp: focus_wf_def focus_pairs_def resolve_focus_def resolve_focus_step_def KVFocus_new_def
        codec_fill kv_record_defs Let_def)
qed

subsection \<open>KVFWHM\<close>

definition fwhm_pairs :: "kvfwhm \<Rightarrow> (string \<times> string) list" where
  "fwhm_pairs p = [(''value'', show_double (fw_value p))] @ [(''tmimg'', fw_tmimg p)]"

definition fwhm_wf :: "raw \<Rightarrow> kvfwhm \<Rightarrow> bool" where
  "fwhm_wf R p \<longleftrightarrow> kv_type p = KVTYPE_FWHM
     \<and> base_ok (kvbase.truncate p)
     \<and> dbl_ok (fw_value p)
     \<and> clean (fw_tmimg p)"

interpretation fwhm_codec: kv_codec KVFWHM_ToString kvbase.truncate fwhm_pairs fwhm_wf resolve_fwhm MFWHM KVTYPE_FWHM
proof (unfold_locales, goal_cases)
  case 1 show ?case by (simp add: KVFWHM_ToString_def fwhm_pairs_def codec_print)
next
  case 2 show ?case by (simp add: op_name_def KVTYPE_FWHM_def)
next
  case 3 then show ?case by (simp add: fwhm_wf_def kvbase.defs)
next
  case 4 then show ?case by (simp add: fwhm_wf_def)
next
  case (5 R p k v)
  then have "(k, v) \<in> set (fwhm_pairs p)" "fwhm_wf R p" by simp_all
  then show ?case
    by (auto simp: fwhm_wf_def fwhm_pairs_def set_opt_pair codec_keys dbl_okD split: if_splits)
next
  case 6 then show ?case by (simp add: dispatch_def kv_def codec_fill)
next
  case (7 B R p) then show ?case
    by (cases p) (auto simp: fwhm_wf_def fwhm_pairs_def resolve_fwhm_def resolve_fwhm_step_def KVFWHM_new_def
        codec_fill kv_record_defs Let_def)
qed

subsection \<open>KVDerot\<close>

definition derot_pairs :: "kvderot \<Rightarrow> (string \<times> string) list" where
  "derot_pairs p = [(''optype'', show_int (dr_opType p))]
     @ (if dr_opType p = 0 then [(''state'', show_int (dr_state p))] @ [(''pos'', show_double (dr_pos p))]
        else if dr_opType p = 1 then [(''command'', show_int (dr_command p))] @ [(''postar'', show_double (dr_posTar p))] else [])"

definition derot_wf :: "raw \<Rightarrow> kvderot \<Rightarrow> bool" where
  "derot_wf R p \<longleftrightarrow> kv_type p = KVTYPE_DEROT
     \<and> base_ok (kvbase.truncate p)
     \<and> in_s32 (dr_opType p)
     \<and> (if dr_opType p = 0 then in_s32 (dr_state p) \<and> dbl_ok (dr_pos p) \<and> dr_command p = - 1 \<and> dr_posTar p = rawd R ''posTar''
        else if dr_opType p = 1 then in_s32 (dr_command p) \<and> dbl_ok (dr_posTar p) \<and> dr_state p = rawi R ''state'' \<and> dr_pos p = rawd R ''pos''
        else dr_command p = - 1 \<and> dr_posTar p = rawd R ''posTar'' \<and> dr_state p = rawi R ''state'' \<and> dr_pos p = rawd R ''pos'')"

interpretation derot_codec: kv_codec KVDerot_ToString kvbase.truncate derot_pairs derot_wf resolve_derot MDerot KVTYPE_DEROT
proof (unfold_locales, goal_cases)
  case 1 show ?case by (simp add: KVDerot_ToString_def derot_pairs_def codec_print)
next
  case 2 show ?case by (simp add: op_name_def KVTYPE_DEROT_def)
next
  case 3 then show ?case by (simp add: derot_wf_def kvbase.defs)
next
  case 4 then show ?case by (simp add: derot_wf_def)
next
  case (5 R p k v)
  then have "(k, v) \<in> set (derot_pairs p)" "derot_wf R p" by simp_all
  then show ?case
    by (auto simp: derot_wf_def derot_pairs_def set_opt_pair codec_keys dbl_okD split: if_splits)
next
  case 6 then show ?case by (simp add: dispatch_def kv_def codec_fill)
next
  case (7 B R p) then show ?case
    by (cases p) (auto simp: derot_wf_def derot_pairs_def resolve_derot_def resolve_derot_step_def KVDerot_new_def
        codec_fill kv_record_defs Let_def)
qed

subsection \<open>KVDome\<close>

definition dome_pairs :: "kvdome \<Rightarrow> (string \<times> string) list" where
  "dome_pairs p = [(''optype'', show_int (dm_opType p))]
     @ (if dm_opType p = 0 then [(''state'', show_int (dm_state p))] @ [(''azi'', show_double (dm_azi p))] @ [(''ele'', show_double (dm_ele p))]
        else if dm_opType p = 1 then [(''command'', show_int (dm_command p))] else [])
     @ [(''aziobj'', show_double (dm_aziObj p))] @ [(''eleobj'', show_double (dm_eleObj p))]"

definition dome_wf :: "raw \<Rightarrow> kvdome \<Rightarrow> bool" where
  "dome_wf R p \<longleftrightarrow> kv_type p = KVTYPE_DOME
     \<and> base_ok (kvbase.truncate p)
     \<and> in_s32 (dm_opType p)
     \<and> (if dm_opType p = 0 then in_s32 (dm_state p) \<and> dbl_ok (dm_azi p) \<and> dbl_ok (dm_ele p) \<and> dm_command p = - 1
        else if dm_opType p = 1 then in_s32 (dm_command p) \<and> dm_state p = rawi R ''state'' \<and> dm_azi p = rawd R ''azi'' \<and> dm_ele p = rawd R ''ele''
        else dm_command p = - 1 \<and> dm_state p = rawi R ''state'' \<and> dm_azi p = rawd R ''azi'' \<and> dm_ele p = rawd R ''ele'')
     \<and> dbl_ok (dm_aziObj p)
     \<and> dbl_ok (dm_eleObj p)"

interpretation dome_codec: kv_codec KVDome_ToString kvbase.truncate dome_pairs dome_wf resolve_dome MDome KVTYPE_DOME
proof (unfold_locales, goal_cases)
  case 1 show ?case by (simp add: KVDome_ToString_def dome_pairs_def codec_print)
next
  case 2 show ?case by (simp add: op_name_def KVTYPE_DOME_def)
next
  case 3 then show ?case by (simp add: dome_wf_def kvbase.defs)
next
  case 4 then show ?case by (simp add: dome_wf_def)
next
  case (5 R p k v)
  then have "(k, v) \<in> set (dome_pairs p)" "dome_wf R p" by simp_all
  then show ?case
    by (auto simp: dome_wf_def dome_pairs_def set_opt_pair codec_keys dbl_okD split: if_splits)
next
  case 6 then show ?case by (simp add: dispatch_def kv_def codec_fill)
next
  case (7 B R p) then show ?case
    by (cases p) (auto simp: dome_wf_def dome_pairs_def resolve_dome_def resolve_dome_step_def KVDome_new_def
        codec_fill kv_record_defs Let_def)
qed

subsection \<open>KVMirrCover\<close>

definition mcover_pairs :: "kvmirrcover \<Rightarrow> (string \<times> string) list" where
  "mcover_pairs p = [(''optype'', show_int (mc_opType p))]
     @ (if mc_opType p = 0 then [(''state'', show_int (mc_state p))]
        else if mc_opType p = 1 then [(''command'', show_int (mc_command p))] else [])"

definition mcover_wf :: "raw \<Rightarrow> kvmirrcover \<Rightarrow> bool" where
  "mcover_wf R p \<longleftrightarrow> kv_type p = KVTYPE_MCOVER
     \<and> base_ok (kvbase.truncate p)
     \<and> in_s32 (mc_opType p)
     \<and> (if mc_opType p = 0 then in_s32 (mc_state p) \<and> mc_command p = - 1
        else if mc_opType p = 1 then in_s32 (mc_command p) \<and> mc_state p = rawi R ''state''
        else mc_command p = - 1 \<and> mc_state p = rawi R ''state'')"

interpretation mcover_codec: kv_codec KVMirrCover_ToString kvbase.truncate mcover_pairs mcover_wf resolve_mcover MMirrCover KVTYPE_MCOVER
proof (unfold_locales, goal_cases)
  case 1 show ?case by (simp add: KVMirrCover_ToString_def mcover_pairs_def codec_print)
next
  case 2 show ?case by (simp add: op_name_def KVTYPE_MCOVER_def)
next
  case 3 then show ?case by (simp add: mcover_wf_def kvbase.defs)
next
  case 4 then show ?case by (simp add: mcover_wf_def)
next
  case (5 R p k v)
  then have "(k, v) \<in> set (mcover_pairs p)" "mcover_wf R p" by simp_all
  then show ?case
    by (auto simp: mcover_wf_def mcover_pairs_def set_opt_pair codec_keys dbl_okD split: if_splits)
next
  case 6 then show ?case by (simp add: dispatch_def kv_def codec_fill)
next
  case (7 B R p) then show ?case
    by (cases p) (auto simp: mcover_wf_def mcover_pairs_def resolve_mcover_def resolve_mcover_step_def KVMirrCover_new_def
        codec_fill kv_record_defs Let_def)
qed

subsection \<open>KVFilter\<close>

definition filter_pairs :: "kvfilter \<Rightarrow> (string \<times> string) list" where
  "filter_pairs p = [(''optype'', show_int (fl_opType p))] @ [(''name'', fl_name p)]"

definition filter_wf :: "raw \<Rightarrow> kvfilter \<Rightarrow> bool" where
  "filter_wf R p \<longleftrightarrow> kv_type p = KVTYPE_FILTER
     \<and> base_ok (kvbase.truncate p)
     \<and> in_s32 (fl_opType p)
     \<and> clean (fl_name p)"

interpretation filter_codec: kv_codec KVFilter_ToString kvbase.truncate filter_pairs filter_wf resolve_filter MFilter KVTYPE_FILTER
proof (unfold_locales, goal_cases)
  case 1 show ?case by (simp add: KVFilter_ToString_def filter_pairs_def codec_print)
next
  case 2 show ?case by (simp add: op_name_def KVTYPE_FILTER_def)
next
  case 3 then show ?case by (simp add: filter_wf_def kvbase.defs)
next
  case 4 then show ?case by (simp add: filter_wf_def)
next
  case (5 R p k v)
  then have "(k, v) \<in> set (filter_pairs p)" "filter_wf R p" by simp_all
  then show ?case
    by (auto simp: filter_wf_def filter_pairs_def set_opt_pair codec_keys dbl_okD split: if_splits)
next
  case 6 then show ?case by (simp add: dispatch_def kv_def codec_fill)
next
  case (7 B R p) then show ?case
    by (cases p) (auto simp: filter_wf_def filter_pairs_def resolve_filter_def resolve_filter_step_def KVFilter_new_def
        codec_fill kv_record_defs Let_def)
qed


end
