(* ===== verification/KV_Plan_Codec.thy ===== *)
theory KV_Plan_Codec
  imports KV_Messages
begin

text \<open>
  Observation plans (\<open>KVAppPlan\<close>, \<open>KVTakeImage\<close>) as instances of \<open>kv_codec\<close>, and the round trip
  of all messages.
\<close>

section \<open>Observation plans\<close>

text \<open>
  The three operators that carry a plan share \<open>KVAppPlan\<close>. \<open>plan_keys\<close> are the keywords the
  resolver takes; every other pair of a plan is kept in \<open>kvs\<close> in the order received.
\<close>

definition plan_keys :: "string list" where
  "plan_keys = [''plan_sn'', ''objid'', ''obstype'', ''coor_sys'', ''ra'', ''dec'', ''ecoch'', ''azi'', ''ele'',
     ''tle1'', ''tle2'', ''imgtype'', ''filter'', ''exptime'', ''delay'', ''frmcnt'', ''loopcnt'', ''priority'',
     ''plan_beg'', ''plan_end'']"

definition extra_ok :: "keyvalpair \<Rightarrow> bool" where
  "extra_ok it \<longleftrightarrow> key_ok (keyword it) \<and> clean (kvalue it) \<and> kvalue it \<noteq> []
     \<and> (\<forall>k \<in> set plan_keys. \<not> iequals_doc (keyword it) k)"

definition append_plan_pairs :: "kvappplan \<Rightarrow> (string \<times> string) list" where
  "append_plan_pairs p = opt_pair ''plan_sn'' (ap_plan_sn p) @ opt_pair ''objid'' (ap_objid p)
     @ opt_pair ''obstype'' (ap_obstype p) @ [(''coor_sys'', show_int (ap_coorsys p))]
     @ (if ap_coorsys p = 0 then
          [(''ra'', show_double (ap_ra p)), (''dec'', show_double (ap_dec p)), (''epoch'', show_double (ap_epoch p))]
        else if ap_coorsys p = 1 then [(''azi'', show_double (ap_azi p)), (''ele'', show_double (ap_ele p))]
        else [(''tle1'', ap_tle1 p), (''tle2'', ap_tle2 p)])
     @ [(''imgtype'', ap_imgtype p)] @ opt_pair ''filter'' (ap_filter p)
     @ [(''exptime'', show_double (ap_exptime p)), (''delay'', show_double (ap_delay p)),
        (''frmcnt'', show_int (ap_frmcnt p)), (''loopcnt'', show_int (ap_loopcnt p)),
        (''priority'', show_int (ap_priority p))]
     @ opt_pair ''plan_beg'' (ap_plan_begin p) @ opt_pair ''plan_end'' (ap_plan_end p)
     @ map (\<lambda>it. (keyword it, kvalue it)) (ap_kvs p)"

text \<open>
  Plans that survive printing: the printer takes 1 for horizontal coordinates (the enumeration
  calls it \<open>COORSYS_EQUA\<close>), and writes the key \<open>epoch\<close> where the resolver wants \<open>ecoch\<close>, so a
  plan with \<open>coorsys = 0\<close> does not come back: its epoch is taken for an extra pair.
\<close>

definition append_plan_wf :: "string \<Rightarrow> raw \<Rightarrow> kvappplan \<Rightarrow> bool" where
  "append_plan_wf op R p \<longleftrightarrow> kv_type p = op \<and> base_ok (kvbase.truncate p)
     \<and> clean (ap_plan_sn p) \<and> clean (ap_objid p) \<and> ap_objid p \<noteq> [] \<and> clean (ap_obstype p)
     \<and> in_s32 (ap_coorsys p) \<and> ap_coorsys p \<noteq> 0
     \<and> ap_ra p = dzero \<and> ap_dec p = dzero \<and> ap_epoch p = double_of_int 2000
     \<and> (if ap_coorsys p = 1 then dbl_ok (ap_azi p) \<and> dbl_ok (ap_ele p) \<and> ap_tle1 p = [] \<and> ap_tle2 p = []
        else ap_azi p = dzero \<and> ap_ele p = dzero \<and> clean (ap_tle1 p) \<and> clean (ap_tle2 p))
     \<and> clean (ap_imgtype p) \<and> ap_imgtype p \<noteq> [] \<and> clean (ap_filter p)
     \<and> dbl_ok (ap_exptime p) \<and> dbl_ok (ap_delay p)
     \<and> in_s32 (ap_frmcnt p) \<and> in_s32 (ap_loopcnt p) \<and> in_s32 (ap_priority p)
     \<and> clean (ap_plan_begin p) \<and> clean (ap_plan_end p) \<and> (\<forall>it \<in> set (ap_kvs p). extra_ok it)"

lemma kv_text_map: "kv_text (map (\<lambda>it. (keyword it, kvalue it)) xs) = concat (map (\<lambda>it. join_kv (keyword it) (kvalue it)) xs)"
  by (induction xs) auto

lemma append_plan_print:
  "KVAppPlan_ToString p = KVBase_ToString (kvbase.truncate p) @ kv_text (append_plan_pairs p) @ endl"
  by (simp add: KVAppPlan_ToString_def append_plan_pairs_def codec_print kv_text_map)

lemma extra_items: "\<forall>it \<in> set xs. extra_ok it \<Longrightarrow> kv_items (map (\<lambda>it. (keyword it, kvalue it)) xs) = xs"
  by (induction xs) (auto simp: extra_ok_def)

lemma append_plan_extra:
  assumes "boost_ok B"
  shows "\<forall>it \<in> set xs. extra_ok it \<Longrightarrow>
    foldR (resolve_append_plan_step B) xs p = Inr (p\<lparr>ap_kvs := ap_kvs p @ xs\<rparr>)"
proof (induction xs arbitrary: p)
  case Nil
  then show ?case by simp
next
  case (Cons it xs)
  then have "resolve_append_plan_step B it p = Inr (p\<lparr>ap_kvs := ap_kvs p @ [it]\<rparr>)"
    by (simp add: resolve_append_plan_step_def boost_laws [OF assms] extra_ok_def plan_keys_def)
  with Cons show ?case by simp
qed

lemma append_plan_same:
  "ap_plan_sn p = [] \<Longrightarrow> p\<lparr>ap_plan_sn := []\<rparr> = (p :: kvappplan)"
  "ap_objid p = [] \<Longrightarrow> p\<lparr>ap_objid := []\<rparr> = (p :: kvappplan)"
  "ap_obstype p = [] \<Longrightarrow> p\<lparr>ap_obstype := []\<rparr> = (p :: kvappplan)"
  "ap_tle1 p = [] \<Longrightarrow> p\<lparr>ap_tle1 := []\<rparr> = (p :: kvappplan)"
  "ap_tle2 p = [] \<Longrightarrow> p\<lparr>ap_tle2 := []\<rparr> = (p :: kvappplan)"
  "ap_imgtype p = [] \<Longrightarrow> p\<lparr>ap_imgtype := []\<rparr> = (p :: kvappplan)"
  "ap_filter p = [] \<Longrightarrow> p\<lparr>ap_filter := []\<rparr> = (p :: kvappplan)"
  "ap_plan_begin p = [] \<Longrightarrow> p\<lparr>ap_plan_begin := []\<rparr> = (p :: kvappplan)"
  "ap_plan_end p = [] \<Longrightarrow> p\<lparr>ap_plan_end := []\<rparr> = (p :: kvappplan)"
  by (cases p, simp)+

text \<open>One printed item at a time: an absent optional item is the constructor's empty string.\<close>

lemma append_plan_items:
  assumes "boost_ok B"
  shows
    "ap_plan_sn p = [] \<Longrightarrow> foldR (resolve_append_plan_step B) (kv_items ((''plan_sn'', v) # ps)) p
      = foldR (resolve_append_plan_step B) (kv_items ps) (p\<lparr>ap_plan_sn := v\<rparr>)"
    "ap_objid p = [] \<Longrightarrow> foldR (resolve_append_plan_step B) (kv_items ((''objid'', v) # ps)) p
      = foldR (resolve_append_plan_step B) (kv_items ps) (p\<lparr>ap_objid := v\<rparr>)"
    "ap_obstype p = [] \<Longrightarrow> foldR (resolve_append_plan_step B) (kv_items ((''obstype'', v) # ps)) p
      = foldR (resolve_append_plan_step B) (kv_items ps) (p\<lparr>ap_obstype := v\<rparr>)"
    "ap_tle1 p = [] \<Longrightarrow> foldR (resolve_append_plan_step B) (kv_items ((''tle1'', v) # ps)) p
      = foldR (resolve_append_plan_step B) (kv_items ps) (p\<lparr>ap_tle1 := v\<rparr>)"
    "ap_tle2 p = [] \<Longrightarrow> foldR (resolve_append_plan_step B) (kv_items ((''tle2'', v) # ps)) p
      = foldR (resolve_append_plan_step B) (kv_items ps) (p\<lparr>ap_tle2 := v\<rparr>)"
    "ap_imgtype p = [] \<Longrightarrow> foldR (resolve_append_plan_step B) (kv_items ((''imgtype'', v) # ps)) p
      = foldR (resolve_append_plan_step B) (kv_items ps) (p\<lparr>ap_imgtype := v\<rparr>)"
    "ap_filter p = [] \<Longrightarrow> foldR (resolve_append_plan_step B) (kv_items ((''filter'', v) # ps)) p
      = foldR (resolve_append_plan_step B) (kv_items ps) (p\<lparr>ap_filter := v\<rparr>)"
    "ap_plan_begin p = [] \<Longrightarrow> foldR (resolve_append_plan_step B) (kv_items ((''plan_beg'', v) # ps)) p
      = foldR (resolve_append_plan_step B) (kv_items ps) (p\<lparr>ap_plan_begin := v\<rparr>)"
    "ap_plan_end p = [] \<Longrightarrow> foldR (resolve_append_plan_step B) (kv_items ((''plan_end'', v) # ps)) p
      = foldR (resolve_append_plan_step B) (kv_items ps) (p\<lparr>ap_plan_end := v\<rparr>)"
    "in_s32 n \<Longrightarrow> foldR (resolve_append_plan_step B) (kv_items ((''coor_sys'', show_int n) # ps)) p
      = foldR (resolve_append_plan_step B) (kv_items ps) (p\<lparr>ap_coorsys := n\<rparr>)"
    "in_s32 n \<Longrightarrow> foldR (resolve_append_plan_step B) (kv_items ((''frmcnt'', show_int n) # ps)) p
      = foldR (resolve_append_plan_step B) (kv_items ps) (p\<lparr>ap_frmcnt := n\<rparr>)"
    "in_s32 n \<Longrightarrow> foldR (resolve_append_plan_step B) (kv_items ((''loopcnt'', show_int n) # ps)) p
      = foldR (resolve_append_plan_step B) (kv_items ps) (p\<lparr>ap_loopcnt := n\<rparr>)"
    "in_s32 n \<Longrightarrow> foldR (resolve_append_plan_step B) (kv_items ((''priority'', show_int n) # ps)) p
      = foldR (resolve_append_plan_step B) (kv_items ps) (p\<lparr>ap_priority := n\<rparr>)"
    "dbl_ok d \<Longrightarrow> foldR (resolve_append_plan_step B) (kv_items ((''azi'', show_double d) # ps)) p
      = foldR (resolve_append_plan_step B) (kv_items ps) (p\<lparr>ap_azi := d\<rparr>)"
    "dbl_ok d \<Longrightarrow> foldR (resolve_append_plan_step B) (kv_items ((''ele'', show_double d) # ps)) p
      = foldR (resolve_append_plan_step B) (kv_items ps) (p\<lparr>ap_ele := d\<rparr>)"
    "dbl_ok d \<Longrightarrow> foldR (resolve_append_plan_step B) (kv_items ((''exptime'', show_double d) # ps)) p
      = foldR (resolve_append_plan_step B) (kv_items ps) (p\<lparr>ap_exptime := d\<rparr>)"
    "dbl_ok d \<Longrightarrow> foldR (resolve_append_plan_step B) (kv_items ((''delay'', show_double d) # ps)) p
      = foldR (resolve_append_plan_step B) (kv_items ps) (p\<lparr>ap_delay := d\<rparr>)"
  by (simp_all add: resolve_append_plan_step_def boost_laws [OF assms] iequals_doc_def num_int_def num_dbl_def
      stoi_show_int dbl_okD append_plan_same)

lemma append_plan_fill:
  assumes "boost_ok B" and "append_plan_wf op R p"
  shows "resolve_append_plan_kvs B (kv_items (append_plan_pairs p))
    = Inr (p\<lparr>kv_type := KVTYPE_APPPLAN, kv_utc := [], kv_gid := [], kv_uid := [], kv_cid := []\<rparr>)"
proof -
  note items = append_plan_items [OF assms(1)] kv_items_simps(1,3) kv_items_opt
  show ?thesis
    using assms(2)
    by (cases "ap_coorsys p = 1"; cases p)
       (simp_all add: append_plan_wf_def append_plan_pairs_def resolve_append_plan_kvs_def items foldR_append
          extra_items append_plan_extra [OF assms(1)] append_plan_defaults_def KVAppPlan_new_def del: kv_items_simps(2))
qed

lemma append_plan_keys:
  assumes "append_plan_wf op R p" and "(k, v) \<in> set (append_plan_pairs p)"
  shows "key_ok k \<and> clean v"
  using assms
  by (auto simp: append_plan_wf_def append_plan_pairs_def set_opt_pair codec_keys dbl_okD extra_ok_def split: if_splits)

lemma append_plan_assign:
  "append_plan_wf op R p \<Longrightarrow>
    KVBase_assign (p\<lparr>kv_type := op, kv_utc := [], kv_gid := [], kv_uid := [], kv_cid := []\<rparr>) (kvbase.truncate p) = p"
  "append_plan_wf op R p \<Longrightarrow>
    KVBase_assign (p\<lparr>kv_utc := [], kv_gid := [], kv_uid := [], kv_cid := [], kv_type := op\<rparr>) (kvbase.truncate p) = p"
  by (cases p, simp add: append_plan_wf_def KVBase_assign_def kvbase.defs)+

interpretation append_plan_codec: kv_codec KVAppPlan_ToString kvbase.truncate append_plan_pairs
  "append_plan_wf KVTYPE_APPPLAN" resolve_append_plan MAppPlan KVTYPE_APPPLAN
proof (unfold_locales, goal_cases)
  case 1 show ?case by (rule append_plan_print)
next
  case 2 show ?case by (simp add: op_name_def KVTYPE_APPPLAN_def)
next
  case 3 then show ?case by (simp add: append_plan_wf_def kvbase.defs)
next
  case 4 then show ?case by (simp add: append_plan_wf_def)
next
  case 5 then show ?case by (rule append_plan_keys)
next
  case 6 then show ?case by (simp add: dispatch_def kv_def boost_laws iequals_doc_def)
next
  case (7 B R p)
  then show ?case
    using append_plan_fill [OF 7] append_plan_assign [OF 7(2)]
    by (simp add: resolve_append_plan_def catch_numeric_def)
qed

interpretation append_gwac_codec: kv_codec KVAppPlan_ToString kvbase.truncate append_plan_pairs
  "append_plan_wf KVTYPE_APPGWAC" resolve_append_gwac MAppPlan KVTYPE_APPGWAC
proof (unfold_locales, goal_cases)
  case 1 show ?case by (rule append_plan_print)
next
  case 2 show ?case by (simp add: op_name_def KVTYPE_APPGWAC_def)
next
  case 3 then show ?case by (simp add: append_plan_wf_def kvbase.defs)
next
  case 4 then show ?case by (simp add: append_plan_wf_def)
next
  case 5 then show ?case by (rule append_plan_keys)
next
  case 6 then show ?case by (simp add: dispatch_def kv_def boost_laws iequals_doc_def)
next
  case (7 B R p)
  then show ?case
    using append_plan_fill [OF 7] append_plan_assign [OF 7(2)]
    by (simp add: resolve_append_plan_def catch_numeric_def resolve_append_gwac_def retype_def)
qed

interpretation take_image_codec: kv_codec KVAppPlan_ToString kvbase.truncate append_plan_pairs
  "append_plan_wf KVTYPE_TKIMG" resolve_take_image MAppPlan KVTYPE_TKIMG
proof (unfold_locales, goal_cases)
  case 1 show ?case by (rule append_plan_print)
next
  case 2 show ?case by (simp add: op_name_def KVTYPE_TKIMG_def)
next
  case 3 then show ?case by (simp add: append_plan_wf_def kvbase.defs)
next
  case 4 then show ?case by (simp add: append_plan_wf_def)
next
  case 5 then show ?case by (rule append_plan_keys)
next
  case 6 then show ?case by (simp add: dispatch_def kv_def boost_laws iequals_doc_def)
next
  case (7 B R p)
  then show ?case
    using append_plan_fill [OF 7] append_plan_assign [OF 7(2)]
    by (simp add: resolve_append_plan_def catch_numeric_def resolve_take_image_def retype_def)
qed

section \<open>All messages\<close>

text \<open>\<open>KVBase::ToString\<close> is virtual: the printer of the dynamic type.\<close>

fun msg_ToString :: "kvmsg \<Rightarrow> string" where
  "msg_ToString (MAppPlan p) = KVAppPlan_ToString p"
| "msg_ToString (MCheckPlan p) = KVCheckPlan_ToString p"
| "msg_ToString (MRemovePlan p) = KVRemovePlan_ToString p"
| "msg_ToString (MPlan p) = KVPlan_ToString p"
| "msg_ToString (MAbort p) = KVAbort_ToString p"
| "msg_ToString (MOBSS p) = KVOBSS_ToString p"
| "msg_ToString (MSlewto p) = KVSlewto_ToString p"
| "msg_ToString (MPark p) = KVPark_ToString p"
| "msg_ToString (MGuide p) = KVGuide_ToString p"
| "msg_ToString (MHome p) = KVHome_ToString p"
| "msg_ToString (MSync p) = KVSync_ToString p"
| "msg_ToString (MTrack p) = KVTrack_ToString p"
| "msg_ToString (MTrackVel p) = KVTrackVel_ToString p"
| "msg_ToString (MMount p) = KVMount_ToString p"
| "msg_ToString (MExpose p) = KVExpose_ToString p"
| "msg_ToString (MCamSet p) = KVCamSet_ToString p"
| "msg_ToString (MCamera p) = KVCamera_ToString p"
| "msg_ToString (MFocus p) = KVFocus_ToString p"
| "msg_ToString (MFocusSync p) = KVFocusSync_ToString p"
| "msg_ToString (MFWHM p) = KVFWHM_ToString p"
| "msg_ToString (MDerot p) = KVDerot_ToString p"
| "msg_ToString (MDome p) = KVDome_ToString p"
| "msg_ToString (MMirrCover p) = KVMirrCover_ToString p"
| "msg_ToString (MFilter p) = KVFilter_ToString p"

fun msg_wf :: "raw \<Rightarrow> kvmsg \<Rightarrow> bool" where
  "msg_wf R (MAppPlan p) \<longleftrightarrow> append_plan_wf KVTYPE_APPPLAN R p \<or> append_plan_wf KVTYPE_APPGWAC R p
     \<or> append_plan_wf KVTYPE_TKIMG R p"
| "msg_wf R (MCheckPlan p) \<longleftrightarrow> check_plan_wf R p"
| "msg_wf R (MRemovePlan p) \<longleftrightarrow> remove_plan_wf R p"
| "msg_wf R (MPlan p) \<longleftrightarrow> plan_wf R p"
| "msg_wf R (MAbort p) \<longleftrightarrow> abort_wf R p"
| "msg_wf R (MOBSS p) \<longleftrightarrow> obss_wf R p"
| "msg_wf R (MSlewto p) \<longleftrightarrow> slewto_wf R p"
| "msg_wf R (MPark p) \<longleftrightarrow> park_wf R p"
| "msg_wf R (MGuide p) \<longleftrightarrow> guide_wf R p"
| "msg_wf R (MHome p) \<longleftrightarrow> home_wf R p"
| "msg_wf R (MSync p) \<longleftrightarrow> sync_wf R p"
| "msg_wf R (MTrack p) \<longleftrightarrow> track_wf R p"
| "msg_wf R (MTrackVel p) \<longleftrightarrow> trackvel_wf R p"
| "msg_wf R (MMount p) \<longleftrightarrow> mount_wf R p"
| "msg_wf R (MExpose p) \<longleftrightarrow> expose_wf R p"
| "msg_wf R (MCamSet p) \<longleftrightarrow> camset_wf R p"
| "msg_wf R (MCamera p) \<longleftrightarrow> camera_wf R p"
| "msg_wf R (MFocus p) \<longleftrightarrow> focus_wf R p"
| "msg_wf R (MFocusSync p) \<longleftrightarrow> focus_sync_wf R p"
| "msg_wf R (MFWHM p) \<longleftrightarrow> fwhm_wf R p"
| "msg_wf R (MDerot p) \<longleftrightarrow> derot_wf R p"
| "msg_wf R (MDome p) \<longleftrightarrow> dome_wf R p"
| "msg_wf R (MMirrCover p) \<longleftrightarrow> mcover_wf R p"
| "msg_wf R (MFilter p) \<longleftrightarrow> filter_wf R p"

lemmas codec_resolve_print = append_plan_codec.resolve_print append_gwac_codec.resolve_print
  take_image_codec.resolve_print
  check_plan_codec.resolve_print
  remove_plan_codec.resolve_print
  plan_codec.resolve_print
  abort_codec.resolve_print
  obss_codec.resolve_print
  slewto_codec.resolve_print
  park_codec.resolve_print
  guide_codec.resolve_print
  home_codec.resolve_print
  sync_codec.resolve_print
  track_codec.resolve_print
  trackvel_codec.resolve_print
  mount_codec.resolve_print
  expose_codec.resolve_print
  camset_codec.resolve_print
  camera_codec.resolve_print
  focus_codec.resolve_print
  focus_sync_codec.resolve_print
  fwhm_codec.resolve_print
  derot_codec.resolve_print
  dome_codec.resolve_print
  mcover_codec.resolve_print
  filter_codec.resolve_print

text \<open>
  C1: a message printed by the server and received back as a line resolves to the very same
  message, for every message type and every message that its pairs determine.
\<close>

theorem resolve_printed_message:
  assumes "boost_ok B" and "msg_wf R m"
  shows "Resolve B R (line_of (msg_ToString m)) = Inr (Some m)"
  using assms by (cases m) (auto simp: codec_resolve_print)

theorem resolve_printed_message_witness:
  "Resolve boost_ref \<lparr>rawi = (\<lambda>_. 7), rawd = (\<lambda>_. dzero)\<rparr>
     (line_of (msg_ToString (MFocus (KVFocus_new\<lparr>kv_gid := ''001'', fc_state := 2, fc_pos := -130, fc_posTar := 40\<rparr>))))
   = Inr (Some (MFocus (KVFocus_new\<lparr>kv_gid := ''001'', fc_state := 2, fc_pos := -130, fc_posTar := 40\<rparr>)))"
  by (rule resolve_printed_message [OF boost_ref_ok])
     (simp add: focus_wf_def KVFocus_new_def KVBase_new_def kv_record_defs base_ok_def clean_def isspace_def
        code_of_def in_s32_def INT_MIN_def INT_MAX_def)

end
