(* ===== verification/KV_Facts.thy ===== *)
theory KV_Facts
  imports KV_Protocol
begin

text \<open>
  What the resolver does with an arbitrary line: which operators it knows, the type of the
  message it returns, and the one way in which it fails.
\<close>

definition kv_ops :: "string list" where
  "kv_ops = [KVTYPE_APPPLAN, KVTYPE_APPGWAC, KVTYPE_ABORT, KVTYPE_CHKPLAN, KVTYPE_CAMERA, KVTYPE_CAMSET, KVTYPE_DEROT, KVTYPE_DOME, KVTYPE_FOCUS, KVTYPE_FOCUS_SYNC, KVTYPE_FWHM, KVTYPE_FILTER, KVTYPE_MOUNT, KVTYPE_MCOVER, KVTYPE_PLAN, KVTYPE_PARK, KVTYPE_SLEWTO, KVTYPE_SYNC, KVTYPE_TKIMG, KVTYPE_TRACK, KVTYPE_TRACKVEL, KVTYPE_EXPOSE, KVTYPE_GUIDE, KVTYPE_HOME, KVTYPE_OBSS, KVTYPE_RMVPLAN]"

definition op_of :: "string \<Rightarrow> string" where
  "op_of s = fst (snd (parse_line s))"

text \<open>The loop bodies never touch the type of the message.\<close>

lemma append_plan_step_type: "resolve_append_plan_step B it p = Inr q \<Longrightarrow> kv_type q = kv_type p"
  by (auto simp: resolve_append_plan_step_def num_int_def num_dbl_def bindR_Inr_iff split: if_splits)

lemma check_plan_step_type: "resolve_check_plan_step B it p = Inr q \<Longrightarrow> kv_type q = kv_type p"
  by (auto simp: resolve_check_plan_step_def num_int_def num_dbl_def bindR_Inr_iff split: if_splits)

lemma remove_plan_step_type: "resolve_remove_plan_step B it p = Inr q \<Longrightarrow> kv_type q = kv_type p"
  by (auto simp: resolve_remove_plan_step_def num_int_def num_dbl_def bindR_Inr_iff split: if_splits)

lemma plan_step_type: "resolve_plan_step B it p = Inr q \<Longrightarrow> kv_type q = kv_type p"
  by (auto simp: resolve_plan_step_def num_int_def num_dbl_def bindR_Inr_iff split: if_splits)

lemma obss_step_type: "resolve_obss_step B it p = Inr q \<Longrightarrow> kv_type q = kv_type p"
  by (auto simp: resolve_obss_step_def num_int_def num_dbl_def bindR_Inr_iff split: if_splits)

lemma mount_step_type: "resolve_mount_step B it p = Inr q \<Longrightarrow> kv_type q = kv_type p"
  by (auto simp: resolve_mount_step_def num_int_def num_dbl_def bindR_Inr_iff split: if_splits)

lemma camera_step_type: "resolve_camera_step B it p = Inr q \<Longrightarrow> kv_type q = kv_type p"
  by (auto simp: resolve_camera_step_def num_int_def num_dbl_def bindR_Inr_iff split: if_splits)

lemma sync_step_type: "resolve_sync_step B it p = Inr q \<Longrightarrow> kv_type q = kv_type p"
  by (auto simp: resolve_sync_step_def num_int_def num_dbl_def bindR_Inr_iff split: if_splits)

lemma slewto_step_type: "resolve_slewto_step B it p = Inr q \<Longrightarrow> kv_type q = kv_type p"
  by (auto simp: resolve_slewto_step_def num_int_def num_dbl_def bindR_Inr_iff split: if_splits)

lemma guide_step_type: "resolve_guide_step B it p = Inr q \<Longrightarrow> kv_type q = kv_type p"
  by (auto simp: resolve_guide_step_def num_int_def num_dbl_def bindR_Inr_iff split: if_splits)

lemma trackvel_step_type: "resolve_trackvel_step B it p = Inr q \<Longrightarrow> kv_type q = kv_type p"
  by (auto simp: resolve_trackvel_step_def num_int_def num_dbl_def bindR_Inr_iff split: if_splits)

lemma expose_step_type: "resolve_expose_step B it p = Inr q \<Longrightarrow> kv_type q = kv_type p"
  by (auto simp: resolve_expose_step_def num_int_def num_dbl_def bindR_Inr_iff split: if_splits)

lemma camset_step_type: "resolve_camset_step B it p = Inr q \<Longrightarrow> kv_type q = kv_type p"
  by (auto simp: resolve_camset_step_def num_int_def num_dbl_def bindR_Inr_iff split: if_splits)

lemma focus_step_type: "resolve_focus_step B it p = Inr q \<Longrightarrow> kv_type q = kv_type p"
  by (auto simp: resolve_focus_step_def num_int_def num_dbl_def bindR_Inr_iff split: if_splits)

lemma fwhm_step_type: "resolve_fwhm_step B it p = Inr q \<Longrightarrow> kv_type q = kv_type p"
  by (auto simp: resolve_fwhm_step_def num_int_def num_dbl_def bindR_Inr_iff split: if_splits)

lemma derot_step_type: "resolve_derot_step B it p = Inr q \<Longrightarrow> kv_type q = kv_type p"
  by (auto simp: resolve_derot_step_def num_int_def num_dbl_def bindR_Inr_iff split: if_splits)

lemma dome_step_type: "resolve_dome_step B it p = Inr q \<Longrightarrow> kv_type q = kv_type p"
  by (auto simp: resolve_dome_step_def num_int_def num_dbl_def bindR_Inr_iff split: if_splits)

lemma mcover_step_type: "resolve_mcover_step B it p = Inr q \<Longrightarrow> kv_type q = kv_type p"
  by (auto simp: resolve_mcover_step_def num_int_def num_dbl_def bindR_Inr_iff split: if_splits)

lemma filter_step_type: "resolve_filter_step B it p = Inr q \<Longrightarrow> kv_type q = kv_type p"
  by (auto simp: resolve_filter_step_def num_int_def num_dbl_def bindR_Inr_iff split: if_splits)

lemma foldR_type:
  assumes "\<And>it p q. f it p = Inr q \<Longrightarrow> kv_type q = kv_type p"
  shows "foldR f kvs p = Inr q \<Longrightarrow> kv_type q = kv_type p"
  using foldR_invariant [of kvs "\<lambda>q. kv_type q = kv_type p" f p q] assms by metis

lemma defaults_type [simp]: "kv_type (append_plan_defaults B p) = kv_type p"
  by (simp add: append_plan_defaults_def Let_def)

lemma catch_numeric_cases:
  "catch_numeric ctor r = Inr (Some m) \<longleftrightarrow> (\<exists>p. r = Inr p \<and> m = ctor p)"
  "catch_numeric ctor r \<noteq> Inr None"
  "catch_numeric ctor r = Inl c \<longleftrightarrow> c = NullDeref \<and> (\<exists>e. r = Inl e)"
  by (auto simp: catch_numeric_def split: sum.splits)

lemma msg_assign_type [simp]: "kv_type (msg_base (msg_assign m b)) = kv_type (msg_base m)"
  by (cases m) (simp_all add: KVBase_assign_def kvbase.defs)

text \<open>An answer to operator \<open>t\<close>: a message of that type, or the null dereference of the handlers.\<close>

fun answers :: "string \<Rightarrow> crash + kvmsg option \<Rightarrow> bool" where
  "answers t (Inl c) \<longleftrightarrow> c = NullDeref"
| "answers t (Inr None) \<longleftrightarrow> False"
| "answers t (Inr (Some m)) \<longleftrightarrow> kv_type (msg_base m) = t"

lemma answers_catch:
  assumes "\<And>p. r = Inr p \<Longrightarrow> kv_type (msg_base (ctor p)) = t"
  shows "answers t (catch_numeric ctor r)"
  using assms by (cases r) (simp_all add: catch_numeric_def)

lemma append_plan_type:
  "resolve_append_plan_kvs B kvs = Inr p \<Longrightarrow> kv_type p = KVTYPE_APPPLAN"
proof -
  assume "resolve_append_plan_kvs B kvs = Inr p"
  then obtain q where q: "foldR (resolve_append_plan_step B) kvs
      (KVAppPlan_new\<lparr>ap_coorsys := COORSYS_EQUA, ap_epoch := double_of_int 2000\<rparr>) = Inr q"
    "p = append_plan_defaults B q"
    by (auto simp: resolve_append_plan_kvs_def bindR_Inr_iff)
  from foldR_type [OF _ q(1)] append_plan_step_type
  have "kv_type q = KVTYPE_APPPLAN" by (fastforce simp: KVAppPlan_new_def)
  with q(2) show ?thesis by simp
qed

lemma answers_append_plan: "answers KVTYPE_APPPLAN (resolve_append_plan B R kvs)"
  unfolding resolve_append_plan_def
  by (rule answers_catch) (simp add: append_plan_type kvbase.defs)

lemma append_plan_result:
  "resolve_append_plan B R kvs = Inl NullDeref \<or> (\<exists>p. resolve_append_plan B R kvs = Inr (Some (MAppPlan p)))"
  by (cases "resolve_append_plan_kvs B kvs") (simp_all add: resolve_append_plan_def catch_numeric_def)

lemma answers_resolve:
  "answers KVTYPE_APPGWAC (resolve_append_gwac B R kvs)"
  "answers KVTYPE_ABORT (resolve_abort B R kvs)"
  "answers KVTYPE_CHKPLAN (resolve_check_plan B R kvs)"
  "answers KVTYPE_CAMERA (resolve_camera B R kvs)"
  "answers KVTYPE_CAMSET (resolve_camset B R kvs)"
  "answers KVTYPE_DEROT (resolve_derot B R kvs)"
  "answers KVTYPE_DOME (resolve_dome B R kvs)"
  "answers KVTYPE_FOCUS (resolve_focus B R kvs)"
  "answers KVTYPE_FOCUS_SYNC (resolve_focus_sync B R kvs)"
  "answers KVTYPE_FWHM (resolve_fwhm B R kvs)"
  "answers KVTYPE_FILTER (resolve_filter B R kvs)"
  "answers KVTYPE_MOUNT (resolve_mount B R kvs)"
  "answers KVTYPE_MCOVER (resolve_mcover B R kvs)"
  "answers KVTYPE_PLAN (resolve_plan B R kvs)"
  "answers KVTYPE_PARK (resolve_park B R kvs)"
  "answers KVTYPE_SLEWTO (resolve_slewto B R kvs)"
  "answers KVTYPE_SYNC (resolve_sync B R kvs)"
  "answers KVTYPE_TKIMG (resolve_take_image B R kvs)"
  "answers KVTYPE_TRACK (resolve_track B R kvs)"
  "answers KVTYPE_TRACKVEL (resolve_trackvel B R kvs)"
  "answers KVTYPE_EXPOSE (resolve_expose B R kvs)"
  "answers KVTYPE_GUIDE (resolve_guide B R kvs)"
  "answers KVTYPE_HOME (resolve_home B R kvs)"
  "answers KVTYPE_OBSS (resolve_obss B R kvs)"
  "answers KVTYPE_RMVPLAN (resolve_remove_plan B R kvs)"
  subgoal using append_plan_result [of B R kvs] by (auto simp: resolve_append_gwac_def retype_def kvbase.defs)
  subgoal by (simp add: resolve_abort_def kv_new)
  subgoal unfolding resolve_check_plan_def by (rule answers_catch, drule foldR_type [OF check_plan_step_type, rotated]) (simp_all add: kv_new kv_record_defs Let_def)
  subgoal unfolding resolve_camera_def by (rule answers_catch, drule foldR_type [OF camera_step_type, rotated]) (simp_all add: kv_new kv_record_defs Let_def)
  subgoal unfolding resolve_camset_def by (rule answers_catch, drule foldR_type [OF camset_step_type, rotated]) (simp_all add: kv_new kv_record_defs Let_def)
  subgoal unfolding resolve_derot_def by (rule answers_catch, drule foldR_type [OF derot_step_type, rotated]) (simp_all add: kv_new kv_record_defs Let_def)
  subgoal unfolding resolve_dome_def by (rule answers_catch, drule foldR_type [OF dome_step_type, rotated]) (simp_all add: kv_new kv_record_defs Let_def)
  subgoal unfolding resolve_focus_def by (rule answers_catch, drule foldR_type [OF focus_step_type, rotated]) (simp_all add: kv_new kv_record_defs Let_def)
  subgoal by (simp add: resolve_focus_sync_def kv_new)
  subgoal unfolding resolve_fwhm_def by (rule answers_catch, drule foldR_type [OF fwhm_step_type, rotated]) (simp_all add: kv_new kv_record_defs Let_def)
  subgoal unfolding resolve_filter_def by (rule answers_catch, drule foldR_type [OF filter_step_type, rotated]) (simp_all add: kv_new kv_record_defs Let_def)
  subgoal unfolding resolve_mount_def by (rule answers_catch, drule foldR_type [OF mount_step_type, rotated]) (simp_all add: kv_new kv_record_defs Let_def)
  subgoal unfolding resolve_mcover_def by (rule answers_catch, drule foldR_type [OF mcover_step_type, rotated]) (simp_all add: kv_new kv_record_defs Let_def)
  subgoal unfolding resolve_plan_def by (rule answers_catch, drule foldR_type [OF plan_step_type, rotated]) (simp_all add: kv_new kv_record_defs Let_def)
  subgoal by (simp add: resolve_park_def kv_new)
  subgoal unfolding resolve_slewto_def by (rule answers_catch, drule foldR_type [OF slewto_step_type, rotated]) (simp_all add: kv_new kv_record_defs Let_def)
  subgoal unfolding resolve_sync_def by (rule answers_catch, drule foldR_type [OF sync_step_type, rotated]) (simp_all add: kv_new kv_record_defs Let_def)
  subgoal using append_plan_result [of B R kvs] by (auto simp: resolve_take_image_def retype_def kvbase.defs)
  subgoal by (simp add: resolve_track_def kv_new)
  subgoal unfolding resolve_trackvel_def by (rule answers_catch, drule foldR_type [OF trackvel_step_type, rotated]) (simp_all add: kv_new kv_record_defs Let_def)
  subgoal unfolding resolve_expose_def by (rule answers_catch, drule foldR_type [OF expose_step_type, rotated]) (simp_all add: kv_new kv_record_defs Let_def)
  subgoal unfolding resolve_guide_def by (rule answers_catch, drule foldR_type [OF guide_step_type, rotated]) (simp_all add: kv_new kv_record_defs Let_def)
  subgoal by (simp add: resolve_home_def kv_new)
  subgoal unfolding resolve_obss_def by (rule answers_catch, drule foldR_type [OF obss_step_type, rotated]) (simp_all add: kv_new kv_record_defs Let_def)
  subgoal unfolding resolve_remove_plan_def by (rule answers_catch, drule foldR_type [OF remove_plan_step_type, rotated]) (simp_all add: kv_new kv_record_defs Let_def)
  done

lemma dispatch_op:
  assumes "boost_ok B"
  shows
    "map tolower type = ''append_plan'' \<Longrightarrow> dispatch B R (CHR ''a'') type kvs = resolve_append_plan B R kvs"
    "map tolower type = ''append_gwac'' \<Longrightarrow> dispatch B R (CHR ''a'') type kvs = resolve_append_gwac B R kvs"
    "map tolower type = ''abort'' \<Longrightarrow> dispatch B R (CHR ''a'') type kvs = resolve_abort B R kvs"
    "map tolower type = ''check_plan'' \<Longrightarrow> dispatch B R (CHR ''c'') type kvs = resolve_check_plan B R kvs"
    "map tolower type = ''camera'' \<Longrightarrow> dispatch B R (CHR ''c'') type kvs = resolve_camera B R kvs"
    "map tolower type = ''camset'' \<Longrightarrow> dispatch B R (CHR ''c'') type kvs = resolve_camset B R kvs"
    "map tolower type = ''derot'' \<Longrightarrow> dispatch B R (CHR ''d'') type kvs = resolve_derot B R kvs"
    "map tolower type = ''dome'' \<Longrightarrow> dispatch B R (CHR ''d'') type kvs = resolve_dome B R kvs"
    "map tolower type = ''focus'' \<Longrightarrow> dispatch B R (CHR ''f'') type kvs = resolve_focus B R kvs"
    "map tolower type = ''focus_sync'' \<Longrightarrow> dispatch B R (CHR ''f'') type kvs = resolve_focus_sync B R kvs"
    "map tolower type = ''fwhm'' \<Longrightarrow> dispatch B R (CHR ''f'') type kvs = resolve_fwhm B R kvs"
    "map tolower type = ''filter'' \<Longrightarrow> dispatch B R (CHR ''f'') type kvs = resolve_filter B R kvs"
    "map tolower type = ''mount'' \<Longrightarrow> dispatch B R (CHR ''m'') type kvs = resolve_mount B R kvs"
    "map tolower type = ''mcover'' \<Longrightarrow> dispatch B R (CHR ''m'') type kvs = resolve_mcover B R kvs"
    "map tolower type = ''plan'' \<Longrightarrow> dispatch B R (CHR ''p'') type kvs = resolve_plan B R kvs"
    "map tolower type = ''park'' \<Longrightarrow> dispatch B R (CHR ''p'') type kvs = resolve_park B R kvs"
    "map tolower type = ''slew'' \<Longrightarrow> dispatch B R (CHR ''s'') type kvs = resolve_slewto B R kvs"
    "map tolower type = ''sync'' \<Longrightarrow> dispatch B R (CHR ''s'') type kvs = resolve_sync B R kvs"
    "map tolower type = ''take_image'' \<Longrightarrow> dispatch B R (CHR ''t'') type kvs = resolve_take_image B R kvs"
    "map tolower type = ''track'' \<Longrightarrow> dispatch B R (CHR ''t'') type kvs = resolve_track B R kvs"
    "map tolower type = ''trackvel'' \<Longrightarrow> dispatch B R (CHR ''t'') type kvs = resolve_trackvel B R kvs"
    "map tolower type = ''expose'' \<Longrightarrow> dispatch B R (CHR ''e'') type kvs = resolve_expose B R kvs"
    "map tolower type = ''guide'' \<Longrightarrow> dispatch B R (CHR ''g'') type kvs = resolve_guide B R kvs"
    "map tolower type = ''home'' \<Longrightarrow> dispatch B R (CHR ''h'') type kvs = resolve_home B R kvs"
    "map tolower type = ''obss'' \<Longrightarrow> dispatch B R (CHR ''o'') type kvs = resolve_obss B R kvs"
    "map tolower type = ''remove_plan'' \<Longrightarrow> dispatch B R (CHR ''r'') type kvs = resolve_remove_plan B R kvs"
  unfolding dispatch_def boost_laws [OF assms] iequals_doc_def by (simp_all add: kv_def)

lemma kv_ops_forms:
  "t \<in> set kv_ops \<Longrightarrow> map tolower t = t \<and> t \<noteq> []"
proof -
  have "\<forall>t \<in> set kv_ops. map tolower t = t \<and> t \<noteq> []"
    unfolding kv_ops_def list.set ball_simps kv_def by simp
  then show "t \<in> set kv_ops \<Longrightarrow> map tolower t = t \<and> t \<noteq> []" by blast
qed

lemma answers_op:
  assumes "boost_ok B" and "t \<in> set kv_ops" and "map tolower type = t"
  shows "answers t (dispatch B R (hd t) type kvs)"
proof -
  note eqs = dispatch_op [OF assms(1), of type R kvs]
  have "\<forall>t \<in> set kv_ops. map tolower type = t \<longrightarrow> answers t (dispatch B R (hd t) type kvs)"
    unfolding kv_ops_def list.set ball_simps kv_def
    by (intro conjI impI TrueI; simp only: list.sel eqs; rule answers_resolve [unfolded kv_def] answers_append_plan [unfolded kv_def])
  with assms(2,3) show ?thesis by blast
qed

lemma dispatch_known:
  assumes "boost_ok B" and "t \<in> set kv_ops" and "iequals_doc type t" and "ch = tolower (hd type)"
  shows "answers t (dispatch B R ch type kvs)"
proof -
  have m: "map tolower type = t" using assms(2,3) kv_ops_forms by (simp add: iequals_doc_def)
  then have "ch = hd t" using assms(2,4) kv_ops_forms by (metis hd_map map_is_Nil_conv)
  with answers_op [OF assms(1,2) m] show ?thesis by simp
qed

lemma dispatch_unknown:
  assumes "boost_ok B" and "\<forall>t \<in> set kv_ops. \<not> iequals_doc type t"
  shows "dispatch B R ch type kvs = Inr None"
  using assms(2) unfolding dispatch_def boost_laws [OF assms(1)] kv_ops_def by simp

lemma parse_line_ch:
  assumes "parse_line s = (ch, type, rest)" and "type \<noteq> []"
  shows "ch = tolower (hd type)"
proof (cases "dropWhile (\<lambda>c. c = CHR '' '') s")
  case Nil
  with assms show ?thesis by (simp add: parse_line_def)
next
  case (Cons c cs)
  with assms show ?thesis
    by (simp add: parse_line_def Let_def split: if_splits) (metis list.sel(1))
qed

lemma kv_ops_nonempty: "t \<in> set kv_ops \<Longrightarrow> iequals_doc type t \<Longrightarrow> type \<noteq> []"
  using kv_ops_forms by (metis iequals_doc_Nil(2))

text \<open>The outcome of any line: one operator at most matches it, and decides the answer.\<close>

theorem Resolve_outcome:
  assumes "boost_ok B"
  shows "(\<forall>t \<in> set kv_ops. \<not> iequals_doc (op_of s) t) \<and> Resolve B R s = Inr None
    \<or> (\<exists>t \<in> set kv_ops. iequals_doc (op_of s) t \<and> answers t (Resolve B R s))"
proof -
  obtain ch type rest where pl: "parse_line s = (ch, type, rest)" by (cases "parse_line s")
  obtain kvs basis where kb:
    "(if rest \<noteq> [] then resolve_kv_list B rest else ([], KVBase_new [])) = (kvs, basis)" by fastforce
  have res: "Resolve B R s = bindR (dispatch B R ch type kvs) (\<lambda>m. Inr (map_option (\<lambda>m. msg_assign m basis) m))"
    unfolding Resolve_def pl Let_def prod.case kb ..
  have op: "op_of s = type" by (simp add: op_of_def pl)
  show ?thesis
  proof (cases "\<exists>t \<in> set kv_ops. iequals_doc type t")
    case True
    then obtain t where t: "t \<in> set kv_ops" "iequals_doc type t" by blast
    from dispatch_known [OF assms t parse_line_ch [OF pl kv_ops_nonempty [OF t]]]
    have "answers t (dispatch B R ch type kvs)" .
    then have "answers t (Resolve B R s)"
      unfolding res by (cases "(t, dispatch B R ch type kvs)" rule: answers.cases) auto
    with t op show ?thesis by blast
  next
    case False
    then show ?thesis using dispatch_unknown [OF assms] op res by simp
  qed
qed

text \<open>
  C3: whatever bytes arrive as a line: \<open>Resolve\<close> gives no message unless the operator of the line is one of the
  26 known ones, up to case; then it gives a message of that very type and of no other, or dereferences the
  pointer a \<open>catch\<close> block has reset. No other outcome is possible.
\<close>

theorem resolve_type_safe:
  assumes "boost_ok B"
  shows "(case Resolve B R s of
      Inl c \<Rightarrow> c = NullDeref \<and> (\<exists>t \<in> set kv_ops. iequals_doc (op_of s) t)
    | Inr None \<Rightarrow> \<forall>t \<in> set kv_ops. \<not> iequals_doc (op_of s) t
    | Inr (Some m) \<Rightarrow> kv_type (msg_base m) \<in> set kv_ops \<and> iequals_doc (op_of s) (kv_type (msg_base m)))"
  using Resolve_outcome [OF assms, of s R] by (auto split: sum.splits option.splits)

theorem resolve_type_safe_witness:
  "Resolve boost_ref \<lparr>rawi = (\<lambda>_. 7), rawd = (\<lambda>_. dzero)\<rparr> ''jump to=1'' = Inr None"
proof -
  have "\<forall>t \<in> set kv_ops. \<not> iequals_doc (op_of ''jump to=1'') t" by code_simp
  then show ?thesis
    using resolve_type_safe [OF boost_ref_ok, of "''jump to=1''" "\<lparr>rawi = (\<lambda>_. 7), rawd = (\<lambda>_. dzero)\<rparr>"]
    by (auto split: sum.splits option.splits)
qed

end
