(* ===== verification/NonKV_Protocol.thy ===== *)
theory NonKV_Protocol
  imports Boost_Env Proto_KV
begin

text \<open>
  The fixed-format protocol of the GWAC mounts (\<open>NonKVProtocol.cpp\<close>): lines
  \<open>g#<gid><uid><body>%<date>%<time>%<serial>%\<close>. One part resolves received lines
  (status, position, focus, response to a command), with the exceptions of \<open>string_ref::at\<close> and
  the fixed-size buffers it fills; the other builds the twelve commands, each with the current
  serial number, which then advances. \<open>nonkv_encoder\<close> states what the commands share.
\<close>

section \<open>Data\<close>

record nonkvbase =
  nk_type :: string
  nk_gid :: string
  nk_uid :: string
  nk_utc :: string
  nk_sn :: int

record nonkvstatus = nonkvbase +
  nk_n :: int
  nk_state :: "int list"   \<comment> \<open>\<open>int8_t state[20]\<close>\<close>

record nonkvposition = nonkvbase +
  nk_ra :: double
  nk_dec :: double

record nonkvfocus = nonkvbase +
  nk_pos :: "int list"     \<comment> \<open>\<open>int pos[10]\<close>\<close>

datatype nonkvmsg =
    NKStatus nonkvstatus
  | NKPosition nonkvposition
  | NKFocus nonkvfocus
  | NKResponse nonkvbase

definition NONKVTYPE_STATE :: string where "NONKVTYPE_STATE = ''status''"
definition NONKVTYPE_POS :: string where "NONKVTYPE_POS = ''currentpos''"
definition NONKVTYPE_FOCUS :: string where "NONKVTYPE_FOCUS = ''focus''"
definition NONKVTYPE_RESPONSE :: string where "NONKVTYPE_RESPONSE = ''rsp''"

definition NonKVBase_new :: "raw \<Rightarrow> string \<Rightarrow> nonkvbase" where
  "NonKVBase_new R t = \<lparr>nk_type = t, nk_gid = [], nk_uid = [], nk_utc = [], nk_sn = rawi R ''sn''\<rparr>"

definition NonKVStatus_new :: "raw \<Rightarrow> nonkvstatus" where
  "NonKVStatus_new R = nonkvbase.extend (NonKVBase_new R NONKVTYPE_STATE)
     (nonkvstatus.fields 0 (replicate 20 (rawi R ''state'')))"

definition NonKVPosition_new :: "raw \<Rightarrow> nonkvposition" where
  "NonKVPosition_new R = nonkvbase.extend (NonKVBase_new R NONKVTYPE_POS)
     (nonkvposition.fields (rawd R ''ra'') (rawd R ''dec''))"

definition NonKVFocus_new :: "raw \<Rightarrow> nonkvfocus" where
  "NonKVFocus_new R = nonkvbase.extend (NonKVBase_new R NONKVTYPE_FOCUS)
     (nonkvfocus.fields (replicate 10 INT_MAX))"

definition NonKVResponse_new :: "raw \<Rightarrow> nonkvbase" where
  "NonKVResponse_new R = NonKVBase_new R NONKVTYPE_RESPONSE"

fun nk_base :: "nonkvmsg \<Rightarrow> nonkvbase" where
  "nk_base (NKStatus b) = nonkvbase.truncate b"
| "nk_base (NKPosition b) = nonkvbase.truncate b"
| "nk_base (NKFocus b) = nonkvbase.truncate b"
| "nk_base (NKResponse b) = b"

section \<open>Reading the characters of a line\<close>

definition s8 :: "int \<Rightarrow> int" where
  "s8 n = (n + 128) mod 256 - 128"

text \<open>\<open>sref.at(i)\<close>\<close>

definition at :: "string \<Rightarrow> int \<Rightarrow> crash + char" where
  "at s i = (if 0 \<le> i \<and> i < int (length s) then Inr (s ! nat i) else Inl (Uncaught OutOfRange))"

text \<open>\<open>for (; i < pos; ++i) t += sref.at(i)\<close>\<close>

function at_range :: "string \<Rightarrow> int \<Rightarrow> int \<Rightarrow> crash + string" where
  "at_range s i pos =
     (if i < pos then bindR (at s i) (\<lambda>c. bindR (at_range s (i + 1) pos) (\<lambda>t. Inr (c # t)))
      else Inr [])"
  by pat_completeness auto
termination
  by (relation "measure (\<lambda>(s, i, pos). nat (pos - i))") auto

text \<open>
  \<open>for (; i < n && sref.at(i) != sep; ++i) t += sref.at(i)\<close>: the characters and the final \<open>i\<close>.
\<close>

function until_sep :: "string \<Rightarrow> int \<Rightarrow> int \<Rightarrow> crash + string \<times> int" where
  "until_sep s n i =
     (if i < n then
        bindR (at s i) (\<lambda>c. if c \<noteq> CHR ''%''
           then bindR (until_sep s n (i + 1)) (\<lambda>(t, k). Inr (c # t, k))
           else Inr ([], i))
      else Inr ([], i))"
  by pat_completeness auto
termination
  by (relation "measure (\<lambda>(s, n, i). nat (n - i))") auto

declare at_range.simps [simp del] until_sep.simps [simp del]

text \<open>A text collected in \<open>char buff[20]\<close>, with its terminating NUL.\<close>

definition in_buff20 :: "string \<Rightarrow> crash + string" where
  "in_buff20 t = (if length t < 20 then Inr t else Inl BufferOverrun)"

section \<open>Resolving a received line\<close>

definition nk_resolve_focus :: "boost \<Rightarrow> string \<Rightarrow> int" where
  "nk_resolve_focus B pid =
     (if iequals B pid ''es'' then 0
      else if iequals B pid ''ws'' then 1
      else if iequals B pid ''wn'' then 2
      else if iequals B pid ''en'' then 3
      else if iequals B pid ''mid'' then 4
      else - 1)"

text \<open>Every branch gives the body, if any, and the index \<open>i\<close> the common tail continues from.\<close>

definition resolve_rsp :: "raw \<Rightarrow> string \<Rightarrow> int \<Rightarrow> crash + nonkvmsg option \<times> int" where
  "resolve_rsp R s pos =
     bindR (at_range s 2 5) (\<lambda>gid.
     bindR (at_range s 5 8) (\<lambda>uid.
     bindR (at s (pos + 3)) (\<lambda>c.
       Inr (Some (NKResponse ((NonKVResponse_new R)\<lparr>nk_gid := gid, nk_uid := uid\<rparr>)),
            if c \<noteq> CHR ''%'' then pos + 2 else pos + 3))))"

definition resolve_status :: "raw \<Rightarrow> string \<Rightarrow> int \<Rightarrow> int \<Rightarrow> crash + nonkvmsg option \<times> int" where
  "resolve_status R s n pos =
     bindR (at_range s 2 pos) (\<lambda>gid.
     bindR (until_sep s n (pos + int (length NONKVTYPE_STATE))) (\<lambda>(t, i).
       if 20 < length t then Inl BufferOverrun
       else let b = NonKVStatus_new R in
         Inr (Some (NKStatus (b\<lparr>nk_gid := gid, nk_n := int (length t),
           nk_state := map (\<lambda>c. s8 (code_of c - 48)) t @ drop (length t) (nk_state b)\<rparr>)), i)))"

definition resolve_position :: "raw \<Rightarrow> string \<Rightarrow> int \<Rightarrow> int \<Rightarrow> crash + nonkvmsg option \<times> int" where
  "resolve_position R s n pos =
     bindR (at_range s 2 (pos - 3)) (\<lambda>gid.
     bindR (at_range s (max 2 (pos - 3)) pos) (\<lambda>uid.
     bindR (until_sep s n (pos + int (length NONKVTYPE_POS))) (\<lambda>(t1, i1).
     bindR (in_buff20 t1) (\<lambda>b1.
     bindR (until_sep s n (i1 + 1)) (\<lambda>(t2, i2).
     bindR (in_buff20 t2) (\<lambda>b2.
       let e4 = double_of_dec False 1 (- 4) in
       Inr (if t1 \<noteq> [] \<and> t2 \<noteq> [] then
              Some (NKPosition ((NonKVPosition_new R)\<lparr>nk_gid := gid, nk_uid := uid,
                nk_ra := dmul (double_of_int (atoi b1)) e4, nk_dec := dmul (double_of_int (atoi b2)) e4\<rparr>))
            else None, i2)))))))"

text \<open>
  The loop over the focuser positions: \<open>buff\<close> collects the letters of a focuser name, \<open>buff1\<close>
  its value. The result is the final \<open>i\<close>, \<open>index\<close> and \<open>body->pos\<close>.
\<close>

function focus_scan ::
  "boost \<Rightarrow> string \<Rightarrow> int \<Rightarrow> int \<Rightarrow> string \<Rightarrow> string \<Rightarrow> int \<Rightarrow> int list \<Rightarrow> crash + int \<times> int \<times> int list" where
  "focus_scan B s n i buff buff1 index ps =
     (if i < n then
        bindR (at s i) (\<lambda>ch.
          if ch = CHR ''%'' then
            (if buff \<noteq> [] \<and> buff1 \<noteq> [] then
               bindR (in_buff20 buff) (\<lambda>b. bindR (in_buff20 buff1) (\<lambda>b1.
                 let ix = nk_resolve_focus B b in
                 Inr (i, ix, if 0 \<le> ix then ps[nat ix := atoi b1] else ps)))
             else Inr (i, index, ps))
          else if isalpha ch then
            (if buff \<noteq> [] \<and> buff1 \<noteq> [] then
               bindR (in_buff20 buff) (\<lambda>b. bindR (in_buff20 buff1) (\<lambda>b1.
                 let ix = nk_resolve_focus B b in
                 if ix < 0 then Inr (i, ix, ps)
                 else focus_scan B s n (i + 1) [ch] [] ix (ps[nat ix := atoi b1])))
             else if length buff < 20 then focus_scan B s n (i + 1) (buff @ [ch]) buff1 index ps
             else Inl BufferOverrun)
          else if length buff1 < 20 then focus_scan B s n (i + 1) buff (buff1 @ [ch]) index ps
          else Inl BufferOverrun)
      else Inr (i, index, ps))"
  by pat_completeness auto
termination
  by (relation "measure (\<lambda>(B, s, n, i, b, b1, x, ps). nat (n - i))") auto

declare focus_scan.simps [simp del]

definition resolve_focus_pos :: "boost \<Rightarrow> raw \<Rightarrow> string \<Rightarrow> int \<Rightarrow> int \<Rightarrow> crash + nonkvmsg option \<times> int" where
  "resolve_focus_pos B R s n pos =
     bindR (at_range s 2 (pos - 3)) (\<lambda>gid.
     bindR (at_range s (max 2 (pos - 3)) pos) (\<lambda>uid.
     let b = NonKVFocus_new R in
     bindR (focus_scan B s n (pos + int (length NONKVTYPE_FOCUS)) [] [] (- 1) (nk_pos b)) (\<lambda>(i, index, ps).
       Inr (if 0 \<le> index then Some (NKFocus (b\<lparr>nk_gid := gid, nk_uid := uid, nk_pos := ps\<rparr>)) else None, i))))"

fun nk_set_tail :: "nonkvmsg \<Rightarrow> string \<Rightarrow> int \<Rightarrow> nonkvmsg" where
  "nk_set_tail (NKStatus b) u sn = NKStatus (b\<lparr>nk_utc := u, nk_sn := sn\<rparr>)"
| "nk_set_tail (NKPosition b) u sn = NKPosition (b\<lparr>nk_utc := u, nk_sn := sn\<rparr>)"
| "nk_set_tail (NKFocus b) u sn = NKFocus (b\<lparr>nk_utc := u, nk_sn := sn\<rparr>)"
| "nk_set_tail (NKResponse b) u sn = NKResponse (b\<lparr>nk_utc := u, nk_sn := sn\<rparr>)"

text \<open>Group and unit must have three characters; then date, time and serial number.\<close>

definition resolve_tail :: "string \<Rightarrow> int \<Rightarrow> nonkvmsg \<Rightarrow> int \<Rightarrow> crash + nonkvmsg option" where
  "resolve_tail s n m i =
     (let b = nk_base m in
      if length (nk_gid b) \<noteq> 3 \<or> (nk_uid b \<noteq> [] \<and> length (nk_uid b) \<noteq> 3) then Inr None
      else
        bindR (until_sep s n (i + 1)) (\<lambda>(d, i1).
        bindR (until_sep s n (i1 + 1)) (\<lambda>(t, i2).
        bindR (until_sep s n (i2 + 1)) (\<lambda>(u, i3).
        bindR (in_buff20 u) (\<lambda>b20.
          Inr (if u \<noteq> [] then Some (nk_set_tail m (nk_utc b @ d @ ''T'' @ t) (atoi b20)) else None))))))"

definition NonKV_Resolve :: "boost \<Rightarrow> raw \<Rightarrow> string \<Rightarrow> crash + nonkvmsg option" where
  "NonKV_Resolve B R s =
     (let n = int (length s) - 1;
          proto =
            (if \<not> prefix ''g#'' s \<or> \<not> suffix ''%'' s then Inr (None, 0)
             else if 0 < sref_find B s ''Rec'' then resolve_rsp R s (sref_find B s ''Rec'')
             else if 0 < sref_find B s ''finished'' then Inr (None, 0)
             else if 0 < sref_find B s NONKVTYPE_STATE then resolve_status R s n (sref_find B s NONKVTYPE_STATE)
             else if 0 < sref_find B s NONKVTYPE_POS then resolve_position R s n (sref_find B s NONKVTYPE_POS)
             else if 0 < sref_find B s NONKVTYPE_FOCUS then resolve_focus_pos B R s n (sref_find B s NONKVTYPE_FOCUS)
             else Inr (None, 0))
      in bindR proto (\<lambda>(m, i). case m of None \<Rightarrow> Inr None | Some m \<Rightarrow> resolve_tail s n m i))"

section \<open>Building commands\<close>

record nonkv =
  np_gid :: string
  np_uid :: string
  np_serno :: int

definition NonKV_new :: "string \<Rightarrow> string \<Rightarrow> nonkv" where
  "NonKV_new gid uid = \<lparr>np_gid = gid, np_uid = uid, np_serno = 1\<rparr>"

definition increase_serno :: "nonkv \<Rightarrow> int \<times> nonkv" where
  "increase_serno p =
     (let s = np_serno p; s' = s + 1 in (s, p\<lparr>np_serno := (if s' = 100000 then 1 else s')\<rparr>))"

text \<open>The frame of a command: \<open>"g#%s%s"\<close>, the command, \<open>"%%%s%%%s%%%05d%%\n"\<close>.\<close>

definition command_text :: "boost \<Rightarrow> ptime \<Rightarrow> nonkv \<Rightarrow> string \<Rightarrow> string" where
  "command_text B now p body =
     ''g#'' @ np_gid p @ np_uid p @ body @ ''%'' @ iso_date B now @ ''%'' @ tod_str B now @ ''%''
       @ fmt_d False True 5 (np_serno p) @ ''%'' @ [CHR 0x0A]"

definition emit :: "boost \<Rightarrow> ptime \<Rightarrow> string \<Rightarrow> nonkv \<Rightarrow> string \<times> int \<times> nonkv" where
  "emit B now body p =
     (let (serno, p') = increase_serno p
      in (snprintf_cut 100 (command_text B now p body), serno, p'))"

definition deg4 :: "double \<Rightarrow> int" where
  "deg4 x = int_cast (dmul x (double_of_int 10000))"

definition milli :: "double \<Rightarrow> int" where
  "milli x = int_cast (dadd (dmul x (double_of_int 1000)) (double_of_dec False 5 (- 1)))"

definition NonKV_FindHome :: "boost \<Rightarrow> ptime \<Rightarrow> bool \<Rightarrow> bool \<Rightarrow> nonkv \<Rightarrow> string \<times> int \<times> nonkv" where
  "NonKV_FindHome B now ra dec p =
     emit B now (''homera'' @ show_int (of_bool ra) @ ''dec'' @ show_int (of_bool dec)) p"

definition NonKV_HomeSync :: "boost \<Rightarrow> ptime \<Rightarrow> double \<Rightarrow> double \<Rightarrow> nonkv \<Rightarrow> string \<times> int \<times> nonkv" where
  "NonKV_HomeSync B now ra dec p =
     emit B now (''sync'' @ fmt_d False True 7 (deg4 ra) @ ''%'' @ fmt_d True True 7 (deg4 dec)) p"

definition NonKV_Slew :: "boost \<Rightarrow> ptime \<Rightarrow> double \<Rightarrow> double \<Rightarrow> nonkv \<Rightarrow> string \<times> int \<times> nonkv" where
  "NonKV_Slew B now ra dec p =
     emit B now (''slew'' @ fmt_d False True 7 (deg4 ra) @ ''%'' @ fmt_d True True 7 (deg4 dec)) p"

definition NonKV_SlewHD :: "boost \<Rightarrow> ptime \<Rightarrow> double \<Rightarrow> double \<Rightarrow> nonkv \<Rightarrow> string \<times> int \<times> nonkv" where
  "NonKV_SlewHD B now ha dec p =
     (let ha' = (if dlt ha dzero then dadd ha (double_of_int 360) else ha) in
      emit B now (''HA'' @ fmt_d False True 7 (deg4 ha') @ ''%'' @ fmt_d True True 7 (deg4 dec)) p)"

definition NonKV_Guide :: "boost \<Rightarrow> ptime \<Rightarrow> int \<Rightarrow> int \<Rightarrow> nonkv \<Rightarrow> string \<times> int \<times> nonkv" where
  "NonKV_Guide B now ra dec p =
     emit B now (''guide'' @ fmt_d True True 6 ra @ ''%'' @ fmt_d True True 6 dec) p"

definition NonKV_Park :: "boost \<Rightarrow> ptime \<Rightarrow> nonkv \<Rightarrow> string \<times> int \<times> nonkv" where
  "NonKV_Park B now p = emit B now ''park'' p"

definition NonKV_AbortSlew :: "boost \<Rightarrow> ptime \<Rightarrow> nonkv \<Rightarrow> string \<times> int \<times> nonkv" where
  "NonKV_AbortSlew B now p = emit B now ''abortslew'' p"

definition NonKV_Track :: "boost \<Rightarrow> ptime \<Rightarrow> nonkv \<Rightarrow> string \<times> int \<times> nonkv" where
  "NonKV_Track B now p = emit B now ''track'' p"

definition NonKV_TrackVelocity :: "boost \<Rightarrow> ptime \<Rightarrow> double \<Rightarrow> double \<Rightarrow> nonkv \<Rightarrow> string \<times> int \<times> nonkv" where
  "NonKV_TrackVelocity B now ra dec p =
     emit B now (''trackvel'' @ fmt_d True False 8 (milli ra) @ ''%'' @ fmt_d True False 8 (milli dec)) p"

definition NonKV_FWHM :: "boost \<Rightarrow> ptime \<Rightarrow> string \<Rightarrow> string \<Rightarrow> double \<Rightarrow> nonkv \<Rightarrow> string \<times> int \<times> nonkv" where
  "NonKV_FWHM B now cid tmobs fwhm p =
     emit B now (''fwhm'' @ cid @ fmt_d False True 4 (milli fwhm) @ ''T'' @ tmobs) p"

definition NonKV_Focus :: "boost \<Rightarrow> ptime \<Rightarrow> string \<Rightarrow> int \<Rightarrow> nonkv \<Rightarrow> string \<times> int \<times> nonkv" where
  "NonKV_Focus B now cid pos p = emit B now (''focus'' @ cid @ fmt_d True True 5 pos) p"

definition NonKV_FocusSync :: "boost \<Rightarrow> ptime \<Rightarrow> string \<Rightarrow> nonkv \<Rightarrow> string \<times> int \<times> nonkv" where
  "NonKV_FocusSync B now cid p = emit B now (''focus'' @ cid @ ''clear'') p"

end
