(* ===== verification/NonKV_Commands.thy ===== *)
theory NonKV_Commands
  imports NonKV_Protocol
begin

text \<open>
  The commands to a mount share a frame and a serial number. \<open>nonkv_encoder\<close> is the contract
  between the twelve encoders and the code that sends them and waits for the response; every
  encoder is an instance. The second part resolves the response to a command.
\<close>

section \<open>Serial numbers\<close>

definition serno_ok :: "nonkv \<Rightarrow> bool" where
  "serno_ok p \<longleftrightarrow> 1 \<le> np_serno p \<and> np_serno p \<le> 99999"

lemma NonKV_new_serno: "serno_ok (NonKV_new gid uid)"
  by (simp add: serno_ok_def NonKV_new_def)

lemma increase_serno_simps [simp]:
  "fst (increase_serno p) = np_serno p"
  "np_gid (snd (increase_serno p)) = np_gid p"
  "np_uid (snd (increase_serno p)) = np_uid p"
  by (simp_all add: increase_serno_def Let_def)

lemma increase_serno_ok: "serno_ok p \<Longrightarrow> serno_ok (snd (increase_serno p))"
  by (simp add: serno_ok_def increase_serno_def Let_def)

lemma increase_serno_mod:
  "serno_ok p \<Longrightarrow> np_serno (snd (increase_serno p)) = np_serno p mod 99999 + 1"
  by (cases "np_serno p = 99999") (simp_all add: serno_ok_def increase_serno_def Let_def)

text \<open>The serial numbers of consecutive commands.\<close>

fun sernos :: "nat \<Rightarrow> nonkv \<Rightarrow> int list" where
  "sernos 0 p = []"
| "sernos (Suc k) p = (let (s, p') = increase_serno p in s # sernos k p')"

lemma sernos_Suc: "sernos (Suc k) p = np_serno p # sernos k (snd (increase_serno p))"
  by (simp add: increase_serno_def Let_def)

lemma sernos_nth:
  "serno_ok p \<Longrightarrow> i < k \<Longrightarrow> sernos k p ! i = (np_serno p - 1 + int i) mod 99999 + 1"
proof (induction k arbitrary: p i)
  case 0
  then show ?case by simp
next
  case (Suc k)
  show ?case
  proof (cases i)
    case 0
    with Suc.prems show ?thesis by (simp add: sernos_Suc serno_ok_def del: sernos.simps)
  next
    case (Suc j)
    with Suc.prems Suc.IH [OF increase_serno_ok [OF Suc.prems(1)], of j]
    have "sernos (Suc k) p ! i = (np_serno p mod 99999 + int j) mod 99999 + 1"
      by (simp add: sernos_Suc increase_serno_mod del: sernos.simps)
    then show ?thesis using Suc by (simp add: mod_simps)
  qed
qed

lemma length_sernos [simp]: "length (sernos k p) = k"
  by (induction k arbitrary: p) (simp_all add: sernos_Suc del: sernos.simps(2))

text \<open>A serial number is not used again before 99999 commands have gone out.\<close>

lemma sernos_distinct:
  assumes "serno_ok p" and "k \<le> 99999"
  shows "distinct (sernos k p)"
proof -
  have "sernos k p ! i \<noteq> sernos k p ! j" if "i < j" "j < k" for i j
  proof
    assume "sernos k p ! i = sernos k p ! j"
    then have "(np_serno p - 1 + int i) mod 99999 = (np_serno p - 1 + int j) mod 99999"
      using sernos_nth [OF assms(1)] that by simp
    then have "(99999 :: int) dvd (np_serno p - 1 + int j) - (np_serno p - 1 + int i)"
      by (metis mod_eq_dvd_iff)
    then have "99999 dvd int (j - i)" using that by (simp add: of_nat_diff)
    moreover have "0 < int (j - i)" "int (j - i) < 99999" using that assms(2) by auto
    ultimately show False using zdvd_imp_le by fastforce
  qed
  then show ?thesis by (metis distinct_conv_nth length_sernos linorder_neqE_nat)
qed

section \<open>The contract of an encoder\<close>

locale nonkv_encoder =
  fixes enc :: "boost \<Rightarrow> ptime \<Rightarrow> nonkv \<Rightarrow> string \<times> int \<times> nonkv"
    and body :: string
  assumes enc_law: "enc B now p = emit B now body p"
begin

lemma sent: "fst (enc B now p) = snprintf_cut 100 (command_text B now p body)"
  by (simp add: enc_law emit_def case_prod_unfold)

lemma serial: "fst (snd (enc B now p)) = np_serno p"
  by (simp add: enc_law emit_def case_prod_unfold)

lemma state: "snd (snd (enc B now p)) = snd (increase_serno p)"
  by (simp add: enc_law emit_def case_prod_unfold)

lemma keeps_serno_ok: "serno_ok p \<Longrightarrow> serno_ok (snd (snd (enc B now p)))"
  by (simp add: state increase_serno_ok)

lemma keeps_ids:
  "np_gid (snd (snd (enc B now p))) = np_gid p"
  "np_uid (snd (snd (enc B now p))) = np_uid p"
  by (simp_all add: state)

lemma length_bound: "length (fst (enc B now p)) \<le> 99"
  by (simp add: sent snprintf_cut_def)

text \<open>A command whose body fits is sent whole: frame, body, clock and serial number.\<close>

lemma whole:
  assumes "boost_ok B" and "serno_ok p" and "length (np_gid p) + length (np_uid p) + length body \<le> 69"
  shows "fst (enc B now p) = command_text B now p body"
proof -
  have "length (fmt_d False True 5 (np_serno p)) = 5"
    using assms(2) by (intro length_fmt_d0) (simp_all add: serno_ok_def)
  then show ?thesis
    using assms(3) by (simp add: sent snprintf_cut_def command_text_def boost_clock [OF assms(1)])
qed

end

interpretation find_home: nonkv_encoder "\<lambda>B now. NonKV_FindHome B now ra dec"
    "''homera'' @ show_int (of_bool ra) @ ''dec'' @ show_int (of_bool dec)" for ra dec
  by unfold_locales (simp add: NonKV_FindHome_def)

interpretation home_sync: nonkv_encoder "\<lambda>B now. NonKV_HomeSync B now ra dec"
    "''sync'' @ fmt_d False True 7 (deg4 ra) @ ''%'' @ fmt_d True True 7 (deg4 dec)" for ra dec
  by unfold_locales (simp add: NonKV_HomeSync_def)

interpretation slew: nonkv_encoder "\<lambda>B now. NonKV_Slew B now ra dec"
    "''slew'' @ fmt_d False True 7 (deg4 ra) @ ''%'' @ fmt_d True True 7 (deg4 dec)" for ra dec
  by unfold_locales (simp add: NonKV_Slew_def)

interpretation slew_hd: nonkv_encoder "\<lambda>B now. NonKV_SlewHD B now ha dec"
    "''HA'' @ fmt_d False True 7 (deg4 (if dlt ha dzero then dadd ha (double_of_int 360) else ha))
      @ ''%'' @ fmt_d True True 7 (deg4 dec)" for ha dec
  by unfold_locales (simp add: NonKV_SlewHD_def Let_def)

interpretation guide: nonkv_encoder "\<lambda>B now. NonKV_Guide B now ra dec"
    "''guide'' @ fmt_d True True 6 ra @ ''%'' @ fmt_d True True 6 dec" for ra dec
  by unfold_locales (simp add: NonKV_Guide_def)

interpretation park: nonkv_encoder NonKV_Park "''park''"
  by unfold_locales (simp add: NonKV_Park_def)

interpretation abort_slew: nonkv_encoder NonKV_AbortSlew "''abortslew''"
  by unfold_locales (simp add: NonKV_AbortSlew_def)

interpretation track: nonkv_encoder NonKV_Track "''track''"
  by unfold_locales (simp add: NonKV_Track_def)

interpretation track_vel: nonkv_encoder "\<lambda>B now. NonKV_TrackVelocity B now ra dec"
    "''trackvel'' @ fmt_d True False 8 (milli ra) @ ''%'' @ fmt_d True False 8 (milli dec)" for ra dec
  by unfold_locales (simp add: NonKV_TrackVelocity_def)

interpretation fwhm: nonkv_encoder "\<lambda>B now. NonKV_FWHM B now cid tmobs x"
    "''fwhm'' @ cid @ fmt_d False True 4 (milli x) @ ''T'' @ tmobs" for cid tmobs x
  by unfold_locales (simp add: NonKV_FWHM_def)

interpretation focus: nonkv_encoder "\<lambda>B now. NonKV_Focus B now cid pos"
    "''focus'' @ cid @ fmt_d True True 5 pos" for cid pos
  by unfold_locales (simp add: NonKV_Focus_def)

interpretation focus_sync: nonkv_encoder "\<lambda>B now. NonKV_FocusSync B now cid"
    "''focus'' @ cid @ ''clear''" for cid
  by unfold_locales (simp add: NonKV_FocusSync_def)

section \<open>The response to a command\<close>

text \<open>
  A mount answers with the command's text and \<open>Rec\<close> in front of the clock
  (\<open>g#001001trackRec%2024-03-28%10:17:56%00001%\<close>).
\<close>

definition response_text :: "boost \<Rightarrow> ptime \<Rightarrow> string \<Rightarrow> string \<Rightarrow> string \<Rightarrow> int \<Rightarrow> string" where
  "response_text B now gid uid body serno =
     ''g#'' @ gid @ uid @ body @ ''Rec%'' @ iso_date B now @ ''%'' @ tod_str B now @ ''%''
       @ fmt_d False True 5 serno @ ''%''"

lemma at_append:
  "int (length a) \<le> i \<Longrightarrow> at (a @ b) i = at b (i - int (length a))"
  by (auto simp: at_def nth_append nat_diff_distrib)

lemma at_mid: "i = int (length a) \<Longrightarrow> at (a @ c # b) i = Inr c"
  by (simp add: at_def)

lemma at_range_mid: "i = int (length a) \<Longrightarrow> j = i + int (length t) \<Longrightarrow> at_range (a @ t @ b) i j = Inr t"
proof (induction t arbitrary: a i)
  case Nil
  then show ?case by (simp add: at_range.simps)
next
  case (Cons c t)
  have "at_range ((a @ [c]) @ t @ b) (i + 1) j = Inr t"
    using Cons.prems by (intro Cons.IH) simp_all
  moreover have "at (a @ c # t @ b) i = Inr c" using Cons.prems by (intro at_mid) simp
  ultimately show ?case using Cons.prems by (subst at_range.simps) simp
qed

lemma until_sep_mid:
  "i = int (length a) \<Longrightarrow> CHR ''%'' \<notin> set t \<Longrightarrow> i + int (length t) < n \<Longrightarrow>
    until_sep (a @ t @ CHR ''%'' # b) n i = Inr (t, i + int (length t))"
proof (induction t arbitrary: a i)
  case Nil
  then show ?case using at_mid [of i a] by (subst until_sep.simps) simp
next
  case (Cons c t)
  have "until_sep ((a @ [c]) @ t @ CHR ''%'' # b) n (i + 1) = Inr (t, i + 1 + int (length t))"
    using Cons.prems by (intro Cons.IH) simp_all
  moreover have "at (a @ c # t @ CHR ''%'' # b) i = Inr c" using Cons.prems by (intro at_mid) simp
  ultimately show ?case using Cons.prems by (subst until_sep.simps) auto
qed

text \<open>The last text, which ends at the final character of the line.\<close>

lemma until_sep_last:
  "i = int (length a) \<Longrightarrow> CHR ''%'' \<notin> set t \<Longrightarrow> i + int (length t) = n \<Longrightarrow>
    until_sep (a @ t @ b) n i = Inr (t, n)"
proof (induction t arbitrary: a i)
  case Nil
  then show ?case by (subst until_sep.simps) simp
next
  case (Cons c t)
  have "until_sep ((a @ [c]) @ t @ b) n (i + 1) = Inr (t, n)"
    using Cons.prems by (intro Cons.IH) simp_all
  moreover have "at (a @ c # t @ b) i = Inr c" using Cons.prems by (intro at_mid) simp
  ultimately show ?case using Cons.prems by (subst until_sep.simps) auto
qed

lemma find_doc_first_char:
  assumes "CHR ''R'' \<notin> set a"
  shows "find_doc ''Rec'' (a @ ''Rec'' @ b) = int (length a)"
proof (rule find_doc_upto, intro allI impI)
  fix i assume "i < length a"
  then have "hd (drop i (a @ ''Rec'' @ b)) = a ! i" by (simp add: hd_drop_conv_nth nth_append)
  moreover have "a ! i \<noteq> CHR ''R''" using \<open>i < length a\<close> assms by (metis nth_mem)
  moreover have "drop i (a @ ''Rec'' @ b) \<noteq> []" using \<open>i < length a\<close> by simp
  ultimately show "take (length ''Rec'') (drop i (a @ ''Rec'' @ b)) \<noteq> ''Rec''"
    by (cases "drop i (a @ ''Rec'' @ b)") auto
qed

lemma date_no_percent: "boost_ok B \<Longrightarrow> CHR ''%'' \<notin> set (iso_date B t)"
  using boost_clock(2) [of B t] by (auto simp: date_chars_def isdigit_def code_of_def)

lemma time_no_percent: "boost_ok B \<Longrightarrow> CHR ''%'' \<notin> set (tod_str B t)"
  using boost_clock(4) [of B t] by (auto simp: time_chars_def isdigit_def code_of_def)

lemma atoi_fmt_d0: "0 \<le> n \<Longrightarrow> n \<le> INT_MAX \<Longrightarrow> atoi (fmt_d False True w n) = n"
  using s32_id [of n]
  by (simp add: atoi_def strtol10_fmt_d0 clamp64_def in_s32_def INT_MAX_def INT_MIN_def)

theorem resolve_response:
  assumes B: "boost_ok B" and len: "length gid = 3" "length uid = 3"
    and R: "CHR ''R'' \<notin> set (gid @ uid @ body)" and sn: "0 \<le> serno" "serno \<le> 99999"
  shows "NonKV_Resolve B R (response_text B now gid uid body serno) =
    Inr (Some (NKResponse \<lparr>nk_type = NONKVTYPE_RESPONSE, nk_gid = gid, nk_uid = uid,
      nk_utc = iso_date B now @ ''T'' @ tod_str B now, nk_sn = serno\<rparr>))"
proof -
  define d where "d = iso_date B now"
  define t where "t = tod_str B now"
  define u where "u = fmt_d False True 5 serno"
  define a where "a = ''g#'' @ gid @ uid @ body"
  define s where "s = response_text B now gid uid body serno"
  define n where "n = int (length s) - 1"
  have d: "length d = 10" "CHR ''%'' \<notin> set d" and t: "length t = 8" "CHR ''%'' \<notin> set t"
    using boost_clock [OF B] date_no_percent [OF B] time_no_percent [OF B] by (simp_all add: d_def t_def)
  have ul: "length u = 5" using sn by (simp add: u_def length_fmt_d0)
  have ud: "\<forall>c \<in> set u. isdigit c" using sn fmt_d0_digits by (simp add: u_def)
  then have up: "CHR ''%'' \<notin> set u" using isdigit_char_neq(5) by blast
  have s0: "s = a @ ''Rec'' @ ''%'' @ d @ ''%'' @ t @ ''%'' @ u @ ''%''"
    by (simp add: s_def a_def response_text_def d_def t_def u_def)
  have n: "n = int (length a) + 29" by (simp add: n_def s0 d t ul)
  have pos: "sref_find B s ''Rec'' = int (length a)"
    using R find_doc_first_char [of a] by (simp add: boost_laws [OF B] s0 a_def)
  have gid: "at_range s 2 5 = Inr gid"
    using at_range_mid [of 2 "''g#''" 5 gid] len by (simp add: s0 a_def)
  have uid: "at_range s 5 8 = Inr uid"
    using at_range_mid [of 5 "''g#'' @ gid" 8 uid] len by (simp add: s0 a_def)
  have sep: "at s (int (length a) + 3) = Inr (CHR ''%'')"
    using at_mid [of "int (length a) + 3" "a @ ''Rec''" "CHR ''%''"] by (simp add: s0)
  have u1: "until_sep s n (4 + int (length a)) = Inr (d, int (length a) + 14)"
    using until_sep_mid [of "int (length a) + 4" "a @ ''Rec%''" d n] d n
    by (simp add: s0 add.commute)
  have u2: "until_sep s n (15 + int (length a)) = Inr (t, int (length a) + 23)"
    using until_sep_mid [of "int (length a) + 15" "a @ ''Rec%'' @ d @ ''%''" t n] d t n
    by (simp add: s0 add.commute)
  have u3: "until_sep s n (24 + int (length a)) = Inr (u, int (length a) + 29)"
    using until_sep_last [of "int (length a) + 24" "a @ ''Rec%'' @ d @ ''%'' @ t @ ''%''" u n] d t up ul n
    by (simp add: s0 add.commute)
  have shape: "prefix ''g#'' s" "suffix ''%'' s" "a \<noteq> []" by (simp_all add: s0 a_def suffix_def)
  have "atoi u = serno" using sn by (simp add: u_def atoi_fmt_d0 INT_MAX_def)
  moreover have "u \<noteq> []" using ul by auto
  ultimately show ?thesis
    using shape len unfolding s_def [symmetric] NonKV_Resolve_def n_def [symmetric]
    by (simp add: pos resolve_rsp_def gid uid sep resolve_tail_def NonKVResponse_new_def NonKVBase_new_def
        u1 u2 u3 in_buff20_def ul d_def t_def Let_def)
qed

text \<open>
  Lines a mount should not send bring the server down: a response shorter than the two
  identifications leaves \<open>Resolve\<close> by an exception no caller handles, and a status line of more
  than twenty mounts writes behind \<open>state\<close>.
\<close>

lemma short_response_throws:
  "NonKV_Resolve boost_ref R ''g#Rec%'' = Inl (Uncaught OutOfRange)"
  by (simp add: NonKV_Resolve_def boost_ref_def resolve_rsp_def at_range.simps at_def suffix_def
      numeral_eq_Suc)

end
