(* ===== verification/Tcp_Client.thy ===== *)
theory Tcp_Client
  imports Boost_Env
begin

text \<open>
  The buffers of a TCP connection (\<open>AsioTCP.cpp\<close>, class \<open>TcpClient\<close>): received bytes wait in a
  circular buffer until a handler looks for a line and reads it; bytes to send wait in another
  until the socket takes them. The socket itself (\<open>boost::asio\<close>) is outside: completions enter
  as the arguments of \<open>handle_read\<close> and \<open>handle_write\<close>, an \<open>async_write_some\<close> under way is the
  number of bytes handed over in \<open>tc_inflight\<close>. \<open>line_source\<close> is the contract the message
  handlers use to take lines from a connection.
\<close>

definition TCP_PACK_SIZE :: int where "TCP_PACK_SIZE = 1500"

definition CRC_CAPACITY :: nat where "CRC_CAPACITY = nat (TCP_PACK_SIZE * 50)"

record tcpclient =
  tc_open :: bool
  crcbuf_read :: string
  crcbuf_write :: string
  tc_inflight :: "int option"   \<comment> \<open>size of the write the socket works on\<close>

definition TcpClient_new :: tcpclient where
  "TcpClient_new = \<lparr>tc_open = False, crcbuf_read = [], crcbuf_write = [], tc_inflight = None\<rparr>"

definition Tcp_Close :: "tcpclient \<Rightarrow> tcpclient" where
  "Tcp_Close c = c\<lparr>tc_open := False\<rparr>"

section \<open>Reading\<close>

text \<open>\<open>Read(data, n, from)\<close>: the return value, the bytes stored in \<open>data\<close>, the connection.\<close>

definition Tcp_Read :: "boost \<Rightarrow> int \<Rightarrow> int \<Rightarrow> tcpclient \<Rightarrow> int \<times> string \<times> tcpclient" where
  "Tcp_Read B n from c =
     (if n \<le> 0 \<or> from < 0 then (0, [], c)
      else
        let size = int (length (crcbuf_read c));
            to_read = (if size > from + n then n else size - from)
        in if 0 < to_read then
             (to_read, map (\<lambda>i. crcbuf_read c ! i) [nat from..<nat (from + to_read)],
              c\<lparr>crcbuf_read := cb_erase B (crcbuf_read c) (nat (from + to_read))\<rparr>)
           else (to_read, [], c))"

definition Tcp_Lookup_first :: "tcpclient \<Rightarrow> int \<times> char option" where
  "Tcp_Lookup_first c =
     (int (length (crcbuf_read c)), case crcbuf_read c of [] \<Rightarrow> None | x # _ \<Rightarrow> Some x)"

text \<open>Number of characters of the flag that agree with the buffer: the inner loop.\<close>

fun agree :: "string \<Rightarrow> string \<Rightarrow> nat" where
  "agree (f # fs) (x # xs) = (if f = x then Suc (agree fs xs) else 0)"
| "agree _ _ = 0"

function lookup_loop :: "string \<Rightarrow> string \<Rightarrow> int \<Rightarrow> int \<Rightarrow> int" where
  "lookup_loop flag buf pos endp =
     (if pos \<le> endp then
        (if agree flag (drop (nat pos) buf) = length flag then pos
         else lookup_loop flag buf (pos + 1) endp)
      else - 1)"
  by pat_completeness auto
termination
  by (relation "measure (\<lambda>(flag, buf, pos, endp). nat (endp + 1 - pos))") auto

declare lookup_loop.simps [simp del]

text \<open>\<open>Lookup(flag, n, from)\<close> with \<open>n = strlen(flag)\<close>, as every caller has it.\<close>

definition Tcp_Lookup :: "string \<Rightarrow> int \<Rightarrow> tcpclient \<Rightarrow> int" where
  "Tcp_Lookup flag from c =
     (if flag = [] \<or> from < 0 then - 1
      else lookup_loop flag (crcbuf_read c) from (int (length (crcbuf_read c)) - int (length flag)))"

text \<open>\<open>Lookup(chBegin, chEnd, posBegin, posEnd)\<close>: the matching pair of brackets.\<close>

fun bracket_loop :: "char \<Rightarrow> char \<Rightarrow> string \<Rightarrow> int \<Rightarrow> int \<Rightarrow> int \<Rightarrow> int \<Rightarrow> int \<Rightarrow> int \<times> int" where
  "bracket_loop b e [] pos n1 n2 pb pe = (pb, pe)"
| "bracket_loop b e (x # xs) pos n1 n2 pb pe =
     (if n2 = 0 \<or> n2 \<noteq> n1 then
        (if x = b then bracket_loop b e xs (pos + 1) (n1 + 1) n2 (if n1 + 1 = 1 then pos else pb) pe
         else if x = e then bracket_loop b e xs (pos + 1) n1 (n2 + 1) pb (if n2 + 1 = n1 then pos else pe)
         else bracket_loop b e xs (pos + 1) n1 n2 pb pe)
      else (pb, pe))"

definition Tcp_Lookup_bracket :: "char \<Rightarrow> char \<Rightarrow> tcpclient \<Rightarrow> int \<times> int \<times> int" where
  "Tcp_Lookup_bracket b e c =
     (let (pb, pe) = bracket_loop b e (crcbuf_read c) 0 0 0 1 0
      in (if pb < pe then pe - pb + 1 else 0, pb, pe))"

definition push_all :: "boost \<Rightarrow> string \<Rightarrow> string \<Rightarrow> string" where
  "push_all B buf data = foldl (cb_push B CRC_CAPACITY) buf data"

text \<open>\<open>handle_read(ec, n)\<close>: \<open>None\<close> for an error code, the bytes of \<open>pckRead_\<close> otherwise.\<close>

definition handle_read :: "boost \<Rightarrow> string option \<Rightarrow> tcpclient \<Rightarrow> tcpclient" where
  "handle_read B r c = (case r of
       None \<Rightarrow> c
     | Some data \<Rightarrow> c\<lparr>crcbuf_read := push_all B (crcbuf_read c) data\<rparr>)"

section \<open>Writing\<close>

definition start_write :: "tcpclient \<Rightarrow> tcpclient" where
  "start_write c =
     (let towrite = int (length (crcbuf_write c))
      in if towrite \<noteq> 0 then c\<lparr>tc_inflight := Some towrite\<rparr> else c)"

definition Tcp_Write :: "boost \<Rightarrow> string \<Rightarrow> tcpclient \<Rightarrow> int \<times> tcpclient" where
  "Tcp_Write B data c =
     (if data = [] then (0, c)
      else
        let wait_write = length (crcbuf_write c);
            capacity = int CRC_CAPACITY - int wait_write;
            had_write = (if int (length data) > capacity then capacity else int (length data));
            c1 = c\<lparr>crcbuf_write := push_all B (crcbuf_write c) (take (nat had_write) data)\<rparr>;
            c2 = (if wait_write = 0 then start_write c1 else c1)
        in (had_write, c2))"

text \<open>\<open>handle_write(ec, n)\<close>: \<open>None\<close> for an error code, the number of bytes sent otherwise.\<close>

definition handle_write :: "boost \<Rightarrow> nat option \<Rightarrow> tcpclient \<Rightarrow> tcpclient" where
  "handle_write B r c =
     (let c0 = c\<lparr>tc_inflight := None\<rparr> in
      case r of None \<Rightarrow> c0
      | Some n \<Rightarrow> start_write (c0\<lparr>crcbuf_write := cb_erase B (crcbuf_write c0) n\<rparr>))"

section \<open>Lookup finds the first occurrence\<close>

lemma agree_full: "agree flag xs = length flag \<longleftrightarrow> take (length flag) xs = flag"
  by (induction flag xs rule: agree.induct) auto

lemma lookup_loop_first:
  assumes "0 \<le> pos"
  shows "lookup_loop flag buf pos endp = r \<Longrightarrow>
    (r = - 1 \<and> (\<forall>i. pos \<le> i \<and> i \<le> endp \<longrightarrow> take (length flag) (drop (nat i) buf) \<noteq> flag))
    \<or> (pos \<le> r \<and> r \<le> endp \<and> take (length flag) (drop (nat r) buf) = flag
       \<and> (\<forall>i. pos \<le> i \<and> i < r \<longrightarrow> take (length flag) (drop (nat i) buf) \<noteq> flag))"
  using assms
proof (induction flag buf pos endp rule: lookup_loop.induct)
  case (1 flag buf pos endp)
  show ?case
  proof (cases "pos \<le> endp \<and> agree flag (drop (nat pos) buf) \<noteq> length flag")
    case True
    then have ne: "take (length flag) (drop (nat pos) buf) \<noteq> flag" by (simp add: agree_full)
    from True 1 have "lookup_loop flag buf (pos + 1) endp = r" by (subst (asm) lookup_loop.simps) simp
    with 1 True have IH: "(r = - 1 \<and> (\<forall>i. pos + 1 \<le> i \<and> i \<le> endp \<longrightarrow> take (length flag) (drop (nat i) buf) \<noteq> flag))
      \<or> (pos + 1 \<le> r \<and> r \<le> endp \<and> take (length flag) (drop (nat r) buf) = flag
       \<and> (\<forall>i. pos + 1 \<le> i \<and> i < r \<longrightarrow> take (length flag) (drop (nat i) buf) \<noteq> flag))"
      by simp
    have "i = pos \<or> pos + 1 \<le> i" if "pos \<le> i" for i using that by linarith
    with IH ne show ?thesis by (smt (verit))
  next
    case False
    with 1 show ?thesis by (subst (asm) (2) lookup_loop.simps) (auto simp: agree_full split: if_splits)
  qed
qed

text \<open>The specification: the least position from \<open>from\<close> on at which the flag stands, else -1.\<close>

theorem Tcp_Lookup_first_occurrence:
  assumes "flag \<noteq> []" and "0 \<le> from"
  shows "let r = Tcp_Lookup flag from c; here = (\<lambda>i. take (length flag) (drop i (crcbuf_read c)) = flag) in
    (r = - 1 \<and> (\<forall>i \<ge> nat from. \<not> here i)) \<or> (from \<le> r \<and> here (nat r) \<and> (\<forall>i. nat from \<le> i \<and> i < nat r \<longrightarrow> \<not> here i))"
proof -
  let ?buf = "crcbuf_read c"
  let ?e = "int (length ?buf) - int (length flag)"
  have beyond: "\<not> take (length flag) (drop i ?buf) = flag" if "?e < int i" for i
  proof
    assume "take (length flag) (drop i ?buf) = flag"
    then have "length flag \<le> length ?buf - i" by (metis length_drop length_take min.cobounded1 min_def)
    with that assms(1) show False by (cases flag) auto
  qed
  have r: "Tcp_Lookup flag from c = lookup_loop flag ?buf from ?e"
    using assms by (simp add: Tcp_Lookup_def)
  from lookup_loop_first [OF assms(2) r [symmetric]] show ?thesis
  proof (elim disjE conjE)
    assume a: "Tcp_Lookup flag from c = - 1"
      "\<forall>i. from \<le> i \<and> i \<le> ?e \<longrightarrow> take (length flag) (drop (nat i) ?buf) \<noteq> flag"
    have "\<not> take (length flag) (drop i ?buf) = flag" if "nat from \<le> i" for i
      using a(2) [rule_format, of "int i"] beyond [of i] that by (cases "int i \<le> ?e") auto
    with a(1) show ?thesis by simp
  next
    assume a: "from \<le> Tcp_Lookup flag from c"
      "take (length flag) (drop (nat (Tcp_Lookup flag from c)) ?buf) = flag"
      "\<forall>i. from \<le> i \<and> i < Tcp_Lookup flag from c \<longrightarrow> take (length flag) (drop (nat i) ?buf) \<noteq> flag"
    have "\<not> take (length flag) (drop i ?buf) = flag" if "nat from \<le> i" "i < nat (Tcp_Lookup flag from c)" for i
    proof -
      have "from \<le> int i" "int i < Tcp_Lookup flag from c" using that by linarith+
      with a(3) have "take (length flag) (drop (nat (int i)) ?buf) \<noteq> flag" by blast
      then show ?thesis by simp
    qed
    with a(1,2) show ?thesis by simp
  qed
qed

section \<open>Taking lines\<close>

definition lines_end :: string where "lines_end = [CHR 0x0A]"

text \<open>The complete lines of a text, in order, and the unfinished rest.\<close>

function lines_of :: "string \<Rightarrow> string list" where
  "lines_of s =
     (if CHR 0x0A \<in> set s then
        takeWhile (\<lambda>c. c \<noteq> CHR 0x0A) s # lines_of (drop (Suc (length (takeWhile (\<lambda>c. c \<noteq> CHR 0x0A) s))) s)
      else [])"
  by pat_completeness auto
termination
  by (relation "measure length") (auto intro: diff_less dest: length_pos_if_in_set)

declare lines_of.simps [simp del]

locale line_source =
  fixes lookup :: "'c \<Rightarrow> int"
    and read :: "int \<Rightarrow> 'c \<Rightarrow> int \<times> string \<times> 'c"
    and contents :: "'c \<Rightarrow> string"
  assumes lookup_none: "CHR 0x0A \<notin> set (contents c) \<Longrightarrow> lookup c = - 1"
    and lookup_some: "CHR 0x0A \<in> set (contents c) \<Longrightarrow>
      lookup c = int (length (takeWhile (\<lambda>x. x \<noteq> CHR 0x0A) (contents c)))"
    and read_data: "0 < n \<Longrightarrow> n \<le> int (length (contents c)) \<Longrightarrow>
      fst (snd (read n c)) = take (nat n) (contents c)"
    and read_rest: "0 < n \<Longrightarrow> n \<le> int (length (contents c)) \<Longrightarrow>
      contents (snd (snd (read n c))) = drop (nat n) (contents c)"
begin

text \<open>What a handler does per turn: look for the end of line, read the line with its end, cut the end.\<close>

definition get_line :: "'c \<Rightarrow> (string \<times> 'c) option" where
  "get_line c = (let pos = lookup c in
     if 0 \<le> pos then
       (case read (pos + 1) c of (n, data, c') \<Rightarrow> Some (take (nat pos) data, c'))
     else None)"

lemma get_line_None: "get_line c = None \<longleftrightarrow> lines_of (contents c) = []"
  by (cases "CHR 0x0A \<in> set (contents c)")
     (simp_all add: get_line_def lookup_none lookup_some lines_of.simps [of "contents c"] case_prod_unfold Let_def)

lemma get_line_Some:
  assumes "get_line c = Some (l, c')"
  shows "lines_of (contents c) = l # lines_of (contents c')"
    and "contents c = l @ lines_end @ contents c'"
    and "length (contents c') < length (contents c)"
proof -
  let ?s = "contents c"
  let ?l = "takeWhile (\<lambda>x. x \<noteq> CHR 0x0A) ?s"
  have nl: "CHR 0x0A \<in> set ?s"
    using assms lookup_none [of c] by (cases "CHR 0x0A \<in> set ?s") (simp_all add: get_line_def)
  then obtain a b where ab: "?s = a @ CHR 0x0A # b" "CHR 0x0A \<notin> set a" by (meson split_list_first)
  then have la: "?l = a" by (auto intro: takeWhile_stop)
  have pos: "lookup c = int (length a)" using lookup_some [OF nl] la by simp
  have n: "0 < int (length a) + 1" "int (length a) + 1 \<le> int (length ?s)" using ab by simp_all
  have "nat (int (length a) + 1) = Suc (length a)" by simp
  then have l: "l = a" and c': "contents c' = b"
    using assms read_data [OF n] read_rest [OF n] ab(1)
    by (auto simp: get_line_def pos case_prod_unfold Let_def)
  have "lines_of ?s = a # lines_of b"
    using nl la ab(1) by (subst lines_of.simps) simp
  with l c' show "lines_of ?s = l # lines_of (contents c')" by simp
  from l c' ab(1) show "?s = l @ lines_end @ contents c'" by (simp add: lines_end_def)
  from c' ab(1) show "length (contents c') < length ?s" by simp
qed

end

lemma lookup_newline:
  "Tcp_Lookup lines_end 0 c = (if CHR 0x0A \<in> set (crcbuf_read c)
     then int (length (takeWhile (\<lambda>x. x \<noteq> CHR 0x0A) (crcbuf_read c))) else - 1)"
proof -
  let ?s = "crcbuf_read c"
  let ?r = "Tcp_Lookup lines_end 0 c"
  have here: "take (length lines_end) (drop i ?s) = lines_end \<longleftrightarrow> i < length ?s \<and> ?s ! i = CHR 0x0A" for i
    by (cases "i < length ?s") (simp_all add: lines_end_def take_Suc_conv_app_nth hd_drop_conv_nth take_Suc)
  have spec: "(?r = - 1 \<and> (\<forall>i. \<not> (i < length ?s \<and> ?s ! i = CHR 0x0A))) \<or>
     (0 \<le> ?r \<and> nat ?r < length ?s \<and> ?s ! nat ?r = CHR 0x0A
       \<and> (\<forall>i < nat ?r. \<not> (i < length ?s \<and> ?s ! i = CHR 0x0A)))"
    using Tcp_Lookup_first_occurrence [of lines_end 0 c] unfolding here Let_def
    by (simp add: lines_end_def)
  show ?thesis
  proof (cases "CHR 0x0A \<in> set ?s")
    case False
    then have "\<not> (0 \<le> ?r \<and> nat ?r < length ?s \<and> ?s ! nat ?r = CHR 0x0A)" by (metis nth_mem)
    with spec False show ?thesis by auto
  next
    case True
    then have ex: "\<exists>i. i < length ?s \<and> ?s ! i = CHR 0x0A" by (metis in_set_conv_nth)
    with spec have r: "0 \<le> ?r" "nat ?r < length ?s" "?s ! nat ?r = CHR 0x0A"
      "\<forall>i < nat ?r. ?s ! i \<noteq> CHR 0x0A" by auto
    have "takeWhile (\<lambda>x. x \<noteq> CHR 0x0A) ?s = take (nat ?r) ?s"
      using r(2,3,4) by (intro takeWhile_eq_take_P_nth) auto
    with r(1,2) True show ?thesis by simp
  qed
qed

lemma map_nth_upt: "k \<le> length xs \<Longrightarrow> map (\<lambda>i. xs ! i) [0..<k] = take k xs"
  by (rule nth_equalityI) simp_all

lemma Tcp_Read_prefix:
  assumes "boost_ok B" and "0 < n" and "n \<le> int (length (crcbuf_read c))"
  shows "fst (snd (Tcp_Read B n 0 c)) = take (nat n) (crcbuf_read c)"
    and "crcbuf_read (snd (snd (Tcp_Read B n 0 c))) = drop (nat n) (crcbuf_read c)"
  using assms(2,3)
  by (auto simp: Tcp_Read_def Let_def boost_buffer [OF assms(1)] map_nth_upt)

text \<open>A connection is a line source, whatever conforming buffer is underneath.\<close>

definition conforming :: "boost \<Rightarrow> boost" where
  "conforming B = (if boost_ok B then B else boost_ref)"

lemma conforming_ok [simp]: "boost_ok (conforming B)"
  by (simp add: conforming_def boost_ref_ok)

interpretation tcp: line_source "Tcp_Lookup lines_end 0" "\<lambda>n. Tcp_Read (conforming B) n 0" crcbuf_read for B
  by unfold_locales (simp_all add: lookup_newline Tcp_Read_prefix)

section \<open>The write buffer\<close>

lemma push_all_fits:
  assumes "boost_ok B"
  shows "length buf + length data \<le> CRC_CAPACITY \<Longrightarrow> push_all B buf data = buf @ data"
proof (induction data arbitrary: buf)
  case Nil
  then show ?case by (simp add: push_all_def)
next
  case (Cons x data)
  then have "cb_push B CRC_CAPACITY buf x = buf @ [x]"
    by (simp add: boost_buffer [OF assms] CRC_CAPACITY_def TCP_PACK_SIZE_def)
  with Cons show ?case by (simp add: push_all_def)
qed

text \<open>
  The life of a connection's output: \<open>Write\<close> calls and completions, with the bytes \<open>Write\<close> has
  accepted and the bytes the socket has taken so far.
\<close>

inductive out_step :: "boost \<Rightarrow> tcpclient \<times> string \<times> string \<Rightarrow> tcpclient \<times> string \<times> string \<Rightarrow> bool" for B where
  sent: "Tcp_Write B data c = (k, c') \<Longrightarrow> out_step B (c, acc, sent) (c', acc @ take (nat k) data, sent)"
| completed: "tc_inflight c = Some m \<Longrightarrow> int n \<le> m \<Longrightarrow>
    out_step B (c, acc, sent) (handle_write B (Some n) c, acc, sent @ take n (crcbuf_write c))"

definition out_inv :: "tcpclient \<times> string \<times> string \<Rightarrow> bool" where
  "out_inv st = (case st of (c, acc, out) \<Rightarrow>
     acc = out @ crcbuf_write c \<and> length (crcbuf_write c) \<le> CRC_CAPACITY
     \<and> (crcbuf_write c \<noteq> [] \<longleftrightarrow> tc_inflight c \<noteq> None)
     \<and> (\<forall>m. tc_inflight c = Some m \<longrightarrow> 0 < m \<and> m \<le> int (length (crcbuf_write c))))"

lemma Tcp_Write_effect:
  assumes "boost_ok B" and "length (crcbuf_write c) \<le> CRC_CAPACITY" and "data \<noteq> []"
  defines "k \<equiv> min (int (length data)) (int CRC_CAPACITY - int (length (crcbuf_write c)))"
  shows "fst (Tcp_Write B data c) = k"
    and "crcbuf_write (snd (Tcp_Write B data c)) = crcbuf_write c @ take (nat k) data"
    and "tc_inflight (snd (Tcp_Write B data c)) =
      (if crcbuf_write c = [] then Some (int (length (take (nat k) data))) else tc_inflight c)"
proof -
  have k: "(if int (length data) > int CRC_CAPACITY - int (length (crcbuf_write c))
      then int CRC_CAPACITY - int (length (crcbuf_write c)) else int (length data)) = k"
    by (simp add: k_def)
  have "int (length (take (nat k) data)) \<le> int CRC_CAPACITY - int (length (crcbuf_write c))"
    using assms(2) by (simp add: k_def)
  then have push: "push_all B (crcbuf_write c) (take (nat k) data) = crcbuf_write c @ take (nat k) data"
    by (intro push_all_fits [OF assms(1)]) linarith
  have cap: "0 < CRC_CAPACITY" by (simp add: CRC_CAPACITY_def TCP_PACK_SIZE_def)
  have eq: "Tcp_Write B data c = (k, let c1 = c\<lparr>crcbuf_write := crcbuf_write c @ take (nat k) data\<rparr>
      in if length (crcbuf_write c) = 0 then start_write c1 else c1)"
    using assms(3) unfolding Tcp_Write_def Let_def k push by simp
  show "fst (Tcp_Write B data c) = k" by (simp add: eq)
  show "crcbuf_write (snd (Tcp_Write B data c)) = crcbuf_write c @ take (nat k) data"
    by (simp add: eq Let_def start_write_def)
  have "crcbuf_write c = [] \<Longrightarrow> take (nat k) data \<noteq> []"
    using cap assms(3) by (cases data) (simp_all add: k_def min_def)
  then show "tc_inflight (snd (Tcp_Write B data c)) =
      (if crcbuf_write c = [] then Some (int (length (take (nat k) data))) else tc_inflight c)"
    by (cases "crcbuf_write c = []") (auto simp: eq Let_def start_write_def)
qed

lemma out_inv_step:
  assumes "boost_ok B" and "out_step B st st'" and "out_inv st"
  shows "out_inv st'"
  using assms(2,3)
proof (cases rule: out_step.cases)
  case (sent data c k c' acc out)
  show ?thesis
  proof (cases "data = []")
    case True
    with sent assms(3) show ?thesis by (simp add: Tcp_Write_def)
  next
    case False
    have len: "length (crcbuf_write c) \<le> CRC_CAPACITY" using sent assms(3) by (simp add: out_inv_def)
    note eff = Tcp_Write_effect [OF assms(1) len False, unfolded sent(3) fst_conv snd_conv]
    have cap: "0 < CRC_CAPACITY" by (simp add: CRC_CAPACITY_def TCP_PACK_SIZE_def)
    have ne: "crcbuf_write c = [] \<Longrightarrow> take (nat k) data \<noteq> []"
      using eff(1) False cap by (cases data) (simp_all add: min_def split: if_splits)
    have k: "length (crcbuf_write c) + length (take (nat k) data) \<le> CRC_CAPACITY"
      using eff(1) len by (simp add: min_def nat_diff_distrib' split: if_splits)
    show ?thesis
      using sent(1,2) assms(3) eff(2,3) [folded eff(1)] ne k by (auto simp: out_inv_def split: if_splits)
  qed
next
  case (completed c m n acc sent)
  have n: "n \<le> length (crcbuf_write c)" using completed assms(3) by (auto simp: out_inv_def)
  then show ?thesis
    using completed(1,2) assms(3)
    by (auto simp: out_inv_def handle_write_def Let_def start_write_def boost_buffer [OF assms(1)])
qed

text \<open>
  Whatever the order of \<open>Write\<close> calls and completions: the accepted bytes leave in order and
  none is lost, at most the capacity is pending, and bytes are pending exactly while a write is
  under way, so that output never stalls.
\<close>

theorem out_reachable:
  assumes "boost_ok B" and "(out_step B)\<^sup>*\<^sup>* (TcpClient_new, [], []) st"
  shows "out_inv st"
  using assms(2)
proof (induction rule: rtranclp_induct)
  case base
  show ?case by (simp add: out_inv_def TcpClient_new_def)
next
  case (step y z)
  then show ?case using out_inv_step [OF assms(1)] by blast
qed

text \<open>
  C10: output of a connection. After any sequence of \<open>Write\<close> calls and completed writes of the socket, whatever part
  each takes: the bytes accepted are the bytes sent followed by those waiting, in order, none lost or
  repeated; at most 75000 wait; bytes wait exactly while a write is under way, so that output does not stall.
  \<open>Write\<close> accepts what fits and tells so. When a write fails with bytes waiting, no later \<open>Write\<close> starts another.
\<close>

theorem tcp_output:
  assumes "boost_ok B" and "(out_step B)\<^sup>*\<^sup>* (TcpClient_new, [], []) (c, acc, out)" and "data \<noteq> []"
  shows "acc = out @ crcbuf_write c \<and> int (length (crcbuf_write c)) \<le> 75000
    \<and> (crcbuf_write c \<noteq> [] \<longleftrightarrow> tc_inflight c \<noteq> None)
    \<and> fst (Tcp_Write B data c) = min (int (length data)) (75000 - int (length (crcbuf_write c)))
    \<and> (crcbuf_write c \<noteq> [] \<longrightarrow> tc_inflight (snd (Tcp_Write B data (handle_write B None c))) = None)"
proof -
  have inv: "out_inv (c, acc, out)" using out_reachable [OF assms(1,2)] .
  have cap: "int CRC_CAPACITY = 75000" by (simp add: CRC_CAPACITY_def TCP_PACK_SIZE_def)
  have len: "length (crcbuf_write c) \<le> CRC_CAPACITY" using inv by (simp add: out_inv_def)
  have failed: "crcbuf_write (handle_write B None c) = crcbuf_write c" "tc_inflight (handle_write B None c) = None"
    by (simp_all add: handle_write_def Let_def)
  show ?thesis
    using inv Tcp_Write_effect(1) [OF assms(1) len assms(3)]
      Tcp_Write_effect(3) [OF assms(1) len [folded failed(1)] assms(3)] cap failed
    by (auto simp: out_inv_def)
qed

theorem tcp_output_witness:
  "crcbuf_write (snd (Tcp_Write boost_ref ''g#'' TcpClient_new)) = ''g#''"
proof -
  define c where "c = snd (Tcp_Write boost_ref ''g#'' TcpClient_new)"
  have k: "fst (Tcp_Write boost_ref ''g#'' TcpClient_new) = 2"
    using Tcp_Write_effect(1) [OF boost_ref_ok, of TcpClient_new "''g#''"]
    by (simp add: TcpClient_new_def CRC_CAPACITY_def TCP_PACK_SIZE_def)
  then have "Tcp_Write boost_ref ''g#'' TcpClient_new = (2, c)" by (metis c_def prod.collapse)
  then have "out_step boost_ref (TcpClient_new, [], []) (c, [] @ take (nat 2) ''g#'', [])" by (rule out_step.sent)
  then have "(out_step boost_ref)\<^sup>*\<^sup>* (TcpClient_new, [], []) (c, ''g#'', [])" by (simp add: r_into_rtranclp)
  from tcp_output [OF boost_ref_ok this, of "''x''"] show ?thesis by (simp add: c_def)
qed

end
