(* ===== verification/Tcp_Conn.thy ===== *)
theory Tcp_Conn
  imports Tcp_Client
begin

text \<open>
  A TCP connection around its buffers (\<open>AsioTCP.h/.cpp\<close>, class \<open>TcpClient\<close>) and the thread that serves it
  (\<open>BoostAsioKeep.h/.cpp\<close>): which asynchronous operations are under way, the slots connected to its three
  signals, and the calls of them. What \<open>boost::asio\<close> answers is an argument; the type \<open>'k\<close> of slots is
  arbitrary.
\<close>

section \<open>The service thread\<close>

record asiokeep =
  ak_stopped :: bool    \<comment> \<open>\<open>ios_\<close> has been stopped\<close>
  ak_joinable :: bool   \<comment> \<open>\<open>thrdKeep_\<close> stands for a thread\<close>
  ak_serving :: bool    \<comment> \<open>the thread is inside \<open>run()\<close>\<close>

text \<open>\<open>run()\<close> stays, because of \<open>work_\<close>, unless the service is stopped: then it returns at once.\<close>

definition run_thread :: "asiokeep \<Rightarrow> asiokeep" where
  "run_thread k = k\<lparr>ak_joinable := True, ak_serving := \<not> ak_stopped k\<rparr>"


definition IsKeeping :: "asiokeep \<Rightarrow> bool" where
  "IsKeeping k = ak_joinable k"

definition Keep_Stop :: "asiokeep \<Rightarrow> asiokeep" where
  "Keep_Stop k = k\<lparr>ak_stopped := True, ak_serving := False, ak_joinable := False\<rparr>"

definition Keep_destroy :: "asiokeep \<Rightarrow> asiokeep" where
  "Keep_destroy k = k\<lparr>ak_stopped := True, ak_serving := False, ak_joinable := False\<rparr>"

definition Keep_Reset :: "asiokeep \<Rightarrow> asiokeep" where
  "Keep_Reset k = (if \<not> ak_joinable k then run_thread k else k)"

text \<open>
  A service that was stopped is never restarted: \<open>Reset\<close> makes a thread that ends at once, \<open>IsKeeping\<close> takes it
  for a running one, and no further \<open>Reset\<close> changes that.
\<close>

lemma reset_after_stop:
  "IsKeeping (Keep_Reset (Keep_Stop k))" "\<not> ak_serving (Keep_Reset (Keep_Stop k))"
  "Keep_Reset (Keep_Reset (Keep_Stop k)) = Keep_Reset (Keep_Stop k)"
  by (simp_all add: IsKeeping_def Keep_Reset_def Keep_Stop_def run_thread_def)

section \<open>Connections\<close>

record 'k tcpconn =
  cn_buf :: tcpclient
  cn_keep :: asiokeep
  cn_alive :: bool        \<comment> \<open>the option \<open>keep_alive\<close>\<close>
  cn_connecting :: bool   \<comment> \<open>an \<open>async_connect\<close> is under way\<close>
  cn_reading :: bool      \<comment> \<open>an \<open>async_read_some\<close> is\<close>
  cbconn :: "'k list"
  cbread :: "'k list"
  cbwrite :: "'k list"

text \<open>A call of a slot, with whether the error code is clear.\<close>

datatype 'k callback = CbConn 'k bool | CbRead 'k bool | CbWrite 'k bool


definition Tcp_RegisterConnect :: "'k \<Rightarrow> 'k tcpconn \<Rightarrow> 'k tcpconn" where
  "Tcp_RegisterConnect slot c = c\<lparr>cbconn := [slot]\<rparr>"


definition Tcp_RegisterWrite :: "'k \<Rightarrow> 'k tcpconn \<Rightarrow> 'k tcpconn" where
  "Tcp_RegisterWrite slot c = c\<lparr>cbwrite := [slot]\<rparr>"

definition start_read :: "'k tcpconn \<Rightarrow> 'k tcpconn" where
  "start_read c = c\<lparr>cn_reading := True\<rparr>"

text \<open>Setting the option throws \<open>system_error\<close> where the socket refuses it (\<open>opt\<close>): the result is \<open>None\<close>.\<close>

definition set_keep_alive :: "bool \<Rightarrow> 'k tcpconn \<Rightarrow> 'k tcpconn option" where
  "set_keep_alive opt c = (if opt then Some (c\<lparr>cn_alive := True\<rparr>) else None)"


text \<open>\<open>found\<close>: the name is resolved; \<open>reached\<close>: a synchronous \<open>connect\<close> succeeds, which opens the socket.\<close>

definition Tcp_Connect :: "bool \<Rightarrow> bool \<Rightarrow> bool \<Rightarrow> bool \<Rightarrow> 'k tcpconn \<Rightarrow> bool \<times> 'k tcpconn" where
  "Tcp_Connect found reached opt async c =
     (if \<not> found then (False, c)
      else
        let c = (if \<not> IsKeeping (cn_keep c) then c\<lparr>cn_keep := Keep_Reset (cn_keep c)\<rparr> else c);
            opened = c\<lparr>cn_buf := (cn_buf c)\<lparr>tc_open := True\<rparr>\<rparr>
        in if async then (True, opened\<lparr>cn_connecting := True\<rparr>)
           else if \<not> reached then (False, opened)
           else (case set_keep_alive opt opened of None \<Rightarrow> (False, opened) | Some c \<Rightarrow> (True, start_read c)))"

datatype direction = shutdown_receive | shutdown_send | shutdown_both

definition direction_of :: "int \<Rightarrow> direction" where
  "direction_of how = (if how = 0 then shutdown_receive else if how = 1 then shutdown_send else shutdown_both)"

text \<open>The socket answers; the connection is not changed.\<close>

definition Tcp_ShutDown :: "(direction \<Rightarrow> bool) \<Rightarrow> int \<Rightarrow> 'k tcpconn \<Rightarrow> bool \<times> 'k tcpconn" where
  "Tcp_ShutDown os how c = (os (direction_of how), c)"

text \<open>\<open>close\<close> releases the socket even where it reports an error.\<close>

definition Tcp_CloseConn :: "(direction \<Rightarrow> bool) \<Rightarrow> bool \<Rightarrow> 'k tcpconn \<Rightarrow> bool \<times> 'k tcpconn" where
  "Tcp_CloseConn os closes c = (let (ok, c) = Tcp_ShutDown os 2 c; c = c\<lparr>cn_buf := Tcp_Close (cn_buf c)\<rparr> in (closes, c))"

definition TcpClient_destroy :: "(direction \<Rightarrow> bool) \<Rightarrow> bool \<Rightarrow> 'k tcpconn \<Rightarrow> 'k tcpconn" where
  "TcpClient_destroy os closes c = (let (ok, c) = Tcp_CloseConn os closes c in c\<lparr>cn_keep := Keep_destroy (cn_keep c)\<rparr>)"

definition Tcp_IsOpen :: "'k tcpconn \<Rightarrow> bool" where
  "Tcp_IsOpen c = tc_open (cn_buf c)"

section \<open>Completions\<close>

definition handle_connect :: "bool \<Rightarrow> bool \<Rightarrow> 'k tcpconn \<Rightarrow> 'k tcpconn option \<times> 'k callback list" where
  "handle_connect ok opt c =
     (let c = c\<lparr>cn_connecting := False\<rparr>
      in (if ok then map_option start_read (set_keep_alive opt c) else Some c, map (\<lambda>s. CbConn s ok) (cbconn c)))"



section \<open>The input of a connection\<close>













end
