(* ===== verification/Message_Queue.thy ===== *)
theory Message_Queue
  imports Boost_Env
begin

text \<open>
  The message thread both controllers are built on (\<open>MessageQueue.cpp\<close>): handlers are
  registered by message number in a table of 1024 entries; \<open>PostMessage\<close> and \<open>SendMessage\<close> put a
  message into the queue at low and high priority; the loop takes the next one, runs its
  handlers, and ends after \<open>MSG_QUIT\<close>. The inter-process queue is a parameter
  (\<open>mq_receive\<close>). A handler runs on the state of the controller; it may bring it down or never return (\<open>None\<close>).
\<close>

definition MSG_QUIT :: int where "MSG_QUIT = 0"
definition MSG_USER :: int where "MSG_USER = 1"
definition funcs_count :: int where "funcs_count = 1024"

type_synonym 's handler = "int \<Rightarrow> int \<Rightarrow> 's \<Rightarrow> (crash + 's) option"

text \<open>\<open>funcs_\<close>: the slots connected to each position, in the order of connection.\<close>

type_synonym 's functable = "int \<Rightarrow> 's handler list"

definition funcs_new :: "'s functable" where "funcs_new = (\<lambda>_. [])"

definition RegisterMessage :: "int \<Rightarrow> 's handler \<Rightarrow> 's functable \<Rightarrow> bool \<times> 's functable" where
  "RegisterMessage mid slot fs =
     (let pos = mid - MSG_USER; rslt = (0 \<le> pos \<and> pos < funcs_count)
      in (rslt, if rslt then fs(pos := fs pos @ [slot]) else fs))"

text \<open>\<open>None\<close> stands for a queue that was not created (\<open>!mqPtr_.unique()\<close>).\<close>

definition PostMessage :: "int \<Rightarrow> int \<Rightarrow> int \<Rightarrow> mqmsg list option \<Rightarrow> mqmsg list option" where
  "PostMessage mid par1 par2 q = map_option (\<lambda>ms. ms @ [(1, mid, par1, par2)]) q"

definition SendMessage :: "int \<Rightarrow> int \<Rightarrow> int \<Rightarrow> mqmsg list option \<Rightarrow> mqmsg list option" where
  "SendMessage mid par1 par2 q = map_option (\<lambda>ms. ms @ [(10, mid, par1, par2)]) q"

text \<open>Position of a message: \<open>uint32_t pos = msg.id - MSG_USER\<close>.\<close>

definition mq_pos :: "int \<Rightarrow> int" where
  "mq_pos mid = (mid - MSG_USER) mod 4294967296"

definition mq_dispatch :: "'s functable \<Rightarrow> mqmsg \<Rightarrow> 's \<Rightarrow> (crash + 's) option" where
  "mq_dispatch fs m s = (case m of (pr, mid, par1, par2) \<Rightarrow>
     (if 0 \<le> mq_pos mid \<and> mq_pos mid < funcs_count
      then foldO (\<lambda>h. h par1 par2) (fs (mq_pos mid)) s
      else Some (Inr s)))"

text \<open>
  One turn of \<open>message_loop\<close> on a queue with messages: whether the loop goes on, the remaining
  queue, the state. Handlers may send messages themselves; \<open>queue_of\<close> and \<open>set_queue\<close> give the
  queue inside the state.
\<close>

definition mq_turn ::
  "boost \<Rightarrow> 's functable \<Rightarrow> ('s \<Rightarrow> mqmsg list) \<Rightarrow> (mqmsg list \<Rightarrow> 's \<Rightarrow> 's) \<Rightarrow> 's \<Rightarrow> (crash + bool \<times> 's) option" where
  "mq_turn B fs queue_of set_queue s =
     (case mq_receive B (queue_of s) of (m, rest) \<Rightarrow>
        andthen (mq_dispatch fs m (set_queue rest s)) (\<lambda>s'. Some (Inr (fst (snd m) \<noteq> MSG_QUIT, s'))))"

section \<open>Properties\<close>

text \<open>Registration accepts exactly the table's numbers and adds to one entry only.\<close>

lemma RegisterMessage_iff: "fst (RegisterMessage mid h fs) \<longleftrightarrow> MSG_USER \<le> mid \<and> mid < MSG_USER + funcs_count"
  by (auto simp: RegisterMessage_def Let_def)

lemma RegisterMessage_other:
  "pos \<noteq> mid - MSG_USER \<Longrightarrow> snd (RegisterMessage mid h fs) pos = fs pos"
  by (simp add: RegisterMessage_def Let_def)

text \<open>A message with a table number runs the handlers registered for it, in order; \<open>MSG_QUIT\<close> runs none.\<close>

lemma dispatch_registered:
  "MSG_USER \<le> mid \<Longrightarrow> mid < MSG_USER + funcs_count \<Longrightarrow>
    mq_dispatch fs (pr, mid, p1, p2) s = foldO (\<lambda>h. h p1 p2) (fs (mid - MSG_USER)) s"
  by (simp add: mq_dispatch_def mq_pos_def MSG_USER_def funcs_count_def)

lemma dispatch_ignored:
  "MSG_USER + funcs_count \<le> mid \<Longrightarrow> mid \<le> 4294967296 \<Longrightarrow> mq_dispatch fs (pr, mid, p1, p2) s = Some (Inr s)"
  by (simp add: mq_dispatch_def mq_pos_def MSG_USER_def funcs_count_def)

lemma dispatch_quit: "mq_dispatch fs (pr, MSG_QUIT, p1, p2) s = Some (Inr s)"
  by (simp add: mq_dispatch_def mq_pos_def MSG_USER_def MSG_QUIT_def funcs_count_def)

text \<open>
  Stopping is prompt: once \<open>Stop\<close> has sent \<open>MSG_QUIT\<close>, the next turn takes it, ahead of every
  posted message, runs no handler and ends the loop.
\<close>

theorem quit_next:
  assumes "boost_ok B" and "\<forall>m \<in> set ms. fst m < 10"
  shows "mq_receive B (the (SendMessage MSG_QUIT 0 0 (Some ms))) = ((10, MSG_QUIT, 0, 0), ms)"
proof -
  let ?q = "ms @ [(10, MSG_QUIT, 0, 0)] :: mqmsg list"
  obtain a m b where s: "?q = a @ m # b" "mq_doc ?q = (m, a @ b)"
    "\<forall>x \<in> set a. fst x < fst m" "\<forall>x \<in> set b. fst x \<le> fst m"
    using mq_doc_split [of ?q] by blast
  have "b = []"
  proof (rule ccontr)
    assume "b \<noteq> []"
    then obtain b' where b: "b = b' @ [(10, MSG_QUIT, 0, 0)]"
      using s(1) by (metis append_is_Nil_conv butlast_append butlast_snoc append_butlast_last_id
          last_appendR last_snoc last_ConsR list.discI)
    with s(1) have "m \<in> set ms" by auto
    with assms(2) s(4) b show False by auto
  qed
  with s(1,2) show ?thesis
    using boost_queue [OF assms(1), of ?q] by (simp add: SendMessage_def)
qed

text \<open>Posted messages are handled in the order they were posted.\<close>

theorem posts_in_order:
  assumes "boost_ok B" and "\<forall>x \<in> set (m # ms). fst x = 1"
  shows "mq_receive B (m # ms) = (m, ms)"
proof -
  obtain a k b where s: "m # ms = a @ k # b" "mq_doc (m # ms) = (k, a @ b)" "\<forall>x \<in> set a. fst x < fst k"
    using mq_doc_split [of "m # ms"] by blast
  have "a = []"
  proof (cases a)
    case (Cons x a')
    then have "x \<in> set (m # ms)" "k \<in> set (m # ms)" using s(1) by auto
    then have "fst x = 1" "fst k = 1" using assms(2) by blast+
    with s(3) Cons show ?thesis by simp
  qed simp
  with s boost_queue [OF assms(1), of "m # ms"] show ?thesis by simp
qed

end
