(* ===== verification/Obs_State.thy ===== *)
theory Obs_State
  imports KV_Protocol NonKV_Commands
begin

text \<open>
  The state of an observation system (\<open>ObservationSystem.h\<close>): the cameras, the counters of
  \<open>SystemState\<close>, the retry buffer \<open>NonKVProtoBuff\<close>, and the record of the object itself. Effects
  that leave the object (bytes written to a connection, callbacks, messages) are appended to its
  \<open>ob_out\<close>. A TCP connection is the number of its \<open>TcpClient\<close>, \<open>None\<close> an empty pointer. The
  current plan is a shared object: its identity with its contents; how many other owners it has is
  part of the environment, and \<open>plan_.unique()\<close> holds when there are none.
\<close>

section \<open>Environment and effects\<close>

record env =
  env_boost :: boost
  env_raw :: raw
  env_now :: ptime             \<comment> \<open>\<open>second_clock::universal_time()\<close>\<close>
  env_others :: "nat \<Rightarrow> nat"    \<comment> \<open>owners of a plan object besides this observation system\<close>

datatype event =
    Write nat string           \<comment> \<open>\<open>TcpClient::Write\<close>\<close>
  | RegisterRead nat int       \<comment> \<open>callback of the connection, with the peer type\<close>
  | PlanState kvplan           \<comment> \<open>\<open>cbfPlan_(plan_state_)\<close>\<close>
  | NotifyNewPlan              \<comment> \<open>\<open>cvNewPlan_.notify_one()\<close>\<close>
  | NotifyNewProto             \<comment> \<open>\<open>cvNewProto_.notify_one()\<close>\<close>
  | Post int int int           \<comment> \<open>\<open>PostMessage\<close>\<close>

section \<open>Cameras and counters\<close>

record camerainfo =
  ci_tcp :: "nat option"
  ci_info :: kvcamera
  ci_focUtc :: string
  ci_focState :: int
  ci_focPos :: int
  ci_focTar :: int
  ci_repeat :: int
  ci_fwhm :: double
  ci_derotEnabled :: bool
  ci_derotUtc :: string
  ci_derotState :: int
  ci_derotPos :: double
  ci_derotTar :: double

definition CameraInfo_new :: "raw \<Rightarrow> camerainfo" where
  "CameraInfo_new R = \<lparr>ci_tcp = None, ci_info = KVCamera_new R, ci_focUtc = [], ci_focState = - 1,
     ci_focPos = 999999, ci_focTar = 999999, ci_repeat = 0, ci_fwhm = dzero,
     ci_derotEnabled = False, ci_derotUtc = [], ci_derotState = - 1, ci_derotPos = dzero, ci_derotTar = dzero\<rparr>"

record systemstate =
  camonline :: int
  exposing :: int
  waitflat :: int

definition SystemState_new :: systemstate where
  "SystemState_new = \<lparr>camonline = 0, exposing = 0, waitflat = 0\<rparr>"

definition CameraOnline :: "bool \<Rightarrow> systemstate \<Rightarrow> systemstate" where
  "CameraOnline online s =
     (if online then s\<lparr>camonline := camonline s + 1\<rparr>
      else if camonline s \<noteq> 0 then s\<lparr>camonline := camonline s - 1\<rparr> else s)"

definition EnterExpose :: "systemstate \<Rightarrow> systemstate" where
  "EnterExpose s = s\<lparr>exposing := exposing s + 1\<rparr>"

definition LeaveExpose :: "systemstate \<Rightarrow> bool \<times> systemstate" where
  "LeaveExpose s =
     (let s' = (if exposing s \<noteq> 0 then s\<lparr>exposing := exposing s - 1\<rparr> else s)
      in (exposing s' = 0, s'))"

definition AnyExposing :: "systemstate \<Rightarrow> bool" where
  "AnyExposing s \<longleftrightarrow> exposing s \<noteq> 0"

definition EnterWaitFlat :: "systemstate \<Rightarrow> systemstate" where
  "EnterWaitFlat s = s\<lparr>waitflat := waitflat s + 1\<rparr>"

definition LeaveWaitFlat :: "systemstate \<Rightarrow> systemstate" where
  "LeaveWaitFlat s = (if waitflat s \<noteq> 0 then s\<lparr>waitflat := waitflat s - 1\<rparr> else s)"

section \<open>The retry buffer\<close>

record nonkvitem =
  it_serno :: int
  it_devtype :: int
  it_retry :: int
  it_cmd :: string

definition NonKVProtoItem_new :: "int \<Rightarrow> int \<Rightarrow> string \<Rightarrow> nonkvitem" where
  "NonKVProtoItem_new serno devtype cmd =
     \<lparr>it_serno = serno, it_devtype = devtype, it_retry = 0, it_cmd = cmd\<rparr>"

definition Buff_Push :: "int \<Rightarrow> int \<Rightarrow> string \<Rightarrow> nonkvitem list \<Rightarrow> nonkvitem list" where
  "Buff_Push serno devtype cmd cmds = cmds @ [NonKVProtoItem_new serno devtype cmd]"

definition Buff_Pop :: "int \<Rightarrow> nonkvitem list \<Rightarrow> nonkvitem list" where
  "Buff_Pop serno cmds = erase_first (\<lambda>it. it_serno it = serno) cmds"

definition Buff_Pop_front :: "nonkvitem list \<Rightarrow> nonkvitem list" where
  "Buff_Pop_front cmds = tl cmds"

fun Buff_Clear :: "int \<Rightarrow> nonkvitem list \<Rightarrow> nonkvitem list" where
  "Buff_Clear devtype [] = []"
| "Buff_Clear devtype (it # cmds) =
     (if it_devtype it = devtype then Buff_Clear devtype cmds else it # Buff_Clear devtype cmds)"

text \<open>
  What the controller relies on: a command waits from its push until the response with its
  serial number or until its device goes off-line, and neither disturbs the other commands.
\<close>

locale retry_buffer =
  fixes push :: "int \<Rightarrow> int \<Rightarrow> string \<Rightarrow> 'b \<Rightarrow> 'b"
    and pop :: "int \<Rightarrow> 'b \<Rightarrow> 'b"
    and clear :: "int \<Rightarrow> 'b \<Rightarrow> 'b"
    and items :: "'b \<Rightarrow> nonkvitem list"
  assumes push_law: "items (push serno dev cmd b) = items b @ [NonKVProtoItem_new serno dev cmd]"
    and pop_law: "distinct (map it_serno (items b)) \<Longrightarrow>
      items (pop serno b) = filter (\<lambda>it. it_serno it \<noteq> serno) (items b)"
    and clear_law: "items (clear dev b) = filter (\<lambda>it. it_devtype it \<noteq> dev) (items b)"
begin

lemma settled:
  "distinct (map it_serno (items b)) \<Longrightarrow> serno \<notin> it_serno ` set (items (pop serno b))"
  by (auto simp: pop_law)

lemma others_wait:
  "distinct (map it_serno (items b)) \<Longrightarrow> it \<in> set (items b) \<Longrightarrow> it_serno it \<noteq> serno \<Longrightarrow> it \<in> set (items (pop serno b))"
  by (simp add: pop_law)

lemma distinct_push:
  "distinct (map it_serno (items b)) \<Longrightarrow> serno \<notin> it_serno ` set (items b) \<Longrightarrow>
    distinct (map it_serno (items (push serno dev cmd b)))"
  by (simp add: push_law NonKVProtoItem_new_def)

lemma distinct_pop: "distinct (map it_serno (items b)) \<Longrightarrow> distinct (map it_serno (items (pop serno b)))"
  by (simp add: pop_law distinct_map_filter)

lemma distinct_clear: "distinct (map it_serno (items b)) \<Longrightarrow> distinct (map it_serno (items (clear dev b)))"
  by (simp add: clear_law distinct_map_filter)

lemma push_pop:
  "distinct (map it_serno (items b)) \<Longrightarrow> serno \<notin> it_serno ` set (items b) \<Longrightarrow>
    items (pop serno (push serno dev cmd b)) = items b"
  using pop_law [where b = "push serno dev cmd b" and serno = serno] distinct_push
  by (auto simp: push_law NonKVProtoItem_new_def filter_id_conv image_iff)

end

lemma filter_fresh: "k \<notin> f ` set xs \<Longrightarrow> filter (\<lambda>x. f x \<noteq> k) xs = xs"
  by (induction xs) auto

lemma erase_first_filter:
  "distinct (map f xs) \<Longrightarrow> erase_first (\<lambda>x. f x = k) xs = filter (\<lambda>x. f x \<noteq> k) xs"
proof (induction xs)
  case Nil
  show ?case by simp
next
  case (Cons x xs)
  then show ?case using filter_fresh [of k f xs] by (cases "f x = k") simp_all
qed

lemma Buff_Clear_filter: "Buff_Clear dev xs = filter (\<lambda>it. it_devtype it \<noteq> dev) xs"
  by (induction xs) auto

interpretation buff: retry_buffer Buff_Push Buff_Pop Buff_Clear id
  by unfold_locales (simp_all add: Buff_Push_def Buff_Pop_def erase_first_filter Buff_Clear_filter)

section \<open>The observation system\<close>

record obss =
  ob_gid :: string
  ob_uid :: string
  ob_type :: int
  ob_nonkv :: nonkv
  ob_tcpMount :: "nat option"
  ob_mount :: kvmount
  ob_countPos :: int
  ob_cams :: "camerainfo list"
  ob_tcpFocus :: "nat option"
  ob_plan :: "(nat \<times> kvappplan) option"
  ob_plan_state :: kvplan
  ob_sys :: systemstate
  ob_oldDay :: int
  ob_planSN :: int
  ob_lastClosed :: ptime
  ob_buff :: "nonkvitem list"
  ob_tmend :: "ptime option"   \<comment> \<open>local variable of \<open>thread_obsplan\<close>\<close>
  ob_out :: "event list"

definition ObservationSystem_new :: "env \<Rightarrow> string \<Rightarrow> string \<Rightarrow> obss" where
  "ObservationSystem_new E gid uid =
     \<lparr>ob_gid = gid, ob_uid = uid, ob_type = 0, ob_nonkv = NonKV_new gid uid,
      ob_tcpMount = None, ob_mount = KVMount_new\<lparr>kv_gid := gid, kv_uid := uid\<rparr>, ob_countPos = 0,
      ob_cams = [], ob_tcpFocus = None, ob_plan = None,
      ob_plan_state = (KVPlan_new (env_raw E))\<lparr>kv_gid := gid, kv_uid := uid\<rparr>,
      ob_sys = SystemState_new, ob_oldDay = 0, ob_planSN = 0, ob_lastClosed = env_now E,
      ob_buff = [], ob_tmend = None, ob_out = []\<rparr>"

definition emit_ev :: "event \<Rightarrow> obss \<Rightarrow> obss" where
  "emit_ev e s = s\<lparr>ob_out := ob_out s @ [e]\<rparr>"

text \<open>\<open>plan_.unique()\<close> and \<open>plan_.use_count()\<close>\<close>

definition plan_unique :: "env \<Rightarrow> obss \<Rightarrow> bool" where
  "plan_unique E s = (case ob_plan s of None \<Rightarrow> False | Some (k, p) \<Rightarrow> env_others E k = 0)"

definition plan_used :: "obss \<Rightarrow> bool" where
  "plan_used s \<longleftrightarrow> ob_plan s \<noteq> None"

text \<open>\<open>KVBase::UpdateUTC\<close>\<close>

definition UpdateUTC :: "env \<Rightarrow> 'a kvbase_scheme \<Rightarrow> 'a kvbase_scheme" where
  "UpdateUTC E p = p\<lparr>kv_utc := iso_ext (env_boost E) (env_now E)\<rparr>"

text \<open>A write through a connection pointer that is known not to be empty.\<close>

definition write_to :: "nat option \<Rightarrow> string \<Rightarrow> obss \<Rightarrow> obss" where
  "write_to t cmd s = (case t of None \<Rightarrow> s | Some c \<Rightarrow> emit_ev (Write c cmd) s)"

text \<open>
  A command to a GWAC device: built with the next serial number, put into the retry buffer for
  device \<open>dev\<close> (0 mount, 1 focuser), the resending thread notified.
\<close>

definition gwac_command :: "int \<Rightarrow> (nonkv \<Rightarrow> string \<times> int \<times> nonkv) \<Rightarrow> obss \<Rightarrow> string \<times> obss" where
  "gwac_command dev enc s =
     (case enc (ob_nonkv s) of (cmd, serno, p) \<Rightarrow>
        (cmd, emit_ev NotifyNewProto (s\<lparr>ob_nonkv := p, ob_buff := Buff_Push serno dev cmd (ob_buff s)\<rparr>)))"

definition no_target :: "obss \<Rightarrow> obss" where
  "no_target s = s\<lparr>ob_mount := (ob_mount s)\<lparr>mt_objra := double_of_int 1000, mt_objdec := double_of_int 1000\<rparr>\<rparr>"

end
