(* ===== verification/Obs_System.thy ===== *)
theory Obs_System
  imports Obs_State
begin

text \<open>
  The operations of an observation system (\<open>ObservationSystem.cpp\<close>), one definition per member
  function, in the order of the source. An operation takes the environment, its arguments and the
  object, and gives the object with the effects appended to \<open>ob_out\<close>; one that can bring the
  server down gives a sum. Log messages are left out, except that the table look-ups in their
  arguments are kept (\<open>desc_at\<close>).
\<close>

section \<open>Life cycle and connections\<close>

text \<open>\<open>queue_ok\<close>: whether \<open>MessageQueue::Start\<close> succeeds.\<close>

definition Obs_Start :: "bool \<Rightarrow> int \<Rightarrow> obss \<Rightarrow> bool \<times> obss" where
  "Obs_Start queue_ok type s =
     (if ob_gid s = [] \<or> ob_uid s = [] then (False, s)
      else if \<not> queue_ok then (False, s)
      else (True, s\<lparr>ob_type := type\<rparr>))"

definition IsMatched :: "boost \<Rightarrow> string \<Rightarrow> string \<Rightarrow> obss \<Rightarrow> bool" where
  "IsMatched B gid uid s \<longleftrightarrow>
     gid = [] \<and> uid = []
     \<or> uid = [] \<and> iequals B gid (ob_gid s)
     \<or> iequals B gid (ob_gid s) \<and> iequals B uid (ob_uid s)"

definition LastClosed :: "ptime \<Rightarrow> obss \<Rightarrow> int" where
  "LastClosed now s =
     (if ob_tcpMount s \<noteq> None \<or> ob_tcpFocus s \<noteq> None then 0
      else if list_ex (\<lambda>c. ci_tcp c \<noteq> None) (ob_cams s) then 0
      else s32 (now - ob_lastClosed s))"

definition CoupleMount :: "nat option \<Rightarrow> obss \<Rightarrow> crash + obss" where
  "CoupleMount ptr s =
     (let mount = (\<lambda>s. s\<lparr>ob_tcpMount := ptr, ob_countPos := 0, ob_mount := (ob_mount s)\<lparr>mt_state := MOUNT_MIN\<rparr>\<rparr>) in
      if ob_type s = 0 then
        Inr (if ob_tcpMount s \<noteq> ptr then mount s else s)
      else if ob_tcpMount s = None then
        (case ptr of None \<Rightarrow> Inl NullDeref
         | Some c \<Rightarrow> Inr (mount (emit_ev (RegisterRead c (if ob_type s \<noteq> 0 then PEER_MOUNT_GFT else PEER_MOUNT_GWAC)) s)))
      else Inr s)"

definition DecoupleMount :: "env \<Rightarrow> nat option \<Rightarrow> obss \<Rightarrow> obss" where
  "DecoupleMount E ptr s =
     (if ob_tcpMount s = ptr then
        s\<lparr>ob_tcpMount := None, ob_mount := (ob_mount s)\<lparr>mt_state := MOUNT_ERROR\<rparr>,
          ob_buff := Buff_Clear 0 (ob_buff s), ob_lastClosed := env_now E\<rparr>
      else s)"

definition CoupleFocus :: "nat option \<Rightarrow> obss \<Rightarrow> obss" where
  "CoupleFocus ptr s = (if ob_tcpFocus s \<noteq> ptr then s\<lparr>ob_tcpFocus := ptr\<rparr> else s)"

definition DecoupleFocus :: "env \<Rightarrow> nat option \<Rightarrow> obss \<Rightarrow> obss" where
  "DecoupleFocus E ptr s =
     (if ob_tcpFocus s = ptr then
        s\<lparr>ob_tcpFocus := None, ob_buff := Buff_Clear 1 (ob_buff s), ob_lastClosed := env_now E\<rparr>
      else s)"

section \<open>Writing to the cameras\<close>

definition cid_is :: "env \<Rightarrow> string \<Rightarrow> camerainfo \<Rightarrow> bool" where
  "cid_is E cid c \<longleftrightarrow> iequals (env_boost E) (kv_cid (ci_info c)) cid"

text \<open>The loop of \<open>write2camera\<close>; it stops at the first camera it writes to when one is named.\<close>

fun write_cams :: "env \<Rightarrow> string \<Rightarrow> bool \<Rightarrow> string \<Rightarrow> camerainfo list \<Rightarrow> event list" where
  "write_cams E cmd all cid [] = []"
| "write_cams E cmd all cid (c # cs) =
     (case ci_tcp c of
        None \<Rightarrow> write_cams E cmd all cid cs
      | Some t \<Rightarrow>
          if all \<or> cid_is E cid c then
            Write t cmd # (if all then write_cams E cmd all cid cs else [])
          else write_cams E cmd all cid cs)"

definition write2camera :: "env \<Rightarrow> string \<Rightarrow> string option \<Rightarrow> obss \<Rightarrow> obss" where
  "write2camera E cmd cid s =
     (let name = (case cid of None \<Rightarrow> [] | Some c \<Rightarrow> c);
          all = (cid = None \<or> iequals (env_boost E) name [])
      in s\<lparr>ob_out := ob_out s @ write_cams E cmd all name (ob_cams s)\<rparr>)"

definition expose2camera :: "env \<Rightarrow> int \<Rightarrow> int \<Rightarrow> string option \<Rightarrow> obss \<Rightarrow> obss" where
  "expose2camera E cmd frmno cid s =
     write2camera E (KVExpose_ToString ((KVExpose_new (env_raw E))\<lparr>ex_command := cmd, ex_frmno := frmno\<rparr>)) cid s"

definition focus_report :: "obss \<Rightarrow> string \<Rightarrow> int \<Rightarrow> int \<Rightarrow> string" where
  "focus_report s cid pos tar =
     KVFocus_ToString (KVFocus_new\<lparr>kv_gid := ob_gid s, kv_uid := ob_uid s, kv_cid := cid, fc_pos := pos, fc_posTar := tar\<rparr>)"

text \<open>Frame number from which an interrupted exposure sequence goes on: the largest of the cameras.\<close>

definition max_frmno :: "camerainfo list \<Rightarrow> int" where
  "max_frmno cs = foldl (\<lambda>m c. if m < cm_frmno (ci_info c) then cm_frmno (ci_info c) else m) 0 cs"

definition CoupleCamera :: "env \<Rightarrow> nat option \<Rightarrow> string \<Rightarrow> obss \<Rightarrow> crash + bool \<times> obss" where
  "CoupleCamera E ptr cid s =
     (case find (cid_is E cid) (ob_cams s) of
        Some c \<Rightarrow>
          (if ci_tcp c \<noteq> None then Inr (False, s)
           else
             (case ptr of None \<Rightarrow> Inl NullDeref
              | Some t \<Rightarrow>
                  let s1 = s\<lparr>ob_cams := upd_first (cid_is E cid) (\<lambda>c. c\<lparr>ci_tcp := ptr\<rparr>) (ob_cams s)\<rparr>;
                      s2 = (if ci_focState c = 0
                            then emit_ev (Write t (focus_report s cid (ci_focPos c) (ci_focTar c))) s1 else s1);
                      s3 = s2\<lparr>ob_sys := CameraOnline True (ob_sys s2)\<rparr>;
                      s4 = emit_ev (RegisterRead t (if ob_type s \<noteq> 0 then PEER_CAMERA_GFT else PEER_CAMERA_GWAC)) s3;
                      s5 = (case ob_plan s4 of
                              Some (k, p) \<Rightarrow>
                                if plan_unique E s4 then
                                  (let s' = emit_ev (Write t (KVAppPlan_ToString p)) s4;
                                       frmno = max_frmno (ob_cams s4)
                                   in if mt_state (ob_mount s4) = MOUNT_TRACKING
                                      then expose2camera E EXP_START (if 0 \<le> frmno then frmno else 0) (Some cid) s'
                                      else s')
                                else s4
                            | None \<Rightarrow> s4)
                  in Inr (True, s5)))
      | None \<Rightarrow>
          (case ptr of None \<Rightarrow> Inl NullDeref
           | Some t \<Rightarrow>
               let c = (CameraInfo_new (env_raw E))
                         \<lparr>ci_tcp := ptr, ci_info := (KVCamera_new (env_raw E))\<lparr>kv_gid := ob_gid s, kv_uid := ob_uid s, kv_cid := cid\<rparr>\<rparr>;
                   s1 = s\<lparr>ob_sys := CameraOnline True (ob_sys s), ob_cams := ob_cams s @ [c]\<rparr>
               in Inr (True, emit_ev (RegisterRead t (if ob_type s \<noteq> 0 then PEER_CAMERA_GFT else PEER_CAMERA_GWAC)) s1)))"

section \<open>Reports from the devices\<close>

definition NotifyMountState :: "env \<Rightarrow> int \<Rightarrow> obss \<Rightarrow> crash + obss" where
  "NotifyMountState E state s =
     (let old = mt_state (ob_mount s) in
      if state = old then Inr s
      else if MOUNT_MIN < state \<and> state < MOUNT_MAX then
        bindR (desc_at DESC_STATE_MOUNT state) (\<lambda>_.
          let s1 = (if state = MOUNT_TRACKING \<and> old \<noteq> MOUNT_MIN \<and> plan_used s then
                      (if old = MOUNT_GUIDING then write2camera E (KVGuide_ToString KVGuide_new) None s
                       else if old = MOUNT_SLEWING then expose2camera E EXP_START 0 None s
                       else s)
                    else s)
          in Inr (s1\<lparr>ob_mount := UpdateUTC E ((ob_mount s1)\<lparr>mt_state := state\<rparr>)\<rparr>))
      else Inr s)"

definition NotifyMountPosition :: "nonkvposition \<Rightarrow> obss \<Rightarrow> obss" where
  "NotifyMountPosition pos s =
     s\<lparr>ob_mount := (ob_mount s)\<lparr>mt_ra := nk_ra pos, mt_dec := nk_dec pos\<rparr>, ob_countPos := s32 (ob_countPos s + 1)\<rparr>"

text \<open>The effect of a focus position on one camera, and whether the camera is told.\<close>

definition focus_moved :: "int \<Rightarrow> camerainfo \<Rightarrow> camerainfo \<times> bool" where
  "focus_moved pos c =
     (let state = ci_focState c in
      if pos \<noteq> ci_focPos c then
        (let c1 = c\<lparr>ci_focPos := pos, ci_repeat := 0\<rparr>
         in (if state < 0 then c1\<lparr>ci_focTar := pos\<rparr> else c1, False))
      else if state \<noteq> 0 then
        (let c1 = c\<lparr>ci_repeat := ci_repeat c + 1\<rparr>
         in if 3 \<le> ci_repeat c1 then (c1\<lparr>ci_focState := 0\<rparr>, True) else (c1, False))
      else (c, False))"

definition NotifyFocus :: "env \<Rightarrow> string \<Rightarrow> int \<Rightarrow> obss \<Rightarrow> obss" where
  "NotifyFocus E cid pos s =
     (case find (cid_is E cid) (ob_cams s) of
        None \<Rightarrow> s
      | Some c \<Rightarrow>
          (let s1 = s\<lparr>ob_cams := upd_first (cid_is E cid) (\<lambda>c. fst (focus_moved pos c)) (ob_cams s)\<rparr>
           in if snd (focus_moved pos c)
              then write_to (ci_tcp c) (focus_report s cid pos (ci_focTar c)) s1 else s1))"

definition NotifyResponse :: "nonkvbase \<Rightarrow> obss \<Rightarrow> obss" where
  "NotifyResponse rsp s = s\<lparr>ob_buff := Buff_Pop (nk_sn rsp) (ob_buff s)\<rparr>"

section \<open>Plans\<close>

text \<open>The end of the current plan: release it, close its state record, tell the clients.\<close>

definition plan_ends :: "env \<Rightarrow> int \<Rightarrow> obss \<Rightarrow> obss" where
  "plan_ends E code s =
     (let ps = UpdateUTC E (ob_plan_state s);
          ps' = ps\<lparr>pl_tm_stop := kv_utc ps, pl_state := code\<rparr>
      in emit_ev (PlanState ps') (s\<lparr>ob_plan := None, ob_plan_state := ps'\<rparr>))"

definition Abort :: "env \<Rightarrow> obss \<Rightarrow> obss" where
  "Abort E s =
     (let s1 = (if ob_tcpMount s \<noteq> None then
                  (let (cmd, s') = (if ob_type s = 0 then gwac_command 0 (NonKV_AbortSlew (env_boost E) (env_now E)) s
                                    else (KVAbort_ToString KVAbort_new, s))
                   in no_target (write_to (ob_tcpMount s) cmd s'))
                else s);
          s2 = (if AnyExposing (ob_sys s1) then expose2camera E EXP_STOP 0 None s1 else s1)
      in if plan_unique E s2 then plan_ends E OBSPLAN_INTERRUPTED s2 else s2)"

definition NotifyPlan :: "env \<Rightarrow> nat \<times> kvappplan \<Rightarrow> obss \<Rightarrow> obss" where
  "NotifyPlan E plan s =
     (if \<not> plan_unique E s \<and> exposing (ob_sys s) \<noteq> 0 then s
      else
        let s1 = (if plan_unique E s then Abort E s else s);
            ps = (UpdateUTC E (ob_plan_state s1))\<lparr>pl_plan_sn := ap_plan_sn (snd plan), pl_state := OBSPLAN_CATALOGED\<rparr>
        in emit_ev NotifyNewPlan (emit_ev (PlanState ps) (s1\<lparr>ob_plan := Some plan, ob_plan_state := ps\<rparr>)))"

definition CheckPlan :: "boost \<Rightarrow> string \<Rightarrow> obss \<Rightarrow> kvplan option" where
  "CheckPlan B plan_sn s = (if iequals B (pl_plan_sn (ob_plan_state s)) plan_sn then Some (ob_plan_state s) else None)"

definition RemovePlan :: "boost \<Rightarrow> string \<Rightarrow> obss \<Rightarrow> bool" where
  "RemovePlan B plan_sn s \<longleftrightarrow> iequals B (pl_plan_sn (ob_plan_state s)) plan_sn"

definition process_new_plan :: "env \<Rightarrow> obss \<Rightarrow> crash + obss" where
  "process_new_plan E s =
     (case ob_plan s of None \<Rightarrow> Inl NullDeref
      | Some (k, p) \<Rightarrow>
          let B = env_boost E;
              errra = dmul (dsub (ap_ra p) (mt_objra (ob_mount s))) (double_of_int 3600);
              errdec = dmul (dsub (ap_dec p) (mt_objdec (ob_mount s))) (double_of_int 3600);
              slew_req = (\<not> (iequals B (ap_imgtype p) ''bias'' \<or> iequals B (ap_imgtype p) ''dark'')
                \<and> (dlt (double_of_int 5) (dabs errra) \<or> dlt (double_of_int 5) (dabs errdec)))
          in bindR
               (if slew_req then
                  (case ob_tcpMount s of None \<Rightarrow> Inl NullDeref
                   | Some t \<Rightarrow>
                       let (cmd, s') =
                         (if ob_type s = 0 then gwac_command 0 (NonKV_Slew B (env_now E) (ap_ra p) (ap_dec p)) s
                          else
                            let q = (UpdateUTC E (KVSlewto_new (env_raw E)))\<lparr>sl_coorsys := ap_coorsys p\<rparr>;
                                q' = (if ap_coorsys p = 0 then q\<lparr>sl_ra := ap_ra p, sl_dec := ap_dec p, sl_epoch := ap_epoch p\<rparr>
                                      else if ap_coorsys p = 1 then q\<lparr>sl_azi := ap_azi p, sl_ele := ap_ele p\<rparr>
                                      else q\<lparr>sl_tle1 := ap_tle1 p, sl_tle2 := ap_tle2 p\<rparr>)
                            in (KVSlewto_ToString q', s));
                         s1 = emit_ev (Write t cmd) s'
                       in Inr (s1\<lparr>ob_mount := (ob_mount s1)\<lparr>mt_objra := ap_ra p, mt_objdec := ap_dec p\<rparr>\<rparr>))
                else Inr s)
               (\<lambda>s1.
                 let s2 = write2camera E (KVAppPlan_ToString p) None s1;
                     s3 = (if \<not> slew_req then expose2camera E EXP_START 0 None s2 else s2);
                     ps = UpdateUTC E (ob_plan_state s3);
                     ps' = ps\<lparr>pl_plan_sn := ap_plan_sn p, pl_tm_start := kv_utc ps, pl_state := OBSPLAN_RUNNING\<rparr>
                 in Inr (emit_ev (PlanState ps') (s3\<lparr>ob_plan_state := ps'\<rparr>))))"

text \<open>One turn of the thread that starts and ends plans, after a notification or ten seconds.\<close>

definition thread_obsplan :: "env \<Rightarrow> obss \<Rightarrow> crash + obss" where
  "thread_obsplan E s =
     (case ob_plan s of None \<Rightarrow> Inr s
      | Some (k, p) \<Rightarrow>
          if \<not> plan_unique E s then Inr s
          else if pl_state (ob_plan_state s) = OBSPLAN_CATALOGED then
            (if ob_tcpMount s = None then Inr s
             else if camonline (ob_sys s) = 0 then Inr s
             else if AnyExposing (ob_sys s) then Inr s
             else bindR (process_new_plan E s) (\<lambda>s'.
               Inr (s'\<lparr>ob_tmend := from_iso (env_boost E) (ap_plan_end p)\<rparr>)))
          else if pl_state (ob_plan_state s) = OBSPLAN_RUNNING then
            (case ob_tmend s of None \<Rightarrow> Inr s
             | Some tmend \<Rightarrow>
                 let over_secs = s32 (env_now E - tmend)
                 in Inr (if dlt (ap_exptime p) (double_of_int over_secs) then Abort E s else s))
          else Inr s)"

end
