(* ===== verification/Obs_Commands.thy ===== *)
theory Obs_Commands
  imports Obs_System Tcp_Client Message_Queue
begin

text \<open>
  The commands of a client to an observation system, the messages of its cameras, and the thread
  that sends unanswered commands again (\<open>ObservationSystem.cpp\<close>, second half).
\<close>

section \<open>Client commands\<close>

definition Slewto :: "env \<Rightarrow> kvslewto \<Rightarrow> obss \<Rightarrow> obss" where
  "Slewto E proto s =
     (if plan_unique E s then s
      else case ob_tcpMount s of None \<Rightarrow> s
      | Some t \<Rightarrow>
          let (cmd, s1) = (if ob_type s \<noteq> 0 then (KVSlewto_ToString proto, s)
                           else gwac_command 0 (NonKV_Slew (env_boost E) (env_now E) (sl_ra proto) (sl_dec proto)) s);
              s2 = emit_ev (Write t cmd) s1
          in s2\<lparr>ob_mount := (ob_mount s2)\<lparr>mt_objra := sl_ra proto, mt_objdec := sl_dec proto\<rparr>\<rparr>)"

definition Park :: "env \<Rightarrow> obss \<Rightarrow> obss" where
  "Park E s =
     (let s1 = (case ob_tcpMount s of
                  None \<Rightarrow> s
                | Some t \<Rightarrow>
                    if mt_state (ob_mount s) \<noteq> MOUNT_PARKED \<and> mt_state (ob_mount s) \<noteq> MOUNT_PARKING then
                      (let (cmd, s') = (if ob_type s = 0 then gwac_command 0 (NonKV_Park (env_boost E) (env_now E)) s
                                        else (KVPark_ToString KVPark_new, s))
                       in no_target (emit_ev (Write t cmd) s'))
                    else s);
          s2 = (if AnyExposing (ob_sys s1) then expose2camera E EXP_STOP 0 None s1 else s1)
      in if plan_unique E s2 then plan_ends E OBSPLAN_INTERRUPTED s2 else s2)"

text \<open>\<open>Guide\<close> also sets \<open>op\<close> of the message, which the caller goes on using.\<close>

definition Obs_Guide :: "env \<Rightarrow> kvguide \<Rightarrow> obss \<Rightarrow> kvguide \<times> obss" where
  "Obs_Guide E proto s =
     (let s1 = (case ob_tcpMount s of
                  None \<Rightarrow> s
                | Some t \<Rightarrow>
                    if gd_result proto = 0 then
                      (let (cmd, s') = (if ob_type s \<noteq> 0 then (KVGuide_ToString proto, s)
                                        else gwac_command 0 (NonKV_Guide (env_boost E) (env_now E) (gd_ra proto) (gd_dec proto)) s)
                       in emit_ev (Write t cmd) s')
                    else s);
          proto' = proto\<lparr>gd_op := (if gd_result proto \<noteq> 0 then 0 else 1)\<rparr>
      in (proto', write2camera E (KVGuide_ToString proto') None s1))"

definition Track :: "env \<Rightarrow> obss \<Rightarrow> crash + obss" where
  "Track E s =
     (case ob_tcpMount s of None \<Rightarrow> Inr s
      | Some t \<Rightarrow>
          let st = mt_state (ob_mount s) in
          if st = MOUNT_FREEZE \<or> st = MOUNT_HOMED \<or> st = MOUNT_PARKED then
            Inr (if ob_type s = 0 then
                   (let (cmd, s') = gwac_command 0 (NonKV_Track (env_boost E) (env_now E)) s
                    in emit_ev (Write t cmd) s')
                 else s)
          else bindR (desc_at DESC_STATE_MOUNT st) (\<lambda>_. Inr s))"

definition TrackVel :: "env \<Rightarrow> kvtrackvel \<Rightarrow> obss \<Rightarrow> crash + obss" where
  "TrackVel E proto s =
     (case ob_tcpMount s of None \<Rightarrow> Inr s
      | Some t \<Rightarrow>
          if mt_state (ob_mount s) = MOUNT_TRACKING then
            Inr (if ob_type s = 0 then
                   (let (cmd, s') = gwac_command 0
                          (NonKV_TrackVelocity (env_boost E) (env_now E) (tv_ra proto) (tv_dec proto)) s
                    in emit_ev (Write t cmd) s')
                 else s)
          else bindR (desc_at DESC_STATE_MOUNT (mt_state (ob_mount s))) (\<lambda>_. Inr s))"

definition FindHome :: "env \<Rightarrow> obss \<Rightarrow> obss" where
  "FindHome E s =
     (case ob_tcpMount s of None \<Rightarrow> s
      | Some t \<Rightarrow>
          let (cmd, s') = (if ob_type s = 0 then gwac_command 0 (NonKV_FindHome (env_boost E) (env_now E) True True) s
                           else (KVHome_ToString KVHome_new, s))
          in no_target (emit_ev (Write t cmd) s'))"

text \<open>\<open>HomeSync\<close> only writes a log entry.\<close>

definition HomeSync :: "kvsync \<Rightarrow> obss \<Rightarrow> obss" where
  "HomeSync proto s = s"

text \<open>The plan number given to a manual exposure without one: day of the year and running number.\<close>

definition image_sn :: "env \<Rightarrow> obss \<Rightarrow> string \<times> obss" where
  "image_sn E s =
     (let B = env_boost E; (y, m, d) = ymd_of B (env_now E);
          s1 = (if d \<noteq> ob_oldDay s then s\<lparr>ob_oldDay := d, ob_planSN := 0\<rparr> else s);
          s2 = s1\<lparr>ob_planSN := ob_planSN s1 + 1\<rparr>
      in (ob_gid s @ ob_uid s @ ''_'' @ format_d B 2 (y - 2000) @ format_d B 2 m @ format_d B 2 d
            @ format_d B 3 (ob_planSN s2), s2))"

text \<open>The items a manual exposure leaves out.\<close>

definition image_plan :: "string \<Rightarrow> kvappplan \<Rightarrow> kvappplan" where
  "image_plan sn proto0 =
     (let p1 = proto0\<lparr>ap_plan_sn := sn\<rparr>;
          p2 = (if dlt (ap_exptime p1) dzero then p1\<lparr>ap_exptime := dzero\<rparr> else p1);
          p3 = (if ap_imgtype p2 = [] then
                  p2\<lparr>ap_imgtype := (if deq (ap_exptime p2) dzero then ''bias'' else ''object'')\<rparr> else p2);
          p4 = (if ap_objid p3 = [] then p3\<lparr>ap_objid := ap_imgtype p3\<rparr> else p3);
          p5 = (if ap_frmcnt p4 \<le> 0 then p4\<lparr>ap_frmcnt := 1\<rparr> else p4)
      in p5\<lparr>kv_type := KVTYPE_APPGWAC\<rparr>)"

definition TakeImage :: "env \<Rightarrow> kvappplan \<Rightarrow> obss \<Rightarrow> obss" where
  "TakeImage E proto0 s =
     (if plan_unique E s then s
      else
        let (sn, s1) = (if ap_plan_sn proto0 = [] then image_sn E s else (ap_plan_sn proto0, s));
            p = image_plan sn proto0
        in expose2camera E EXP_START 0 (Some (kv_cid p))
             (write2camera E (KVAppPlan_ToString p) (Some (kv_cid p)) s1))"

definition CameraSetting :: "kvcamset \<Rightarrow> obss \<Rightarrow> kvcamset \<times> obss" where
  "CameraSetting proto s = (proto, s)"

definition Obs_Focus :: "env \<Rightarrow> kvfocus \<Rightarrow> obss \<Rightarrow> obss" where
  "Obs_Focus E proto s =
     (case ob_tcpFocus s of None \<Rightarrow> s
      | Some t \<Rightarrow>
          if fc_opType proto = 1 \<and> fc_relPos proto \<noteq> 0 then
            (let cid = kv_cid proto in
             case find (cid_is E cid) (ob_cams s) of None \<Rightarrow> s
             | Some c \<Rightarrow>
                 let s1 = s\<lparr>ob_cams := upd_first (cid_is E cid)
                       (\<lambda>c. c\<lparr>ci_focUtc := kv_utc proto, ci_focTar := s32 (ci_focPos c + fc_relPos proto),
                            ci_focState := 1, ci_repeat := 0\<rparr>) (ob_cams s)\<rparr>;
                     (cmd, s2) = gwac_command 1 (NonKV_Focus (env_boost E) (env_now E) cid (fc_relPos proto)) s1
                 in emit_ev (Write t cmd) s2)
          else s)"

text \<open>The loop of \<open>FocusSync\<close>, over the positions of \<open>camInfoVec_\<close>.\<close>

fun focus_sync_loop :: "env \<Rightarrow> nat \<Rightarrow> string \<Rightarrow> nat list \<Rightarrow> obss \<Rightarrow> obss" where
  "focus_sync_loop E t cid [] s = s"
| "focus_sync_loop E t cid (i # is) s =
     (let c = ob_cams s ! i in
      if cid = [] \<or> cid_is E cid c then
        (let s1 = s\<lparr>ob_cams := (ob_cams s)[i := c\<lparr>ci_focState := - 1\<rparr>]\<rparr>;
             (cmd, s2) = gwac_command 1 (NonKV_FocusSync (env_boost E) (env_now E) (kv_cid (ci_info c))) s1
         in focus_sync_loop E t cid is (emit_ev (Write t cmd) s2))
      else focus_sync_loop E t cid is s)"

definition FocusSync :: "env \<Rightarrow> kvbase \<Rightarrow> obss \<Rightarrow> obss" where
  "FocusSync E proto s =
     (case ob_tcpFocus s of None \<Rightarrow> s
      | Some t \<Rightarrow> focus_sync_loop E t (kv_cid proto) [0..<length (ob_cams s)] s)"

definition NotifyFWHM :: "env \<Rightarrow> kvfwhm \<Rightarrow> obss \<Rightarrow> obss" where
  "NotifyFWHM E proto s =
     (case ob_tcpFocus s of None \<Rightarrow> s
      | Some t \<Rightarrow>
          if kv_cid proto = [] then s
          else
            (let B = env_boost E; cid = kv_cid proto in
             case from_iso B (fw_tmimg proto) of None \<Rightarrow> s
             | Some utc \<Rightarrow>
                 let (h, m, sec) = hms_of B utc;
                     tmobs = format_d B 2 h @ format_d B 2 m @ format_d B 5 (sec * 1000)
                 in (case find (cid_is E cid) (ob_cams s) of None \<Rightarrow> s
                     | Some c \<Rightarrow>
                         if \<not> deq (fw_value proto) (ci_fwhm c) then
                           (let s1 = s\<lparr>ob_cams := upd_first (cid_is E cid)
                                  (\<lambda>c. c\<lparr>ci_fwhm := fw_value proto, ci_focState := - 1\<rparr>) (ob_cams s)\<rparr>;
                                (cmd, s2) = gwac_command 1 (NonKV_FWHM B (env_now E) cid tmobs (fw_value proto)) s1
                            in emit_ev (Write t cmd) s2)
                         else s)))"

definition Obs_Derot :: "kvderot \<Rightarrow> obss \<Rightarrow> obss" where "Obs_Derot proto s = s"
definition Obs_Dome :: "kvdome \<Rightarrow> obss \<Rightarrow> obss" where "Obs_Dome proto s = s"

section \<open>Messages of the connections\<close>

definition OBS_MSG_TCP_CLOSE :: int where "OBS_MSG_TCP_CLOSE = MSG_USER"
definition OBS_MSG_TCP_RECEIVE :: int where "OBS_MSG_TCP_RECEIVE = MSG_USER + 1"
definition OBS_MSG_FLAT_RESLEW :: int where "OBS_MSG_FLAT_RESLEW = MSG_USER + 2"

text \<open>Callback of a connection: \<open>ok\<close> when there is no error code.\<close>

definition Obs_tcp_receive :: "nat \<Rightarrow> bool \<Rightarrow> int \<Rightarrow> obss \<Rightarrow> obss" where
  "Obs_tcp_receive t ok peer s =
     emit_ev (Post (if ok then OBS_MSG_TCP_RECEIVE else OBS_MSG_TCP_CLOSE) (int t) peer) s"

definition Obs_on_tcp_close :: "env \<Rightarrow> nat \<Rightarrow> int \<Rightarrow> obss \<Rightarrow> obss" where
  "Obs_on_tcp_close E t peer s =
     (if peer = PEER_CAMERA_GFT \<or> peer = PEER_CAMERA_GWAC then
        (case find (\<lambda>c. ci_tcp c = Some t) (ob_cams s) of None \<Rightarrow> s
         | Some c \<Rightarrow>
             let sys1 = (if CAMCTL_IDLE < cm_state (ci_info c) then snd (LeaveExpose (ob_sys s)) else ob_sys s)
             in s\<lparr>ob_sys := CameraOnline False sys1,
                  ob_cams := upd_first (\<lambda>c. ci_tcp c = Some t)
                    (\<lambda>c. c\<lparr>ci_info := (ci_info c)\<lparr>cm_state := CAMCTL_ERROR, cm_errcode := 1\<rparr>, ci_tcp := None\<rparr>) (ob_cams s),
                  ob_lastClosed := env_now E\<rparr>)
      else s)"

definition on_flat_reslew :: "obss \<Rightarrow> obss" where "on_flat_reslew s = s"

text \<open>\<open>(*it).info = *camera\<close>: the type is the one field assignment leaves.\<close>

definition camera_assign :: "kvcamera \<Rightarrow> kvcamera \<Rightarrow> kvcamera" where
  "camera_assign this other = other\<lparr>kv_type := kv_type this\<rparr>"

text \<open>The bookkeeping of exposures when a camera's state changes from \<open>old\<close> to \<open>new\<close>.\<close>

definition camera_state_change :: "env \<Rightarrow> int \<Rightarrow> int \<Rightarrow> obss \<Rightarrow> obss" where
  "camera_state_change E new old s =
     (if new = old then s
      else if new \<le> CAMCTL_IDLE \<and> CAMCTL_IDLE < old then
        (let (none, sys) = LeaveExpose (ob_sys s); s1 = s\<lparr>ob_sys := sys\<rparr>
         in if none \<and> plan_unique E s1 then plan_ends E OBSPLAN_OVER s1 else s1)
      else if CAMCTL_IDLE < new \<and> old \<le> CAMCTL_IDLE then s\<lparr>ob_sys := EnterExpose (ob_sys s)\<rparr>
      else if new = CAMCTL_WAIT_FLAT then
        (let s1 = s\<lparr>ob_sys := EnterWaitFlat (ob_sys s)\<rparr>
         in if exposing (ob_sys s1) = waitflat (ob_sys s1) then emit_ev (Post OBS_MSG_FLAT_RESLEW 0 0) s1 else s1)
      else if old = CAMCTL_WAIT_FLAT then s\<lparr>ob_sys := LeaveWaitFlat (ob_sys s)\<rparr>
      else s)"

text \<open>
  The type of a message names its class (\<open>Resolve_type\<close>), so the test on the type and the cast are
  one case distinction. A message of another type changes no camera and no counter, as both states
  are then \<open>CAMCTL_ERROR\<close>.
\<close>

definition Obs_process_protocol_camera :: "env \<Rightarrow> nat \<Rightarrow> kvmsg \<Rightarrow> obss \<Rightarrow> obss" where
  "Obs_process_protocol_camera E t m s =
     (case m of
        MCamera camera \<Rightarrow>
          (let state_new = cm_state camera;
               state_old = (case find (\<lambda>c. ci_tcp c = Some t) (ob_cams s) of
                              Some c \<Rightarrow> cm_state (ci_info c) | None \<Rightarrow> CAMCTL_ERROR);
               s1 = s\<lparr>ob_cams := upd_first (\<lambda>c. ci_tcp c = Some t)
                      (\<lambda>c. c\<lparr>ci_info := camera_assign (ci_info c) camera\<rparr>) (ob_cams s)\<rparr>
           in camera_state_change E state_new state_old s1)
      | _ \<Rightarrow> s)"

text \<open>The text \<open>Resolve(buff)\<close> sees: up to the first NUL.\<close>

definition c_str :: "string \<Rightarrow> string" where
  "c_str s = takeWhile (\<lambda>c. c \<noteq> CHR 0x00) s"

text \<open>
  The receive loop, with the connection \<open>c\<close> of number \<open>t\<close>; \<open>None\<close> is a loop that never ends.
\<close>

partial_function (option) Obs_on_tcp_receive ::
  "env \<Rightarrow> nat \<Rightarrow> tcpclient \<Rightarrow> obss \<Rightarrow> (crash + tcpclient \<times> obss) option" where
  "Obs_on_tcp_receive E t c s =
     (let pos = Tcp_Lookup lines_end 0 c in
      if 0 \<le> pos then
        (if pos + 1 > TCP_PACK_SIZE then Obs_on_tcp_receive E t (Tcp_Close c) s
         else
           (case Tcp_Read (env_boost E) (pos + 1) 0 c of (n, data, c1) \<Rightarrow>
            (case Resolve (env_boost E) (env_raw E) (c_str (take (nat pos) data)) of
               Inl e \<Rightarrow> Some (Inl e)
             | Inr None \<Rightarrow> Obs_on_tcp_receive E t (Tcp_Close c1) s
             | Inr (Some m) \<Rightarrow> Obs_on_tcp_receive E t c1 (Obs_process_protocol_camera E t m s))))
      else Some (Inr (c, s)))"

section \<open>Sending again\<close>

text \<open>
  One turn of \<open>thread_rewrite\<close>; \<open>timeout\<close>: a second has passed without a new command. The
  reference to the front element is used after the element has been removed.
\<close>

definition thread_rewrite :: "bool \<Rightarrow> obss \<Rightarrow> crash + obss" where
  "thread_rewrite timeout s =
     (case ob_buff s of
        [] \<Rightarrow> Inr s
      | item # rest \<Rightarrow>
          if timeout then
            (let item' = item\<lparr>it_retry := it_retry item + 1\<rparr> in
             if 3 < it_retry item' then Inl DanglingRef
             else
               let s1 = s\<lparr>ob_buff := item' # rest\<rparr> in
               Inr (if it_devtype item' = 0 \<and> ob_tcpMount s \<noteq> None then write_to (ob_tcpMount s) (it_cmd item') s1
                    else if it_devtype item' = 1 \<and> ob_tcpFocus s \<noteq> None then write_to (ob_tcpFocus s) (it_cmd item') s1
                    else s1))
          else Inr s)"

end
