(* ===== verification/Obs_Invariant.thy ===== *)
theory Obs_Invariant
  imports Obs_Commands
begin

text \<open>
  The behaviour of an observation system over time: its steps as an inductive relation, the
  invariant that ties the counters of \<open>SystemState\<close> to the cameras and the plan to its state
  record, and what follows for starting, ending and replacing plans.
\<close>

section \<open>What an operation leaves alone\<close>

text \<open>
  The part of a system the counters are about: connection and state of every camera, and the
  counters; and the part that concerns the plan.
\<close>

definition cam_core :: "camerainfo \<Rightarrow> nat option \<times> int" where
  "cam_core c = (ci_tcp c, cm_state (ci_info c))"

definition core :: "obss \<Rightarrow> (nat option \<times> int) list \<times> systemstate" where
  "core s = (map cam_core (ob_cams s), ob_sys s)"

definition plan_core :: "obss \<Rightarrow> (nat \<times> kvappplan) option \<times> string \<times> int" where
  "plan_core s = (ob_plan s, pl_plan_sn (ob_plan_state s), pl_state (ob_plan_state s))"

lemma emit_frame [obss_frame]:
  "core (emit_ev e s) = core s" "plan_core (emit_ev e s) = plan_core s"
  "ob_mount (emit_ev e s) = ob_mount s" "ob_nonkv (emit_ev e s) = ob_nonkv s"
  "ob_sys (emit_ev e s) = ob_sys s" "ob_tcpMount (emit_ev e s) = ob_tcpMount s"
  by (simp_all add: core_def plan_core_def emit_ev_def)

lemma update_frame [obss_frame]:
  "core (s\<lparr>ob_tcpMount := a\<rparr>) = core s" "plan_core (s\<lparr>ob_tcpMount := a\<rparr>) = plan_core s"
  "core (s\<lparr>ob_countPos := b\<rparr>) = core s" "plan_core (s\<lparr>ob_countPos := b\<rparr>) = plan_core s"
  "core (s\<lparr>ob_mount := m\<rparr>) = core s" "plan_core (s\<lparr>ob_mount := m\<rparr>) = plan_core s"
  "core (s\<lparr>ob_buff := l\<rparr>) = core s" "plan_core (s\<lparr>ob_buff := l\<rparr>) = plan_core s"
  "core (s\<lparr>ob_lastClosed := d\<rparr>) = core s" "plan_core (s\<lparr>ob_lastClosed := d\<rparr>) = plan_core s"
  "core (s\<lparr>ob_tcpFocus := a\<rparr>) = core s" "plan_core (s\<lparr>ob_tcpFocus := a\<rparr>) = plan_core s"
  "core (s\<lparr>ob_nonkv := n\<rparr>) = core s" "plan_core (s\<lparr>ob_nonkv := n\<rparr>) = plan_core s"
  "core (s\<lparr>ob_oldDay := d\<rparr>) = core s" "plan_core (s\<lparr>ob_oldDay := d\<rparr>) = plan_core s"
  "core (s\<lparr>ob_planSN := d\<rparr>) = core s" "plan_core (s\<lparr>ob_planSN := d\<rparr>) = plan_core s"
  "core (s\<lparr>ob_tmend := e\<rparr>) = core s" "plan_core (s\<lparr>ob_tmend := e\<rparr>) = plan_core s"
  "core (s\<lparr>ob_out := f\<rparr>) = core s" "plan_core (s\<lparr>ob_out := f\<rparr>) = plan_core s"
  "core (s\<lparr>ob_plan := g\<rparr>) = core s" "core (s\<lparr>ob_plan_state := h\<rparr>) = core s"
  "plan_core (s\<lparr>ob_sys := x\<rparr>) = plan_core s" "plan_core (s\<lparr>ob_cams := y\<rparr>) = plan_core s"
  by (simp_all add: core_def plan_core_def)

lemma gwac_frame [obss_frame]:
  "core (snd (gwac_command dev enc s)) = core s"
  "plan_core (snd (gwac_command dev enc s)) = plan_core s"
  "ob_mount (snd (gwac_command dev enc s)) = ob_mount s"
  "ob_sys (snd (gwac_command dev enc s)) = ob_sys s"
  by (simp_all add: gwac_command_def case_prod_unfold obss_frame)

lemma write_frame [obss_frame]:
  "core (write2camera E cmd cid s) = core s"
  "plan_core (write2camera E cmd cid s) = plan_core s"
  "core (expose2camera E n f cid s) = core s"
  "plan_core (expose2camera E n f cid s) = plan_core s"
  "core (write_to t cmd s) = core s"
  "plan_core (write_to t cmd s) = plan_core s"
  "core (no_target s) = core s"
  "plan_core (no_target s) = plan_core s"
  "ob_mount (write2camera E cmd cid s) = ob_mount s"
  "ob_mount (expose2camera E n f cid s) = ob_mount s"
  "ob_mount (write_to t cmd s) = ob_mount s"
  "mt_state (ob_mount (no_target s)) = mt_state (ob_mount s)"
  by (simp_all add: write2camera_def expose2camera_def write_to_def no_target_def obss_frame Let_def
      split: option.splits)

lemma plan_unique_cong: "plan_core s = plan_core t \<Longrightarrow> plan_unique E s = plan_unique E t"
  by (simp add: plan_core_def plan_unique_def)

lemma plan_ends_frame [obss_frame]:
  "core (plan_ends E code s) = core s"
  "plan_core (plan_ends E code s) = (None, pl_plan_sn (ob_plan_state s), code)"
  "ob_mount (plan_ends E code s) = ob_mount s"
  by (simp_all add: plan_ends_def Let_def obss_frame) (simp add: plan_core_def UpdateUTC_def emit_ev_def)

text \<open>Rewriting one camera in fields the counters do not look at.\<close>

lemma core_upd_first [obss_frame]:
  "(\<And>c. cam_core (f c) = cam_core c) \<Longrightarrow> core (s\<lparr>ob_cams := upd_first P f (ob_cams s)\<rparr>) = core s"
  by (simp add: core_def map_upd_first)

section \<open>Frames of the operations\<close>

lemma core_CoupleMount: "CoupleMount ptr s = Inr s' \<Longrightarrow> core s' = core s \<and> plan_core s' = plan_core s"
  by (auto simp: CoupleMount_def Let_def obss_frame split: if_splits option.splits)

lemma core_connections [obss_frame]:
  "core (DecoupleMount E ptr s) = core s" "plan_core (DecoupleMount E ptr s) = plan_core s"
  "core (CoupleFocus ptr s) = core s" "plan_core (CoupleFocus ptr s) = plan_core s"
  "core (DecoupleFocus E ptr s) = core s" "plan_core (DecoupleFocus E ptr s) = plan_core s"
  "core (NotifyMountPosition pos s) = core s" "plan_core (NotifyMountPosition pos s) = plan_core s"
  "core (NotifyResponse rsp s) = core s" "plan_core (NotifyResponse rsp s) = plan_core s"
  by (simp_all add: DecoupleMount_def CoupleFocus_def DecoupleFocus_def NotifyMountPosition_def
      NotifyResponse_def obss_frame)

lemma core_NotifyMountState:
  "NotifyMountState E st s = Inr s' \<Longrightarrow> core s' = core s \<and> plan_core s' = plan_core s"
  by (auto simp: NotifyMountState_def Let_def bindR_Inr_iff obss_frame split: if_splits)

lemma cam_core_focus_moved: "cam_core (fst (focus_moved pos c)) = cam_core c"
  by (simp add: focus_moved_def cam_core_def Let_def)

lemma core_NotifyFocus [obss_frame]:
  "core (NotifyFocus E cid pos s) = core s" "plan_core (NotifyFocus E cid pos s) = plan_core s"
  by (simp_all add: NotifyFocus_def obss_frame cam_core_focus_moved Let_def split: option.splits)

lemma core_Abort [obss_frame]: "core (Abort E s) = core s"
  by (simp add: Abort_def Let_def case_prod_unfold obss_frame)

lemma core_Park [obss_frame]: "core (Park E s) = core s"
  by (simp add: Park_def Let_def case_prod_unfold obss_frame split: option.splits)

lemma plan_core_Abort:
  "plan_core (Abort E s) =
    (if plan_unique E s then (None, pl_plan_sn (ob_plan_state s), OBSPLAN_INTERRUPTED) else plan_core s)"
proof -
  define s2 where "s2 = (let s1 = (if ob_tcpMount s \<noteq> None then
                  (let (cmd, s') = (if ob_type s = 0 then gwac_command 0 (NonKV_AbortSlew (env_boost E) (env_now E)) s
                                    else (KVAbort_ToString KVAbort_new, s))
                   in no_target (write_to (ob_tcpMount s) cmd s'))
                else s)
      in if AnyExposing (ob_sys s1) then expose2camera E EXP_STOP 0 None s1 else s1)"
  have s2: "plan_core s2 = plan_core s"
    by (simp add: s2_def Let_def case_prod_unfold obss_frame)
  have "Abort E s = (if plan_unique E s2 then plan_ends E OBSPLAN_INTERRUPTED s2 else s2)"
    by (simp add: Abort_def s2_def Let_def)
  moreover have "pl_plan_sn (ob_plan_state s2) = pl_plan_sn (ob_plan_state s)" using s2 by (simp add: plan_core_def)
  ultimately show ?thesis using s2 plan_unique_cong [OF s2] by (simp add: obss_frame)
qed

lemma plan_core_Park:
  "plan_core (Park E s) =
    (if plan_unique E s then (None, pl_plan_sn (ob_plan_state s), OBSPLAN_INTERRUPTED) else plan_core s)"
proof -
  define s2 where "s2 = (let s1 = (case ob_tcpMount s of
                  None \<Rightarrow> s
                | Some t \<Rightarrow>
                    if mt_state (ob_mount s) \<noteq> MOUNT_PARKED \<and> mt_state (ob_mount s) \<noteq> MOUNT_PARKING then
                      (let (cmd, s') = (if ob_type s = 0 then gwac_command 0 (NonKV_Park (env_boost E) (env_now E)) s
                                        else (KVPark_ToString KVPark_new, s))
                       in no_target (emit_ev (Write t cmd) s'))
                    else s)
      in if AnyExposing (ob_sys s1) then expose2camera E EXP_STOP 0 None s1 else s1)"
  have s2: "plan_core s2 = plan_core s"
    by (simp add: s2_def Let_def case_prod_unfold obss_frame split: option.splits)
  have "Park E s = (if plan_unique E s2 then plan_ends E OBSPLAN_INTERRUPTED s2 else s2)"
    by (simp add: Park_def s2_def Let_def)
  moreover have "pl_plan_sn (ob_plan_state s2) = pl_plan_sn (ob_plan_state s)" using s2 by (simp add: plan_core_def)
  ultimately show ?thesis using s2 plan_unique_cong [OF s2] by (simp add: obss_frame)
qed

lemma core_commands [obss_frame]:
  "core (Slewto E p1 s) = core s" "plan_core (Slewto E p1 s) = plan_core s"
  "core (snd (Obs_Guide E p2 s)) = core s" "plan_core (snd (Obs_Guide E p2 s)) = plan_core s"
  "core (FindHome E s) = core s" "plan_core (FindHome E s) = plan_core s"
  by (simp_all add: Slewto_def Obs_Guide_def FindHome_def Let_def case_prod_unfold obss_frame split: option.splits)

lemma core_Track: "Track E s = Inr s' \<Longrightarrow> core s' = core s \<and> plan_core s' = plan_core s"
  by (auto simp: Track_def Let_def bindR_Inr_iff case_prod_unfold obss_frame split: if_splits option.splits)

lemma core_TrackVel: "TrackVel E p s = Inr s' \<Longrightarrow> core s' = core s \<and> plan_core s' = plan_core s"
  by (auto simp: TrackVel_def Let_def bindR_Inr_iff case_prod_unfold obss_frame split: if_splits option.splits)

lemma core_image_sn: "core (snd (image_sn E s)) = core s" "plan_core (snd (image_sn E s)) = plan_core s"
  by (simp_all add: image_sn_def Let_def case_prod_unfold obss_frame)

lemma core_TakeImage [obss_frame]:
  "core (TakeImage E p s) = core s" "plan_core (TakeImage E p s) = plan_core s"
  by (simp_all add: TakeImage_def core_image_sn Let_def case_prod_unfold obss_frame)

lemma core_Obs_Focus [obss_frame]:
  "core (Obs_Focus E p s) = core s" "plan_core (Obs_Focus E p s) = plan_core s"
  by (simp_all add: Obs_Focus_def Let_def case_prod_unfold obss_frame cam_core_def split: option.splits)

lemma core_NotifyFWHM [obss_frame]:
  "core (NotifyFWHM E p s) = core s" "plan_core (NotifyFWHM E p s) = plan_core s"
  by (simp_all add: NotifyFWHM_def Let_def case_prod_unfold obss_frame cam_core_def split: option.splits)

lemma core_cam_update:
  "cam_core c' = cam_core (ob_cams s ! i) \<Longrightarrow> core (s\<lparr>ob_cams := (ob_cams s)[i := c']\<rparr>) = core s"
  by (cases "i < length (ob_cams s)") (simp_all add: core_def map_update list_update_same_conv list_update_beyond)

lemma core_focus_sync_loop:
  "core (focus_sync_loop E t cid is s) = core s \<and> plan_core (focus_sync_loop E t cid is s) = plan_core s"
  by (induction E t cid "is" s rule: focus_sync_loop.induct)
     (simp_all add: Let_def case_prod_unfold obss_frame core_cam_update cam_core_def)

lemma core_FocusSync [obss_frame]:
  "core (FocusSync E p s) = core s" "plan_core (FocusSync E p s) = plan_core s"
  by (simp_all add: FocusSync_def core_focus_sync_loop split: option.splits)

lemma core_thread_rewrite: "thread_rewrite b s = Inr s' \<Longrightarrow> core s' = core s \<and> plan_core s' = plan_core s"
  by (auto simp: thread_rewrite_def Let_def obss_frame split: list.splits if_splits)

section \<open>Plans\<close>

lemma process_new_plan_effect:
  assumes "process_new_plan E s = Inr s'" and "ob_plan s = Some (k, p)"
  shows "core s' = core s" and "plan_core s' = (Some (k, p), ap_plan_sn p, OBSPLAN_RUNNING)"
  using assms
  by (auto simp: process_new_plan_def Let_def bindR_Inr_iff case_prod_unfold obss_frame
      split: if_splits option.splits)
     (auto simp: plan_core_def UpdateUTC_def emit_ev_def write2camera_def expose2camera_def gwac_command_def
      case_prod_unfold split: if_splits)

lemma thread_obsplan_cases:
  assumes "thread_obsplan E s = Inr s'"
  obtains (idle) "s' = s"
  | (start) k p where "ob_plan s = Some (k, p)" "plan_unique E s" "pl_state (ob_plan_state s) = OBSPLAN_CATALOGED"
      "ob_tcpMount s \<noteq> None" "camonline (ob_sys s) \<noteq> 0" "\<not> AnyExposing (ob_sys s)"
      "core s' = core s" "plan_core s' = (Some (k, p), ap_plan_sn p, OBSPLAN_RUNNING)"
  | (overdue) k p tmend where "ob_plan s = Some (k, p)" "plan_unique E s" "pl_state (ob_plan_state s) = OBSPLAN_RUNNING"
      "ob_tmend s = Some tmend" "dlt (ap_exptime p) (double_of_int (s32 (env_now E - tmend)))" "s' = Abort E s"
proof (cases "ob_plan s")
  case None
  then show ?thesis using assms idle by (simp add: thread_obsplan_def)
next
  case (Some kp)
  obtain k p where kp: "ob_plan s = Some (k, p)" using Some by (cases kp) simp
  show ?thesis
  proof (cases "plan_unique E s \<and> pl_state (ob_plan_state s) = OBSPLAN_CATALOGED
      \<and> ob_tcpMount s \<noteq> None \<and> camonline (ob_sys s) \<noteq> 0 \<and> \<not> AnyExposing (ob_sys s)")
    case True
    then obtain s1 where s1: "process_new_plan E s = Inr s1"
      and s': "s' = s1\<lparr>ob_tmend := from_iso (env_boost E) (ap_plan_end p)\<rparr>"
      using assms kp by (auto simp: thread_obsplan_def bindR_Inr_iff)
    from process_new_plan_effect [OF s1 kp] True show ?thesis
      by (intro start [OF kp]) (simp_all add: s' obss_frame)
  next
    case False
    have "OBSPLAN_CATALOGED \<noteq> OBSPLAN_RUNNING" by (simp add: device_def)
    with False show ?thesis
      using assms kp idle overdue [OF kp]
      by (auto simp: thread_obsplan_def Let_def split: if_splits option.splits)
  qed
qed

section \<open>Steps\<close>

text \<open>
  Any operation the controller, a connection or a thread can perform. A camera is coupled with a
  connection whose first state, which the constructor leaves uninitialised, is not an exposing
  one; camera messages arrive on the connection of a coupled camera.
\<close>

inductive obs_step :: "obss \<Rightarrow> obss \<Rightarrow> bool" where
  couple_mount: "CoupleMount ptr s = Inr s' \<Longrightarrow> obs_step s s'"
| decouple_mount: "obs_step s (DecoupleMount E ptr s)"
| couple_focus: "obs_step s (CoupleFocus ptr s)"
| decouple_focus: "obs_step s (DecoupleFocus E ptr s)"
| couple_camera: "CoupleCamera E ptr cid s = Inr (b, s') \<Longrightarrow>
    cm_state (KVCamera_new (env_raw E)) \<le> CAMCTL_IDLE \<Longrightarrow> obs_step s s'"
| mount_state: "NotifyMountState E st s = Inr s' \<Longrightarrow> obs_step s s'"
| mount_position: "obs_step s (NotifyMountPosition pos s)"
| focus_position: "obs_step s (NotifyFocus E cid n s)"
| response: "obs_step s (NotifyResponse rsp s)"
| new_plan: "obs_step s (NotifyPlan E plan s)"
| abort: "obs_step s (Abort E s)"
| slew: "obs_step s (Slewto E sl s)"
| park: "obs_step s (Park E s)"
| guide: "obs_step s (snd (Obs_Guide E gd s))"
| track: "Track E s = Inr s' \<Longrightarrow> obs_step s s'"
| track_vel: "TrackVel E tv s = Inr s' \<Longrightarrow> obs_step s s'"
| find_home: "obs_step s (FindHome E s)"
| home_sync: "obs_step s (HomeSync sy s)"
| take_image: "obs_step s (TakeImage E im s)"
| focus: "obs_step s (Obs_Focus E fc s)"
| focus_sync: "obs_step s (FocusSync E fs s)"
| fwhm: "obs_step s (NotifyFWHM E fw s)"
| close: "obs_step s (Obs_on_tcp_close E t peer s)"
| camera_message: "\<exists>c \<in> set (ob_cams s). ci_tcp c = Some t \<Longrightarrow>
    obs_step s (Obs_process_protocol_camera E t m s)"
| plan_turn: "thread_obsplan E s = Inr s' \<Longrightarrow> obs_step s s'"
| rewrite_turn: "thread_rewrite timeout s = Inr s' \<Longrightarrow> obs_step s s'"

section \<open>The counters\<close>

definition exposing_cam :: "nat option \<times> int \<Rightarrow> bool" where
  "exposing_cam x \<longleftrightarrow> CAMCTL_IDLE < snd x"

definition online_cam :: "nat option \<times> int \<Rightarrow> bool" where
  "online_cam x \<longleftrightarrow> fst x \<noteq> None"

text \<open>
  \<open>camonline\<close> counts the connected cameras and \<open>exposing\<close> those that expose; a camera that is not
  connected does not expose.
\<close>

fun counters_ok :: "(nat option \<times> int) list \<times> systemstate \<Rightarrow> bool" where
  "counters_ok (cs, y) \<longleftrightarrow>
     camonline y = int (count_if online_cam cs) \<and> exposing y = int (count_if exposing_cam cs)
     \<and> (\<forall>x \<in> set cs. \<not> online_cam x \<longrightarrow> \<not> exposing_cam x)"

lemma map_upd_first_hom:
  "(\<And>c. P c = Q (h c)) \<Longrightarrow> (\<And>c. P c \<Longrightarrow> h (f c) = g (h c)) \<Longrightarrow>
    map h (upd_first P f xs) = upd_first Q g (map h xs)"
  by (induction xs) auto

lemma find_map_hom: "(\<And>c. P c = Q (h c)) \<Longrightarrow> find Q (map h xs) = map_option h (find P xs)"
  by (induction xs) auto

lemma set_upd_first:
  "find P xs = Some x \<Longrightarrow> set (upd_first P f xs) \<subseteq> insert (f x) (set xs)"
  by (erule upd_first_split) auto

lemma counters_close:
  assumes "counters_ok (core s)"
  shows "counters_ok (core (Obs_on_tcp_close E t peer s))"
proof (cases "(peer = PEER_CAMERA_GFT \<or> peer = PEER_CAMERA_GWAC) \<and> find (\<lambda>c. ci_tcp c = Some t) (ob_cams s) \<noteq> None")
  case False
  then have "Obs_on_tcp_close E t peer s = s" by (auto simp: Obs_on_tcp_close_def)
  with assms show ?thesis by simp
next
  case True
  then obtain c where c: "find (\<lambda>c. ci_tcp c = Some t) (ob_cams s) = Some c" by auto
  let ?cs = "map cam_core (ob_cams s)"
  let ?Q = "\<lambda>x. fst x = Some t"
  let ?g = "\<lambda>x. (None, CAMCTL_ERROR)"
  have f: "find ?Q ?cs = Some (cam_core c)"
    using c by (subst find_map_hom [of "\<lambda>c. ci_tcp c = Some t"]) (simp_all add: cam_core_def)
  have sysc: "ob_sys s = y \<Longrightarrow> counters_ok (?cs, y)" for y using assms by (simp add: core_def)
  have tc: "ci_tcp c = Some t" "cam_core c \<in> set ?cs" using find_Some_mem [OF c] by auto
  then have on: "online_cam (cam_core c)" by (simp add: online_cam_def cam_core_def)
  have core': "core (Obs_on_tcp_close E t peer s) =
     (upd_first ?Q ?g ?cs,
      CameraOnline False (if exposing_cam (cam_core c) then snd (LeaveExpose (ob_sys s)) else ob_sys s))"
    using True c
    by (auto simp: Obs_on_tcp_close_def core_def cam_core_def exposing_cam_def
        intro!: map_upd_first_hom)
  have g: "\<not> online_cam (None, CAMCTL_ERROR)" "\<not> exposing_cam (None, CAMCTL_ERROR)"
    by (simp_all add: online_cam_def exposing_cam_def device_def)
  have "int (count_if online_cam (upd_first ?Q ?g ?cs)) = camonline (ob_sys s) - 1"
    using count_if_upd_first [OF f, of online_cam ?g] sysc on g by simp
  moreover have "int (count_if exposing_cam (upd_first ?Q ?g ?cs))
      = exposing (ob_sys s) - of_bool (exposing_cam (cam_core c))"
    using count_if_upd_first [OF f, of exposing_cam ?g] sysc g by simp
  moreover have "0 < count_if online_cam ?cs" using tc(2) on by (rule count_if_pos)
  moreover have "exposing_cam (cam_core c) \<Longrightarrow> 0 < count_if exposing_cam ?cs" using tc(2) by (rule count_if_pos)
  moreover have "\<forall>x \<in> set (upd_first ?Q ?g ?cs). \<not> online_cam x \<longrightarrow> \<not> exposing_cam x"
    using set_upd_first [OF f, of ?g] sysc g by fastforce
  ultimately show ?thesis
    using sysc by (auto simp: core' CameraOnline_def LeaveExpose_def Let_def)
qed

lemma counters_camera:
  assumes "counters_ok (core s)" and "\<exists>c \<in> set (ob_cams s). ci_tcp c = Some t"
  shows "counters_ok (core (Obs_process_protocol_camera E t m s))"
proof (cases m)
  case (MCamera camera)
  from assms(2) obtain c where c: "find (\<lambda>c. ci_tcp c = Some t) (ob_cams s) = Some c"
    by (cases "find (\<lambda>c. ci_tcp c = Some t) (ob_cams s)") (auto simp: find_None_iff)
  let ?cs = "map cam_core (ob_cams s)"
  let ?Q = "\<lambda>x. fst x = Some t"
  let ?n = "cm_state camera"
  let ?g = "\<lambda>x. (fst x, ?n)"
  let ?o = "cm_state (ci_info c)"
  let ?y = "ob_sys s"
  have f: "find ?Q ?cs = Some (cam_core c)"
    using c by (subst find_map_hom [of "\<lambda>c. ci_tcp c = Some t"]) (simp_all add: cam_core_def)
  have ok: "counters_ok (?cs, ?y)" using assms(1) by (simp add: core_def)
  have tc: "ci_tcp c = Some t" "cam_core c \<in> set ?cs" using find_Some_mem [OF c] by auto
  define s1 where "s1 = s\<lparr>ob_cams := upd_first (\<lambda>c. ci_tcp c = Some t)
      (\<lambda>c. c\<lparr>ci_info := camera_assign (ci_info c) camera\<rparr>) (ob_cams s)\<rparr>"
  have s1: "map cam_core (ob_cams s1) = upd_first ?Q ?g ?cs" "ob_sys s1 = ?y"
    by (auto simp: s1_def cam_core_def camera_assign_def intro!: map_upd_first_hom)
  have r: "Obs_process_protocol_camera E t m s = camera_state_change E ?n ?o s1"
    by (simp add: Obs_process_protocol_camera_def MCamera c s1_def)
  have on: "online_cam (cam_core c)" "online_cam (?g (cam_core c))"
    using tc by (simp_all add: online_cam_def cam_core_def)
  have ex: "exposing_cam (cam_core c) \<longleftrightarrow> CAMCTL_IDLE < ?o" "exposing_cam (?g (cam_core c)) \<longleftrightarrow> CAMCTL_IDLE < ?n"
    by (simp_all add: exposing_cam_def cam_core_def)
  have 1: "int (count_if online_cam (upd_first ?Q ?g ?cs)) = camonline ?y"
    using count_if_upd_first [OF f, of online_cam ?g] ok on by simp
  have 2: "int (count_if exposing_cam (upd_first ?Q ?g ?cs))
      = exposing ?y - of_bool (CAMCTL_IDLE < ?o) + of_bool (CAMCTL_IDLE < ?n)"
    using count_if_upd_first [OF f, of exposing_cam ?g] ok ex by simp
  have 3: "\<forall>x \<in> set (upd_first ?Q ?g ?cs). \<not> online_cam x \<longrightarrow> \<not> exposing_cam x"
    using set_upd_first [OF f, of ?g] ok on by fastforce
  have 4: "CAMCTL_IDLE < ?o \<Longrightarrow> exposing ?y \<noteq> 0"
    using count_if_pos [OF tc(2), of exposing_cam] ex ok by simp
  have "core (camera_state_change E ?n ?o s1) = (upd_first ?Q ?g ?cs,
      if ?n = ?o then ?y
      else if ?n \<le> CAMCTL_IDLE \<and> CAMCTL_IDLE < ?o then snd (LeaveExpose ?y)
      else if CAMCTL_IDLE < ?n \<and> ?o \<le> CAMCTL_IDLE then EnterExpose ?y
      else if ?n = CAMCTL_WAIT_FLAT then EnterWaitFlat ?y
      else if ?o = CAMCTL_WAIT_FLAT then LeaveWaitFlat ?y else ?y)"
    using s1 by (auto simp: camera_state_change_def Let_def case_prod_unfold obss_frame core_def
        plan_ends_def emit_ev_def)
  moreover have "\<not> CAMCTL_WAIT_FLAT \<le> CAMCTL_IDLE" by (simp add: device_def)
  ultimately show ?thesis
    using 1 2 3 4
    by (auto simp: r LeaveExpose_def EnterExpose_def EnterWaitFlat_def LeaveWaitFlat_def Let_def)
qed (use assms in \<open>simp_all add: Obs_process_protocol_camera_def\<close>)

lemma CoupleCamera_core:
  assumes "CoupleCamera E ptr cid s = Inr (b, s')"
  shows "plan_core s' = plan_core s"
    and "(\<not> b \<and> core s' = core s)
     \<or> (\<exists>c t. b \<and> find (cid_is E cid) (ob_cams s) = Some c \<and> ci_tcp c = None \<and> ptr = Some t
         \<and> core s' = (map cam_core (upd_first (cid_is E cid) (\<lambda>c. c\<lparr>ci_tcp := ptr\<rparr>) (ob_cams s)), CameraOnline True (ob_sys s)))
     \<or> (\<exists>t. b \<and> ptr = Some t
         \<and> core s' = (map cam_core (ob_cams s) @ [(ptr, cm_state (KVCamera_new (env_raw E)))], CameraOnline True (ob_sys s)))"
proof -
  have *: "plan_core s' = plan_core s \<and> ((\<not> b \<and> core s' = core s)
     \<or> (\<exists>c t. b \<and> find (cid_is E cid) (ob_cams s) = Some c \<and> ci_tcp c = None \<and> ptr = Some t
         \<and> core s' = (map cam_core (upd_first (cid_is E cid) (\<lambda>c. c\<lparr>ci_tcp := ptr\<rparr>) (ob_cams s)), CameraOnline True (ob_sys s)))
     \<or> (\<exists>t. b \<and> ptr = Some t
         \<and> core s' = (map cam_core (ob_cams s) @ [(ptr, cm_state (KVCamera_new (env_raw E)))], CameraOnline True (ob_sys s))))"
  proof (cases "find (cid_is E cid) (ob_cams s)")
    case None
    then show ?thesis
      using assms by (cases ptr)
        (auto simp: CoupleCamera_def Let_def obss_frame core_def cam_core_def emit_ev_def plan_core_def)
  next
    case (Some c)
    show ?thesis
    proof (cases "ci_tcp c")
      case None
      then show ?thesis
        using assms Some
        by (cases ptr)
          (auto simp: CoupleCamera_def Let_def obss_frame core_def plan_core_def emit_ev_def write2camera_def
             expose2camera_def split: option.splits if_splits prod.splits)
    next
      case (Some t)
      then show ?thesis using assms \<open>find (cid_is E cid) (ob_cams s) = Some c\<close> by (auto simp: CoupleCamera_def)
    qed
  qed
  from * show "plan_core s' = plan_core s" by blast
  from * show "(\<not> b \<and> core s' = core s)
     \<or> (\<exists>c t. b \<and> find (cid_is E cid) (ob_cams s) = Some c \<and> ci_tcp c = None \<and> ptr = Some t
         \<and> core s' = (map cam_core (upd_first (cid_is E cid) (\<lambda>c. c\<lparr>ci_tcp := ptr\<rparr>) (ob_cams s)), CameraOnline True (ob_sys s)))
     \<or> (\<exists>t. b \<and> ptr = Some t
         \<and> core s' = (map cam_core (ob_cams s) @ [(ptr, cm_state (KVCamera_new (env_raw E)))], CameraOnline True (ob_sys s)))"
    by blast
qed

lemma count_map: "count_if P (map f xs) = count_if (\<lambda>x. P (f x)) xs"
  by (induction xs) auto

lemma counters_couple:
  assumes "CoupleCamera E ptr cid s = Inr (b, s')" and "cm_state (KVCamera_new (env_raw E)) \<le> CAMCTL_IDLE"
    and "counters_ok (core s)"
  shows "counters_ok (core s')"
  using CoupleCamera_core(2) [OF assms(1)]
proof (elim disjE exE conjE)
  assume "core s' = core s"
  then show ?thesis using assms(3) by simp
next
  fix c t
  assume c: "find (cid_is E cid) (ob_cams s) = Some c" "ci_tcp c = None" "ptr = Some t"
    and core': "core s' = (map cam_core (upd_first (cid_is E cid) (\<lambda>c. c\<lparr>ci_tcp := ptr\<rparr>) (ob_cams s)), CameraOnline True (ob_sys s))"
  let ?f = "\<lambda>c. c\<lparr>ci_tcp := ptr\<rparr>"
  have ok: "counters_ok (map cam_core (ob_cams s), ob_sys s)" using assms(3) by (simp add: core_def)
  have st: "\<not> exposing_cam (cam_core c)"
    using ok find_Some_mem [OF c(1)] c(2) by (auto simp: online_cam_def cam_core_def)
  have 1: "int (count_if online_cam (map cam_core (upd_first (cid_is E cid) ?f (ob_cams s)))) = camonline (ob_sys s) + 1"
    using count_if_upd_first [OF c(1), of "\<lambda>c. online_cam (cam_core c)" ?f] ok c
    by (simp add: count_map online_cam_def cam_core_def)
  have 2: "int (count_if exposing_cam (map cam_core (upd_first (cid_is E cid) ?f (ob_cams s)))) = exposing (ob_sys s)"
    using count_if_upd_first [OF c(1), of "\<lambda>c. exposing_cam (cam_core c)" ?f] ok st
    by (simp add: count_map exposing_cam_def cam_core_def)
  have 3: "\<forall>x \<in> set (map cam_core (upd_first (cid_is E cid) ?f (ob_cams s))). \<not> online_cam x \<longrightarrow> \<not> exposing_cam x"
    using set_upd_first [OF c(1), of ?f] ok c(3) by (fastforce simp: online_cam_def cam_core_def)
  show ?thesis using 1 2 3 by (simp add: core' CameraOnline_def)
next
  fix t
  assume "ptr = Some t"
    and "core s' = (map cam_core (ob_cams s) @ [(ptr, cm_state (KVCamera_new (env_raw E)))], CameraOnline True (ob_sys s))"
  then show ?thesis
    using assms(2,3) by (auto simp: core_def [of s] online_cam_def exposing_cam_def CameraOnline_def)
qed

lemma NotifyPlan_core: "core (NotifyPlan E plan s) = core s"
  by (simp add: NotifyPlan_def Let_def obss_frame)

theorem counters_step: "obs_step s s' \<Longrightarrow> counters_ok (core s) \<Longrightarrow> counters_ok (core s')"
proof (induction rule: obs_step.induct)
  case (couple_mount ptr s s') then show ?case using core_CoupleMount by metis
next
  case (couple_camera E ptr cid s b s') then show ?case by (rule counters_couple)
next
  case (mount_state E st s s') then show ?case using core_NotifyMountState by metis
next
  case (track E s s') then show ?case using core_Track by metis
next
  case (track_vel E tv s s') then show ?case using core_TrackVel by metis
next
  case (close s E t peer) then show ?case by (rule counters_close)
next
  case (camera_message s t E m) then show ?case by (intro counters_camera)
next
  case (plan_turn E s s')
  from plan_turn(1) show ?case
    by (cases rule: thread_obsplan_cases) (use plan_turn(2) in \<open>simp_all add: obss_frame\<close>)
next
  case (rewrite_turn timeout s s') then show ?case using core_thread_rewrite by metis
qed (simp_all add: obss_frame NotifyPlan_core HomeSync_def)

lemma counters_init: "counters_ok (core (ObservationSystem_new E gid uid))"
  by (simp add: core_def ObservationSystem_new_def SystemState_new_def)

definition obs_reachable :: "obss \<Rightarrow> bool" where
  "obs_reachable s \<longleftrightarrow> (\<exists>E gid uid. obs_step\<^sup>*\<^sup>* (ObservationSystem_new E gid uid) s)"

lemma obs_reachable_induct [consumes 1, case_names init step]:
  assumes "obs_reachable s" and "\<And>E gid uid. P (ObservationSystem_new E gid uid)"
    and "\<And>s s'. P s \<Longrightarrow> obs_step s s' \<Longrightarrow> P s'"
  shows "P s"
proof -
  from assms(1) obtain E gid uid where "obs_step\<^sup>*\<^sup>* (ObservationSystem_new E gid uid) s"
    by (auto simp: obs_reachable_def)
  then show ?thesis by (induction rule: rtranclp_induct) (auto intro: assms(2,3))
qed

lemma counters_reachable: "obs_reachable s \<Longrightarrow> counters_ok (core s)"
  by (induction rule: obs_reachable_induct) (auto intro: counters_init counters_step)

section \<open>The life of a plan\<close>

text \<open>A plan in charge is waiting or running, and the state record is about it.\<close>

definition plan_ok :: "obss \<Rightarrow> bool" where
  "plan_ok s \<longleftrightarrow> (\<forall>k p. ob_plan s = Some (k, p) \<longrightarrow>
     pl_state (ob_plan_state s) \<in> {OBSPLAN_CATALOGED, OBSPLAN_RUNNING} \<and> pl_plan_sn (ob_plan_state s) = ap_plan_sn p)"

lemma plan_ok_core:
  "plan_ok s \<longleftrightarrow> (case plan_core s of (pl, sn, st) \<Rightarrow>
     \<forall>k p. pl = Some (k, p) \<longrightarrow> st \<in> {OBSPLAN_CATALOGED, OBSPLAN_RUNNING} \<and> sn = ap_plan_sn p)"
  by (simp add: plan_ok_def plan_core_def)

text \<open>What a step may do to the plan and its state.\<close>

datatype plan_move = Same | Accepted nat kvappplan | Started | Over | Interrupted

fun plan_moved :: "plan_move \<Rightarrow> (nat \<times> kvappplan) option \<times> string \<times> int \<Rightarrow> (nat \<times> kvappplan) option \<times> string \<times> int \<Rightarrow> bool" where
  "plan_moved Same a b \<longleftrightarrow> b = a"
| "plan_moved (Accepted k p) (pl, sn, st) b \<longleftrightarrow> b = (Some (k, p), ap_plan_sn p, OBSPLAN_CATALOGED)"
| "plan_moved Started (pl, sn, st) b \<longleftrightarrow>
     st = OBSPLAN_CATALOGED \<and> (\<exists>k p. pl = Some (k, p) \<and> b = (pl, ap_plan_sn p, OBSPLAN_RUNNING))"
| "plan_moved Over (pl, sn, st) b \<longleftrightarrow> pl \<noteq> None \<and> b = (None, sn, OBSPLAN_OVER)"
| "plan_moved Interrupted (pl, sn, st) b \<longleftrightarrow> pl \<noteq> None \<and> b = (None, sn, OBSPLAN_INTERRUPTED)"

lemma plan_unique_used: "plan_unique E s \<Longrightarrow> ob_plan s \<noteq> None"
  by (auto simp: plan_unique_def split: option.splits)

lemma plan_move_Abort: "\<exists>mv. plan_moved mv (plan_core s) (plan_core (Abort E s))"
proof (cases "plan_unique E s")
  case True
  then have "plan_moved Interrupted (plan_core s) (plan_core (Abort E s))"
    using plan_unique_used [OF True] by (simp add: plan_core_Abort, simp add: plan_core_def)
  then show ?thesis ..
next
  case False
  then have "plan_moved Same (plan_core s) (plan_core (Abort E s))" by (simp add: plan_core_Abort)
  then show ?thesis ..
qed

lemma plan_move_Park: "\<exists>mv. plan_moved mv (plan_core s) (plan_core (Park E s))"
proof (cases "plan_unique E s")
  case True
  then have "plan_moved Interrupted (plan_core s) (plan_core (Park E s))"
    using plan_unique_used [OF True] by (simp add: plan_core_Park, simp add: plan_core_def)
  then show ?thesis ..
next
  case False
  then have "plan_moved Same (plan_core s) (plan_core (Park E s))" by (simp add: plan_core_Park)
  then show ?thesis ..
qed

lemma NotifyPlan_cases:
  "NotifyPlan E plan s = s \<or>
   plan_core (NotifyPlan E plan s) = (Some plan, ap_plan_sn (snd plan), OBSPLAN_CATALOGED)"
  by (simp add: NotifyPlan_def Let_def obss_frame) (simp add: plan_core_def emit_ev_def)

lemma plan_move_NotifyPlan: "\<exists>mv. plan_moved mv (plan_core s) (plan_core (NotifyPlan E plan s))"
proof -
  obtain k p where kp: "plan = (k, p)" by (cases plan)
  consider "NotifyPlan E plan s = s" | "plan_moved (Accepted k p) (plan_core s) (plan_core (NotifyPlan E plan s))"
    using NotifyPlan_cases [of E plan s] kp by (cases "plan_core s") auto
  then show ?thesis by cases (auto intro: exI [of _ Same])
qed

lemma camera_state_change_plan:
  "plan_core (camera_state_change E new old s) = plan_core s
   \<or> ob_plan s \<noteq> None \<and> plan_core (camera_state_change E new old s) = (None, pl_plan_sn (ob_plan_state s), OBSPLAN_OVER)"
proof -
  have "plan_unique E (s\<lparr>ob_sys := y\<rparr>) = plan_unique E s" for y
    by (rule plan_unique_cong) (simp add: obss_frame)
  then show ?thesis
    by (auto simp: camera_state_change_def Let_def case_prod_unfold obss_frame dest: plan_unique_used)
qed

lemma plan_move_camera: "\<exists>mv. plan_moved mv (plan_core s) (plan_core (Obs_process_protocol_camera E t m s))"
proof (cases m)
  case (MCamera camera)
  define s1 where "s1 = s\<lparr>ob_cams := upd_first (\<lambda>c. ci_tcp c = Some t)
      (\<lambda>c. c\<lparr>ci_info := camera_assign (ci_info c) camera\<rparr>) (ob_cams s)\<rparr>"
  have pc: "plan_core s1 = plan_core s" by (simp add: s1_def obss_frame)
  obtain n o' where "Obs_process_protocol_camera E t m s = camera_state_change E n o' s1"
    by (simp add: Obs_process_protocol_camera_def MCamera s1_def)
  with camera_state_change_plan [of E n o' s1] pc
  consider "plan_core (Obs_process_protocol_camera E t m s) = plan_core s"
    | "plan_moved Over (plan_core s) (plan_core (Obs_process_protocol_camera E t m s))"
    by (auto simp: plan_core_def)
  then show ?thesis by cases (auto intro: exI [of _ Same])
qed (auto simp: Obs_process_protocol_camera_def intro: exI [of _ Same])

theorem plan_step: "obs_step s s' \<Longrightarrow> \<exists>mv. plan_moved mv (plan_core s) (plan_core s')"
proof (induction rule: obs_step.induct)
  case (couple_mount ptr s s') then show ?case using core_CoupleMount by (intro exI [of _ Same]) simp
next
  case (couple_camera E ptr cid s b s')
  then show ?case using CoupleCamera_core(1) by (intro exI [of _ Same]) simp
next
  case (mount_state E st s s') then show ?case using core_NotifyMountState by (intro exI [of _ Same]) simp
next
  case new_plan then show ?case by (rule plan_move_NotifyPlan)
next
  case abort then show ?case by (rule plan_move_Abort)
next
  case park then show ?case by (rule plan_move_Park)
next
  case (track E s s') then show ?case using core_Track by (intro exI [of _ Same]) simp
next
  case (track_vel E tv s s') then show ?case using core_TrackVel by (intro exI [of _ Same]) simp
next
  case (close s E t peer)
  show ?case by (intro exI [of _ Same]) (simp add: Obs_on_tcp_close_def obss_frame Let_def split: option.splits)
next
  case (camera_message s t E m) then show ?case by (intro plan_move_camera)
next
  case (plan_turn E s s')
  from plan_turn show ?case
  proof (cases rule: thread_obsplan_cases)
    case idle
    then show ?thesis by (auto intro: exI [of _ Same])
  next
    case (start k p)
    then show ?thesis by (intro exI [of _ Started]) (simp, simp add: plan_core_def)
  next
    case overdue
    then show ?thesis using plan_move_Abort by simp
  qed
next
  case (rewrite_turn timeout s s') then show ?case using core_thread_rewrite by (intro exI [of _ Same]) simp
qed (auto simp: obss_frame HomeSync_def intro!: exI [of _ Same])

lemma plan_ok_moved:
  "plan_moved mv (plan_core s) (plan_core s') \<Longrightarrow> plan_ok s \<Longrightarrow> plan_ok s'"
  by (cases "(mv, plan_core s, plan_core s')" rule: plan_moved.cases) (auto simp: plan_ok_core)

lemma plan_ok_reachable: "obs_reachable s \<Longrightarrow> plan_ok s"
proof (induction rule: obs_reachable_induct)
  case init
  then show ?case by (simp add: plan_ok_def ObservationSystem_new_def)
next
  case (step s s')
  then show ?case using plan_step plan_ok_moved by blast
qed

end
