(* ===== verification/Obs_Mount.thy ===== *)
theory Obs_Mount
  imports Obs_Invariant
begin

text \<open>
  The mount of an observation system: its state code stays in the range of the printed names but
  for \<open>MOUNT_MIN\<close>, the value a newly coupled mount has until its first report; and the commands
  sent to it, with the retry buffer and the responses that settle it.
\<close>

section \<open>The state code\<close>

definition mst :: "obss \<Rightarrow> int" where
  "mst s = mt_state (ob_mount s)"

definition mount_state_ok :: "obss \<Rightarrow> bool" where
  "mount_state_ok s \<longleftrightarrow> MOUNT_MIN \<le> mst s \<and> mst s < MOUNT_MAX"

lemma mst_update [obss_frame]:
  "mst (s\<lparr>ob_tcpMount := a\<rparr>) = mst s" "mst (s\<lparr>ob_countPos := b\<rparr>) = mst s"
  "mst (s\<lparr>ob_buff := l\<rparr>) = mst s" "mst (s\<lparr>ob_lastClosed := d\<rparr>) = mst s"
  "mst (s\<lparr>ob_tcpFocus := a\<rparr>) = mst s" "mst (s\<lparr>ob_nonkv := n\<rparr>) = mst s"
  "mst (s\<lparr>ob_oldDay := d\<rparr>) = mst s" "mst (s\<lparr>ob_planSN := d\<rparr>) = mst s"
  "mst (s\<lparr>ob_tmend := e\<rparr>) = mst s" "mst (s\<lparr>ob_out := f\<rparr>) = mst s"
  "mst (s\<lparr>ob_plan := g\<rparr>) = mst s" "mst (s\<lparr>ob_plan_state := h\<rparr>) = mst s"
  "mst (s\<lparr>ob_sys := x\<rparr>) = mst s" "mst (s\<lparr>ob_cams := y\<rparr>) = mst s"
  "mst (emit_ev ev s) = mst s" "mst (snd (gwac_command dev enc s)) = mst s"
  "mst (write2camera E cmd cid s) = mst s" "mst (expose2camera E k fr cid s) = mst s"
  "mst (write_to t cmd s) = mst s" "mst (no_target s) = mst s" "mst (plan_ends E code s) = mst s"
  "mst (s\<lparr>ob_mount := m\<rparr>) = mt_state m"
  by (simp_all add: mst_def obss_frame emit_ev_def)

lemma mst_operations [obss_frame]:
  "mst (CoupleFocus ptr s) = mst s" "mst (DecoupleFocus E ptr s) = mst s"
  "mst (NotifyMountPosition pos s) = mst s" "mst (NotifyResponse rsp s) = mst s"
  "mst (NotifyFocus E cid n s) = mst s" "mst (Abort E s) = mst s" "mst (NotifyPlan E plan s) = mst s"
  "mst (Slewto E p1 s) = mst s" "mst (Park E s) = mst s" "mst (snd (Obs_Guide E p2 s)) = mst s"
  "mst (FindHome E s) = mst s" "mst (Obs_on_tcp_close E t peer s) = mst s"
  "mst (Obs_Focus E fc s) = mst s" "mst (NotifyFWHM E fw s) = mst s"
  by (simp_all add: CoupleFocus_def DecoupleFocus_def NotifyMountPosition_def NotifyResponse_def
      NotifyFocus_def Abort_def NotifyPlan_def Slewto_def Park_def Obs_Guide_def FindHome_def
      Obs_on_tcp_close_def Obs_Focus_def NotifyFWHM_def obss_frame Let_def case_prod_unfold split: option.splits)
     (simp_all add: mst_def)

lemma mst_TakeImage [obss_frame]: "mst (TakeImage E im s) = mst s"
proof -
  have "mst (snd (image_sn E s)) = mst s" by (simp add: image_sn_def Let_def case_prod_unfold obss_frame)
  then show ?thesis by (simp add: TakeImage_def Let_def case_prod_unfold obss_frame)
qed

lemma mst_FocusSync [obss_frame]: "mst (FocusSync E fs s) = mst s"
proof -
  have "mst (focus_sync_loop E t cid is s) = mst s" for t cid "is"
    by (induction E t cid "is" s rule: focus_sync_loop.induct)
       (simp_all add: Let_def case_prod_unfold obss_frame)
  then show ?thesis by (simp add: FocusSync_def split: option.splits)
qed

lemma mst_camera [obss_frame]: "mst (Obs_process_protocol_camera E t m s) = mst s"
  by (cases m) (simp_all add: Obs_process_protocol_camera_def camera_state_change_def Let_def
      case_prod_unfold obss_frame)

lemma mst_process_new_plan: "process_new_plan E s = Inr s' \<Longrightarrow> mst s' = mst s"
  by (auto simp: process_new_plan_def Let_def bindR_Inr_iff case_prod_unfold obss_frame
      split: if_splits option.splits) (simp_all add: mst_def obss_frame)

lemma mst_CoupleCamera:
  assumes "CoupleCamera E ptr cid s = Inr (b, s')"
  shows "mst s' = mst s"
proof (cases "find (cid_is E cid) (ob_cams s)")
  case None
  then show ?thesis using assms by (cases ptr) (auto simp: CoupleCamera_def Let_def obss_frame)
next
  case (Some c)
  note f = this
  show ?thesis
  proof (cases "ci_tcp c")
    case None
    then show ?thesis
      using assms f by (cases ptr; cases "ob_plan s")
        (auto simp: CoupleCamera_def Let_def obss_frame mst_def emit_ev_def plan_unique_def)
  next
    case (Some t)
    then show ?thesis using assms f by (auto simp: CoupleCamera_def)
  qed
qed

lemma mount_state_step: "obs_step s s' \<Longrightarrow> mount_state_ok s \<Longrightarrow> mount_state_ok s'"
proof (induction rule: obs_step.induct)
  case (couple_mount ptr s s')
  then have "mst s' = MOUNT_MIN \<or> mst s' = mst s"
    by (auto simp: CoupleMount_def Let_def obss_frame split: if_splits option.splits)
  with couple_mount show ?case by (auto simp: mount_state_ok_def device_def)
next
  case (decouple_mount s E ptr)
  then show ?case by (simp add: mount_state_ok_def DecoupleMount_def obss_frame device_def)
next
  case (couple_camera E ptr cid s b s')
  then show ?case using mst_CoupleCamera by (simp add: mount_state_ok_def)
next
  case (mount_state E st s s')
  then have "mst s' = mst s \<or> MOUNT_MIN < mst s' \<and> mst s' < MOUNT_MAX"
    by (auto simp: NotifyMountState_def Let_def bindR_Inr_iff obss_frame UpdateUTC_def split: if_splits)
  with mount_state show ?case by (auto simp: mount_state_ok_def)
next
  case (track E s s')
  then show ?case
    by (auto simp: mount_state_ok_def Track_def Let_def bindR_Inr_iff case_prod_unfold obss_frame
        split: if_splits option.splits)
next
  case (track_vel E tv s s')
  then show ?case
    by (auto simp: mount_state_ok_def TrackVel_def Let_def bindR_Inr_iff case_prod_unfold obss_frame
        split: if_splits option.splits)
next
  case (plan_turn E s s')
  then have "mst s' = mst s"
    by (auto simp: thread_obsplan_def Let_def bindR_Inr_iff obss_frame mst_process_new_plan
        split: if_splits option.splits)
  with plan_turn show ?case by (simp add: mount_state_ok_def)
next
  case (rewrite_turn timeout s s')
  then show ?case by (auto simp: mount_state_ok_def thread_rewrite_def Let_def obss_frame split: list.splits if_splits)
qed (simp_all add: mount_state_ok_def obss_frame HomeSync_def)

lemma mount_state_reachable: "obs_reachable s \<Longrightarrow> mount_state_ok s"
proof (induction rule: obs_reachable_induct)
  case init
  then show ?case
    by (simp add: mount_state_ok_def mst_def ObservationSystem_new_def KVMount_new_def kv_record_defs Let_def device_def)
next
  case step
  then show ?case using mount_state_step by blast
qed

lemma mount_name_fails: "mount_state_ok s \<Longrightarrow> desc_at DESC_STATE_MOUNT (mst s) = Inl BadIndex \<longleftrightarrow> mst s = MOUNT_MIN"
  using mount_name_defined [of "mst s"]
  by (cases "desc_at DESC_STATE_MOUNT (mst s)") (auto simp: mount_state_ok_def desc_at_def split: if_splits)

section \<open>Commands, responses, retries\<close>

text \<open>A command to a GWAC device through any encoder.\<close>

lemma gwac_command_effect:
  assumes "nonkv_encoder enc body"
  shows "fst (gwac_command dev (enc B now) s) = fst (enc B now (ob_nonkv s))"
    and "ob_buff (snd (gwac_command dev (enc B now) s)) =
      Buff_Push (np_serno (ob_nonkv s)) dev (fst (enc B now (ob_nonkv s))) (ob_buff s)"
    and "ob_nonkv (snd (gwac_command dev (enc B now) s)) = snd (increase_serno (ob_nonkv s))"
    and "ob_out (snd (gwac_command dev (enc B now) s)) = ob_out s @ [NotifyNewProto]"
  using nonkv_encoder.serial [OF assms] nonkv_encoder.state [OF assms]
  by (simp_all add: gwac_command_def case_prod_unfold emit_ev_def)

text \<open>The serial numbers of the commands that wait.\<close>

definition pending :: "obss \<Rightarrow> int list" where
  "pending s = map it_serno (ob_buff s)"

end
