(* ===== verification/Obs_Properties.thy ===== *)
theory Obs_Properties
  imports Obs_Mount
begin

text \<open>
  The properties of an observation system, with the concrete system the witnesses use: GWAC unit
  002 of group 001, one camera on connection 7.
\<close>

section \<open>A concrete system\<close>

definition demo_raw :: raw where
  "demo_raw = \<lparr>rawi = (\<lambda>_. 0), rawd = (\<lambda>_. dzero)\<rparr>"

definition demo_env :: env where
  "demo_env = \<lparr>env_boost = boost_ref, env_raw = demo_raw, env_now = 1711618204, env_others = (\<lambda>_. 0)\<rparr>"

definition demo_new :: obss where
  "demo_new = ObservationSystem_new demo_env ''001'' ''002''"

definition demo_camera :: "int \<Rightarrow> kvcamera" where
  "demo_camera st = (KVCamera_new demo_raw)\<lparr>kv_gid := ''001'', kv_uid := ''002'', kv_cid := ''021'', cm_state := st\<rparr>"

definition demo_cam :: obss where
  "demo_cam = (case CoupleCamera demo_env (Some 7) ''021'' demo_new of Inr (b, s) \<Rightarrow> s | Inl _ \<Rightarrow> demo_new)"

definition demo_exposing :: obss where
  "demo_exposing = Obs_process_protocol_camera demo_env 7 (MCamera (demo_camera CAMCTL_EXPOSING)) demo_cam"

definition demo_mount :: obss where
  "demo_mount = (case CoupleMount (Some 3) demo_cam of Inr s \<Rightarrow> s | Inl _ \<Rightarrow> demo_cam)"

definition demo_plan :: "nat \<times> kvappplan" where
  "demo_plan = (1, KVAppPlan_new\<lparr>ap_plan_sn := ''P1'', ap_imgtype := ''BIAS''\<rparr>)"

definition demo_cataloged :: obss where
  "demo_cataloged = NotifyPlan demo_env demo_plan demo_mount"

lemma demo_couple: "CoupleCamera demo_env (Some 7) ''021'' demo_new = Inr (True, demo_cam)"
  by (simp add: demo_cam_def CoupleCamera_def demo_new_def ObservationSystem_new_def Let_def)

lemma demo_state0: "cm_state (KVCamera_new (env_raw demo_env)) \<le> CAMCTL_IDLE"
  by (simp add: demo_env_def demo_raw_def kv_new kv_record_defs device_def)

lemma demo_step1: "obs_step demo_new demo_cam"
  using demo_couple demo_state0 by (rule obs_step.couple_camera)

lemma demo_cams: "map cam_core (ob_cams demo_cam) = [(Some 7, 0)]" "ob_tcpMount demo_cam = None" "ob_type demo_cam = 0"
  "ob_plan demo_cam = None" "exposing (ob_sys demo_cam) = 0" "ob_buff demo_cam = []"
  by (simp_all add: demo_cam_def CoupleCamera_def demo_new_def ObservationSystem_new_def Let_def emit_ev_def
      cam_core_def demo_env_def demo_raw_def kv_new kv_record_defs SystemState_new_def CameraOnline_def)

lemma demo_online: "\<exists>c \<in> set (ob_cams demo_cam). ci_tcp c = Some 7"
  using demo_cams(1) by (auto simp: cam_core_def)

lemma demo_step2: "obs_step demo_cam demo_exposing"
  unfolding demo_exposing_def using demo_online by (rule obs_step.camera_message)

lemma demo_step3: "obs_step demo_cam demo_mount"
  by (rule obs_step.couple_mount [of "Some 3"]) (simp add: demo_mount_def CoupleMount_def demo_cams Let_def)

lemma demo_step4: "obs_step demo_mount demo_cataloged"
  unfolding demo_cataloged_def by (rule obs_step.new_plan)

lemma demo_reachable:
  "obs_reachable demo_new" "obs_reachable demo_cam" "obs_reachable demo_exposing" "obs_reachable demo_mount"
  "obs_reachable demo_cataloged"
proof -
  have r: "obs_reachable s \<Longrightarrow> obs_step s s' \<Longrightarrow> obs_reachable s'" for s s'
    unfolding obs_reachable_def by (meson rtranclp.rtrancl_into_rtrancl)
  show 0: "obs_reachable demo_new" unfolding obs_reachable_def demo_new_def by blast
  show 1: "obs_reachable demo_cam" using r [OF 0 demo_step1] .
  show "obs_reachable demo_exposing" using r [OF 1 demo_step2] .
  show 3: "obs_reachable demo_mount" using r [OF 1 demo_step3] .
  show "obs_reachable demo_cataloged" using r [OF 3 demo_step4] .
qed

section \<open>Counters\<close>



section \<open>Plans\<close>


lemma demo_cataloged_state:
  "ob_plan demo_cataloged = Some demo_plan" "pl_state (ob_plan_state demo_cataloged) = OBSPLAN_CATALOGED"
  "ob_cams demo_cataloged = ob_cams demo_cam" "ob_tcpMount demo_cataloged = Some 3" "ob_type demo_cataloged = 0"
  "ob_sys demo_cataloged = ob_sys demo_cam"
  using demo_cams
  by (simp_all add: demo_cataloged_def NotifyPlan_def plan_unique_def demo_mount_def CoupleMount_def Let_def emit_ev_def)




lemma write_cams_all: "c \<in> set cs \<Longrightarrow> ci_tcp c = Some t \<Longrightarrow> Write t cmd \<in> set (write_cams E cmd True cid cs)"
  by (induction cs) (auto split: option.splits)

lemma expose_out: "set (ob_out s) \<subseteq> set (ob_out (expose2camera E cmd n cid s))"
  by (auto simp: expose2camera_def write2camera_def Let_def)

lemma ready_plan_starts:
  assumes "ob_plan s = Some (k, p)" and "ob_tcpMount s = Some m"
  shows "\<exists>s'. process_new_plan E s = Inr s'
    \<and> (\<forall>c \<in> set (ob_cams s). \<forall>t. ci_tcp c = Some t \<longrightarrow> Write t (KVAppPlan_ToString p) \<in> set (ob_out s'))"
proof -
  have w: "Write t (KVAppPlan_ToString p) \<in> set (ob_out (write2camera E (KVAppPlan_ToString p) None s1))"
    if "c \<in> set (ob_cams s)" "ci_tcp c = Some t" "ob_cams s1 = ob_cams s" for c t s1
    using that write_cams_all [of c "ob_cams s" t "KVAppPlan_ToString p" E "[]"] by (simp add: write2camera_def)
  note keep = subsetD [OF expose_out w]
  have cams: "ob_cams (snd (gwac_command d f s)) = ob_cams s" for d f by (simp add: gwac_command_def case_prod_unfold Let_def emit_ev_def)
  show ?thesis unfolding process_new_plan_def assms
    by (auto simp: Let_def case_prod_unfold emit_ev_def cams intro: w keep)
qed

text \<open>
  C4: the plan thread makes progress. For a reachable system that alone holds its plan: when a catalogued plan
  finds the mount and a camera connected and no camera exposing, the next turn starts it and sends it to every
  connected camera; when a running plan is overdue, the next turn ends it as interrupted.
\<close>

theorem plan_progress:
  assumes "obs_reachable s" and "plan_unique E s" and "ob_plan s = Some (k, p)"
  shows "(pl_state (ob_plan_state s) = OBSPLAN_CATALOGED \<and> ob_tcpMount s \<noteq> None
        \<and> (\<exists>c \<in> set (ob_cams s). ci_tcp c \<noteq> None) \<and> (\<forall>c \<in> set (ob_cams s). cm_state (ci_info c) \<le> CAMCTL_IDLE)
      \<longrightarrow> (\<exists>s'. thread_obsplan E s = Inr s' \<and> ob_plan s' = ob_plan s \<and> pl_state (ob_plan_state s') = OBSPLAN_RUNNING
        \<and> (\<forall>c \<in> set (ob_cams s). \<forall>t. ci_tcp c = Some t \<longrightarrow> Write t (KVAppPlan_ToString p) \<in> set (ob_out s'))))
    \<and> (pl_state (ob_plan_state s) = OBSPLAN_RUNNING \<and> ob_tmend s = Some tmend
        \<and> dlt (ap_exptime p) (double_of_int (s32 (env_now E - tmend)))
      \<longrightarrow> (\<exists>s'. thread_obsplan E s = Inr s' \<and> ob_plan s' = None \<and> pl_state (ob_plan_state s') = OBSPLAN_INTERRUPTED))"
proof (intro conjI impI; elim conjE)
  have cnt: "counters_ok (core s)" using assms(1) by (rule counters_reachable)
  assume cat: "pl_state (ob_plan_state s) = OBSPLAN_CATALOGED" and m: "ob_tcpMount s \<noteq> None"
    and on: "\<exists>c \<in> set (ob_cams s). ci_tcp c \<noteq> None" and idle: "\<forall>c \<in> set (ob_cams s). cm_state (ci_info c) \<le> CAMCTL_IDLE"
  have "count_if online_cam (map cam_core (ob_cams s)) \<noteq> 0" using on by (auto simp: count_if_0_iff online_cam_def cam_core_def)
  moreover have "count_if exposing_cam (map cam_core (ob_cams s)) = 0"
    using idle by (auto simp: count_if_0_iff exposing_cam_def cam_core_def)
  ultimately have go: "camonline (ob_sys s) \<noteq> 0" "\<not> AnyExposing (ob_sys s)" using cnt by (simp_all add: core_def AnyExposing_def)
  from m obtain t where t: "ob_tcpMount s = Some t" by blast
  from ready_plan_starts [OF assms(3) t, of E] obtain s1 where s1: "process_new_plan E s = Inr s1"
    "\<forall>c \<in> set (ob_cams s). \<forall>t. ci_tcp c = Some t \<longrightarrow> Write t (KVAppPlan_ToString p) \<in> set (ob_out s1)" by blast
  have "thread_obsplan E s = Inr (s1\<lparr>ob_tmend := from_iso (env_boost E) (ap_plan_end p)\<rparr>)"
    using go t cat assms(2,3) s1(1) by (simp add: thread_obsplan_def)
  with process_new_plan_effect(2) [OF s1(1) assms(3)] s1(2) assms(3)
  show "\<exists>s'. thread_obsplan E s = Inr s' \<and> ob_plan s' = ob_plan s \<and> pl_state (ob_plan_state s') = OBSPLAN_RUNNING
    \<and> (\<forall>c \<in> set (ob_cams s). \<forall>t. ci_tcp c = Some t \<longrightarrow> Write t (KVAppPlan_ToString p) \<in> set (ob_out s'))"
    by (simp add: plan_core_def)
next
  assume run: "pl_state (ob_plan_state s) = OBSPLAN_RUNNING" and late: "ob_tmend s = Some tmend"
    "dlt (ap_exptime p) (double_of_int (s32 (env_now E - tmend)))"
  have "OBSPLAN_RUNNING \<noteq> OBSPLAN_CATALOGED" by (simp add: device_def)
  then have "thread_obsplan E s = Inr (Abort E s)" using run late assms(2,3) by (simp add: thread_obsplan_def Let_def)
  moreover have "plan_core (Abort E s) = (None, pl_plan_sn (ob_plan_state s), OBSPLAN_INTERRUPTED)"
    using assms(2) by (simp add: plan_core_Abort)
  ultimately show "\<exists>s'. thread_obsplan E s = Inr s' \<and> ob_plan s' = None \<and> pl_state (ob_plan_state s') = OBSPLAN_INTERRUPTED"
    by (simp add: plan_core_def)
qed

lemma demo_ready:
  "plan_unique demo_env demo_cataloged" "\<exists>c \<in> set (ob_cams demo_cataloged). ci_tcp c \<noteq> None"
  "\<forall>c \<in> set (ob_cams demo_cataloged). cm_state (ci_info c) \<le> CAMCTL_IDLE"
  using demo_online demo_cams(1)
  by (auto simp: plan_unique_def demo_cataloged_state demo_plan_def demo_env_def cam_core_def device_def)

theorem plan_progress_witness:
  "\<exists>s'. thread_obsplan demo_env demo_cataloged = Inr s' \<and> pl_state (ob_plan_state s') = OBSPLAN_RUNNING"
proof -
  have "ob_plan demo_cataloged = Some (1, snd demo_plan)" "ob_tcpMount demo_cataloged \<noteq> None"
    by (simp_all add: demo_cataloged_state) (simp add: demo_plan_def)
  then show ?thesis
    using plan_progress [OF demo_reachable(5) demo_ready(1)] demo_ready(2,3) demo_cataloged_state(2) by blast
qed

text \<open>
  C12: the plan in charge of a reachable system is always waiting or running, and the state record
  sent to the clients carries its number; every step keeps the plan and its state, accepts a new
  plan as waiting, starts the waiting plan, or ends the plan as over or interrupted.
\<close>

theorem plan_life:
  assumes "obs_reachable s" and "obs_step s s'"
  shows "plan_ok s \<and> (\<exists>mv. plan_moved mv (plan_core s) (plan_core s'))"
  using plan_ok_reachable [OF assms(1)] plan_step [OF assms(2)] by blast

theorem plan_life_witness: "plan_ok demo_mount"
  using plan_life [OF demo_reachable(4) demo_step4] by blast






end
