(* ===== verification/Obs_Devices.thy ===== *)
theory Obs_Devices
  imports Obs_Properties
begin

text \<open>
  Properties of the commands to the mount and the focuser, of their retransmission, and of the
  loop that receives the lines of a camera.
\<close>

section \<open>Commands and responses\<close>

text \<open>
  While the system executes a plan of its own, manual pointing and manual exposure are
  rejected: nothing is sent and nothing changes.
\<close>

theorem plan_rejects_manual:
  assumes "ob_plan s = Some (k, p)" and "env_others E k = 0"
  shows "Slewto E sl s = s \<and> TakeImage E im s = s"
  using assms by (simp add: Slewto_def TakeImage_def plan_unique_def)

theorem plan_rejects_manual_witness:
  "Slewto demo_env (KVSlewto_new demo_raw) demo_cataloged = demo_cataloged"
  using plan_rejects_manual [of demo_cataloged 1 "snd demo_plan" demo_env] demo_cataloged_state(1)
  by (simp add: demo_plan_def demo_env_def)

text \<open>
  C14: a pointing command to a connected GWAC mount is written once and kept for retransmission
  under its serial number, with the same text, and the target is remembered.
\<close>

theorem slew_sent_and_kept:
  assumes "\<not> plan_unique E s" and "ob_tcpMount s = Some t" and "ob_type s = 0"
  shows "let s' = Slewto E sl s;
             cmd = fst (NonKV_Slew (env_boost E) (env_now E) (sl_ra sl) (sl_dec sl) (ob_nonkv s))
    in ob_out s' = ob_out s @ [NotifyNewProto, Write t cmd]
       \<and> ob_buff s' = ob_buff s @ [NonKVProtoItem_new (np_serno (ob_nonkv s)) 0 cmd]
       \<and> ob_nonkv s' = snd (increase_serno (ob_nonkv s))
       \<and> mt_objra (ob_mount s') = sl_ra sl \<and> mt_objdec (ob_mount s') = sl_dec sl"
  using assms slew.serial [of "env_boost E" "env_now E" "sl_ra sl" "sl_dec sl" "ob_nonkv s"]
    slew.state [of "env_boost E" "env_now E" "sl_ra sl" "sl_dec sl" "ob_nonkv s"]
  by (simp add: Slewto_def gwac_command_def Let_def emit_ev_def case_prod_unfold Buff_Push_def)

theorem slew_sent_and_kept_witness:
  "ob_buff (Slewto demo_env (KVSlewto_new demo_raw) demo_mount) \<noteq> ob_buff demo_mount"
proof -
  have "\<not> plan_unique demo_env demo_mount" "ob_tcpMount demo_mount = Some 3" "ob_type demo_mount = 0"
    using demo_cams by (simp_all add: plan_unique_def demo_mount_def CoupleMount_def Let_def)
  from slew_sent_and_kept [OF this, of "KVSlewto_new demo_raw"] show ?thesis by (simp add: Let_def)
qed

lemma fmt_d_no_R: "CHR ''R'' \<notin> set (fmt_d pls z w n)"
proof -
  have "\<forall>c \<in> set (show_dec \<bar>n\<bar>). isdigit c" by (rule show_dec_digits) simp
  then have "CHR ''R'' \<notin> set (show_dec \<bar>n\<bar>)" by (auto dest: isdigit_char_neq)
  then show ?thesis by (auto simp: fmt_d_def Let_def split: if_splits)
qed

text \<open>
  C15: the response of the mount to a pointing command settles it. If no waiting command has the
  same serial number, the response line, with group, unit and serial number of the command,
  resolves to a message that takes exactly this command out of the retry buffer.
\<close>

theorem slew_response_settles:
  assumes "boost_ok (env_boost E)" and "\<not> plan_unique E s" and "ob_tcpMount s = Some t" and "ob_type s = 0"
    and "serno_ok (ob_nonkv s)" and "distinct (pending s)" and "np_serno (ob_nonkv s) \<notin> set (pending s)"
    and "length gid = 3" and "length uid = 3" and "CHR ''R'' \<notin> set (gid @ uid)"
  shows "\<exists>rsp. NonKV_Resolve (env_boost E) R (response_text (env_boost E) now gid uid
        (''slew'' @ fmt_d False True 7 (deg4 (sl_ra sl)) @ ''%'' @ fmt_d True True 7 (deg4 (sl_dec sl)))
        (np_serno (ob_nonkv s))) = Inr (Some (NKResponse rsp))
    \<and> ob_buff (NotifyResponse rsp (Slewto E sl s)) = ob_buff s"
proof -
  let ?body = "''slew'' @ fmt_d False True 7 (deg4 (sl_ra sl)) @ ''%'' @ fmt_d True True 7 (deg4 (sl_dec sl))"
  let ?rsp = "\<lparr>nk_type = NONKVTYPE_RESPONSE, nk_gid = gid, nk_uid = uid,
      nk_utc = iso_date (env_boost E) now @ ''T'' @ tod_str (env_boost E) now, nk_sn = np_serno (ob_nonkv s)\<rparr>"
  have "NonKV_Resolve (env_boost E) R (response_text (env_boost E) now gid uid ?body (np_serno (ob_nonkv s)))
      = Inr (Some (NKResponse ?rsp))"
    using assms(5,10) fmt_d_no_R by (intro resolve_response assms(1,8,9)) (auto simp: serno_ok_def)
  moreover have "ob_buff (Slewto E sl s) = Buff_Push (np_serno (ob_nonkv s)) 0
      (fst (NonKV_Slew (env_boost E) (env_now E) (sl_ra sl) (sl_dec sl) (ob_nonkv s))) (ob_buff s)"
    using assms(2,3,4) slew.serial [of "env_boost E" "env_now E" "sl_ra sl" "sl_dec sl" "ob_nonkv s"]
    by (simp add: Slewto_def gwac_command_def Let_def emit_ev_def case_prod_unfold)
  then have "ob_buff (NotifyResponse ?rsp (Slewto E sl s)) = ob_buff s"
    using buff.push_pop [of "ob_buff s" "np_serno (ob_nonkv s)"] assms(6,7)
    by (simp add: NotifyResponse_def pending_def)
  ultimately show ?thesis by blast
qed

theorem slew_response_settles_witness:
  "\<exists>rsp. ob_buff (NotifyResponse rsp (Slewto demo_env (KVSlewto_new demo_raw) demo_mount)) = ob_buff demo_mount"
proof -
  have 1: "boost_ok (env_boost demo_env)" by (simp add: demo_env_def boost_ref_ok)
  have 2: "\<not> plan_unique demo_env demo_mount" "ob_tcpMount demo_mount = Some 3" "ob_type demo_mount = 0" "pending demo_mount = []"
    using demo_cams by (simp_all add: plan_unique_def demo_mount_def CoupleMount_def Let_def pending_def)
  have 3: "serno_ok (ob_nonkv demo_mount)"
    using demo_cams by (simp add: demo_mount_def CoupleMount_def Let_def demo_cam_def CoupleCamera_def demo_new_def
        ObservationSystem_new_def emit_ev_def NonKV_new_serno)
  have 4: "distinct (pending demo_mount)" "np_serno (ob_nonkv demo_mount) \<notin> set (pending demo_mount)"
    "length ''001'' = 3" "length ''002'' = 3" "CHR ''R'' \<notin> set (''001'' @ ''002'')"
    using 2(4) by simp_all
  from slew_response_settles [OF 1 2(1,2,3) 3 4] show ?thesis by blast
qed

text \<open>
  C17: \<open>Track\<close> brings the server down in exactly one situation a system can reach: the mount has
  been coupled and has not yet reported its state, so that the rejected command's log message
  indexes the table of state names with -1.
\<close>

theorem track_crash:
  assumes "obs_reachable s"
  shows "Track E s = Inl c \<longleftrightarrow> c = BadIndex \<and> ob_tcpMount s \<noteq> None \<and> mst s = MOUNT_MIN"
proof (cases "ob_tcpMount s")
  case None
  then show ?thesis by (simp add: Track_def)
next
  case (Some t)
  have ok: "mount_state_ok s" using assms by (rule mount_state_reachable)
  show ?thesis
  proof (cases "mst s = MOUNT_FREEZE \<or> mst s = MOUNT_HOMED \<or> mst s = MOUNT_PARKED")
    case True
    then show ?thesis using Some by (auto simp: Track_def mst_def Let_def device_def)
  next
    case False
    then have t: "Track E s = bindR (desc_at DESC_STATE_MOUNT (mst s)) (\<lambda>_. Inr s)"
      using Some by (simp add: Track_def mst_def Let_def)
    show ?thesis
      using mount_name_fails [OF ok] Some
      by (cases "desc_at DESC_STATE_MOUNT (mst s)") (auto simp: t desc_at_def split: if_splits)
  qed
qed

theorem track_crash_witness: "Track demo_env demo_mount = Inl BadIndex"
proof -
  have "ob_tcpMount demo_mount \<noteq> None" "mst demo_mount = MOUNT_MIN"
    using demo_cams by (simp_all add: demo_mount_def CoupleMount_def Let_def mst_def)
  with track_crash [OF demo_reachable(4), of demo_env BadIndex] show ?thesis by simp
qed

section \<open>Retransmission\<close>

text \<open>\<open>n\<close> turns of the resending thread without a new command.\<close>

definition resend :: "nat \<Rightarrow> obss \<Rightarrow> crash + obss" where
  "resend n s = foldR (\<lambda>_. thread_rewrite True) [0..<n] s"

text \<open>
  C18: a command to the mount that gets no response is sent again three times, unchanged; the next
  turn removes it from the buffer and then reads the removed element.
\<close>

theorem unanswered_command:
  assumes "ob_buff s = item # rest" and "it_retry item = 0" and "it_devtype item = 0" and "ob_tcpMount s = Some t"
  shows "(\<exists>s'. resend 3 s = Inr s' \<and> ob_out s' = ob_out s @ replicate 3 (Write t (it_cmd item))
      \<and> map it_cmd (ob_buff s') = map it_cmd (ob_buff s) \<and> map it_serno (ob_buff s') = map it_serno (ob_buff s))
    \<and> resend 4 s = Inl DanglingRef"
  using assms by (simp add: resend_def upt_rec thread_rewrite_def write_to_def emit_ev_def numeral_eq_Suc)

theorem unanswered_command_witness:
  "resend 4 (Slewto demo_env (KVSlewto_new demo_raw) demo_mount) = Inl DanglingRef"
proof -
  have s: "\<not> plan_unique demo_env demo_mount" "ob_tcpMount demo_mount = Some 3" "ob_type demo_mount = 0" "ob_buff demo_mount = []"
    using demo_cams by (simp_all add: plan_unique_def demo_mount_def CoupleMount_def Let_def)
  then have "\<exists>item. ob_buff (Slewto demo_env (KVSlewto_new demo_raw) demo_mount) = [item] \<and> it_retry item = 0 \<and> it_devtype item = 0"
    by (simp add: Slewto_def gwac_command_def Let_def emit_ev_def case_prod_unfold Buff_Push_def NonKVProtoItem_new_def)
  moreover have "ob_tcpMount (Slewto demo_env (KVSlewto_new demo_raw) demo_mount) = Some 3"
    using s by (simp add: Slewto_def gwac_command_def Let_def emit_ev_def case_prod_unfold)
  ultimately show ?thesis using unanswered_command by blast
qed

section \<open>Flat fields\<close>

text \<open>
  The counter of cameras that wait for a flat-field exposure goes down when such a camera
  goes on exposing, but not when it becomes idle.
\<close>

theorem waitflat_counter:
  "waitflat (ob_sys (camera_state_change E CAMCTL_EXPOSING CAMCTL_WAIT_FLAT s)) =
      (if waitflat (ob_sys s) = 0 then 0 else waitflat (ob_sys s) - 1)
   \<and> waitflat (ob_sys (camera_state_change E CAMCTL_IDLE CAMCTL_WAIT_FLAT s)) = waitflat (ob_sys s)"
  by (simp add: camera_state_change_def device_def LeaveWaitFlat_def LeaveExpose_def Let_def
      plan_ends_def emit_ev_def)

section \<open>Receiving lines\<close>

text \<open>The unfinished text behind the last complete line.\<close>

function rest_of :: "string \<Rightarrow> string" where
  "rest_of s =
     (if CHR 0x0A \<in> set s then rest_of (drop (Suc (length (takeWhile (\<lambda>c. c \<noteq> CHR 0x0A) s))) s) else s)"
  by pat_completeness auto
termination
  by (relation "measure length") (auto intro: diff_less dest: length_pos_if_in_set)

declare rest_of.simps [simp del]

text \<open>
  What the receive loop is meant to do: resolve and process the lines in order, close the
  connection at a line that is not a message.
\<close>

fun obs_lines :: "env \<Rightarrow> nat \<Rightarrow> string list \<Rightarrow> bool \<times> obss \<Rightarrow> crash + bool \<times> obss" where
  "obs_lines E t [] (op, s) = Inr (op, s)"
| "obs_lines E t (l # ls) (op, s) =
     (case Resolve (env_boost E) (env_raw E) (c_str l) of
        Inl e \<Rightarrow> Inl e
      | Inr None \<Rightarrow> obs_lines E t ls (False, s)
      | Inr (Some m) \<Rightarrow> obs_lines E t ls (op, Obs_process_protocol_camera E t m s))"

definition received :: "tcpclient \<Rightarrow> crash + bool \<times> obss \<Rightarrow> crash + tcpclient \<times> obss" where
  "received c r = (case r of Inl e \<Rightarrow> Inl e
     | Inr (op, s) \<Rightarrow> Inr (c\<lparr>tc_open := op, crcbuf_read := rest_of (crcbuf_read c)\<rparr>, s))"

lemma Tcp_Read_conn:
  assumes "boost_ok B" and "0 < n" and "n \<le> int (length (crcbuf_read c))"
  shows "Tcp_Read B n 0 c = (n, take (nat n) (crcbuf_read c), c\<lparr>crcbuf_read := drop (nat n) (crcbuf_read c)\<rparr>)"
  using assms(2,3) Tcp_Read_prefix [OF assms]
  by (auto simp: Tcp_Read_def Let_def boost_buffer [OF assms(1)])

text \<open>One turn at a complete line: what \<open>Lookup\<close> and \<open>Read\<close> give.\<close>

lemma first_line:
  assumes "CHR 0x0A \<in> set (crcbuf_read c)"
  defines "l \<equiv> takeWhile (\<lambda>x. x \<noteq> CHR 0x0A) (crcbuf_read c)"
  shows "Tcp_Lookup lines_end 0 c = int (length l)"
    and "boost_ok B \<Longrightarrow> Tcp_Read B (int (length l) + 1) 0 c
      = (int (length l) + 1, l @ lines_end, c\<lparr>crcbuf_read := drop (Suc (length l)) (crcbuf_read c)\<rparr>)"
    and "length (drop (Suc (length l)) (crcbuf_read c)) < length (crcbuf_read c)"
proof -
  obtain a b where ab: "crcbuf_read c = a @ CHR 0x0A # b" "CHR 0x0A \<notin> set a"
    using assms(1) by (meson split_list_first)
  have l: "l = a" unfolding l_def ab(1) using ab(2) by (intro takeWhile_stop) auto
  show "Tcp_Lookup lines_end 0 c = int (length l)" using assms(1) by (simp add: lookup_newline l_def)
  show "boost_ok B \<Longrightarrow> Tcp_Read B (int (length l) + 1) 0 c
      = (int (length l) + 1, l @ lines_end, c\<lparr>crcbuf_read := drop (Suc (length l)) (crcbuf_read c)\<rparr>)"
    using Tcp_Read_conn [of B "int (length l) + 1" c] by (simp add: l ab(1) nat_add_distrib lines_end_def)
  show "length (drop (Suc (length l)) (crcbuf_read c)) < length (crcbuf_read c)" by (simp add: l ab(1))
qed

text \<open>
  C19: the receive loop of an observation system ends and has resolved and processed every
  complete line of the buffer, in order, leaving the unfinished rest, provided that no line is
  longer than the packet buffer.
\<close>

theorem obs_receive_lines:
  assumes "boost_ok (env_boost E)" and "\<forall>l \<in> set (lines_of (crcbuf_read c)). int (length l) < TCP_PACK_SIZE"
  shows "Obs_on_tcp_receive E t c s = Some (received c (obs_lines E t (lines_of (crcbuf_read c)) (tc_open c, s)))"
  using assms(2)
proof (induction "length (crcbuf_read c)" arbitrary: c s rule: less_induct)
  case less
  show ?case
  proof (cases "CHR 0x0A \<in> set (crcbuf_read c)")
    case False
    then show ?thesis
      by (subst Obs_on_tcp_receive.simps)
         (simp add: lookup_newline lines_of.simps [of "crcbuf_read c"] received_def rest_of.simps [of "crcbuf_read c"])
  next
    case True
    define l where "l = takeWhile (\<lambda>x. x \<noteq> CHR 0x0A) (crcbuf_read c)"
    define c1 where "c1 = c\<lparr>crcbuf_read := drop (Suc (length l)) (crcbuf_read c)\<rparr>"
    note fl = first_line [OF True, folded l_def]
    have ls: "lines_of (crcbuf_read c) = l # lines_of (crcbuf_read c1)"
      using True by (subst lines_of.simps) (simp add: l_def c1_def)
    have rs: "rest_of (crcbuf_read c) = rest_of (crcbuf_read c1)"
      using True by (subst rest_of.simps) (simp add: l_def c1_def)
    have short: "\<not> int (length l) + 1 > TCP_PACK_SIZE" using less.prems ls by simp
    have IH: "Obs_on_tcp_receive E t c' s' = Some (received c' (obs_lines E t (lines_of (crcbuf_read c1)) (tc_open c', s')))"
      if "crcbuf_read c' = crcbuf_read c1" for c' s'
      using less.hyps [of c' s'] less.prems fl(3) that ls by (simp add: c1_def)
    have rc: "received c1 r = received c r" "received (Tcp_Close c1) r = received c r" for r
      using rs by (auto simp: received_def c1_def Tcp_Close_def split: sum.splits)
    have IH1: "Obs_on_tcp_receive E t c1 s' = Some (received c (obs_lines E t (lines_of (crcbuf_read c1)) (tc_open c, s')))" for s'
      using IH [of c1 s'] rc(1) by (simp add: c1_def)
    have IH2: "Obs_on_tcp_receive E t (Tcp_Close c1) s' = Some (received c (obs_lines E t (lines_of (crcbuf_read c1)) (False, s')))" for s'
      using IH [of "Tcp_Close c1" s'] rc(2) by (simp add: Tcp_Close_def)
    show ?thesis
      using short fl(1) fl(2) [OF assms(1)]
      by (subst Obs_on_tcp_receive.simps)
         (auto simp: Let_def ls c1_def [symmetric] IH1 IH2 received_def split: sum.splits option.splits)
  qed
qed

text \<open>The witness: a connection with one status line of the camera and the start of another.\<close>

definition demo_conn :: tcpclient where
  "demo_conn = TcpClient_new\<lparr>tc_open := True, crcbuf_read := ''camera state=2,'' @ lines_end @ ''cam''\<rparr>"

lemma demo_conn_lines: "lines_of (crcbuf_read demo_conn) = [''camera state=2,'']"
  by (simp add: demo_conn_def lines_end_def lines_of.simps)

theorem obs_receive_lines_witness:
  "\<exists>r. Obs_on_tcp_receive demo_env 7 demo_conn demo_cam = Some r"
proof -
  have "boost_ok (env_boost demo_env)" by (simp add: demo_env_def boost_ref_ok)
  moreover have "\<forall>l \<in> set (lines_of (crcbuf_read demo_conn)). int (length l) < TCP_PACK_SIZE"
    by (simp add: demo_conn_lines TCP_PACK_SIZE_def)
  ultimately show ?thesis using obs_receive_lines by blast
qed

definition long_line :: "tcpclient \<Rightarrow> bool" where
  "long_line c \<longleftrightarrow> CHR 0x0A \<in> set (crcbuf_read c)
     \<and> TCP_PACK_SIZE \<le> int (length (takeWhile (\<lambda>x. x \<noteq> CHR 0x0A) (crcbuf_read c)))"

lemma returns_no_long_line: "Obs_on_tcp_receive E t c s = Some r \<Longrightarrow> \<not> long_line c"
proof (rule Obs_on_tcp_receive.raw_induct [of "\<lambda>E t c s r. \<not> long_line c" E t c s r])
  fix f :: "env \<Rightarrow> nat \<Rightarrow> tcpclient \<Rightarrow> obss \<Rightarrow> (crash + tcpclient \<times> obss) option"
  fix E t c s r
  assume IH: "\<And>E t c s r. f E t c s = Some r \<Longrightarrow> \<not> long_line c"
    and body: "(let pos = Tcp_Lookup lines_end 0 c in
      if 0 \<le> pos then
        (if pos + 1 > TCP_PACK_SIZE then f E t (Tcp_Close c) s
         else
           (case Tcp_Read (env_boost E) (pos + 1) 0 c of (n, data, c1) \<Rightarrow>
            (case Resolve (env_boost E) (env_raw E) (c_str (take (nat pos) data)) of
               Inl e \<Rightarrow> Some (Inl e)
             | Inr None \<Rightarrow> f E t (Tcp_Close c1) s
             | Inr (Some m) \<Rightarrow> f E t c1 (Obs_process_protocol_camera E t m s))))
      else Some (Inr (c, s))) = Some r"
  show "\<not> long_line c"
  proof
    assume l: "long_line c"
    then have "f E t (Tcp_Close c) s = Some r"
      using body by (simp add: lookup_newline Let_def long_line_def)
    from IH [OF this] l show False by (simp add: long_line_def Tcp_Close_def)
  qed
qed

text \<open>
  A line that fills the packet buffer stops the message thread of the observation system for
  good. The loop closes the connection but does not test that it is open, so the same line is
  found again, for ever.
\<close>

theorem obs_receive_long_line:
  assumes "CHR 0x0A \<in> set (crcbuf_read c)"
    and "TCP_PACK_SIZE \<le> int (length (takeWhile (\<lambda>x. x \<noteq> CHR 0x0A) (crcbuf_read c)))"
  shows "Obs_on_tcp_receive E t c s = None"
  using returns_no_long_line [of E t c s] assms
  by (cases "Obs_on_tcp_receive E t c s") (simp_all add: long_line_def)

definition demo_long :: tcpclient where
  "demo_long = TcpClient_new\<lparr>tc_open := True, crcbuf_read := replicate 1500 (CHR ''x'') @ lines_end\<rparr>"

theorem obs_receive_long_line_witness: "Obs_on_tcp_receive demo_env 7 demo_long demo_cam = None"
proof -
  have "takeWhile (\<lambda>x. x \<noteq> CHR 0x0A) (replicate 1500 (CHR ''x'') @ lines_end) = replicate 1500 (CHR ''x'')"
    unfolding lines_end_def by (rule takeWhile_stop) auto
  then show ?thesis
    by (intro obs_receive_long_line) (simp_all add: demo_long_def TCP_PACK_SIZE_def lines_end_def)
qed

end
