(* ===== verification/General_Control.thy ===== *)
theory General_Control
  imports Obs_Commands
begin

text \<open>
  The controller of the server (\<open>GeneralControl.cpp\<close>): the pools of client and device
  connections, the observation systems it creates on demand, the receive loop that resolves the
  lines of every peer and routes them, and the periodic threads. The effects of an observation
  system are taken over after each call (\<open>absorb\<close>); its plan callback, \<open>plan_state\<close>, writes to the
  clients. A received message object has a number; \<open>gc_next\<close> is the next one.
\<close>

section \<open>Connection pools\<close>

definition TcpCVec_Push :: "nat \<Rightarrow> nat list \<Rightarrow> nat list" where
  "TcpCVec_Push conn v = v @ [conn]"

definition TcpCVec_Pop :: "nat \<Rightarrow> nat list \<Rightarrow> nat option \<times> nat list" where
  "TcpCVec_Pop client v = (find (\<lambda>c. c = client) v, erase_first (\<lambda>c. c = client) v)"

definition TcpCVec_Find :: "nat \<Rightarrow> nat list \<Rightarrow> nat option" where
  "TcpCVec_Find client v = find (\<lambda>c. c = client) v"

definition TcpCVec_Write :: "string \<Rightarrow> nat list \<Rightarrow> event list" where
  "TcpCVec_Write data v = map (\<lambda>c. Write c data) v"

record gencontrol =
  gc_obss :: "obss list"
  gc_clients :: "nat list"
  gc_devices :: "nat list"
  gc_conns :: "nat \<Rightarrow> tcpclient"
  gc_next :: nat
  gc_out :: "event list"

definition GeneralControl_new :: gencontrol where
  "GeneralControl_new = \<lparr>gc_obss = [], gc_clients = [], gc_devices = [], gc_conns = (\<lambda>_. TcpClient_new),
     gc_next = 0, gc_out = []\<rparr>"

definition gc_emit :: "event list \<Rightarrow> gencontrol \<Rightarrow> gencontrol" where
  "gc_emit es gs = gs\<lparr>gc_out := gc_out gs @ es\<rparr>"

text \<open>\<open>plan_state\<close>: the callback of the observation systems.\<close>

definition plan_state :: "kvplan \<Rightarrow> nat list \<Rightarrow> event list" where
  "plan_state plan clients = (if clients \<noteq> [] then TcpCVec_Write (KVPlan_ToString plan) clients else [])"

fun expand_event :: "nat list \<Rightarrow> event \<Rightarrow> event list" where
  "expand_event clients (PlanState p) = plan_state p clients"
| "expand_event clients e = [e]"

definition absorb :: "nat \<Rightarrow> obss \<Rightarrow> gencontrol \<Rightarrow> gencontrol" where
  "absorb i s gs =
     gc_emit (concat (map (expand_event (gc_clients gs)) (ob_out s)))
       (gs\<lparr>gc_obss := (gc_obss gs)[i := s\<lparr>ob_out := []\<rparr>]\<rparr>)"

text \<open>Owners of plan object \<open>k\<close> other than system \<open>i\<close>: the other systems, and the caller's handle.\<close>

definition holds_plan :: "nat \<Rightarrow> obss \<Rightarrow> bool" where
  "holds_plan k s \<longleftrightarrow> (case ob_plan s of None \<Rightarrow> False | Some (k', p) \<Rightarrow> k' = k)"

definition other_owners :: "gencontrol \<Rightarrow> nat option \<Rightarrow> nat \<Rightarrow> nat \<Rightarrow> nat" where
  "other_owners gs handle i k =
     count_if (holds_plan k) (take i (gc_obss gs)) + count_if (holds_plan k) (drop (Suc i) (gc_obss gs))
       + (if handle = Some k then 1 else 0)"

definition env_for :: "env \<Rightarrow> gencontrol \<Rightarrow> nat option \<Rightarrow> nat \<Rightarrow> env" where
  "env_for E gs handle i = E\<lparr>env_others := other_owners gs handle i\<rparr>"

section \<open>Finding or creating an observation system\<close>

text \<open>\<open>queue_ok\<close>: whether the message queue of a new system can be created.\<close>

fun find_index :: "('a \<Rightarrow> bool) \<Rightarrow> 'a list \<Rightarrow> nat option" where
  "find_index P [] = None"
| "find_index P (x # xs) = (if P x then Some 0 else map_option Suc (find_index P xs))"

definition find_obss :: "env \<Rightarrow> bool \<Rightarrow> string \<Rightarrow> string \<Rightarrow> int \<Rightarrow> gencontrol \<Rightarrow> nat option \<times> gencontrol" where
  "find_obss E queue_ok gid uid type gs =
     (case find_index (IsMatched (env_boost E) gid uid) (gc_obss gs) of
        Some i \<Rightarrow> (Some i, gs)
      | None \<Rightarrow>
          (case Obs_Start queue_ok type (ObservationSystem_new E gid uid) of
             (False, s) \<Rightarrow> (None, gs)
           | (True, s) \<Rightarrow> (Some (length (gc_obss gs)), gs\<lparr>gc_obss := gc_obss gs @ [s]\<rparr>)))"

section \<open>Client messages\<close>

text \<open>
  The effect of a client message on one matching system: the message (which \<open>Guide\<close> changes), the
  system, a reply for the clients, and whether the loop over the systems stops here.
\<close>

type_synonym client_result = "kvmsg \<times> obss \<times> string option \<times> bool"

definition client_op :: "env \<Rightarrow> nat \<Rightarrow> kvmsg \<Rightarrow> obss \<Rightarrow> crash + client_result" where
  "client_op E k m s =
     (let B = env_boost E; type = kv_type (msg_base m);
          first = (case type of [] \<Rightarrow> CHR 0x00 | c # _ \<Rightarrow> tolower c);
          go = (\<lambda>s'. Inr (m, s', None, False))
      in if first = CHR ''a'' then
           (case m of
              MAppPlan p \<Rightarrow>
                if iequals B type KVTYPE_APPGWAC \<or> iequals B type KVTYPE_APPPLAN then go (NotifyPlan E (k, p) s) else go s
            | MAbort _ \<Rightarrow> if iequals B type KVTYPE_ABORT then go (Abort E s) else go s
            | _ \<Rightarrow> go s)
         else if first = CHR ''c'' then
           (case m of
              MCheckPlan p \<Rightarrow>
                if iequals B type KVTYPE_CHKPLAN then
                  (case CheckPlan B (cp_plan_sn p) s of
                     Some plan \<Rightarrow> Inr (m, s, Some (KVPlan_ToString plan), True)
                   | None \<Rightarrow> go s)
                else go s
            | _ \<Rightarrow> go s)
         else if first = CHR ''d'' then go s
         else if first = CHR ''f'' then
           (case m of
              MFocus p \<Rightarrow> if iequals B type KVTYPE_FOCUS then go (Obs_Focus E p s) else go s
            | MFocusSync p \<Rightarrow> if iequals B type KVTYPE_FOCUS_SYNC then go (FocusSync E p s) else go s
            | MFWHM p \<Rightarrow> if iequals B type KVTYPE_FWHM then go (NotifyFWHM E p s) else go s
            | _ \<Rightarrow> go s)
         else if first = CHR ''g'' then
           (case m of
              MGuide p \<Rightarrow>
                if iequals B type KVTYPE_GUIDE then
                  (let (p', s') = Obs_Guide E p s in Inr (MGuide p', s', None, False))
                else go s
            | _ \<Rightarrow> go s)
         else if first = CHR ''s'' then
           (case m of
              MSlewto p \<Rightarrow> if iequals B type KVTYPE_SLEWTO then go (Slewto E p s) else go s
            | MSync p \<Rightarrow> if iequals B type KVTYPE_SYNC then go (HomeSync p s) else go s
            | _ \<Rightarrow> go s)
         else if first = CHR ''t'' then
           (case m of
              MTrack _ \<Rightarrow> if iequals B type KVTYPE_TRACK then bindR (Track E s) go else go s
            | MTrackVel p \<Rightarrow> if iequals B type KVTYPE_TRACKVEL then bindR (TrackVel E p s) go else go s
            | MAppPlan p \<Rightarrow> if iequals B type KVTYPE_TKIMG then go (TakeImage E p s) else go s
            | _ \<Rightarrow> go s)
         else
           (case m of
              MRemovePlan p \<Rightarrow>
                if iequals B type KVTYPE_RMVPLAN then Inr (m, s, None, RemovePlan B (rp_plan_sn p) s) else go s
            | MPark _ \<Rightarrow> if iequals B type KVTYPE_PARK then go (Park E s) else go s
            | MHome _ \<Rightarrow> if iequals B type KVTYPE_HOME then go (FindHome E s) else go s
            | _ \<Rightarrow> go s))"

text \<open>The loop over the systems; \<open>k\<close> is the number of the message object, held by the caller.\<close>

fun client_loop :: "env \<Rightarrow> nat \<Rightarrow> string \<Rightarrow> string \<Rightarrow> nat list \<Rightarrow> kvmsg \<Rightarrow> gencontrol \<Rightarrow> crash + gencontrol" where
  "client_loop E k gid uid [] m gs = Inr gs"
| "client_loop E k gid uid (i # is) m gs =
     (let s = gc_obss gs ! i in
      if \<not> IsMatched (env_boost E) gid uid s then client_loop E k gid uid is m gs
      else bindR (client_op (env_for E gs (Some k) i) k m s) (\<lambda>(m', s', reply, stop).
        let gs1 = absorb i s' gs;
            gs2 = (case reply of None \<Rightarrow> gs1 | Some msg \<Rightarrow> gc_emit (TcpCVec_Write msg (gc_clients gs1)) gs1)
        in if stop then Inr gs2 else client_loop E k gid uid is m' gs2))"

definition process_protocol_client :: "env \<Rightarrow> kvmsg \<Rightarrow> gencontrol \<Rightarrow> crash + gencontrol" where
  "process_protocol_client E m gs =
     client_loop E (gc_next gs) (kv_gid (msg_base m)) (kv_uid (msg_base m)) [0..<length (gc_obss gs)] m
       (gs\<lparr>gc_next := gc_next gs + 1\<rparr>)"

section \<open>Device messages\<close>

text \<open>A step on system \<open>i\<close>.\<close>

definition on_obss :: "nat \<Rightarrow> (obss \<Rightarrow> crash + obss) \<Rightarrow> gencontrol \<Rightarrow> crash + gencontrol" where
  "on_obss i f gs = bindR (f (gc_obss gs ! i)) (\<lambda>s. Inr (absorb i s gs))"

text \<open>The loop over the mounts of a status line, from mount number \<open>i\<close>.\<close>

function gwac_status_loop ::
  "env \<Rightarrow> bool \<Rightarrow> nat option \<Rightarrow> nonkvstatus \<Rightarrow> int \<Rightarrow> int \<Rightarrow> gencontrol \<Rightarrow> crash + gencontrol" where
  "gwac_status_loop E q sp status i imax gs =
     (if i < nk_n status \<and> i \<le> imax then
        (case find_obss E q (nk_gid status) (format_d (env_boost E) 3 i) 0 gs of
           (None, gs1) \<Rightarrow> gwac_status_loop E q sp status (i + 1) imax gs1
         | (Some j, gs1) \<Rightarrow>
             bindR (on_obss j (CoupleMount sp) gs1) (\<lambda>gs2.
             bindR (on_obss j (NotifyMountState (env_for E gs2 None j) (nk_state status ! nat i)) gs2) (\<lambda>gs3.
               gwac_status_loop E q sp status (i + 1) imax gs3)))
      else Inr gs)"
  by pat_completeness auto
termination
  by (relation "measure (\<lambda>(E, q, sp, status, i, imax, gs). nat (imax + 1 - i))") auto

declare gwac_status_loop.simps [simp del]

definition process_protocol_mount_gwac :: "env \<Rightarrow> bool \<Rightarrow> nat \<Rightarrow> nonkvmsg \<Rightarrow> gencontrol \<Rightarrow> crash + gencontrol" where
  "process_protocol_mount_gwac E q t m gs =
     (let sp = TcpCVec_Find t (gc_devices gs);
          gid = nk_gid (nk_base m);
          imin = (if iequals (env_boost E) gid ''001'' then 1 else 5);
          imax = (if imin = 0 then 4 else 10)
      in case m of
           NKStatus status \<Rightarrow> gwac_status_loop E q sp status imin imax gs
         | NKPosition pos \<Rightarrow>
             (case find_obss E q gid (nk_uid pos) 0 gs of
                (None, gs1) \<Rightarrow> Inr gs1
              | (Some j, gs1) \<Rightarrow> on_obss j (\<lambda>s. Inr (NotifyMountPosition pos s)) gs1)
         | NKResponse rsp \<Rightarrow>
             (case find_obss E q gid (nk_uid rsp) 0 gs of
                (None, gs1) \<Rightarrow> Inr gs1
              | (Some j, gs1) \<Rightarrow> on_obss j (\<lambda>s. Inr (NotifyResponse rsp s)) gs1)
         | NKFocus _ \<Rightarrow> Inr gs)"

definition process_protocol_mount_gft :: "env \<Rightarrow> bool \<Rightarrow> nat \<Rightarrow> kvmsg \<Rightarrow> gencontrol \<Rightarrow> crash + gencontrol" where
  "process_protocol_mount_gft E q t m gs =
     (case m of
        MMount p \<Rightarrow>
          (case find_obss E q (kv_gid p) (kv_uid p) 1 gs of
             (None, gs1) \<Rightarrow> Inr gs1
           | (Some j, gs1) \<Rightarrow>
               let (ptr, rest) = TcpCVec_Pop t (gc_devices gs1)
               in on_obss j (CoupleMount ptr) (gs1\<lparr>gc_devices := rest\<rparr>))
      | _ \<Rightarrow> Inr gs)"

definition process_protocol_camera :: "env \<Rightarrow> bool \<Rightarrow> nat \<Rightarrow> kvmsg \<Rightarrow> int \<Rightarrow> gencontrol \<Rightarrow> crash + gencontrol" where
  "process_protocol_camera E q t m peer gs =
     (case m of
        MCamera p \<Rightarrow>
          (case find_obss E q (kv_gid p) (kv_uid p) (if peer = PEER_CAMERA_GWAC then 0 else 1) gs of
             (None, gs1) \<Rightarrow> Inr gs1
           | (Some j, gs1) \<Rightarrow>
               let (ptr, rest) = TcpCVec_Pop t (gc_devices gs1); gs2 = gs1\<lparr>gc_devices := rest\<rparr>
               in on_obss j (\<lambda>s. bindR (CoupleCamera (env_for E gs2 None j) ptr (kv_cid p) s) (\<lambda>(b, s'). Inr s')) gs2)
      | _ \<Rightarrow> Inr gs)"

text \<open>The five focusers of a unit, camera numbers \<open>uid * 10 + 1\<close> onwards.\<close>

fun focus_loop :: "env \<Rightarrow> int \<Rightarrow> int list \<Rightarrow> obss \<Rightarrow> obss" where
  "focus_loop E cid [] s = s"
| "focus_loop E cid (pos # ps) s =
     focus_loop E (cid + 1) ps (NotifyFocus E (format_d (env_boost E) 3 cid) pos s)"

definition process_protocol_focus :: "env \<Rightarrow> bool \<Rightarrow> nat \<Rightarrow> nonkvmsg \<Rightarrow> gencontrol \<Rightarrow> crash + gencontrol" where
  "process_protocol_focus E q t m gs =
     (let sp = TcpCVec_Find t (gc_devices gs); gid = nk_gid (nk_base m); uid = nk_uid (nk_base m) in
      case find_obss E q gid uid 0 gs of
        (None, gs1) \<Rightarrow> Inr gs1
      | (Some j, gs1) \<Rightarrow>
          (case m of
             NKFocus focus \<Rightarrow>
               (case stoi uid of
                  Inl e \<Rightarrow> Inl (Uncaught e)
                | Inr n \<Rightarrow> on_obss j (\<lambda>s. Inr (focus_loop (env_for E gs1 None j) (s32 (n * 10 + 1))
                      (take 5 (nk_pos focus)) (CoupleFocus sp s))) gs1)
           | NKResponse rsp \<Rightarrow> on_obss j (\<lambda>s. Inr (NotifyResponse rsp s)) gs1
           | _ \<Rightarrow> Inr gs1))"

section \<open>Connection events\<close>

definition tcp_accept :: "nat \<Rightarrow> int \<Rightarrow> gencontrol \<Rightarrow> gencontrol" where
  "tcp_accept t peer gs =
     (let gs1 = gc_emit [RegisterRead t peer] gs in
      if peer = PEER_CLIENT then gs1\<lparr>gc_clients := TcpCVec_Push t (gc_clients gs1)\<rparr>
      else gs1\<lparr>gc_devices := TcpCVec_Push t (gc_devices gs1)\<rparr>)"

definition GC_MSG_TCP_CLOSE :: int where "GC_MSG_TCP_CLOSE = MSG_USER"
definition GC_MSG_TCP_RECEIVE :: int where "GC_MSG_TCP_RECEIVE = MSG_USER + 1"

definition GC_tcp_receive :: "nat \<Rightarrow> bool \<Rightarrow> int \<Rightarrow> gencontrol \<Rightarrow> gencontrol" where
  "GC_tcp_receive t ok peer gs =
     gc_emit [Post (if ok then GC_MSG_TCP_RECEIVE else GC_MSG_TCP_CLOSE) (int t) peer] gs"

definition GC_on_tcp_close :: "env \<Rightarrow> nat \<Rightarrow> int \<Rightarrow> gencontrol \<Rightarrow> gencontrol" where
  "GC_on_tcp_close E t peer gs =
     (let (sp, gs1) =
        (if peer = PEER_CLIENT then (let (p, v) = TcpCVec_Pop t (gc_clients gs) in (p, gs\<lparr>gc_clients := v\<rparr>))
         else (let (p, v) = TcpCVec_Pop t (gc_devices gs) in (p, gs\<lparr>gc_devices := v\<rparr>)))
      in if peer = PEER_MOUNT_GWAC then gs1\<lparr>gc_obss := map (DecoupleMount E sp) (gc_obss gs1)\<rparr>
         else if peer = PEER_FOCUS then gs1\<lparr>gc_obss := map (DecoupleFocus E sp) (gc_obss gs1)\<rparr>
         else gs1)"

definition set_conn :: "nat \<Rightarrow> tcpclient \<Rightarrow> gencontrol \<Rightarrow> gencontrol" where
  "set_conn t c gs = gs\<lparr>gc_conns := (gc_conns gs)(t := c)\<rparr>"

text \<open>What is done with one line of a peer.\<close>

definition on_line :: "env \<Rightarrow> bool \<Rightarrow> nat \<Rightarrow> int \<Rightarrow> string \<Rightarrow> gencontrol \<Rightarrow> crash + gencontrol" where
  "on_line E q t peer line gs =
     (if peer = PEER_MOUNT_GWAC \<or> peer = PEER_FOCUS then
        bindR (NonKV_Resolve (env_boost E) (env_raw E) line) (\<lambda>r. case r of
          None \<Rightarrow> Inr gs
        | Some m \<Rightarrow> if peer = PEER_MOUNT_GWAC then process_protocol_mount_gwac E q t m gs
                   else process_protocol_focus E q t m gs)
      else
        bindR (Resolve (env_boost E) (env_raw E) line) (\<lambda>r. case r of
          None \<Rightarrow> Inr (set_conn t (Tcp_Close (gc_conns gs t)) gs)
        | Some m \<Rightarrow> if peer = PEER_CLIENT then process_protocol_client E m gs
                   else if peer = PEER_MOUNT_GFT then process_protocol_mount_gft E q t m gs
                   else process_protocol_camera E q t m peer gs))"

text \<open>The receive loop; \<open>None\<close> is a loop that never ends.\<close>

partial_function (option) GC_on_tcp_receive ::
  "env \<Rightarrow> bool \<Rightarrow> nat \<Rightarrow> int \<Rightarrow> gencontrol \<Rightarrow> (crash + gencontrol) option" where
  "GC_on_tcp_receive E q t peer gs =
     (let c = gc_conns gs t; pos = Tcp_Lookup lines_end 0 c in
      if tc_open c \<and> 0 \<le> pos then
        (if pos + 1 > TCP_PACK_SIZE then GC_on_tcp_receive E q t peer (set_conn t (Tcp_Close c) gs)
         else
           (case Tcp_Read (env_boost E) (pos + 1) 0 c of (n, data, c1) \<Rightarrow>
            (case on_line E q t peer (c_str (take (nat pos) data)) (set_conn t c1 gs) of
               Inl e \<Rightarrow> Some (Inl e)
             | Inr gs1 \<Rightarrow> GC_on_tcp_receive E q t peer gs1)))
      else Some (Inr gs))"

section \<open>Periodic threads\<close>

text \<open>What the upload thread writes for one camera and for one system.\<close>

definition upload_camera :: "env \<Rightarrow> obss \<Rightarrow> camerainfo \<Rightarrow> string list" where
  "upload_camera E s c =
     [KVCamera_ToString (ci_info c)]
     @ (if ci_focPos c \<noteq> INT_MAX then
          [KVFocus_ToString (KVFocus_new\<lparr>kv_gid := kv_gid (ob_mount s), kv_uid := kv_uid (ob_mount s), fc_opType := 0,
             kv_utc := ci_focUtc c, kv_cid := kv_cid (ci_info c), fc_state := ci_focState c,
             fc_pos := ci_focPos c, fc_posTar := ci_focTar c\<rparr>)]
        else [])
     @ (if ci_derotEnabled c then
          [KVDerot_ToString ((KVDerot_new (env_raw E))\<lparr>kv_gid := kv_gid (ob_mount s), kv_uid := kv_uid (ob_mount s), dr_opType := 0,
             kv_utc := ci_derotUtc c, dr_state := ci_derotState c, dr_pos := ci_derotPos c, dr_posTar := ci_derotTar c\<rparr>)]
        else [])"

definition upload_obss :: "env \<Rightarrow> obss \<Rightarrow> string list" where
  "upload_obss E s = KVMount_ToString (ob_mount s) # concat (map (upload_camera E s) (ob_cams s))"

definition cycle_upload_client :: "env \<Rightarrow> gencontrol \<Rightarrow> gencontrol" where
  "cycle_upload_client E gs =
     (if gc_clients gs = [] then gs
      else gc_emit (concat (map (\<lambda>msg. TcpCVec_Write msg (gc_clients gs)) (concat (map (upload_obss E) (gc_obss gs))))) gs)"

text \<open>The threads of system \<open>i\<close>.\<close>

definition obsplan_turn :: "env \<Rightarrow> nat \<Rightarrow> gencontrol \<Rightarrow> crash + gencontrol" where
  "obsplan_turn E i gs = on_obss i (thread_obsplan (env_for E gs None i)) gs"

definition rewrite_turn :: "bool \<Rightarrow> nat \<Rightarrow> gencontrol \<Rightarrow> crash + gencontrol" where
  "rewrite_turn timeout i gs = on_obss i (thread_rewrite timeout) gs"

definition cycle_dump_obss :: "env \<Rightarrow> gencontrol \<Rightarrow> gencontrol" where
  "cycle_dump_obss E gs =
     gs\<lparr>gc_obss := filter (\<lambda>s. \<not> LastClosed (env_now E) s > 300) (gc_obss gs)\<rparr>"

end
