(* ===== verification/Obs_Ids.thy ===== *)
theory Obs_Ids
  imports Obs_Invariant
begin

text \<open>The identification of an observation system never changes: one frame lemma per operation.\<close>

definition ids :: "obss \<Rightarrow> string \<times> string" where
  "ids s = (ob_gid s, ob_uid s)"

lemma ids_update [obss_frame]:
  "ids (s\<lparr>ob_tcpMount := a\<rparr>) = ids s" "ids (s\<lparr>ob_countPos := b\<rparr>) = ids s"
  "ids (s\<lparr>ob_buff := l\<rparr>) = ids s" "ids (s\<lparr>ob_lastClosed := d\<rparr>) = ids s"
  "ids (s\<lparr>ob_tcpFocus := a\<rparr>) = ids s" "ids (s\<lparr>ob_nonkv := n\<rparr>) = ids s"
  "ids (s\<lparr>ob_oldDay := d\<rparr>) = ids s" "ids (s\<lparr>ob_planSN := d\<rparr>) = ids s"
  "ids (s\<lparr>ob_tmend := e\<rparr>) = ids s" "ids (s\<lparr>ob_out := f\<rparr>) = ids s"
  "ids (s\<lparr>ob_plan := g\<rparr>) = ids s" "ids (s\<lparr>ob_plan_state := h\<rparr>) = ids s"
  "ids (s\<lparr>ob_sys := x\<rparr>) = ids s" "ids (s\<lparr>ob_cams := y\<rparr>) = ids s" "ids (s\<lparr>ob_mount := m\<rparr>) = ids s"
  "ids (emit_ev ev s) = ids s"
  by (simp_all add: ids_def emit_ev_def)

lemma ids_helpers [obss_frame]:
  "ids (snd (gwac_command dev enc s)) = ids s"
  "ids (write2camera E cmd cid s) = ids s" "ids (expose2camera E k fr cid s) = ids s"
  "ids (write_to t cmd s) = ids s" "ids (no_target s) = ids s" "ids (plan_ends E code s) = ids s"
  by (simp_all add: gwac_command_def write2camera_def expose2camera_def write_to_def no_target_def
      plan_ends_def Let_def case_prod_unfold obss_frame split: option.splits)

lemma ids_operations [obss_frame]:
  "ids (DecoupleMount E ptr s) = ids s"
  "ids (CoupleFocus ptr s) = ids s" "ids (DecoupleFocus E ptr s) = ids s"
  "ids (NotifyMountPosition pos s) = ids s" "ids (NotifyResponse rsp s) = ids s"
  "ids (NotifyFocus E cid n s) = ids s" "ids (Abort E s) = ids s" "ids (NotifyPlan E plan s) = ids s"
  "ids (Slewto E p1 s) = ids s" "ids (Park E s) = ids s" "ids (snd (Obs_Guide E p2 s)) = ids s"
  "ids (FindHome E s) = ids s" "ids (Obs_on_tcp_close E t peer s) = ids s"
  "ids (Obs_Focus E fc s) = ids s" "ids (NotifyFWHM E fw s) = ids s" "ids (HomeSync sy s) = ids s"
  by (simp_all add: DecoupleMount_def CoupleFocus_def DecoupleFocus_def NotifyMountPosition_def NotifyResponse_def
      NotifyFocus_def Abort_def NotifyPlan_def Slewto_def Park_def Obs_Guide_def FindHome_def HomeSync_def
      Obs_on_tcp_close_def Obs_Focus_def NotifyFWHM_def obss_frame Let_def case_prod_unfold split: option.splits)

lemma ids_TakeImage [obss_frame]: "ids (TakeImage E im s) = ids s"
proof -
  have "ids (snd (image_sn E s)) = ids s" by (simp add: image_sn_def Let_def case_prod_unfold obss_frame)
  then show ?thesis by (simp add: TakeImage_def Let_def case_prod_unfold obss_frame)
qed

lemma ids_FocusSync [obss_frame]: "ids (FocusSync E fs s) = ids s"
proof -
  have "ids (focus_sync_loop E t cid is s) = ids s" for t cid "is"
    by (induction E t cid "is" s rule: focus_sync_loop.induct)
       (simp_all add: Let_def case_prod_unfold obss_frame)
  then show ?thesis by (simp add: FocusSync_def split: option.splits)
qed

lemma ids_camera [obss_frame]: "ids (Obs_process_protocol_camera E t m s) = ids s"
  by (cases m) (simp_all add: Obs_process_protocol_camera_def camera_state_change_def Let_def
      case_prod_unfold obss_frame)

lemma ids_CoupleMount: "CoupleMount ptr s = Inr s' \<Longrightarrow> ids s' = ids s"
  by (auto simp: CoupleMount_def Let_def obss_frame split: if_splits option.splits)

lemma ids_NotifyMountState: "NotifyMountState E st s = Inr s' \<Longrightarrow> ids s' = ids s"
  by (auto simp: NotifyMountState_def Let_def bindR_Inr_iff obss_frame split: if_splits)

lemma ids_Track: "Track E s = Inr s' \<Longrightarrow> ids s' = ids s"
  by (auto simp: Track_def Let_def bindR_Inr_iff case_prod_unfold obss_frame split: if_splits option.splits)

lemma ids_TrackVel: "TrackVel E p s = Inr s' \<Longrightarrow> ids s' = ids s"
  by (auto simp: TrackVel_def Let_def bindR_Inr_iff case_prod_unfold obss_frame split: if_splits option.splits)

lemma ids_thread_rewrite: "thread_rewrite b s = Inr s' \<Longrightarrow> ids s' = ids s"
  by (auto simp: thread_rewrite_def Let_def obss_frame split: list.splits if_splits)

lemma ids_process_new_plan: "process_new_plan E s = Inr s' \<Longrightarrow> ids s' = ids s"
  by (auto simp: process_new_plan_def Let_def bindR_Inr_iff case_prod_unfold obss_frame
      split: if_splits option.splits)

lemma ids_thread_obsplan: "thread_obsplan E s = Inr s' \<Longrightarrow> ids s' = ids s"
  by (auto simp: thread_obsplan_def Let_def bindR_Inr_iff obss_frame ids_process_new_plan
      split: if_splits option.splits)

lemma ids_CoupleCamera:
  assumes "CoupleCamera E ptr cid s = Inr (b, s')"
  shows "ids s' = ids s"
proof (cases "find (cid_is E cid) (ob_cams s)")
  case None
  then show ?thesis using assms by (cases ptr) (auto simp: CoupleCamera_def Let_def obss_frame)
next
  case (Some c)
  note f = this
  show ?thesis
  proof (cases "ci_tcp c")
    case None
    then show ?thesis
      using assms f by (cases ptr; cases "ob_plan s")
        (auto simp: CoupleCamera_def Let_def obss_frame ids_def emit_ev_def plan_unique_def
          expose2camera_def write2camera_def)
  next
    case (Some t)
    then show ?thesis using assms f by (auto simp: CoupleCamera_def)
  qed
qed

lemmas ids_partial = ids_CoupleMount ids_NotifyMountState ids_Track ids_TrackVel ids_thread_rewrite
  ids_thread_obsplan ids_CoupleCamera

end
