(* ===== verification/Control_Invariant.thy ===== *)
theory Control_Invariant
  imports General_Control Obs_Ids Obs_Mount
begin

text \<open>
  The controller over time. Its observation systems have pairwise different identifications, as
  \<open>find_obss\<close> creates one only where none matches; everything it does to a system is a sequence of
  the system's own steps, so the invariants of \<open>Obs_Invariant\<close> and \<open>Obs_Mount\<close> hold for all its
  systems. \<open>gc_step\<close> has one clause per thing that happens to a controller.
\<close>

section \<open>Invariant\<close>

definition keys :: "gencontrol \<Rightarrow> (string \<times> string) list" where
  "keys gs = map ids (gc_obss gs)"

definition same_key :: "string \<times> string \<Rightarrow> string \<times> string \<Rightarrow> bool" where
  "same_key a b \<longleftrightarrow> iequals_doc (fst a) (fst b) \<and> iequals_doc (snd a) (snd b)"

definition keys_ok :: "(string \<times> string) list \<Rightarrow> bool" where
  "keys_ok ks \<longleftrightarrow> sorted_wrt (\<lambda>a b. \<not> same_key a b) ks \<and> (\<forall>k \<in> set ks. fst k \<noteq> [] \<and> snd k \<noteq> [])"

definition sys_ok :: "obss \<Rightarrow> bool" where
  "sys_ok s \<longleftrightarrow> counters_ok (core s) \<and> plan_ok s \<and> mount_state_ok s"

definition gc_inv :: "gencontrol \<Rightarrow> bool" where
  "gc_inv gs \<longleftrightarrow> keys_ok (keys gs) \<and> (\<forall>s \<in> set (gc_obss gs). sys_ok s)"

text \<open>Uninitialised memory does not happen to look like an exposing camera.\<close>

definition raw_ok :: "env \<Rightarrow> bool" where
  "raw_ok E \<longleftrightarrow> cm_state (KVCamera_new (env_raw E)) \<le> CAMCTL_IDLE"

lemma ids_step: "obs_step s s' \<Longrightarrow> ids s' = ids s"
  by (induction rule: obs_step.induct) (auto simp: obss_frame dest: ids_partial)

lemma ids_steps: "obs_step\<^sup>*\<^sup>* s s' \<Longrightarrow> ids s' = ids s"
  by (induction rule: rtranclp_induct) (simp_all add: ids_step)

lemma sys_ok_step: "obs_step s s' \<Longrightarrow> sys_ok s \<Longrightarrow> sys_ok s'"
  using counters_step plan_step plan_ok_moved mount_state_step unfolding sys_ok_def by blast

lemma sys_ok_steps: "obs_step\<^sup>*\<^sup>* s s' \<Longrightarrow> sys_ok s \<Longrightarrow> sys_ok s'"
  by (induction rule: rtranclp_induct) (simp_all add: sys_ok_step)

lemma sys_ok_out [simp]: "sys_ok (s\<lparr>ob_out := es\<rparr>) = sys_ok s"
  by (simp add: sys_ok_def core_def plan_ok_def mount_state_ok_def obss_frame)

lemma sys_ok_reachable: "obs_reachable s \<Longrightarrow> sys_ok s"
  by (simp add: sys_ok_def counters_reachable plan_ok_reachable mount_state_reachable)

lemma sys_ok_start:
  "Obs_Start q type (ObservationSystem_new E gid uid) = (True, s) \<Longrightarrow> sys_ok s \<and> ids s = (gid, uid) \<and> gid \<noteq> [] \<and> uid \<noteq> []"
proof -
  assume a: "Obs_Start q type (ObservationSystem_new E gid uid) = (True, s)"
  have "sys_ok (ObservationSystem_new E gid uid)"
    by (rule sys_ok_reachable) (auto simp: obs_reachable_def)
  with a show ?thesis
    by (auto simp: Obs_Start_def sys_ok_def core_def plan_ok_def mount_state_ok_def mst_def ids_def
        ObservationSystem_new_def split: if_splits)
qed

text \<open>What a controller operation keeps.\<close>

definition gc_keeps :: "gencontrol \<Rightarrow> gencontrol \<Rightarrow> bool" where
  "gc_keeps gs gs' \<longleftrightarrow> (gc_inv gs \<longrightarrow> gc_inv gs') \<and> gc_conns gs' = gc_conns gs
     \<and> length (gc_obss gs) \<le> length (gc_obss gs')"

lemma gc_keeps_refl [simp]: "gc_keeps gs gs"
  by (simp add: gc_keeps_def)

lemma gc_keeps_trans [trans]: "gc_keeps a b \<Longrightarrow> gc_keeps b c \<Longrightarrow> gc_keeps a c"
  by (auto simp: gc_keeps_def)

lemma gc_keeps_frame:
  "gc_obss gs' = gc_obss gs \<Longrightarrow> gc_conns gs' = gc_conns gs \<Longrightarrow> gc_keeps gs gs'"
  by (simp add: gc_keeps_def gc_inv_def keys_def)

lemma find_index_None: "find_index P xs = None \<longleftrightarrow> (\<forall>x \<in> set xs. \<not> P x)"
  by (induction xs) auto

lemma find_index_Some: "find_index P xs = Some i \<Longrightarrow> i < length xs \<and> P (xs ! i)"
  by (induction xs arbitrary: i) (auto split: if_splits)

lemma IsMatched_full:
  "boost_ok B \<Longrightarrow> gid \<noteq> [] \<Longrightarrow> uid \<noteq> [] \<Longrightarrow> IsMatched B gid uid s \<longleftrightarrow> same_key (gid, uid) (ids s)"
  by (simp add: IsMatched_def same_key_def ids_def boost_laws)

lemma find_obss_keeps:
  assumes "boost_ok (env_boost E)" and "find_obss E q gid uid type gs = (r, gs')"
  shows "gc_keeps gs gs'" and "r = Some j \<Longrightarrow> j < length (gc_obss gs')" and "gc_devices gs' = gc_devices gs"
proof -
  have "gc_keeps gs gs' \<and> (r = Some j \<longrightarrow> j < length (gc_obss gs')) \<and> gc_devices gs' = gc_devices gs"
  proof (cases "find_index (IsMatched (env_boost E) gid uid) (gc_obss gs)")
    case (Some i)
    then show ?thesis using assms(2) find_index_Some by (auto simp: find_obss_def)
  next
    case None
    show ?thesis
    proof (cases "Obs_Start q type (ObservationSystem_new E gid uid)")
      case (Pair ok s)
      show ?thesis
      proof (cases ok)
        case False
        then show ?thesis using assms(2) None Pair by (simp add: find_obss_def)
      next
        case True
        with Pair sys_ok_start have st: "sys_ok s \<and> ids s = (gid, uid) \<and> gid \<noteq> [] \<and> uid \<noteq> []" by auto
        then have s: "sys_ok s" "ids s = (gid, uid)" and ne: "gid \<noteq> []" "uid \<noteq> []" by auto
        have gs': "gs' = gs\<lparr>gc_obss := gc_obss gs @ [s]\<rparr>" "r = Some (length (gc_obss gs))"
          using assms(2) None Pair True by (simp_all add: find_obss_def)
        have "\<forall>x \<in> set (gc_obss gs). \<not> same_key (gid, uid) (ids x)"
          using None IsMatched_full [OF assms(1) ne] by (simp add: find_index_None)
        then have "\<forall>k \<in> set (keys gs). \<not> same_key k (gid, uid)"
          by (auto simp: keys_def same_key_def iequals_doc_sym)
        then show ?thesis
          using ne s by (auto simp: gc_keeps_def gc_inv_def gs' keys_def keys_ok_def sorted_wrt_append)
      qed
    qed
  qed
  then show "gc_keeps gs gs'" and "r = Some j \<Longrightarrow> j < length (gc_obss gs')" and "gc_devices gs' = gc_devices gs"
    by blast+
qed

section \<open>Effects on one system\<close>

lemma gc_emit_simps [simp]:
  "gc_obss (gc_emit es gs) = gc_obss gs" "gc_conns (gc_emit es gs) = gc_conns gs"
  "gc_clients (gc_emit es gs) = gc_clients gs" "gc_devices (gc_emit es gs) = gc_devices gs"
  by (simp_all add: gc_emit_def)

lemma gc_emit_keeps [simp]: "gc_keeps gs (gc_emit es gs)"
  by (simp add: gc_keeps_frame)

lemma absorb_simps [simp]:
  "gc_conns (absorb i s gs) = gc_conns gs" "gc_devices (absorb i s gs) = gc_devices gs"
  "gc_clients (absorb i s gs) = gc_clients gs"
  "gc_obss (absorb i s gs) = (gc_obss gs)[i := s\<lparr>ob_out := []\<rparr>]"
  by (simp_all add: absorb_def)

lemma absorb_keeps:
  assumes "obs_step\<^sup>*\<^sup>* (gc_obss gs ! i) s"
  shows "gc_keeps gs (absorb i s gs)"
proof (cases "i < length (gc_obss gs)")
  case True
  let ?s = "s\<lparr>ob_out := []\<rparr>"
  have "ids ?s = ids (gc_obss gs ! i)" using ids_steps [OF assms] by (simp add: ids_def)
  then have "map ids ((gc_obss gs)[i := ?s]) = map ids (gc_obss gs)"
    using True by (metis list_update_id map_update nth_map)
  moreover have "sys_ok ?s" if "\<forall>x \<in> set (gc_obss gs). sys_ok x"
    using that True sys_ok_steps [OF assms] by simp
  ultimately show ?thesis
    by (auto simp: gc_keeps_def gc_inv_def keys_def dest: set_update_subset_insert [THEN subsetD])
next
  case False
  then have "gc_obss (absorb i s gs) = gc_obss gs" by (simp add: list_update_beyond)
  then show ?thesis by (rule gc_keeps_frame) simp
qed

lemma on_obss_keeps:
  assumes "on_obss i f gs = Inr gs'" and "\<And>s s'. f s = Inr s' \<Longrightarrow> obs_step\<^sup>*\<^sup>* s s'"
  shows "gc_keeps gs gs'"
  using assms by (auto simp: on_obss_def bindR_Inr_iff intro!: absorb_keeps)

lemmas on_obss_step_keeps = on_obss_keeps [OF _ r_into_rtranclp]

lemmas obs_step_total = obs_step.decouple_mount obs_step.couple_focus obs_step.decouple_focus
  obs_step.mount_position obs_step.focus_position obs_step.response obs_step.new_plan obs_step.abort
  obs_step.slew obs_step.park obs_step.guide obs_step.find_home obs_step.home_sync obs_step.take_image
  obs_step.focus obs_step.focus_sync obs_step.fwhm obs_step.close

lemma client_op_steps: "client_op E k m s = Inr (m', s', reply, stop) \<Longrightarrow> obs_step\<^sup>*\<^sup>* s s'"
  by (cases m)
     (auto simp: client_op_def Let_def bindR_Inr_iff case_prod_unfold
      intro: r_into_rtranclp obs_step_total obs_step.track obs_step.track_vel split: if_splits option.splits)

lemma client_loop_keeps: "client_loop E k gid uid is m gs = Inr gs' \<Longrightarrow> gc_keeps gs gs'"
proof (induction E k gid uid "is" m gs rule: client_loop.induct)
  case (1 E k gid uid m gs)
  then show ?case by simp
next
  case (2 E k gid uid i "is" m gs)
  show ?case
  proof (cases "IsMatched (env_boost E) gid uid (gc_obss gs ! i)")
    case False
    then show ?thesis using 2 by (simp add: Let_def)
  next
    case True
    then obtain m' s' reply stop where op: "client_op (env_for E gs (Some k) i) k m (gc_obss gs ! i) = Inr (m', s', reply, stop)"
      using 2(3) by (auto simp: Let_def bindR_Inr_iff)
    define gs2 where "gs2 = (case reply of None \<Rightarrow> absorb i s' gs
        | Some msg \<Rightarrow> gc_emit (TcpCVec_Write msg (gc_clients (absorb i s' gs))) (absorb i s' gs))"
    have "gc_keeps gs (absorb i s' gs)" using absorb_keeps [OF client_op_steps [OF op]] .
    then have k2: "gc_keeps gs gs2"
      using gc_keeps_trans gc_emit_keeps by (auto simp: gs2_def split: option.splits)
    show ?thesis
    proof (cases stop)
      case True
      then show ?thesis using 2(3) op k2 \<open>IsMatched _ _ _ _\<close> by (simp add: Let_def gs2_def)
    next
      case False
      then have "client_loop E k gid uid is m' gs2 = Inr gs'"
        using 2(3) op \<open>IsMatched _ _ _ _\<close> by (simp add: Let_def gs2_def)
      moreover have "client_loop E k gid uid is m' gs2 = Inr gs' \<Longrightarrow> gc_keeps gs2 gs'"
        by (rule 2(2) [OF refl _ op refl refl refl refl _ , folded gs2_def]) (use True False in \<open>simp_all add: gs2_def\<close>)
      ultimately show ?thesis using k2 gc_keeps_trans by blast
    qed
  qed
qed

lemma client_keeps: "process_protocol_client E m gs = Inr gs' \<Longrightarrow> gc_keeps gs gs'"
proof -
  assume "process_protocol_client E m gs = Inr gs'"
  then have "gc_keeps (gs\<lparr>gc_next := gc_next gs + 1\<rparr>) gs'"
    using client_loop_keeps by (simp add: process_protocol_client_def)
  then show ?thesis by (simp add: gc_keeps_def gc_inv_def keys_def)
qed

section \<open>Messages of the devices\<close>

lemma gwac_status_keeps:
  "gwac_status_loop E q sp status i imax gs = Inr gs' \<Longrightarrow> boost_ok (env_boost E) \<Longrightarrow> gc_keeps gs gs'"
proof (induction E q sp status i imax gs rule: gwac_status_loop.induct)
  case (1 E q sp status i imax gs)
  show ?case
  proof (cases "i < nk_n status \<and> i \<le> imax")
    case False
    then show ?thesis using 1(3) by (subst (asm) gwac_status_loop.simps) auto
  next
    case True
    obtain r gs1 where f: "find_obss E q (nk_gid status) (format_d (env_boost E) 3 i) 0 gs = (r, gs1)" by fastforce
    note k1 = find_obss_keeps(1) [OF 1(4) f]
    show ?thesis
    proof (cases r)
      case None
      then have "gwac_status_loop E q sp status (i + 1) imax gs1 = Inr gs'"
        using 1(3) True f by (subst (asm) gwac_status_loop.simps) simp
      then have "gc_keeps gs1 gs'" using 1(1) True f None 1(4) by auto
      with k1 show ?thesis by (rule gc_keeps_trans)
    next
      case (Some j)
      then obtain gs2 gs3 where g: "on_obss j (CoupleMount sp) gs1 = Inr gs2"
        "on_obss j (NotifyMountState (env_for E gs2 None j) (nk_state status ! nat i)) gs2 = Inr gs3"
        "gwac_status_loop E q sp status (i + 1) imax gs3 = Inr gs'"
        using 1(3) True f by (subst (asm) gwac_status_loop.simps) (auto simp: bindR_Inr_iff)
      have "gc_keeps gs1 gs2" by (rule on_obss_step_keeps [OF g(1)]) (rule obs_step.couple_mount)
      moreover have "gc_keeps gs2 gs3" by (rule on_obss_step_keeps [OF g(2)]) (rule obs_step.mount_state)
      moreover have "gc_keeps gs3 gs'" using 1(2) True f Some g 1(4) by auto
      ultimately show ?thesis using k1 gc_keeps_trans by blast
    qed
  qed
qed

lemma on_obss_total_keeps:
  assumes "on_obss i (\<lambda>s. Inr (f s)) gs = Inr gs'" and "\<And>s. obs_step\<^sup>*\<^sup>* s (f s)"
  shows "gc_keeps gs gs'"
  using assms by (intro on_obss_keeps [OF assms(1)]) auto

text \<open>A handler that finds its system and then works on it.\<close>

lemma found_keeps:
  assumes "boost_ok (env_boost E)"
    and "(case find_obss E q gid uid type gs of (None, gs1) \<Rightarrow> Inr gs1 | (Some j, gs1) \<Rightarrow> F j gs1) = Inr gs'"
    and "\<And>j gs1. F j gs1 = Inr gs' \<Longrightarrow> gc_keeps gs1 gs'"
  shows "gc_keeps gs gs'"
proof -
  obtain r gs1 where f: "find_obss E q gid uid type gs = (r, gs1)" by fastforce
  note k = find_obss_keeps(1) [OF assms(1) f]
  show ?thesis
    using assms(2,3) f k gc_keeps_trans by (cases r) auto
qed

lemma mount_gwac_keeps:
  assumes "boost_ok (env_boost E)" and "process_protocol_mount_gwac E q t m gs = Inr gs'"
  shows "gc_keeps gs gs'"
proof (cases m)
  case (NKStatus status)
  then show ?thesis
    using assms gwac_status_keeps by (auto simp: process_protocol_mount_gwac_def Let_def)
next
  case (NKPosition pos)
  show ?thesis
  proof (rule found_keeps [OF assms(1)])
    show "(case find_obss E q (nk_gid (nk_base m)) (nk_uid pos) 0 gs of (None, gs1) \<Rightarrow> Inr gs1
        | (Some j, gs1) \<Rightarrow> on_obss j (\<lambda>s. Inr (NotifyMountPosition pos s)) gs1) = Inr gs'"
      using assms(2) NKPosition by (simp add: process_protocol_mount_gwac_def Let_def)
  qed (auto intro: on_obss_total_keeps r_into_rtranclp obs_step_total)
next
  case (NKResponse rsp)
  show ?thesis
  proof (rule found_keeps [OF assms(1)])
    show "(case find_obss E q (nk_gid (nk_base m)) (nk_uid rsp) 0 gs of (None, gs1) \<Rightarrow> Inr gs1
        | (Some j, gs1) \<Rightarrow> on_obss j (\<lambda>s. Inr (NotifyResponse rsp s)) gs1) = Inr gs'"
      using assms(2) NKResponse by (simp add: process_protocol_mount_gwac_def Let_def)
  qed (auto intro: on_obss_total_keeps r_into_rtranclp obs_step_total)
next
  case (NKFocus f)
  then show ?thesis using assms(2) by (simp add: process_protocol_mount_gwac_def Let_def)
qed

lemma devices_keeps [simp]: "gc_keeps gs (gs\<lparr>gc_devices := v\<rparr>)"
  by (simp add: gc_keeps_frame)

lemma mount_gft_keeps:
  assumes "boost_ok (env_boost E)" and "process_protocol_mount_gft E q t m gs = Inr gs'"
  shows "gc_keeps gs gs'"
proof (cases "\<exists>p. m = MMount p")
  case True
  then obtain p where m: "m = MMount p" ..
  show ?thesis
  proof (rule found_keeps [OF assms(1)])
    show "(case find_obss E q (kv_gid p) (kv_uid p) 1 gs of (None, gs1) \<Rightarrow> Inr gs1
        | (Some j, gs1) \<Rightarrow> (let (ptr, rest) = TcpCVec_Pop t (gc_devices gs1)
             in on_obss j (CoupleMount ptr) (gs1\<lparr>gc_devices := rest\<rparr>))) = Inr gs'"
      using assms(2) m by (simp add: process_protocol_mount_gft_def)
  next
    fix j gs1
    assume "(let (ptr, rest) = TcpCVec_Pop t (gc_devices gs1)
             in on_obss j (CoupleMount ptr) (gs1\<lparr>gc_devices := rest\<rparr>)) = Inr gs'"
    then have o: "on_obss j (CoupleMount (fst (TcpCVec_Pop t (gc_devices gs1))))
        (gs1\<lparr>gc_devices := snd (TcpCVec_Pop t (gc_devices gs1))\<rparr>) = Inr gs'"
      by (simp add: Let_def case_prod_unfold)
    show "gc_keeps gs1 gs'"
      by (rule gc_keeps_trans [OF devices_keeps on_obss_step_keeps [OF o obs_step.couple_mount]])
  qed
next
  case False
  then show ?thesis using assms(2) by (cases m) (simp_all add: process_protocol_mount_gft_def)
qed

lemma camera_keeps:
  assumes "boost_ok (env_boost E)" and "raw_ok E" and "process_protocol_camera E q t m peer gs = Inr gs'"
  shows "gc_keeps gs gs'"
proof (cases "\<exists>p. m = MCamera p")
  case True
  then obtain p where m: "m = MCamera p" ..
  let ?F = "\<lambda>j gs1. (let (ptr, rest) = TcpCVec_Pop t (gc_devices gs1); gs2 = gs1\<lparr>gc_devices := rest\<rparr>
             in on_obss j (\<lambda>s. bindR (CoupleCamera (env_for E gs2 None j) ptr (kv_cid p) s) (\<lambda>(b, s'). Inr s')) gs2)"
  show ?thesis
  proof (rule found_keeps [OF assms(1)])
    show "(case find_obss E q (kv_gid p) (kv_uid p) (if peer = PEER_CAMERA_GWAC then 0 else 1) gs of (None, gs1) \<Rightarrow> Inr gs1
        | (Some j, gs1) \<Rightarrow> ?F j gs1) = Inr gs'"
      using assms(3) m by (simp add: process_protocol_camera_def)
  next
    fix j gs1
    assume F: "?F j gs1 = Inr gs'"
    define gs2 where "gs2 = gs1\<lparr>gc_devices := snd (TcpCVec_Pop t (gc_devices gs1))\<rparr>"
    let ?ptr = "fst (TcpCVec_Pop t (gc_devices gs1))"
    from F have o: "on_obss j (\<lambda>s. bindR (CoupleCamera (env_for E gs2 None j) ?ptr (kv_cid p) s) (\<lambda>(b, s'). Inr s')) gs2 = Inr gs'"
      by (simp add: Let_def case_prod_unfold gs2_def)
    have raw: "cm_state (KVCamera_new (env_raw (env_for E gs2 None j))) \<le> CAMCTL_IDLE"
      using assms(2) by (simp add: raw_ok_def env_for_def)
    have "gc_keeps gs2 gs'"
      by (rule on_obss_step_keeps [OF o]) (auto simp: bindR_Inr_iff intro: obs_step.couple_camera [OF _ raw])
    then show "gc_keeps gs1 gs'" unfolding gs2_def by (rule gc_keeps_trans [OF devices_keeps])
  qed
next
  case False
  then show ?thesis using assms(3) by (cases m) (simp_all add: process_protocol_camera_def)
qed

lemma camera_conns:
  assumes "boost_ok (env_boost E)" and "process_protocol_camera E q t m peer gs = Inr gs'"
  shows "gc_conns gs' = gc_conns gs"
proof (cases "\<exists>p. m = MCamera p")
  case True
  then obtain p where m: "m = MCamera p" ..
  obtain r gs1 where f: "find_obss E q (kv_gid p) (kv_uid p) (if peer = PEER_CAMERA_GWAC then 0 else 1) gs = (r, gs1)"
    by fastforce
  have "gc_conns gs1 = gc_conns gs" using find_obss_keeps(1) [OF assms(1) f] by (simp add: gc_keeps_def)
  then show ?thesis
    using assms(2) f by (cases r) (auto simp: process_protocol_camera_def m Let_def on_obss_def bindR_Inr_iff case_prod_unfold)
next
  case False
  then show ?thesis using assms(2) by (cases m) (simp_all add: process_protocol_camera_def)
qed

lemma focus_loop_steps: "obs_step\<^sup>*\<^sup>* s (focus_loop E cid ps s)"
  by (induction E cid ps s rule: focus_loop.induct)
     (auto intro: converse_rtranclp_into_rtranclp obs_step.focus_position)

lemma focus_keeps:
  assumes "boost_ok (env_boost E)" and "process_protocol_focus E q t m gs = Inr gs'"
  shows "gc_keeps gs gs'"
proof (rule found_keeps [OF assms(1)])
  let ?sp = "TcpCVec_Find t (gc_devices gs)"
  let ?uid = "nk_uid (nk_base m)"
  let ?F = "\<lambda>j gs1. case m of
             NKFocus focus \<Rightarrow>
               (case stoi ?uid of
                  Inl e \<Rightarrow> Inl (Uncaught e)
                | Inr n \<Rightarrow> on_obss j (\<lambda>s. Inr (focus_loop (env_for E gs1 None j) (s32 (n * 10 + 1))
                      (take 5 (nk_pos focus)) (CoupleFocus ?sp s))) gs1)
           | NKResponse rsp \<Rightarrow> on_obss j (\<lambda>s. Inr (NotifyResponse rsp s)) gs1
           | _ \<Rightarrow> Inr gs1"
  show "(case find_obss E q (nk_gid (nk_base m)) ?uid 0 gs of (None, gs1) \<Rightarrow> Inr gs1 | (Some j, gs1) \<Rightarrow> ?F j gs1) = Inr gs'"
    using assms(2) by (simp add: process_protocol_focus_def Let_def)
  fix j gs1
  assume F: "?F j gs1 = Inr gs'"
  have st: "obs_step\<^sup>*\<^sup>* s (focus_loop E' cid ps (CoupleFocus sp s))" for E' cid ps sp s
    using focus_loop_steps obs_step.couple_focus by (meson converse_rtranclp_into_rtranclp)
  show "gc_keeps gs1 gs'"
    using F by (cases m) (auto intro: on_obss_total_keeps st r_into_rtranclp obs_step.response split: sum.splits)
qed

end
