(* ===== verification/Control_Reach.thy ===== *)
theory Control_Reach
  imports Control_Invariant Obs_Devices
begin

text \<open>
  The message handlers of the controller as a whole, the step relation \<open>gc_step\<close> and its reachable
  states. The receive loop takes bytes out of the connection with every turn, which is why it ends.
\<close>

section \<open>One line, and the receive loop\<close>

lemma set_conn_simps [simp]:
  "gc_conns (set_conn t c gs) = (gc_conns gs)(t := c)" "gc_obss (set_conn t c gs) = gc_obss gs"
  "gc_inv (set_conn t c gs) = gc_inv gs"
  by (simp_all add: set_conn_def gc_inv_def keys_def)

lemma on_line_cases:
  assumes "on_line E q t peer line gs = Inr gs'"
  obtains (ignored) "gs' = gs" | (bad) "gs' = set_conn t (Tcp_Close (gc_conns gs t)) gs"
  | (mount_gwac) m where "process_protocol_mount_gwac E q t m gs = Inr gs'"
  | (focus) m where "process_protocol_focus E q t m gs = Inr gs'"
  | (client) m where "process_protocol_client E m gs = Inr gs'"
  | (mount_gft) m where "process_protocol_mount_gft E q t m gs = Inr gs'"
  | (camera) m where "process_protocol_camera E q t m peer gs = Inr gs'"
  using assms by (auto simp: on_line_def bindR_Inr_iff split: if_splits option.splits)

lemma on_line_inv:
  assumes "boost_ok (env_boost E)" and "raw_ok E" and "on_line E q t peer line gs = Inr gs'" and "gc_inv gs"
  shows "gc_inv gs'"
  using assms(3)
proof (cases rule: on_line_cases)
  case bad
  then show ?thesis using assms(4) by simp
qed (use assms mount_gwac_keeps focus_keeps client_keeps mount_gft_keeps camera_keeps in \<open>auto simp: gc_keeps_def\<close>)

lemma on_line_buffer:
  assumes "boost_ok (env_boost E)" and "on_line E q t peer line gs = Inr gs'"
  shows "crcbuf_read (gc_conns gs' u) = crcbuf_read (gc_conns gs u)"
  using assms(2)
proof (cases rule: on_line_cases)
  case bad
  then show ?thesis by (simp add: Tcp_Close_def)
next
  case (camera m)
  then show ?thesis using camera_conns [OF assms(1)] by simp
qed (use assms(1) mount_gwac_keeps focus_keeps client_keeps mount_gft_keeps in \<open>auto simp: gc_keeps_def\<close>)

lemma takeWhile_shorter: "x \<in> set xs \<Longrightarrow> length (takeWhile (\<lambda>y. y \<noteq> x) xs) < length xs"
  by (induction xs) auto

lemma receive_closed: "\<not> tc_open (gc_conns gs t) \<Longrightarrow> GC_on_tcp_receive E q t peer gs = Some (Inr gs)"
  by (subst GC_on_tcp_receive.simps) (simp add: Let_def)

text \<open>One complete line in the buffer is one turn of the loop.\<close>

lemma receive_one_line:
  assumes "boost_ok (env_boost E)" and "tc_open (gc_conns gs t)" and "crcbuf_read (gc_conns gs t) = line @ lines_end"
    and "CHR 0x0A \<notin> set line" and "CHR 0x00 \<notin> set line" and "int (length line) < TCP_PACK_SIZE"
    and "on_line E q t peer line (set_conn t ((gc_conns gs t)\<lparr>crcbuf_read := []\<rparr>) gs) = Inr gs1"
  shows "GC_on_tcp_receive E q t peer gs = Some (Inr gs1)"
proof -
  let ?c = "gc_conns gs t"
  let ?n = "int (length line)"
  have tw: "takeWhile (\<lambda>x. x \<noteq> CHR 0x0A) (line @ lines_end) = line"
    unfolding lines_end_def using assms(4) by (intro takeWhile_stop) auto
  have pos: "Tcp_Lookup lines_end 0 ?c = ?n"
    by (simp add: lookup_newline assms(3) tw) (simp add: lines_end_def)
  have rd: "Tcp_Read (env_boost E) (?n + 1) 0 ?c = (?n + 1, line @ lines_end, ?c\<lparr>crcbuf_read := []\<rparr>)"
    by (auto simp: Tcp_Read_def Let_def boost_buffer [OF assms(1)] map_nth_upt assms(3) lines_end_def nat_add_distrib)
  have cs: "c_str line = line" using assms(5) by (simp add: c_str_def takeWhile_eq_all_conv) metis
  have "\<not> (tc_open (gc_conns gs1 t) \<and> 0 \<le> Tcp_Lookup lines_end 0 (gc_conns gs1 t))"
    using on_line_buffer [OF assms(1,7), of t] by (simp add: lookup_newline)
  then have "GC_on_tcp_receive E q t peer gs1 = Some (Inr gs1)"
    by (subst GC_on_tcp_receive.simps) (auto simp: Let_def)
  then show ?thesis
    using assms(2,6,7) cs by (subst GC_on_tcp_receive.simps) (simp add: Let_def pos rd)
qed

text \<open>The loop ends, and keeps the invariant.\<close>

lemma receive_ends_aux:
  "boost_ok (env_boost E) \<Longrightarrow> \<exists>r. GC_on_tcp_receive E q t peer gs = Some r
     \<and> (\<forall>gs'. r = Inr gs' \<longrightarrow> (raw_ok E \<longrightarrow> gc_inv gs \<longrightarrow> gc_inv gs')
         \<and> (\<not> tc_open (gc_conns gs' t) \<or> CHR 0x0A \<notin> set (crcbuf_read (gc_conns gs' t))))"
proof (induction "length (crcbuf_read (gc_conns gs t))" arbitrary: gs rule: less_induct)
  case less
  let ?c = "gc_conns gs t"
  let ?pos = "Tcp_Lookup lines_end 0 ?c"
  show ?case
  proof (cases "tc_open ?c \<and> 0 \<le> ?pos")
    case False
    then show ?thesis by (subst GC_on_tcp_receive.simps) (auto simp: Let_def lookup_newline split: if_splits)
  next
    case True
    show ?thesis
    proof (cases "?pos + 1 > TCP_PACK_SIZE")
      case long: True
      have "GC_on_tcp_receive E q t peer (set_conn t (Tcp_Close ?c) gs) = Some (Inr (set_conn t (Tcp_Close ?c) gs))"
        by (rule receive_closed) (simp add: Tcp_Close_def)
      with long True show ?thesis by (subst GC_on_tcp_receive.simps) (simp add: Let_def Tcp_Close_def)
    next
      case False
      obtain n data c1 where rd: "Tcp_Read (env_boost E) (?pos + 1) 0 ?c = (n, data, c1)" by (metis prod_cases3)
      have len: "?pos + 1 \<le> int (length (crcbuf_read ?c))"
        using True takeWhile_shorter [of "CHR 0x0A" "crcbuf_read ?c"]
        by (auto simp: lookup_newline split: if_splits)
      have "crcbuf_read c1 = drop (nat (?pos + 1)) (crcbuf_read ?c)"
        using Tcp_Read_prefix(2) [OF less(2) _ len] True rd by simp
      moreover have "0 < nat (?pos + 1)" "0 < length (crcbuf_read ?c)" using len True by auto
      ultimately have shorter: "length (crcbuf_read c1) < length (crcbuf_read ?c)" by simp
      show ?thesis
      proof (cases "on_line E q t peer (c_str (take (nat ?pos) data)) (set_conn t c1 gs)")
        case (Inl e)
        then show ?thesis using True False rd by (subst GC_on_tcp_receive.simps) (simp add: Let_def)
      next
        case (Inr gs1)
        have "crcbuf_read (gc_conns gs1 t) = crcbuf_read c1" using on_line_buffer [OF less(2) Inr, of t] by simp
        then have ih: "\<exists>r. GC_on_tcp_receive E q t peer gs1 = Some r
            \<and> (\<forall>gs'. r = Inr gs' \<longrightarrow> (raw_ok E \<longrightarrow> gc_inv gs1 \<longrightarrow> gc_inv gs')
              \<and> (\<not> tc_open (gc_conns gs' t) \<or> CHR 0x0A \<notin> set (crcbuf_read (gc_conns gs' t))))"
          using less shorter by simp
        have "raw_ok E \<Longrightarrow> gc_inv gs \<Longrightarrow> gc_inv gs1" using on_line_inv [OF less(2) _ Inr] by simp
        with ih show ?thesis using True False rd Inr by (subst GC_on_tcp_receive.simps) (auto simp: Let_def)
      qed
    qed
  qed
qed

lemma receive_inv:
  "GC_on_tcp_receive E q t peer gs = Some (Inr gs') \<Longrightarrow> boost_ok (env_boost E) \<Longrightarrow> raw_ok E \<Longrightarrow> gc_inv gs \<Longrightarrow> gc_inv gs'"
  using receive_ends_aux [of E q t peer gs] by auto

lemma NotifyMountState_defined: "\<exists>s'. NotifyMountState E st s = Inr s'"
proof (cases "MOUNT_MIN < st \<and> st < MOUNT_MAX")
  case True
  then have "st = 0 \<or> st = 1 \<or> st = 2 \<or> st = 3 \<or> st = 4 \<or> st = 5 \<or> st = 6 \<or> st = 7 \<or> st = 8"
    by (simp add: device_def) presburger
  then have "\<exists>d. desc_at DESC_STATE_MOUNT st = Inr d" by (auto simp: desc_at_def DESC_STATE_MOUNT_def)
  then show ?thesis by (auto simp: NotifyMountState_def Let_def)
qed (auto simp: NotifyMountState_def Let_def)

text \<open>A status line creates the systems of its mounts as far as they do not exist.\<close>

lemma status_turn_new:
  assumes "boost_ok (env_boost E)" and "i < nk_n status" and "i \<le> imax"
    and "nk_gid status \<noteq> []" and "format_d (env_boost E) 3 i \<noteq> []"
    and "\<forall>s \<in> set (gc_obss gs). \<not> same_key (nk_gid status, format_d (env_boost E) 3 i) (ids s)"
  shows "\<exists>gs3. gwac_status_loop E True sp status i imax gs = gwac_status_loop E True sp status (i + 1) imax gs3
    \<and> map ids (gc_obss gs3) = map ids (gc_obss gs) @ [(nk_gid status, format_d (env_boost E) 3 i)]"
proof -
  let ?uid = "format_d (env_boost E) 3 i" let ?j = "length (gc_obss gs)"
  define s where "s = (ObservationSystem_new E (nk_gid status) ?uid)\<lparr>ob_type := 0\<rparr>"
  define gs1 where "gs1 = gs\<lparr>gc_obss := gc_obss gs @ [s]\<rparr>"
  have "find_index (IsMatched (env_boost E) (nk_gid status) ?uid) (gc_obss gs) = None"
    using assms(6) IsMatched_full [OF assms(1,4,5)] by (simp add: find_index_None)
  then have f: "find_obss E True (nk_gid status) ?uid 0 gs = (Some ?j, gs1)"
    using assms(4,5) by (simp add: find_obss_def Obs_Start_def gs1_def s_def ObservationSystem_new_def)
  obtain s1 where c: "CoupleMount sp s = Inr s1" by (simp add: CoupleMount_def s_def Let_def)
  define gs2 where "gs2 = absorb ?j s1 gs1"
  have g2: "on_obss ?j (CoupleMount sp) gs1 = Inr gs2" by (simp add: on_obss_def gs1_def c gs2_def)
  obtain s2 where n: "NotifyMountState (env_for E gs2 None ?j) (nk_state status ! nat i) (gc_obss gs2 ! ?j) = Inr s2"
    using NotifyMountState_defined by blast
  then have g3: "on_obss ?j (NotifyMountState (env_for E gs2 None ?j) (nk_state status ! nat i)) gs2 = Inr (absorb ?j s2 gs2)"
    by (simp add: on_obss_def)
  have "ids s1 = (nk_gid status, ?uid)" using ids_CoupleMount [OF c] by (simp add: s_def ids_def ObservationSystem_new_def)
  moreover have "ids s2 = ids s1" using ids_NotifyMountState [OF n] by (simp add: gs2_def gs1_def obss_frame)
  ultimately have "map ids (gc_obss (absorb ?j s2 gs2)) = map ids (gc_obss gs) @ [(nk_gid status, ?uid)]"
    by (simp add: gs2_def gs1_def obss_frame)
  moreover have "gwac_status_loop E True sp status i imax gs = gwac_status_loop E True sp status (i + 1) imax (absorb ?j s2 gs2)"
    using assms(2,3) by (subst gwac_status_loop.simps) (simp add: f g2 g3)
  ultimately show ?thesis by blast
qed

section \<open>The receive loop of a camera connection\<close>

lemma camera_state_change_cams: "ob_cams (camera_state_change E new old s) = ob_cams s"
  by (simp add: camera_state_change_def Let_def case_prod_unfold plan_ends_def emit_ev_def)

lemma camera_tcp: "map ci_tcp (ob_cams (Obs_process_protocol_camera E t m s)) = map ci_tcp (ob_cams s)"
proof (cases m)
  case (MCamera camera)
  have "map ci_tcp (upd_first P (\<lambda>c. c\<lparr>ci_info := f c\<rparr>) cs) = map ci_tcp cs" for P f cs
    by (induction cs) simp_all
  then show ?thesis
    by (simp add: Obs_process_protocol_camera_def MCamera Let_def camera_state_change_cams)
qed (simp_all add: Obs_process_protocol_camera_def)

lemma obs_receive_steps:
  assumes "Obs_on_tcp_receive E t c s = Some r"
  shows "\<forall>c' s'. r = Inr (c', s') \<longrightarrow> Some t \<in> set (map ci_tcp (ob_cams s)) \<longrightarrow> obs_step\<^sup>*\<^sup>* s s'"
proof (rule Obs_on_tcp_receive.raw_induct [OF _ assms], goal_cases)
  case (1 recur E t c s r)
  let ?pos = "Tcp_Lookup lines_end 0 c"
  show ?case
  proof (cases "0 \<le> ?pos \<and> ?pos + 1 \<le> TCP_PACK_SIZE")
    case False
    show ?thesis
    proof (cases "0 \<le> ?pos")
      case True
      with False have "recur E t (Tcp_Close c) s = Some r" using 1(2) by (simp add: Let_def)
      then show ?thesis by (rule 1(1))
    qed (use 1(2) in \<open>auto simp: Let_def\<close>)
  next
    case True
    obtain n data c1 where rd: "Tcp_Read (env_boost E) (?pos + 1) 0 c = (n, data, c1)" by (metis prod_cases3)
    show ?thesis
    proof (cases "Resolve (env_boost E) (env_raw E) (c_str (take (nat ?pos) data))")
      case (Inl e)
      then show ?thesis using 1 True rd by (auto simp: Let_def)
    next
      case (Inr r')
      show ?thesis
      proof (cases r')
        case None
        then show ?thesis using 1 True rd Inr by (auto simp: Let_def)
      next
        case (Some m)
        let ?s = "Obs_process_protocol_camera E t m s"
        have "recur E t c1 ?s = Some r" using 1(2) True rd Inr Some by (simp add: Let_def)
        from 1(1) [OF this] have "\<forall>c' s'. r = Inr (c', s') \<longrightarrow> Some t \<in> set (map ci_tcp (ob_cams s)) \<longrightarrow> obs_step\<^sup>*\<^sup>* ?s s'"
          by (simp only: camera_tcp)
        moreover have "Some t \<in> set (map ci_tcp (ob_cams s)) \<Longrightarrow> obs_step s ?s"
          by (rule obs_step.camera_message) auto
        ultimately show ?thesis by (blast intro: converse_rtranclp_into_rtranclp)
      qed
    qed
  qed
qed

section \<open>The controller as a transition system\<close>

text \<open>
  What happens to a controller: connections are accepted and closed, bytes arrive, the message
  handlers run, the threads of the systems and of the controller take a turn.
\<close>

inductive gc_step :: "gencontrol \<Rightarrow> gencontrol \<Rightarrow> bool" where
  accepted: "gc_step gs (tcp_accept t peer (set_conn t (TcpClient_new\<lparr>tc_open := True\<rparr>) gs))"
| arrived: "gc_step gs (set_conn t (handle_read B bytes (gc_conns gs t)) gs)"
| posted: "gc_step gs (GC_tcp_receive t ok peer gs)"
| received: "GC_on_tcp_receive E q t peer gs = Some (Inr gs') \<Longrightarrow> boost_ok (env_boost E) \<Longrightarrow> raw_ok E \<Longrightarrow> gc_step gs gs'"
| closed: "gc_step gs (GC_on_tcp_close E t peer gs)"
| camera_lines: "Obs_on_tcp_receive E t (gc_conns gs t) (gc_obss gs ! i) = Some (Inr (c, s')) \<Longrightarrow>
    Some t \<in> set (map ci_tcp (ob_cams (gc_obss gs ! i))) \<Longrightarrow> gc_step gs (set_conn t c (absorb i s' gs))"
| camera_closed: "gc_step gs (absorb i (Obs_on_tcp_close E t peer (gc_obss gs ! i)) gs)"
| plan_turn: "obsplan_turn E i gs = Inr gs' \<Longrightarrow> gc_step gs gs'"
| rewrite_turn: "rewrite_turn timeout i gs = Inr gs' \<Longrightarrow> gc_step gs gs'"
| upload: "gc_step gs (cycle_upload_client E gs)"
| dump: "gc_step gs (cycle_dump_obss E gs)"

definition gc_reachable :: "gencontrol \<Rightarrow> bool" where
  "gc_reachable gs \<longleftrightarrow> gc_step\<^sup>*\<^sup>* GeneralControl_new gs"

lemma absorb_inv: "obs_step\<^sup>*\<^sup>* (gc_obss gs ! i) s \<Longrightarrow> gc_inv gs \<Longrightarrow> gc_inv (absorb i s gs)"
  using absorb_keeps by (simp add: gc_keeps_def)

lemma keys_ok_filter: "keys_ok (map ids xs) \<Longrightarrow> keys_ok (map ids (filter P xs))"
  by (auto simp: keys_ok_def sorted_wrt_map sorted_wrt_filter)

lemma map_step_inv:
  assumes "gc_obss gs' = map f (gc_obss gs)" and "gc_inv gs" and "\<And>s. obs_step s (f s)"
  shows "gc_inv gs'"
proof -
  have "keys gs' = keys gs" using ids_step [OF assms(3)] by (simp add: keys_def assms(1))
  with assms show ?thesis by (auto simp: gc_inv_def intro: sys_ok_step)
qed

lemma gc_inv_frame: "gc_obss gs' = gc_obss gs \<Longrightarrow> gc_inv gs \<Longrightarrow> gc_inv gs'"
  by (simp add: gc_inv_def keys_def)

lemma gc_inv_step: "gc_step gs gs' \<Longrightarrow> gc_inv gs \<Longrightarrow> gc_inv gs'"
proof (induction rule: gc_step.induct)
  case (received E q t peer gs gs')
  then show ?case using receive_inv by blast
next
  case (closed gs E t peer)
  have "gc_obss (GC_on_tcp_close E t peer gs) = gc_obss gs
    \<or> (\<exists>p. gc_obss (GC_on_tcp_close E t peer gs) = map (DecoupleMount E p) (gc_obss gs))
    \<or> (\<exists>p. gc_obss (GC_on_tcp_close E t peer gs) = map (DecoupleFocus E p) (gc_obss gs))"
    by (auto simp: GC_on_tcp_close_def Let_def case_prod_unfold)
  then show ?case
    using closed gc_inv_frame map_step_inv obs_step.decouple_mount obs_step.decouple_focus by metis
next
  case (camera_lines E t gs i c s')
  then show ?case using obs_receive_steps [OF camera_lines(1)] by (simp add: absorb_inv)
next
  case (camera_closed gs i E t peer)
  then show ?case by (intro absorb_inv r_into_rtranclp obs_step_total)
next
  case (plan_turn E i gs gs')
  have "gc_keeps gs gs'"
    using plan_turn(1) unfolding obsplan_turn_def by (rule on_obss_step_keeps) (rule obs_step.plan_turn)
  with plan_turn(2) show ?case by (simp add: gc_keeps_def)
next
  case (rewrite_turn timeout i gs gs')
  have "gc_keeps gs gs'"
    using rewrite_turn(1) unfolding rewrite_turn_def by (rule on_obss_step_keeps) (rule obs_step.rewrite_turn)
  with rewrite_turn(2) show ?case by (simp add: gc_keeps_def)
next
  case (dump gs E)
  then show ?case by (auto simp: cycle_dump_obss_def gc_inv_def keys_def intro: keys_ok_filter)
qed (simp_all add: tcp_accept_def GC_tcp_receive_def cycle_upload_client_def gc_emit_def gc_inv_def keys_def Let_def)

lemma gc_inv_new: "gc_inv GeneralControl_new"
  by (simp add: gc_inv_def GeneralControl_new_def keys_def keys_ok_def)

lemma gc_inv_reachable: "gc_reachable gs \<Longrightarrow> gc_inv gs"
  unfolding gc_reachable_def
  by (induction rule: rtranclp_induct) (auto simp: gc_inv_step gc_inv_new)

end
