(* ===== verification/Control_Properties.thy ===== *)
theory Control_Properties
  imports Control_Reach
begin

text \<open>
  The properties of the controller. For the witnesses, a mount server of group 001 connects and
  reports two mounts, so that the controller has two observation systems.
\<close>

section \<open>A concrete run\<close>

definition demo_status :: string where
  "demo_status = ''g#001status022%2024-03-29%13:07:26%00001%''"

definition demo_heard :: gencontrol where
  "demo_heard =
     (let gs = tcp_accept 7 PEER_MOUNT_GWAC (set_conn 7 (TcpClient_new\<lparr>tc_open := True\<rparr>) GeneralControl_new)
      in set_conn 7 (handle_read boost_ref (Some (demo_status @ lines_end)) (gc_conns gs 7)) gs)"

definition demo_taken :: gencontrol where
  "demo_taken = set_conn 7 (TcpClient_new\<lparr>tc_open := True\<rparr>) demo_heard"

definition demo_two :: gencontrol where
  "demo_two = (case on_line demo_env True 7 PEER_MOUNT_GWAC demo_status demo_taken of Inr gs \<Rightarrow> gs | Inl _ \<Rightarrow> demo_heard)"

lemma demo_ok: "boost_ok (env_boost demo_env)" "raw_ok demo_env"
  using demo_state0 by (simp_all add: demo_env_def boost_ref_ok raw_ok_def)

lemma demo_heard_conn: "gc_conns demo_heard 7 = TcpClient_new\<lparr>tc_open := True, crcbuf_read := demo_status @ lines_end\<rparr>"
proof -
  have "push_all boost_ref [] (demo_status @ lines_end) = [] @ demo_status @ lines_end"
    by (rule push_all_fits [OF boost_ref_ok]) (simp add: demo_status_def lines_end_def CRC_CAPACITY_def TCP_PACK_SIZE_def)
  then show ?thesis
    by (simp add: demo_heard_def Let_def tcp_accept_def handle_read_def TcpClient_new_def)
qed

lemma demo_two_received:
  assumes "on_line demo_env True 7 PEER_MOUNT_GWAC demo_status demo_taken = Inr gs"
  shows "GC_on_tcp_receive demo_env True 7 PEER_MOUNT_GWAC demo_heard = Some (Inr gs)"
proof (rule receive_one_line [OF demo_ok(1)])
  show "tc_open (gc_conns demo_heard 7)" "crcbuf_read (gc_conns demo_heard 7) = demo_status @ lines_end"
    by (simp_all add: demo_heard_conn)
  show "CHR 0x0A \<notin> set demo_status" "CHR 0x00 \<notin> set demo_status" "int (length demo_status) < TCP_PACK_SIZE"
    by (simp_all add: demo_status_def TCP_PACK_SIZE_def)
  show "on_line demo_env True 7 PEER_MOUNT_GWAC demo_status
      (set_conn 7 ((gc_conns demo_heard 7)\<lparr>crcbuf_read := []\<rparr>) demo_heard) = Inr gs"
    using assms by (simp add: demo_heard_conn demo_taken_def TcpClient_new_def)
qed

lemma demo_two_reachable: "gc_reachable demo_two"
proof -
  have r: "gc_reachable a \<Longrightarrow> gc_step a b \<Longrightarrow> gc_reachable b" for a b
    unfolding gc_reachable_def by (rule rtranclp.rtrancl_into_rtrancl)
  have "gc_reachable GeneralControl_new" by (simp add: gc_reachable_def)
  then have h: "gc_reachable demo_heard"
    unfolding demo_heard_def Let_def by (intro r [OF _ gc_step.arrived] r [OF _ gc_step.accepted])
  show ?thesis
    using r [OF h gc_step.received [OF demo_two_received demo_ok]] h
    by (auto simp: demo_two_def split: sum.splits)
qed

lemma demo_resolved: "\<exists>st. NonKV_Resolve boost_ref demo_raw demo_status = Inr (Some (NKStatus st))
   \<and> nk_gid st = ''001'' \<and> nk_n st = 3"
proof -
  have "(case NonKV_Resolve boost_ref demo_raw demo_status of Inr (Some (NKStatus st)) \<Rightarrow>
     nk_gid st = ''001'' \<and> nk_n st = 3 | _ \<Rightarrow> False)"
    by code_simp
  then show ?thesis by (auto split: sum.splits option.splits nonkvmsg.splits)
qed

lemma demo_line_ids:
  assumes "gc_obss gs = []"
  shows "\<exists>gs'. on_line demo_env True 7 PEER_MOUNT_GWAC demo_status gs = Inr gs'
    \<and> map ids (gc_obss gs') = [(''001'', ''001''), (''001'', ''002'')]"
proof -
  obtain st where st: "NonKV_Resolve boost_ref demo_raw demo_status = Inr (Some (NKStatus st))"
    "nk_gid st = ''001''" "nk_n st = 3" using demo_resolved by auto
  have e: "env_boost demo_env = boost_ref" "env_raw demo_env = demo_raw" by (simp_all add: demo_env_def)
  have fmt: "format_d boost_ref 3 1 = ''001''" "format_d boost_ref 3 2 = ''002''" by code_simp+
  let ?sp = "TcpCVec_Find 7 (gc_devices gs)"
  obtain gs1 where 1: "gwac_status_loop demo_env True ?sp st 1 10 gs = gwac_status_loop demo_env True ?sp st 2 10 gs1"
      "map ids (gc_obss gs1) = [(''001'', ''001'')]"
    using status_turn_new [of demo_env 1 st 10 gs ?sp] by (auto simp: e boost_ref_ok st fmt assms)
  from 1(2) have "\<forall>s \<in> set (gc_obss gs1). ids s = (''001'', ''001'')" by auto
  then obtain gs2 where 2: "gwac_status_loop demo_env True ?sp st 2 10 gs1 = gwac_status_loop demo_env True ?sp st 3 10 gs2"
      "map ids (gc_obss gs2) = [(''001'', ''001''), (''001'', ''002'')]"
    using status_turn_new [of demo_env 2 st 10 gs1 ?sp] 1(2)
    by (auto simp: e boost_ref_ok st fmt same_key_def iequals_doc_def)
  have "gwac_status_loop demo_env True ?sp st 3 10 gs2 = Inr gs2" by (subst gwac_status_loop.simps) (simp add: st)
  moreover have "iequals boost_ref ''001'' ''001''" using boost_ref_ok by (simp add: boost_laws)
  ultimately show ?thesis
    using 1(1) 2 by (simp add: on_line_def e st process_protocol_mount_gwac_def Let_def device_def nonkvbase.defs)
qed

lemma demo_two_ids: "map ids (gc_obss demo_two) = [(''001'', ''001''), (''001'', ''002'')]"
proof -
  have "gc_obss demo_taken = []"
    by (simp add: demo_taken_def demo_heard_def Let_def tcp_accept_def GeneralControl_new_def)
  from demo_line_ids [OF this] show ?thesis by (auto simp: demo_two_def)
qed

lemma demo_two_length: "length (gc_obss demo_two) = 2"
  using arg_cong [OF demo_two_ids, of length] by simp

section \<open>Invariants of all systems\<close>

text \<open>
  C21: in every reachable controller a full identification names at most one observation system,
  so a message of a device never reaches two.
\<close>

theorem device_has_one_system:
  assumes "gc_reachable gs" and "boost_ok B" and "gid \<noteq> []" and "uid \<noteq> []"
    and "i < length (gc_obss gs)" and "j < length (gc_obss gs)"
    and "IsMatched B gid uid (gc_obss gs ! i)" and "IsMatched B gid uid (gc_obss gs ! j)"
  shows "i = j"
proof (rule ccontr)
  assume "i \<noteq> j"
  have ks: "sorted_wrt (\<lambda>a b. \<not> same_key a b) (keys gs)"
    using gc_inv_reachable [OF assms(1)] by (simp add: gc_inv_def keys_ok_def)
  have m: "same_key (gid, uid) (keys gs ! i)" "same_key (gid, uid) (keys gs ! j)"
    using assms IsMatched_full [OF assms(2,3,4)] by (simp_all add: keys_def)
  then have "same_key (keys gs ! i) (keys gs ! j)" "same_key (keys gs ! j) (keys gs ! i)"
    by (auto simp: same_key_def iequals_doc_def)
  then show False
    using ks \<open>i \<noteq> j\<close> assms(5,6) by (auto simp: sorted_wrt_iff_nth_less keys_def neq_iff)
qed

theorem device_has_one_system_witness:
  "IsMatched boost_ref ''001'' ''002'' (gc_obss demo_two ! 1) \<and> \<not> IsMatched boost_ref ''001'' ''002'' (gc_obss demo_two ! 0)"
proof -
  have "ids (gc_obss demo_two ! 1) = (''001'', ''002'')"
    using demo_two_ids demo_two_length by (metis One_nat_def lessI nth_Cons_0 nth_Cons_Suc nth_map one_less_numeral_iff semiring_norm(76))
  then have m: "IsMatched boost_ref ''001'' ''002'' (gc_obss demo_two ! 1)"
    using IsMatched_full [OF boost_ref_ok, of "''001''" "''002''"] by (simp add: same_key_def)
  with device_has_one_system [OF demo_two_reachable boost_ref_ok, of "''001''" "''002''" 0 1] demo_two_length
  show ?thesis by auto
qed



section \<open>The receive loop\<close>

text \<open>
  C23: the receive loop of the controller always ends, whatever bytes a peer has sent. Unless an
  exception leaves it, the connection is then closed or no complete line is left in its buffer.
\<close>

theorem controller_receive_ends:
  assumes "boost_ok (env_boost E)"
  shows "\<exists>r. GC_on_tcp_receive E q t peer gs = Some r
    \<and> (\<forall>gs'. r = Inr gs' \<longrightarrow>
         \<not> tc_open (gc_conns gs' t) \<or> lines_of (crcbuf_read (gc_conns gs' t)) = [])"
proof -
  obtain r where r: "GC_on_tcp_receive E q t peer gs = Some r"
    "\<forall>gs'. r = Inr gs' \<longrightarrow> \<not> tc_open (gc_conns gs' t) \<or> CHR 0x0A \<notin> set (crcbuf_read (gc_conns gs' t))"
    using receive_ends_aux [OF assms, of q t peer gs] by blast
  have "lines_of b = []" if "CHR 0x0A \<notin> set b" for b using that by (subst lines_of.simps) simp
  with r show ?thesis by blast
qed

theorem controller_receive_ends_witness: "\<exists>r. GC_on_tcp_receive demo_env True 7 PEER_MOUNT_GWAC demo_heard = Some r"
  using controller_receive_ends [OF demo_ok(1)] by blast

section \<open>Routing\<close>

lemma client_loop_other:
  assumes "j < length (gc_obss gs)" and "\<not> IsMatched (env_boost E) gid uid (gc_obss gs ! j)"
  shows "client_loop E k gid uid is m gs = Inr gs' \<Longrightarrow> gc_obss gs' ! j = gc_obss gs ! j \<and> length (gc_obss gs') = length (gc_obss gs)"
  using assms
proof (induction E k gid uid "is" m gs rule: client_loop.induct)
  case (1 E k gid uid m gs)
  then show ?case by simp
next
  case (2 E k gid uid i "is" m gs)
  show ?case
  proof (cases "IsMatched (env_boost E) gid uid (gc_obss gs ! i)")
    case False
    then show ?thesis using 2 by (simp add: Let_def)
  next
    case True
    then have ij: "i \<noteq> j" using 2(5) by auto
    from True obtain m' s' reply stop where op: "client_op (env_for E gs (Some k) i) k m (gc_obss gs ! i) = Inr (m', s', reply, stop)"
      using 2(3) by (auto simp: Let_def bindR_Inr_iff)
    define gs2 where "gs2 = (case reply of None \<Rightarrow> absorb i s' gs
        | Some msg \<Rightarrow> gc_emit (TcpCVec_Write msg (gc_clients (absorb i s' gs))) (absorb i s' gs))"
    have o: "gc_obss gs2 = (gc_obss gs)[i := s'\<lparr>ob_out := []\<rparr>]" by (simp add: gs2_def split: option.splits)
    show ?thesis
    proof (cases stop)
      case True
      then show ?thesis using 2(3) op o ij \<open>IsMatched _ _ _ _\<close> by (simp add: Let_def gs2_def)
    next
      case False
      then have "client_loop E k gid uid is m' gs2 = Inr gs'"
        using 2(3) op \<open>IsMatched _ _ _ _\<close> by (simp add: Let_def gs2_def)
      moreover have "client_loop E k gid uid is m' gs2 = Inr gs' \<Longrightarrow>
          gc_obss gs' ! j = gc_obss gs2 ! j \<and> length (gc_obss gs') = length (gc_obss gs2)"
        by (rule 2(2) [OF refl _ op refl refl refl refl _ , folded gs2_def])
           (use True False ij o 2(4,5) in \<open>simp_all add: gs2_def\<close>)
      ultimately show ?thesis using o ij by simp
    qed
  qed
qed

text \<open>
  C24: a client message touches only the systems it is addressed to: every other system is left
  exactly as it was, and none is added or removed.
\<close>

theorem client_message_addressed:
  assumes "process_protocol_client E m gs = Inr gs'" and "j < length (gc_obss gs)"
    and "\<not> IsMatched (env_boost E) (kv_gid (msg_base m)) (kv_uid (msg_base m)) (gc_obss gs ! j)"
  shows "gc_obss gs' ! j = gc_obss gs ! j \<and> length (gc_obss gs') = length (gc_obss gs)"
proof -
  let ?gs = "gs\<lparr>gc_next := gc_next gs + 1\<rparr>"
  have o: "gc_obss ?gs = gc_obss gs" by simp
  show ?thesis
    by (rule client_loop_other [where gs = ?gs, unfolded o, OF assms(2,3) assms(1) [unfolded process_protocol_client_def]])
qed

definition demo_idle :: gencontrol where
  "demo_idle = GeneralControl_new\<lparr>gc_obss := [demo_new, demo_new\<lparr>ob_uid := ''003''\<rparr>]\<rparr>"

definition demo_abort :: kvmsg where
  "demo_abort = MAbort (KVAbort_new\<lparr>kv_gid := ''001'', kv_uid := ''003''\<rparr>)"

theorem client_message_addressed_witness:
  "\<exists>gs'. process_protocol_client demo_env demo_abort demo_idle = Inr gs' \<and> gc_obss gs' ! 0 = gc_obss demo_idle ! 0"
proof -
  have e: "env_boost demo_env = boost_ref" by (simp add: demo_env_def)
  have m: "IsMatched boost_ref ''001'' ''003'' s \<longleftrightarrow> same_key (''001'', ''003'') (ids s)" for s
    using IsMatched_full [OF boost_ref_ok, of "''001''" "''003''"] by simp
  have to: "kv_gid (msg_base demo_abort) = ''001''" "kv_uid (msg_base demo_abort) = ''003''"
    by (simp_all add: demo_abort_def)
  have op: "client_op (env_for demo_env gs h i) k demo_abort s = Inr (demo_abort, Abort (env_for demo_env gs h i) s, None, False)" for gs h i k s
    using boost_ref_ok
    by (simp add: client_op_def demo_abort_def env_for_def e boost_laws KVAbort_new_def KVBase_new_def KVTYPE_ABORT_def Let_def)
  have no: "\<not> IsMatched boost_ref ''001'' ''003'' (gc_obss demo_idle ! 0)"
    and yes: "IsMatched boost_ref ''001'' ''003'' (gc_obss demo_idle ! 1)"
    by (simp_all add: m demo_idle_def demo_new_def ObservationSystem_new_def ids_def same_key_def iequals_doc_def)
  have "\<exists>gs'. process_protocol_client demo_env demo_abort demo_idle = Inr gs'"
    using no yes by (simp add: process_protocol_client_def to e op Let_def demo_idle_def)
  then obtain gs' where r: "process_protocol_client demo_env demo_abort demo_idle = Inr gs'" by blast
  show ?thesis
    using client_message_addressed [OF r, of 0] r no by (auto simp: to e demo_idle_def)
qed

section \<open>Shared plans\<close>

text \<open>
  C25: a plan that two observation systems hold, as a plan sent to a whole group is, never starts: a turn
  of the plan thread of either system changes nothing.
\<close>

theorem shared_plan_never_starts:
  assumes "i < length (gc_obss gs)" and "j < length (gc_obss gs)" and "i \<noteq> j"
    and "ob_plan (gc_obss gs ! i) = Some (k, p)" and "ob_plan (gc_obss gs ! j) = Some (k, p')"
  shows "\<exists>gs'. obsplan_turn E i gs = Inr gs'
    \<and> gc_obss gs' = (gc_obss gs)[i := (gc_obss gs ! i)\<lparr>ob_out := []\<rparr>]"
proof -
  have "holds_plan k (gc_obss gs ! j)" using assms(5) by (simp add: holds_plan_def)
  moreover have "gc_obss gs ! j \<in> set (take i (gc_obss gs)) \<union> set (drop (Suc i) (gc_obss gs))"
  proof (cases "j < i")
    case True
    then show ?thesis using assms(1) by (auto simp: in_set_conv_nth intro!: exI [of _ j])
  next
    case False
    then show ?thesis using assms(2,3) by (auto simp: in_set_conv_nth intro!: exI [of _ "j - Suc i"])
  qed
  ultimately have "other_owners gs None i k \<noteq> 0"
    by (auto simp: other_owners_def count_if_0_iff)
  then have "thread_obsplan (env_for E gs None i) (gc_obss gs ! i) = Inr (gc_obss gs ! i)"
    using assms(4) by (simp add: thread_obsplan_def plan_unique_def env_for_def)
  then show ?thesis by (simp add: obsplan_turn_def on_obss_def)
qed

definition demo_pair :: gencontrol where
  "demo_pair = GeneralControl_new\<lparr>gc_obss := [demo_cataloged, demo_cataloged\<lparr>ob_uid := ''003''\<rparr>]\<rparr>"

theorem shared_plan_never_starts_witness:
  "\<exists>gs'. obsplan_turn demo_env 0 demo_pair = Inr gs' \<and> pl_state (ob_plan_state (gc_obss gs' ! 0)) = OBSPLAN_CATALOGED"
proof -
  obtain k p where p: "ob_plan demo_cataloged = Some (k, p)" "pl_state (ob_plan_state demo_cataloged) = OBSPLAN_CATALOGED"
    using demo_cataloged_state by (metis prod.collapse)
  then show ?thesis
    using shared_plan_never_starts [of 0 demo_pair 1 k p p demo_env] by (auto simp: demo_pair_def)
qed

section \<open>Removal of systems\<close>



section \<open>Two cameras on one connection\<close>

text \<open>
  A camera line from a connection that is no longer in the device pool, as it is after its first camera line,
  brings the server down when it names a camera the system does not have connected.
\<close>

theorem second_camera_crash:
  assumes "find_obss E q (kv_gid p) (kv_uid p) (if peer = PEER_CAMERA_GWAC then 0 else 1) gs = (Some j, gs1)"
    and "t \<notin> set (gc_devices gs1)"
    and "\<forall>c \<in> set (ob_cams (gc_obss gs1 ! j)). iequals (env_boost E) (kv_cid (ci_info c)) (kv_cid p) \<longrightarrow> ci_tcp c = None"
  shows "process_protocol_camera E q t (MCamera p) peer gs = Inl NullDeref"
proof -
  have "fst (TcpCVec_Pop t (gc_devices gs1)) = None"
    using assms(2) by (simp add: TcpCVec_Pop_def find_None_iff)
  moreover have "CoupleCamera E' None (kv_cid p) (gc_obss gs1 ! j) = Inl NullDeref" if "env_boost E' = env_boost E" for E'
  proof (cases "find (cid_is E' (kv_cid p)) (ob_cams (gc_obss gs1 ! j))")
    case None
    then show ?thesis by (simp add: CoupleCamera_def)
  next
    case (Some c)
    then have "ci_tcp c = None" using assms(3) find_Some_mem [OF Some] that by (auto simp: cid_is_def)
    with Some show ?thesis by (simp add: CoupleCamera_def)
  qed
  ultimately show ?thesis
    using assms(1) by (simp add: process_protocol_camera_def Let_def case_prod_unfold on_obss_def env_for_def)
qed

definition demo_second :: kvcamera where
  "demo_second = (demo_camera CAMCTL_IDLE)\<lparr>kv_cid := ''022''\<rparr>"

theorem second_camera_crash_witness:
  "process_protocol_camera demo_env True 7 (MCamera demo_second) PEER_CAMERA_GWAC
     (GeneralControl_new\<lparr>gc_obss := [demo_cam]\<rparr>) = Inl NullDeref"
proof (rule second_camera_crash)
  let ?gs = "GeneralControl_new\<lparr>gc_obss := [demo_cam]\<rparr>"
  have "IsMatched (env_boost demo_env) (kv_gid demo_second) (kv_uid demo_second) demo_cam" by code_simp
  then show "find_obss demo_env True (kv_gid demo_second) (kv_uid demo_second)
      (if PEER_CAMERA_GWAC = PEER_CAMERA_GWAC then 0 else 1) ?gs = (Some 0, ?gs)"
    by (simp add: find_obss_def)
  show "7 \<notin> set (gc_devices ?gs)" by (simp add: GeneralControl_new_def)
  have "list_all (\<lambda>c. iequals (env_boost demo_env) (kv_cid (ci_info c)) (kv_cid demo_second) \<longrightarrow> ci_tcp c = None) (ob_cams demo_cam)"
    by code_simp
  then show "\<forall>c \<in> set (ob_cams (gc_obss ?gs ! 0)).
      iequals (env_boost demo_env) (kv_cid (ci_info c)) (kv_cid demo_second) \<longrightarrow> ci_tcp c = None"
    by (simp add: list_all_iff)
qed

end
