(* ===== verification/Message_Loop.thy ===== *)
theory Message_Loop
  imports Message_Queue
begin

text \<open>
  The message thread as a whole (\<open>MessageQueue.cpp\<close>): starting, the loop, stopping. The queue is part of
  the state the handlers work on, since a handler may post messages itself; \<open>message_state\<close> is the contract
  of its access functions. The capacity of the queue, at which \<open>send\<close> would wait, is left out.
\<close>

section \<open>The loop\<close>

text \<open>
  \<open>None\<close> is a loop that never comes to rest. The flag is whether the loop waits for a further message; it is
  false after \<open>MSG_QUIT\<close>.
\<close>

partial_function (option) message_loop ::
  "boost \<Rightarrow> 's functable \<Rightarrow> ('s \<Rightarrow> mqmsg list) \<Rightarrow> (mqmsg list \<Rightarrow> 's \<Rightarrow> 's) \<Rightarrow> 's \<Rightarrow> (crash + bool \<times> 's) option" where
  "message_loop B fs queue_of set_queue s =
     (if queue_of s = [] then Some (Inr (True, s))
      else
        (case mq_turn B fs queue_of set_queue s of
           None \<Rightarrow> None
         | Some (Inl e) \<Rightarrow> Some (Inl e)
         | Some (Inr (go, s')) \<Rightarrow> if go then message_loop B fs queue_of set_queue s' else Some (Inr (False, s'))))"

section \<open>Life cycle\<close>

record 's messagequeue =
  mqName :: string
  mqPtr :: bool          \<comment> \<open>the queue exists\<close>
  funcs :: "'s functable"
  thrdMsgLoop :: bool    \<comment> \<open>the thread runs\<close>

definition MessageQueue_new :: "'s messagequeue" where
  "MessageQueue_new = \<lparr>mqName = [], mqPtr = False, funcs = funcs_new, thrdMsgLoop = False\<rparr>"

text \<open>\<open>created\<close>: whether the queue can be created; \<open>register\<close> is the virtual \<open>register_messages\<close>.\<close>

definition MQ_Start ::
  "bool \<Rightarrow> ('s functable \<Rightarrow> 's functable) \<Rightarrow> (mqmsg list \<Rightarrow> 's \<Rightarrow> 's) \<Rightarrow> string \<Rightarrow> 's messagequeue \<Rightarrow> 's
    \<Rightarrow> bool \<times> 's messagequeue \<times> 's" where
  "MQ_Start created register set_queue name Q s =
     (if \<not> thrdMsgLoop Q then
        let Q = Q\<lparr>mqName := name\<rparr>
        in if created then (True, Q\<lparr>mqPtr := True, funcs := register (funcs Q), thrdMsgLoop := True\<rparr>, set_queue [] s)
           else (False, Q, s)
      else (True, Q, s))"

text \<open>\<open>join\<close> waits for the loop, which has \<open>MSG_QUIT\<close> in its queue then.\<close>

definition MQ_Stop ::
  "boost \<Rightarrow> ('s \<Rightarrow> mqmsg list) \<Rightarrow> (mqmsg list \<Rightarrow> 's \<Rightarrow> 's) \<Rightarrow> 's messagequeue \<Rightarrow> 's
    \<Rightarrow> (crash + 's messagequeue \<times> 's) option" where
  "MQ_Stop B queue_of set_queue Q s =
     (if thrdMsgLoop Q then
        map_option (map_sum id (\<lambda>(go, s'). (Q\<lparr>thrdMsgLoop := False\<rparr>, s')))
          (message_loop B (funcs Q) queue_of set_queue
             (case SendMessage MSG_QUIT 0 0 (if mqPtr Q then Some (queue_of s) else None) of
                None \<Rightarrow> s | Some q \<Rightarrow> set_queue q s))
      else Some (Inr (Q, s)))"

section \<open>The order of handling\<close>

locale message_state =
  fixes queue_of :: "'s \<Rightarrow> mqmsg list" and set_queue :: "mqmsg list \<Rightarrow> 's \<Rightarrow> 's"
  assumes of_set: "queue_of (set_queue q s) = q"
    and set_set: "set_queue q (set_queue q' s) = set_queue q s"
    and set_of: "set_queue (queue_of s) s = s"
begin

text \<open>
  Handlers that use the queue only to post: what they post comes behind the messages that wait.
\<close>

definition posting :: "'s functable \<Rightarrow> bool" where
  "posting fs \<longleftrightarrow> (\<forall>m q s.
     mq_dispatch fs m (set_queue q s) = map_option (map_sum id (\<lambda>s'. set_queue (q @ queue_of s') s')) (mq_dispatch fs m (set_queue [] s))
     \<and> (\<forall>s'. mq_dispatch fs m (set_queue [] s) = Some (Inr s') \<longrightarrow> (\<forall>x \<in> set (queue_of s'). fst x = 1)))"

text \<open>The messages at the front are handled first, in their order, whatever is posted meanwhile.\<close>

lemma loop_prefix:
  assumes "boost_ok B" and "posting fs" and "\<forall>m \<in> set ms. fst m = 1 \<and> fst (snd m) \<noteq> MSG_QUIT" and "\<forall>m \<in> set q. fst m = 1"
  shows "message_loop B fs queue_of set_queue (set_queue (ms @ q) s)
    = andthen (foldO (mq_dispatch fs) ms (set_queue q s)) (message_loop B fs queue_of set_queue)"
  using assms(3,4)
proof (induction ms arbitrary: q s)
  case (Cons m ms)
  have "\<forall>x \<in> set (m # ms @ q). fst x = 1" using Cons.prems by auto
  then have rcv: "mq_receive B (m # ms @ q) = (m, ms @ q)" by (rule posts_in_order [OF assms(1)])
  have d: "mq_dispatch fs m (set_queue r s) = map_option (map_sum id (\<lambda>s'. set_queue (r @ queue_of s') s')) (mq_dispatch fs m (set_queue [] s))" for r
    using assms(2) unfolding posting_def by blast
  have one: "mq_dispatch fs m (set_queue [] s) = Some (Inr s') \<Longrightarrow> \<forall>x \<in> set (queue_of s'). fst x = 1" for s'
    using assms(2) unfolding posting_def by blast
  have IH: "\<forall>x \<in> set r. fst x = 1 \<Longrightarrow> message_loop B fs queue_of set_queue (set_queue (ms @ q @ r) s')
      = andthen (foldO (mq_dispatch fs) ms (set_queue (q @ r) s')) (message_loop B fs queue_of set_queue)" for r s'
    using Cons.IH [of "q @ r" s'] Cons.prems by auto
  have turn: "mq_turn B fs queue_of set_queue (set_queue (m # ms @ q) s)
      = andthen (mq_dispatch fs m (set_queue (ms @ q) s)) (\<lambda>s'. Some (Inr (True, s')))"
    using Cons.prems by (simp add: mq_turn_def of_set set_set rcv)
  show ?case
    using one IH
    by (subst message_loop.simps, cases rule: andthen_cases [of "mq_dispatch fs m (set_queue [] s)"])
       (simp_all add: turn of_set d [of "ms @ q"] d [of q])
qed simp

text \<open>A handler that neither reads nor changes the queue.\<close>

definition quiet :: "'s handler \<Rightarrow> bool" where
  "quiet h \<longleftrightarrow> (\<forall>p1 p2 q s. h p1 p2 (set_queue q s) = map_option (map_sum id (set_queue q)) (h p1 p2 s))"

lemma quiet_fold:
  assumes "\<forall>h \<in> set hs. quiet h"
  shows "foldO (\<lambda>h. h p1 p2) hs (set_queue q s) = map_option (map_sum id (set_queue q)) (foldO (\<lambda>h. h p1 p2) hs s)"
  using assms
proof (induction hs arbitrary: s)
  case (Cons h hs)
  then have "h p1 p2 (set_queue q s) = map_option (map_sum id (set_queue q)) (h p1 p2 s)" by (simp add: quiet_def)
  then show ?case using Cons by (cases rule: andthen_cases [of "h p1 p2 s"]) simp_all
qed simp

lemma quiet_dispatch:
  assumes "\<forall>pos. \<forall>h \<in> set (fs pos). quiet h"
  shows "mq_dispatch fs m (set_queue q s) = map_option (map_sum id (set_queue q)) (mq_dispatch fs m s)"
  using quiet_fold assms by (auto simp: mq_dispatch_def split: prod.splits)

lemma quiet_posting:
  assumes "\<forall>pos. \<forall>h \<in> set (fs pos). quiet h"
  shows "posting fs"
  unfolding posting_def
proof (intro allI conjI impI)
  fix m q s
  show "mq_dispatch fs m (set_queue q s) = map_option (map_sum id (\<lambda>s'. set_queue (q @ queue_of s') s')) (mq_dispatch fs m (set_queue [] s))"
    unfolding quiet_dispatch [OF assms, of m _ s]
    by (cases rule: andthen_cases [of "mq_dispatch fs m s"]) (simp_all add: of_set set_set)
  show "\<forall>x \<in> set (queue_of s'). fst x = 1" if "mq_dispatch fs m (set_queue [] s) = Some (Inr s')" for s'
    using that unfolding quiet_dispatch [OF assms, of m _ s]
    by (cases rule: andthen_cases [of "mq_dispatch fs m s"]) (auto simp: of_set)
qed

text \<open>The loop over posted messages is the fold of their handlers, in the order of posting.\<close>

lemma loop_in_order:
  assumes "boost_ok B" and "\<forall>pos. \<forall>h \<in> set (fs pos). quiet h" and "\<forall>m \<in> set ms. fst m = 1 \<and> fst (snd m) \<noteq> MSG_QUIT"
  shows "message_loop B fs queue_of set_queue (set_queue ms s)
    = andthen (foldO (mq_dispatch fs) ms (set_queue [] s)) (\<lambda>s'. Some (Inr (True, s')))"
proof -
  have "queue_of s' = []" if "foldO (mq_dispatch fs) ms (set_queue [] s) = Some (Inr s')" for s'
  proof (rule foldO_invariant [where P = "\<lambda>s. queue_of s = []", OF _ _ that])
    fix m s s' assume "queue_of s = []" "mq_dispatch fs m s = Some (Inr s')"
    then show "queue_of s' = []"
      using quiet_dispatch [OF assms(2), of m "[]" s] set_of [of s] of_set [of "[]" s'] by simp
  qed (simp add: of_set)
  then show ?thesis
    using loop_prefix [OF assms(1) quiet_posting [OF assms(2)] assms(3), of "[]" s]
    by (cases rule: andthen_cases [of "foldO (mq_dispatch fs) ms (set_queue [] s)"])
       (simp_all add: message_loop.simps [of B fs queue_of])
qed

text \<open>\<open>Stop\<close> ends the loop at its next turn; the messages posted before are left unhandled.\<close>

lemma stop_prompt:
  assumes "boost_ok B" and "thrdMsgLoop Q" and "mqPtr Q" and "\<forall>m \<in> set (queue_of s). fst m < 10"
  shows "MQ_Stop B queue_of set_queue Q s = Some (Inr (Q\<lparr>thrdMsgLoop := False\<rparr>, s))"
proof -
  let ?s = "set_queue (queue_of s @ [(10, MSG_QUIT, 0, 0)]) s"
  have "mq_receive B (queue_of s @ [(10, MSG_QUIT, 0, 0)]) = ((10, MSG_QUIT, 0, 0), queue_of s)"
    using quit_next [OF assms(1,4)] by (simp add: SendMessage_def)
  then have "mq_turn B (funcs Q) queue_of set_queue ?s = Some (Inr (False, s))"
    by (simp add: mq_turn_def of_set set_set set_of dispatch_quit)
  then have "message_loop B (funcs Q) queue_of set_queue ?s = Some (Inr (False, s))"
    by (subst message_loop.simps) (simp add: of_set)
  then show ?thesis using assms(2,3) by (simp add: MQ_Stop_def SendMessage_def)
qed

end

end
