(* ===== verification/Obs_Loop.thy ===== *)
theory Obs_Loop
  imports Message_Loop Obs_Devices
begin




section \<open>Handlers\<close>












section \<open>The thread at work\<close>




























end
