(* ===== verification/Cpp_Math.thy ===== *)
theory Cpp_Math
  imports Complex_Main Cpp_Double
begin

text \<open>
  The part of \<open><math.h>\<close> the libraries \<open>AMath\<close> and \<open>ATimeSpace\<close> use. Division, square root,
  \<open>floor\<close> and \<open>fmod\<close> are determined by IEEE 754 and are defined on \<open>double\<close>. The
  transcendental functions are not: their last digits depend on the library. They are fields of
  the record \<open>libm\<close>, an argument of every definition that uses them. The numerical routines are
  written over any type with the arithmetic operations: at \<open>double\<close> they are the code, at an
  ordered field they are what the code computes when no operation rounds.
\<close>

section \<open>Division, square root, floor, fmod\<close>

fun ddiv :: "double \<Rightarrow> double \<Rightarrow> double" where
  "ddiv (Fin s m e) (Fin s' m' e') =
     (if m' = 0 then (if m = 0 then NaN else Inf (s \<noteq> s'))
      else if m = 0 then Fin (s \<noteq> s') 0 0
      else if e' \<le> e then double_of_frac (s \<noteq> s') (m * 2 ^ nat (e - e')) m'
      else double_of_frac (s \<noteq> s') m (m' * 2 ^ nat (e' - e)))"
| "ddiv (Inf s) (Fin s' m e) = Inf (s \<noteq> s')"
| "ddiv (Fin s m e) (Inf s') = Fin (s \<noteq> s') 0 0"
| "ddiv _ _ = NaN"

text \<open>Integer square root, one binary digit of the result per step.\<close>

function isqrt :: "int \<Rightarrow> int" where
  "isqrt n = (if n \<le> 0 then 0 else let r = 2 * isqrt (n div 4) in if (r + 1) * (r + 1) \<le> n then r + 1 else r)"
  by pat_completeness auto
termination
  by (relation "measure nat") auto

declare isqrt.simps [simp del]

fun dsqrt :: "double \<Rightarrow> double" where
  "dsqrt (Fin s m e) =
     (if m = 0 then Fin s 0 0
      else if s then NaN
      else let n = m * 2 ^ (if even e then 120 else 121);
               e' = (if even e then e - 120 else e - 121);
               q = isqrt n
           in mk_double False (2 * q + (if q * q = n then 0 else 1)) (e' div 2 - 1))"
| "dsqrt (Inf s) = (if s then NaN else Inf False)"
| "dsqrt NaN = NaN"

fun dfloor :: "double \<Rightarrow> double" where
  "dfloor (Fin s m e) =
     (if 0 \<le> e \<or> m = 0 then Fin s m e
      else let q = 2 ^ nat (- e); t = (if s then - ((m + q - 1) div q) else m div q) in double_of_int t)"
| "dfloor d = d"

text \<open>The remainder has the sign of the dividend; it is exact.\<close>

fun dfmod :: "double \<Rightarrow> double \<Rightarrow> double" where
  "dfmod (Fin s m e) (Fin s' m' e') =
     (if m' = 0 then NaN
      else let k = min e e'; r = (m * 2 ^ nat (e - k)) mod (m' * 2 ^ nat (e' - k))
           in if r = 0 then Fin s 0 0 else mk_double s r k)"
| "dfmod (Fin s m e) (Inf s') = Fin s m e"
| "dfmod _ _ = NaN"

definition dle :: "double \<Rightarrow> double \<Rightarrow> bool" where
  "dle a b \<longleftrightarrow> dlt a b \<or> deq a b"

section \<open>The arithmetic classes\<close>

text \<open>Comparisons are those of IEEE 754, so \<open>\<le>\<close> is no order: it fails on \<open>NaN\<close>.\<close>

instantiation double :: "{zero, one, plus, minus, uminus, times, inverse, abs, ord}"
begin

definition zero_double :: double where "0 = dzero"
definition one_double :: double where "1 = double_of_int 1"
definition plus_double :: "double \<Rightarrow> double \<Rightarrow> double" where "plus_double = dadd"
definition minus_double :: "double \<Rightarrow> double \<Rightarrow> double" where "minus_double = dsub"
definition uminus_double :: "double \<Rightarrow> double" where "uminus_double = dneg"
definition times_double :: "double \<Rightarrow> double \<Rightarrow> double" where "times_double = dmul"
definition divide_double :: "double \<Rightarrow> double \<Rightarrow> double" where "divide_double = ddiv"
definition inverse_double :: "double \<Rightarrow> double" where "inverse_double = ddiv (double_of_int 1)"
definition abs_double :: "double \<Rightarrow> double" where "abs_double = dabs"
definition less_eq_double :: "double \<Rightarrow> double \<Rightarrow> bool" where "less_eq_double = dle"
definition less_double :: "double \<Rightarrow> double \<Rightarrow> bool" where "less_double = dlt"

instance ..

end

lemmas double_classes = zero_double_def one_double_def plus_double_def minus_double_def
  uminus_double_def times_double_def divide_double_def inverse_double_def abs_double_def
  less_eq_double_def less_double_def

text \<open>The operator \<open>==\<close> on floating-point numbers: \<open>0.0 == -0.0\<close>, and \<open>NaN\<close> equals nothing.\<close>

definition feq :: "'a::ord \<Rightarrow> 'a \<Rightarrow> bool" where
  "feq a b \<longleftrightarrow> a \<le> b \<and> b \<le> a"

lemma feq_iff [simp]: "feq (a::'a::order) b \<longleftrightarrow> a = b"
  by (auto simp: feq_def)

section \<open>The library functions\<close>

text \<open>
  \<open>lib_dec n k\<close> is the literal \<open>n * 10 ^ k\<close>, \<open>lib_int\<close> the conversion from \<open>int\<close> and
  \<open>lib_trunc\<close> the cast to \<open>int\<close>.
\<close>

record 'a libm =
  lib_dec :: "int \<Rightarrow> int \<Rightarrow> 'a"
  lib_int :: "int \<Rightarrow> 'a"
  lib_trunc :: "'a \<Rightarrow> int"
  lib_floor :: "'a \<Rightarrow> 'a"
  lib_fmod :: "'a \<Rightarrow> 'a \<Rightarrow> 'a"
  lib_sqrt :: "'a \<Rightarrow> 'a"
  lib_sin :: "'a \<Rightarrow> 'a"
  lib_cos :: "'a \<Rightarrow> 'a"
  lib_tan :: "'a \<Rightarrow> 'a"
  lib_asin :: "'a \<Rightarrow> 'a"
  lib_acos :: "'a \<Rightarrow> 'a"
  lib_atan :: "'a \<Rightarrow> 'a"
  lib_atan2 :: "'a \<Rightarrow> 'a \<Rightarrow> 'a"
  lib_exp :: "'a \<Rightarrow> 'a"
  lib_pow :: "'a \<Rightarrow> 'a \<Rightarrow> 'a"
  lib_log10 :: "'a \<Rightarrow> 'a"

text \<open>A library for \<open>double\<close>: the functions IEEE 754 determines are fixed, the others are free.\<close>

definition libm_double :: "double libm \<Rightarrow> double libm" where
  "libm_double T = \<lparr>lib_dec = (\<lambda>n k. double_of_dec (n < 0) \<bar>n\<bar> k), lib_int = double_of_int,
     lib_trunc = int_cast, lib_floor = dfloor, lib_fmod = dfmod, lib_sqrt = dsqrt,
     lib_sin = lib_sin T, lib_cos = lib_cos T, lib_tan = lib_tan T, lib_asin = lib_asin T,
     lib_acos = lib_acos T, lib_atan = lib_atan T, lib_atan2 = lib_atan2 T, lib_exp = lib_exp T,
     lib_pow = lib_pow T, lib_log10 = lib_log10 T\<rparr>"

lemma libm_double_simps [simp]:
  "lib_dec (libm_double T) = (\<lambda>n k. double_of_dec (n < 0) \<bar>n\<bar> k)" "lib_int (libm_double T) = double_of_int"
  "lib_trunc (libm_double T) = int_cast" "lib_floor (libm_double T) = dfloor"
  "lib_fmod (libm_double T) = dfmod" "lib_sqrt (libm_double T) = dsqrt"
  "lib_sin (libm_double T) = lib_sin T" "lib_cos (libm_double T) = lib_cos T" "lib_tan (libm_double T) = lib_tan T"
  "lib_asin (libm_double T) = lib_asin T" "lib_acos (libm_double T) = lib_acos T" "lib_atan (libm_double T) = lib_atan T"
  "lib_atan2 (libm_double T) = lib_atan2 T" "lib_exp (libm_double T) = lib_exp T"
  "lib_pow (libm_double T) = lib_pow T" "lib_log10 (libm_double T) = lib_log10 T"
  by (simp_all add: libm_double_def)

text \<open>Without rounding, over the reals.\<close>

definition libm_real :: "real libm" where
  "libm_real = \<lparr>lib_dec = (\<lambda>n k. of_int n * 10 powi k), lib_int = of_int,
     lib_trunc = (\<lambda>x. if 0 \<le> x then \<lfloor>x\<rfloor> else \<lceil>x\<rceil>), lib_floor = (\<lambda>x. of_int \<lfloor>x\<rfloor>),
     lib_fmod = (\<lambda>x y. x - of_int (if 0 \<le> x / y then \<lfloor>x / y\<rfloor> else \<lceil>x / y\<rceil>) * y),
     lib_sqrt = sqrt, lib_sin = sin, lib_cos = cos, lib_tan = tan, lib_asin = arcsin,
     lib_acos = arccos, lib_atan = arctan, lib_atan2 = (\<lambda>y x. Arg (Complex x y)),
     lib_exp = exp, lib_pow = (powr), lib_log10 = log 10\<rparr>"

text \<open>What is used of the literals and conversions when nothing rounds.\<close>

definition exact_lib :: "'a::linordered_field libm \<Rightarrow> bool" where
  "exact_lib M \<longleftrightarrow> (\<forall>n k. lib_dec M n k = of_int n * 10 powi k) \<and> (\<forall>n. lib_int M n = of_int n)"

lemma exact_lib_simps [simp]:
  "exact_lib M \<Longrightarrow> lib_dec M n k = of_int n * 10 powi k" "exact_lib M \<Longrightarrow> lib_int M n = of_int n"
  by (simp_all add: exact_lib_def)

lemma exact_libm_real [simp]: "exact_lib libm_real"
  by (simp add: exact_lib_def libm_real_def)

section \<open>Macros of ADefine.h\<close>

definition cycmod :: "'a::{minus, times, inverse} libm \<Rightarrow> 'a \<Rightarrow> 'a \<Rightarrow> 'a" where
  "cycmod M x T = x - lib_floor M (x / T) * T"

definition AU_PI where "AU_PI M = lib_dec M 3141592653589793238462643 (-24)"
definition AU_2PI where "AU_2PI M = lib_dec M 6283185307179586476925287 (-24)"
definition AU_R2D where "AU_R2D M = lib_dec M 5729577951308232087679815 (-23)"
definition AU_D2R where "AU_D2R M = lib_dec M 1745329251994329576923691 (-26)"
definition AU_R2AS where "AU_R2AS M = lib_dec M 2062648062470963551564734 (-19)"
definition AU_AS2R where "AU_AS2R M = lib_dec M 4848136811095359935899141 (-30)"
definition AU_DAYSEC where "AU_DAYSEC M = lib_dec M 864000 (-1)"
definition AU_MJD0 where "AU_MJD0 M = lib_dec M 24000005 (-1)"
definition AU_MJD2K where "AU_MJD2K M = lib_dec M 515445 (-1)"
definition AU_EPS where "AU_EPS M = lib_dec M 1 (-6)"
definition AU_MAX where "AU_MAX M = lib_dec M 1 30"

lemmas au_defs = AU_PI_def AU_2PI_def AU_R2D_def AU_D2R_def AU_R2AS_def AU_AS2R_def AU_DAYSEC_def
  AU_MJD0_def AU_MJD2K_def AU_EPS_def AU_MAX_def

lemma isqrt_spec: "0 \<le> n \<Longrightarrow> 0 \<le> isqrt n \<and> isqrt n * isqrt n \<le> n \<and> n < (isqrt n + 1) * (isqrt n + 1)"
proof (induction n rule: isqrt.induct)
  case (1 n)
  show ?case
  proof (cases "n \<le> 0")
    case True
    with 1 show ?thesis by (simp add: isqrt.simps)
  next
    case False
    define q r where "q = n div 4" and "r = isqrt (n div 4)"
    have ih: "0 \<le> r" "r * r \<le> q" "q < (r + 1) * (r + 1)"
      using 1 False by (simp_all add: r_def q_def)
    have n: "4 * q \<le> n" "n < 4 * q + 4" by (simp_all add: q_def)
    have "(2 * r) * (2 * r) \<le> n" "n < (2 * r + 2) * (2 * r + 2)"
      using ih n by (simp_all add: algebra_simps)
    then show ?thesis
      using False ih(1) by (simp add: isqrt.simps [of n] r_def [symmetric] Let_def algebra_simps)
  qed
qed

end
