(* ===== verification/Config.thy ===== *)
theory Config
  imports Cpp_Math
begin

text \<open>
  The configuration file (\<open>Parameter.h/.cpp\<close>). \<open>boost::property_tree\<close> is outside the repository: a
  tree is the list of its paths and texts in the order they are added, the conversions between values and
  texts are the fields of \<open>ptlib\<close>, and reading and writing the XML file enter as the outcome of
  \<open>read_xml\<close> (\<open>None\<close> where it throws) and \<open>write_xml\<close>.
\<close>

record ptlib =
  pt_int_text :: "int \<Rightarrow> string"
  pt_dbl_text :: "double \<Rightarrow> string"
  pt_text_int :: "string \<Rightarrow> int option"   \<comment> \<open>\<open>get_value_optional<int>\<close>: the whole text is a number\<close>

type_synonym ptree = "(string \<times> string) list"

record parameter =
  portClient :: int
  portMountGWAC :: int
  portCameraGWAC :: int
  portFocusGWAC :: int
  portMountGFT :: int
  portCameraGFT :: int
  siteName :: string
  siteLon :: double
  siteLat :: double
  siteAlt :: double

definition Parameter_new :: parameter where
  "Parameter_new = \<lparr>portClient = 5010, portMountGWAC = 5011, portCameraGWAC = 5012, portFocusGWAC = 5013,
     portMountGFT = 5014, portCameraGFT = 5015, siteName = ''Xinglong'',
     siteLon = double_of_dec False 11757454 (-5), siteLat = double_of_dec False 4039593 (-5),
     siteAlt = double_of_int 900\<rparr>"

text \<open>The tree \<open>Init\<close> and \<open>Save\<close> build.\<close>

definition ptree_of :: "ptlib \<Rightarrow> parameter \<Rightarrow> ptree" where
  "ptree_of L P =
     [(''Network.Client.<xmlattr>.port'', pt_int_text L (portClient P)),
      (''Network.MountGWAC.<xmlattr>.port'', pt_int_text L (portMountGWAC P)),
      (''Network.CameraGWAC.<xmlattr>.port'', pt_int_text L (portCameraGWAC P)),
      (''Network.FocusGWAC.<xmlattr>.port'', pt_int_text L (portFocusGWAC P)),
      (''Network.MountGFT.<xmlattr>.port'', pt_int_text L (portMountGFT P)),
      (''Network.CameraGFT.<xmlattr>.port'', pt_int_text L (portCameraGFT P)),
      (''GeoSite.<xmlattr>.name'', siteName P),
      (''GeoSite.Coords.<xmlattr>.lon'', pt_dbl_text L (siteLon P)),
      (''GeoSite.Coords.<xmlattr>.lat'', pt_dbl_text L (siteLat P)),
      (''GeoSite.Coords.<xmlattr>.alt'', pt_dbl_text L (siteAlt P))]"

text \<open>\<open>writable\<close>: whether \<open>write_xml\<close> succeeds. The answer and the new contents of the file.\<close>

definition Init :: "ptlib \<Rightarrow> bool \<Rightarrow> parameter \<Rightarrow> ptree option \<Rightarrow> bool \<times> ptree option" where
  "Init L writable P file = (let pt = ptree_of L P in if writable then (True, Some pt) else (False, file))"

definition Save :: "ptlib \<Rightarrow> bool \<Rightarrow> parameter \<Rightarrow> ptree option \<Rightarrow> bool \<times> ptree option" where
  "Save L writable P file = (let pt = ptree_of L P in if writable then (True, Some pt) else (False, file))"

text \<open>
  \<open>pt.get(path, value)\<close> converts to the type of the default value: \<open>int\<close> for every number here, the
  coordinates included.
\<close>

definition get_int :: "ptlib \<Rightarrow> ptree \<Rightarrow> string \<Rightarrow> int \<Rightarrow> int" where
  "get_int L pt path d = (case map_of pt path of None \<Rightarrow> d | Some s \<Rightarrow> (case pt_text_int L s of None \<Rightarrow> d | Some n \<Rightarrow> n))"

definition get_str :: "ptree \<Rightarrow> string \<Rightarrow> string \<Rightarrow> string" where
  "get_str pt path d = (case map_of pt path of None \<Rightarrow> d | Some s \<Rightarrow> s)"

definition Load :: "ptlib \<Rightarrow> ptree option \<Rightarrow> parameter \<Rightarrow> bool \<times> parameter" where
  "Load L file P =
     (case file of
        None \<Rightarrow> (False, P)
      | Some pt \<Rightarrow> (True, P\<lparr>
          portClient := get_int L pt ''Network.Client.<xmlattr>.port'' 5010,
          portMountGWAC := get_int L pt ''Network.MountGWAC.<xmlattr>.port'' 5011,
          portCameraGWAC := get_int L pt ''Network.CameraGWAC.<xmlattr>.port'' 5012,
          portFocusGWAC := get_int L pt ''Network.FocusGWAC.<xmlattr>.port'' 5013,
          portMountGFT := get_int L pt ''Network.MountGFT.<xmlattr>.port'' 5014,
          portCameraGFT := get_int L pt ''Network.CameraGFT.<xmlattr>.port'' 5015,
          siteName := get_str pt ''GeoSite.<xmlattr>.name'' [],
          siteLon := double_of_int (get_int L pt ''GeoSite.Coords.<xmlattr>.lon'' 120),
          siteLat := double_of_int (get_int L pt ''GeoSite.Coords.<xmlattr>.lat'' 40),
          siteAlt := double_of_int (get_int L pt ''GeoSite.Coords.<xmlattr>.alt'' 900)\<rparr>))"

section \<open>Saving and loading\<close>

text \<open>
  What is used of the conversions: a printed \<open>int\<close> is read back, a \<open>double\<close> with a fraction is not the
  text of an \<open>int\<close>, a whole one of moderate size is.
\<close>

definition fractional :: "double \<Rightarrow> bool" where
  "fractional d \<longleftrightarrow> dfloor d \<noteq> d"

definition pt_ok :: "ptlib \<Rightarrow> bool" where
  "pt_ok L \<longleftrightarrow> (\<forall>n. in_s32 n \<longrightarrow> pt_text_int L (pt_int_text L n) = Some n)
     \<and> (\<forall>d. fractional d \<longrightarrow> pt_text_int L (pt_dbl_text L d) = None)
     \<and> (\<forall>n. \<bar>n\<bar> < 1000000 \<longrightarrow> pt_text_int L (pt_dbl_text L (double_of_int n)) = Some n)"

lemma saved_tree:
  "map_of (ptree_of L P) ''Network.Client.<xmlattr>.port'' = Some (pt_int_text L (portClient P))"
  "map_of (ptree_of L P) ''Network.MountGWAC.<xmlattr>.port'' = Some (pt_int_text L (portMountGWAC P))"
  "map_of (ptree_of L P) ''Network.CameraGWAC.<xmlattr>.port'' = Some (pt_int_text L (portCameraGWAC P))"
  "map_of (ptree_of L P) ''Network.FocusGWAC.<xmlattr>.port'' = Some (pt_int_text L (portFocusGWAC P))"
  "map_of (ptree_of L P) ''Network.MountGFT.<xmlattr>.port'' = Some (pt_int_text L (portMountGFT P))"
  "map_of (ptree_of L P) ''Network.CameraGFT.<xmlattr>.port'' = Some (pt_int_text L (portCameraGFT P))"
  "map_of (ptree_of L P) ''GeoSite.<xmlattr>.name'' = Some (siteName P)"
  "map_of (ptree_of L P) ''GeoSite.Coords.<xmlattr>.lon'' = Some (pt_dbl_text L (siteLon P))"
  "map_of (ptree_of L P) ''GeoSite.Coords.<xmlattr>.lat'' = Some (pt_dbl_text L (siteLat P))"
  "map_of (ptree_of L P) ''GeoSite.Coords.<xmlattr>.alt'' = Some (pt_dbl_text L (siteAlt P))"
  by (simp_all add: ptree_of_def)

definition ports :: "parameter \<Rightarrow> int list" where
  "ports P = [portClient P, portMountGWAC P, portCameraGWAC P, portFocusGWAC P, portMountGFT P, portCameraGFT P]"

definition coords :: "parameter \<Rightarrow> double list" where
  "coords P = [siteLon P, siteLat P, siteAlt P]"

text \<open>What a stored coordinate is worth: a fraction is replaced by the default.\<close>

lemma loaded_coord:
  assumes "pt_ok L" and "map_of pt path = Some (pt_dbl_text L d)"
  shows "fractional d \<Longrightarrow> double_of_int (get_int L pt path n) = double_of_int n"
    and "d = double_of_int k \<Longrightarrow> \<bar>k\<bar> < 1000000 \<Longrightarrow> double_of_int (get_int L pt path n) = d"
  using assms by (simp_all add: get_int_def pt_ok_def)

text \<open>
  C7: saving and loading the configuration gives the ports and the name of the site back. It gives a
  coordinate back when that is a whole number; one with a fraction is replaced by the built-in default
  (longitude 120, latitude 40, altitude 900).
\<close>

theorem config_roundtrip:
  assumes "pt_ok L" and "\<forall>p \<in> set (ports P). in_s32 p"
  shows "\<exists>file Q. Save L True P f = (True, file) \<and> Load L file P' = (True, Q)
    \<and> ports Q = ports P \<and> siteName Q = siteName P
    \<and> (\<forall>i < 3. (fractional (coords P ! i) \<longrightarrow> coords Q ! i = double_of_int ([120, 40, 900] ! i))
        \<and> (\<forall>k. coords P ! i = double_of_int k \<and> \<bar>k\<bar> < 1000000 \<longrightarrow> coords Q ! i = coords P ! i))"
proof -
  define Q where "Q = snd (Load L (Some (ptree_of L P)) P')"
  have pt: "in_s32 n \<Longrightarrow> pt_text_int L (pt_int_text L n) = Some n" for n using assms(1) by (simp add: pt_ok_def)
  have Q: "Load L (Some (ptree_of L P)) P' = (True, Q)" "ports Q = ports P" "siteName Q = siteName P"
    using assms(2) by (simp_all add: Q_def Load_def ports_def get_int_def get_str_def saved_tree pt)
  have P: "coords P = [siteLon P, siteLat P, siteAlt P]" by (simp add: coords_def)
  have c: "coords Q = [double_of_int (get_int L (ptree_of L P) ''GeoSite.Coords.<xmlattr>.lon'' 120),
      double_of_int (get_int L (ptree_of L P) ''GeoSite.Coords.<xmlattr>.lat'' 40),
      double_of_int (get_int L (ptree_of L P) ''GeoSite.Coords.<xmlattr>.alt'' 900)]"
    by (simp add: Q_def Load_def coords_def)
  have "(fractional (coords P ! i) \<longrightarrow> coords Q ! i = double_of_int ([120, 40, 900] ! i))
      \<and> (\<forall>k. coords P ! i = double_of_int k \<and> \<bar>k\<bar> < 1000000 \<longrightarrow> coords Q ! i = coords P ! i)" if "i < 3" for i
  proof -
    have "i = 0 \<or> i = 1 \<or> i = 2" using that by auto
    then show ?thesis
      using loaded_coord [OF assms(1) saved_tree(8)] loaded_coord [OF assms(1) saved_tree(9)] loaded_coord [OF assms(1) saved_tree(10)]
      unfolding c P by (elim disjE) (simp_all add: eval_nat_numeral)
  qed
  with Q show ?thesis by (auto simp: Save_def Let_def)
qed

text \<open>Conversions with the behaviour assumed: digits for whole numbers, a point in the others.\<close>

definition text_int :: "string \<Rightarrow> int option" where
  "text_int s = (if CHR ''.'' \<in> set s then None else strtol10 s)"

definition pt_ref :: ptlib where
  "pt_ref = \<lparr>pt_int_text = show_int,
     pt_dbl_text = (\<lambda>d. if fractional d then show_int (int_cast (dfloor d)) @ ''.5'' else show_int (int_cast d)),
     pt_text_int = text_int\<rparr>"

lemma int_cast_whole: "\<bar>n\<bar> < 1000000 \<Longrightarrow> int_cast (double_of_int n) = n \<and> \<not> fractional (double_of_int n)"
proof (cases "n = 0")
  case True
  have "int_cast (double_of_int 0) = 0 \<and> dfloor (double_of_int 0) = double_of_int 0" by code_simp
  with True show ?thesis by (simp add: fractional_def)
next
  case False
  assume n: "\<bar>n\<bar> < 1000000"
  obtain m e where c: "canon \<bar>n\<bar> 0 = (m, e)" by fastforce
  with canon_value [OF c] False have e: "0 \<le> e" "\<bar>n\<bar> = m * 2 ^ nat e" by auto
  have d: "double_of_int n = Fin (n < 0) m e" using n c by (simp add: double_of_int_def mk_double_exact)
  have "in_s32 n" using n unfolding in_s32_def INT_MIN_def INT_MAX_def by linarith
  moreover have "n = (if n < 0 then - (m * 2 ^ nat e) else m * 2 ^ nat e)" using e(2) by auto
  ultimately have "int_cast (Fin (n < 0) m e) = n" using e(1) by simp
  then show ?thesis using e(1) by (simp add: d fractional_def)
qed

lemma pt_ref_ok: "pt_ok pt_ref"
proof -
  have "CHR ''.'' \<notin> set (show_int n)" for n using show_int_chars [of "CHR ''.''" n] by (auto simp: isdigit_def code_of_def)
  then show ?thesis using int_cast_whole by (simp add: pt_ok_def pt_ref_def text_int_def)
qed

theorem config_roundtrip_witness:
  "\<exists>Q. Load pt_ref (snd (Save pt_ref True Parameter_new None)) Parameter_new = (True, Q)
    \<and> portClient Q = 5010 \<and> siteLon Q = double_of_int 120 \<and> siteLat Q = double_of_int 40 \<and> siteAlt Q = double_of_int 900"
proof -
  have "\<forall>p \<in> set (ports Parameter_new). in_s32 p" by (simp add: ports_def Parameter_new_def in_s32_def INT_MIN_def INT_MAX_def)
  from config_roundtrip [OF pt_ref_ok this, of None Parameter_new] obtain saved Q where
    Q: "Save pt_ref True Parameter_new None = (True, saved)" "Load pt_ref saved Parameter_new = (True, Q)" "ports Q = ports Parameter_new"
      "\<forall>i < 3. fractional (coords Parameter_new ! i) \<longrightarrow> coords Q ! i = double_of_int ([120, 40, 900] ! i)"
      "\<forall>i < 3. \<forall>k. coords Parameter_new ! i = double_of_int k \<and> \<bar>k\<bar> < 1000000 \<longrightarrow> coords Q ! i = coords Parameter_new ! i"
    by blast
  have f: "fractional (coords Parameter_new ! 0)" "fractional (coords Parameter_new ! 1)" by code_simp+
  have a: "coords Parameter_new ! 2 = double_of_int 900" by (simp add: coords_def Parameter_new_def)
  have "coords Q ! 0 = double_of_int 120" "coords Q ! 1 = double_of_int 40" "coords Q ! 2 = double_of_int 900"
    using Q(4) [rule_format, of 0] Q(4) [rule_format, of 1] Q(5) [rule_format, of 2 900] f a by simp_all
  moreover have "portClient Q = 5010" using Q(3) by (simp add: ports_def Parameter_new_def)
  ultimately show ?thesis using Q(1,2) by (simp add: coords_def)
qed

end
