(* ===== verification/Control_Loop.thy ===== *)
theory Control_Loop
  imports Control_Properties Obs_Loop Config
begin

text \<open>
  The controller as a running service: the acceptors of \<open>TcpServer\<close> (\<open>AsioTCP.cpp\<close>), the registration of its
  message handlers, \<open>Start\<close> and \<open>Stop\<close> (\<open>GeneralControl.cpp\<close>), and the message thread at work. The state
  of the thread is the queue with the controller; what the operating system answers to opening a port and
  to listening on it is an argument.
\<close>

section \<open>Servers\<close>

record tcpserver =
  accept_open :: bool
  accept_wait :: bool    \<comment> \<open>an \<open>async_accept\<close> is under way\<close>
  cbfunc :: "int list"   \<comment> \<open>the slots: \<open>tcp_accept\<close> with the peer type bound\<close>


definition TcpServer_destroy :: "tcpserver \<Rightarrow> tcpserver" where
  "TcpServer_destroy sv = (if accept_open sv then sv\<lparr>accept_open := False\<rparr> else sv)"


definition start_accept :: "tcpserver \<Rightarrow> tcpserver" where
  "start_accept sv = (if accept_open sv then sv\<lparr>accept_wait := True\<rparr> else sv)"


text \<open>A connection is accepted (\<open>ok\<close>) or not: the callback gets it, it starts reading, the next one is awaited.\<close>

definition handle_accept :: "nat \<Rightarrow> bool \<Rightarrow> tcpserver \<Rightarrow> gencontrol \<Rightarrow> tcpserver \<times> gencontrol" where
  "handle_accept client ok sv gs =
     (let gs = (if ok then fold (\<lambda>peer. tcp_accept client peer) (cbfunc sv)
                  (set_conn client (TcpClient_new\<lparr>tc_open := True\<rparr>) gs) else gs)
      in (start_accept (sv\<lparr>accept_wait := False\<rparr>), gs))"

section \<open>Handlers\<close>







section \<open>Starting and stopping\<close>













section \<open>The message thread at work\<close>











section \<open>Properties\<close>







end
