(* ===== verification/Daemon.thy ===== *)
theory Daemon
  imports Cpp_Std
begin

text \<open>
  The process (\<open>daemon.h/.cpp\<close>): going into the background and the file with the process number, whose lock
  admits one instance. What the system calls answer is an argument; the files and the process they work on
  are the state. \<open>isProcSingleton\<close> is given twice, as the function of the source and as the sequence of its
  system calls, between which those of other instances can run.
\<close>

section \<open>The background process\<close>

record process =
  pr_pid :: int
  pr_leader :: bool               \<comment> \<open>first process of a session of its own\<close>
  pr_cwd :: string
  pr_umask :: int
  pr_fds :: "(nat \<times> string) list"  \<comment> \<open>open descriptors\<close>
  pr_notified :: "string list"    \<comment> \<open>\<open>io_service::notify_fork\<close>\<close>
  pr_syslog :: "string list"

datatype fate = Exited int | Returned bool

text \<open>What the two \<open>fork\<close>s return, the numbers of the processes they make, whether \<open>/dev/null\<close> opens.\<close>

record fork_answers =
  fa_first :: int
  fa_second :: int
  fa_pid1 :: int
  fa_pid2 :: int
  fa_null :: bool

text \<open>A descriptor is the lowest number that is free.\<close>

definition free_fd :: "(nat \<times> string) list \<Rightarrow> nat" where
  "free_fd fds = hd (filter (\<lambda>k. k \<notin> fst ` set fds) [0..<Suc (length fds)])"

definition open_fd :: "string \<Rightarrow> process \<Rightarrow> process" where
  "open_fd name p = p\<lparr>pr_fds := (free_fd (pr_fds p), name) # pr_fds p\<rparr>"

definition close_fd :: "nat \<Rightarrow> process \<Rightarrow> process" where
  "close_fd k p = p\<lparr>pr_fds := filter (\<lambda>(j, name). j \<noteq> k) (pr_fds p)\<rparr>"

text \<open>\<open>ndebug\<close>: the macro \<open>NDEBUG\<close> is defined.\<close>

definition MakeItDaemon :: "bool \<Rightarrow> fork_answers \<Rightarrow> process \<Rightarrow> fate \<times> process" where
  "MakeItDaemon ndebug A p =
     (let p = p\<lparr>pr_notified := pr_notified p @ [''fork_prepare'']\<rparr>
      in if fa_first A > 0 then (Exited 0, p)
         else if fa_first A \<noteq> 0 then (Returned False, p\<lparr>pr_syslog := pr_syslog p @ [''First fork failed: '']\<rparr>)
         else
           let p = p\<lparr>pr_pid := fa_pid1 A, pr_leader := True, pr_cwd := ''/'', pr_umask := 0\<rparr>
           in if fa_second A > 0 then (Exited 0, p)
              else if fa_second A \<noteq> 0 then (Returned False, p\<lparr>pr_syslog := pr_syslog p @ [''Second fork failed: '']\<rparr>)
              else
                let p = p\<lparr>pr_pid := fa_pid2 A, pr_leader := False\<rparr>;
                    p = (if ndebug then p else close_fd 2 (close_fd 1 (close_fd 0 p)))
                in if \<not> fa_null A then (Returned False, p\<lparr>pr_syslog := pr_syslog p @ [''Unable to open /dev/null: '']\<rparr>)
                   else (Returned True, (open_fd ''/dev/null'' p)\<lparr>pr_notified := pr_notified p @ [''fork_child'']\<rparr>))"

section \<open>The file with the process number\<close>

text \<open>Its text, \<open>None\<close> before it exists, and the process that holds the write lock.\<close>

record pidfile =
  pf_text :: "string option"
  pf_lock :: "int option"

record pid_answers =
  pa_open :: bool
  pa_lock :: bool     \<comment> \<open>a lock no other process holds is granted\<close>
  pa_trunc :: bool
  pa_write :: int     \<comment> \<open>what \<open>write\<close> returns: a number of bytes, or -1\<close>
  pa_getfd :: bool
  pa_setfd :: bool

definition pid_line :: "int \<Rightarrow> string" where
  "pid_line pid = snprintf_cut 20 (show_int pid @ [CHR 0x0A])"

text \<open>\<open>lock_reg\<close> for a write lock of the whole file, without waiting: refused while another process holds one.\<close>

definition write_lock :: "bool \<Rightarrow> int \<Rightarrow> pidfile \<Rightarrow> bool \<times> pidfile" where
  "write_lock granted pid F =
     (if granted \<and> (pf_lock F = None \<or> pf_lock F = Some pid) then (True, F\<lparr>pf_lock := Some pid\<rparr>) else (False, F))"

definition open_pidfile :: "pidfile \<Rightarrow> pidfile" where
  "open_pidfile F = (case pf_text F of None \<Rightarrow> F\<lparr>pf_text := Some []\<rparr> | Some s \<Rightarrow> F)"

text \<open>\<open>write\<close> to the empty file: what it takes of the buffer is the text.\<close>

definition write_text :: "int \<Rightarrow> string \<Rightarrow> pidfile \<Rightarrow> pidfile" where
  "write_text n buff F = (if n < 0 then F else F\<lparr>pf_text := Some (take (nat n) buff)\<rparr>)"

definition isProcSingleton :: "pid_answers \<Rightarrow> int \<Rightarrow> pidfile \<Rightarrow> bool \<times> pidfile" where
  "isProcSingleton A pid F =
     (if \<not> pa_open A then (False, F)
      else
        let (locked, F) = write_lock (pa_lock A) pid (open_pidfile F)
        in if \<not> locked then (False, F)
           else if \<not> pa_trunc A then (False, F)
           else
             let buff = pid_line pid; F = write_text (pa_write A) buff (F\<lparr>pf_text := Some []\<rparr>)
             in if pa_write A \<noteq> int (length buff) then (False, F)
                else if \<not> pa_getfd A then (False, F)
                else if \<not> pa_setfd A then (False, F)
                else (True, F))"

section \<open>Instances side by side\<close>

datatype stage = At_open | At_lock | At_trunc | At_write | At_getfd | At_setfd | Answered bool

text \<open>One system call of an instance.\<close>

fun call :: "pid_answers \<Rightarrow> int \<Rightarrow> stage \<times> pidfile \<Rightarrow> stage \<times> pidfile" where
  "call A pid (At_open, F) = (if pa_open A then (At_lock, open_pidfile F) else (Answered False, F))"
| "call A pid (At_lock, F) = (case write_lock (pa_lock A) pid F of (ok, F) \<Rightarrow> (if ok then At_trunc else Answered False, F))"
| "call A pid (At_trunc, F) = (if pa_trunc A then (At_write, F\<lparr>pf_text := Some []\<rparr>) else (Answered False, F))"
| "call A pid (At_write, F) =
     (if pa_write A = int (length (pid_line pid)) then At_getfd else Answered False, write_text (pa_write A) (pid_line pid) F)"
| "call A pid (At_getfd, F) = (if pa_getfd A then At_setfd else Answered False, F)"
| "call A pid (At_setfd, F) = (Answered (pa_setfd A), F)"
| "call A pid (Answered b, F) = (Answered b, F)"

text \<open>Undisturbed, the six calls are the function.\<close>

theorem calls_are_isProcSingleton:
  "(call A pid ^^ 6) (At_open, F) = (case isProcSingleton A pid F of (b, F') \<Rightarrow> (Answered b, F'))"
  by (auto simp: eval_nat_numeral isProcSingleton_def write_lock_def Let_def)

text \<open>
  The instances, by process number, with the file they share. An instance may start, make its next call, or
  end, on its own or killed; the system then drops its lock.
\<close>

type_synonym instances = "(int \<Rightarrow> stage option) \<times> pidfile"

definition drop_lock :: "int \<Rightarrow> pidfile \<Rightarrow> pidfile" where
  "drop_lock pid F = (if pf_lock F = Some pid then F\<lparr>pf_lock := None\<rparr> else F)"

inductive inst_step :: "instances \<Rightarrow> instances \<Rightarrow> bool" where
  starts: "I pid = None \<Longrightarrow> inst_step (I, F) (I(pid \<mapsto> At_open), F)"
| calls: "I pid = Some st \<Longrightarrow> call A pid (st, F) = (st', F') \<Longrightarrow> inst_step (I, F) (I(pid \<mapsto> st'), F')"
| ends: "I pid = Some st \<Longrightarrow> inst_step (I, F) (I(pid := None), drop_lock pid F)"

inductive_cases inst_stepE: "inst_step W W'"

text \<open>Past the lock; past the write.\<close>

fun holding :: "stage \<Rightarrow> bool" where
  "holding At_trunc = True"
| "holding At_write = True"
| "holding At_getfd = True"
| "holding At_setfd = True"
| "holding (Answered b) = b"
| "holding _ = False"

fun written :: "stage \<Rightarrow> bool" where
  "written At_getfd = True"
| "written At_setfd = True"
| "written (Answered b) = b"
| "written _ = False"

definition inst_inv :: "instances \<Rightarrow> bool" where
  "inst_inv W = (case W of (I, F) \<Rightarrow>
     (\<forall>p st. I p = Some st \<and> holding st \<longrightarrow> pf_lock F = Some p)
     \<and> (\<forall>p st. I p = Some st \<and> written st \<longrightarrow> pf_text F = Some (pid_line p))
     \<and> (\<forall>p. pf_lock F = Some p \<longrightarrow> I p \<noteq> None))"

lemma written_holding: "written st \<Longrightarrow> holding st"
  by (cases st) simp_all

text \<open>A call leaves the lock of others and, without the lock, the text of a file that exists alone.\<close>

lemma call_effect:
  assumes "call A pid (st, F) = (st', F')" and "holding st \<longrightarrow> pf_lock F = Some pid"
  shows "pf_lock F' = pf_lock F \<or> pf_lock F = None \<and> pf_lock F' = Some pid"
    and "holding st' \<longrightarrow> pf_lock F' = Some pid"
    and "pf_lock F \<noteq> Some pid \<Longrightarrow> pf_text F \<noteq> None \<Longrightarrow> pf_text F' = pf_text F"
    and "written st \<Longrightarrow> pf_text F' = pf_text F"
    and "written st' \<Longrightarrow> \<not> written st \<Longrightarrow> pf_text F' = Some (pid_line pid)"
  using assms
  by (cases st; auto simp: write_lock_def open_pidfile_def write_text_def split: if_splits option.splits)+

lemma inst_inv_step:
  assumes "inst_step W W'" and "inst_inv W"
  shows "inst_inv W'"
  using assms
proof (cases rule: inst_step.cases)
  case (calls I pid st A F st' F')
  have inv: "I p = Some s \<Longrightarrow> holding s \<Longrightarrow> pf_lock F = Some p" "I p = Some s \<Longrightarrow> written s \<Longrightarrow> pf_text F = Some (pid_line p)"
    "pf_lock F = Some p \<Longrightarrow> I p \<noteq> None" for p s
    using assms(2) calls(1) by (auto simp: inst_inv_def)
  note eff = call_effect [OF calls(4) impI [OF inv(1) [OF calls(3)]]]
  have others: "pf_lock F' = Some p \<and> (written s \<longrightarrow> pf_text F' = Some (pid_line p))" if "I p = Some s" "holding s" "p \<noteq> pid" for p s
    using eff(1,3) inv(1,2) that by auto
  show ?thesis
    using inv eff others written_holding calls(3) unfolding calls(2) inst_inv_def by (auto split: if_splits)
next
  case (ends I pid st F)
  have inv: "I p = Some s \<Longrightarrow> holding s \<Longrightarrow> pf_lock F = Some p" for p s
    using assms(2) ends(1) by (auto simp: inst_inv_def)
  show ?thesis using assms(2) inv unfolding ends(1,2) inst_inv_def by (auto simp: drop_lock_def)
qed (auto simp: inst_inv_def split: if_splits)

text \<open>From any file nobody has locked and no instance.\<close>

definition no_instance :: "string option \<Rightarrow> instances" where
  "no_instance t = (Map.empty, \<lparr>pf_text = t, pf_lock = None\<rparr>)"

lemma inst_inv_reach: "inst_step\<^sup>*\<^sup>* (no_instance t) W \<Longrightarrow> inst_inv W"
  by (induction rule: rtranclp_induct) (auto simp: no_instance_def inst_inv_def dest: inst_inv_step)

text \<open>
  C8: at any moment of any interleaving of the system calls of instances that start, run and end, at most one
  has passed \<open>isProcSingleton\<close>, and the file holds the number of that one. An instance started while it runs
  is refused by every further call of the function, and neither the text nor the lock changes.
\<close>

theorem single_instance:
  assumes "inst_step\<^sup>*\<^sup>* (no_instance t) (I, F)" and "I p = Some (Answered True)"
  shows "(\<forall>r. I r = Some (Answered True) \<longrightarrow> r = p) \<and> pf_lock F = Some p \<and> pf_text F = Some (pid_line p)
    \<and> (\<forall>A r. r \<noteq> p \<longrightarrow> isProcSingleton A r F = (False, F))"
proof -
  have inv: "inst_inv (I, F)" using inst_inv_reach [OF assms(1)] .
  then have F: "pf_lock F = Some p" "pf_text F = Some (pid_line p)"
    using assms(2) by (auto simp: inst_inv_def)
  have "r = p" if "I r = Some (Answered True)" for r
  proof -
    have "pf_lock F = Some r" using inv that holding.simps(5) by (fastforce simp: inst_inv_def)
    then show ?thesis using F(1) by simp
  qed
  moreover have "isProcSingleton A r F = (False, F)" if "r \<noteq> p" for A r
    using F that by (simp add: isProcSingleton_def write_lock_def open_pidfile_def)
  ultimately show ?thesis using F by blast
qed

definition all_granted :: "int \<Rightarrow> pid_answers" where
  "all_granted pid = \<lparr>pa_open = True, pa_lock = True, pa_trunc = True, pa_write = int (length (pid_line pid)), pa_getfd = True, pa_setfd = True\<rparr>"

lemma run_calls:
  assumes "I pid = Some st"
  shows "inst_step\<^sup>*\<^sup>* (I, F) (I(pid \<mapsto> fst ((call A pid ^^ n) (st, F))), snd ((call A pid ^^ n) (st, F)))"
proof (induction n)
  case 0
  have "I(pid \<mapsto> st) = I" using assms by auto
  then show ?case by simp
next
  case (Suc n)
  obtain st1 F1 where s: "(call A pid ^^ n) (st, F) = (st1, F1)" by fastforce
  obtain st2 F2 where c: "call A pid (st1, F1) = (st2, F2)" by fastforce
  have "inst_step (I(pid \<mapsto> st1), F1) ((I(pid \<mapsto> st1))(pid \<mapsto> st2), F2)"
    by (rule inst_step.calls [OF _ c]) simp
  moreover have "inst_step\<^sup>*\<^sup>* (I, F) (I(pid \<mapsto> st1), F1)" using Suc by (simp only: s fst_conv snd_conv)
  ultimately have "inst_step\<^sup>*\<^sup>* (I, F) ((I(pid \<mapsto> st1))(pid \<mapsto> st2), F2)" by (rule rtranclp.rtrancl_into_rtrancl [rotated])
  then show ?case by (simp only: funpow.simps o_apply s c fst_conv snd_conv map_upd_upds_conv_if fun_upd_upd)
qed

theorem single_instance_witness:
  "\<exists>I F. inst_step\<^sup>*\<^sup>* (no_instance None) (I, F) \<and> I 42 = Some (Answered True) \<and> pf_text F = Some (pid_line 42)
    \<and> isProcSingleton (all_granted 7) 7 F = (False, F)"
proof -
  define F0 where "F0 = snd (no_instance None)"
  have "inst_step (no_instance None) ([42 \<mapsto> At_open], F0)"
    unfolding no_instance_def F0_def snd_conv by (rule inst_step.starts) simp
  moreover obtain F where F: "isProcSingleton (all_granted 42) 42 F0 = (True, F)"
    by (simp add: isProcSingleton_def write_lock_def all_granted_def F0_def no_instance_def open_pidfile_def Let_def)
  ultimately have r: "inst_step\<^sup>*\<^sup>* (no_instance None) ([42 \<mapsto> Answered True], F)"
    using run_calls [where I = "[42 \<mapsto> At_open]" and pid = 42 and st = At_open and F = F0 and A = "all_granted 42" and n = 6]
    by (simp add: calls_are_isProcSingleton converse_rtranclp_into_rtranclp)
  show ?thesis
    using single_instance [OF r, of 42] r by (intro exI [of _ "[42 \<mapsto> Answered True]"] exI [of _ F]) auto
qed

section \<open>The process that stays\<close>

text \<open>
  Of the three processes two exit with status 0. The one that stays belongs to a session it does not lead,
  works in the root directory, masks no permissions and has told the service of both sides of the fork. Without
  \<open>NDEBUG\<close> its standard streams are closed and descriptor 0 alone is opened again, so the next files it opens
  are descriptors 1 and 2.
\<close>

lemma daemon_stays:
  assumes "fa_first A = 0" and "fa_second A = 0" and "fa_null A"
  shows "\<exists>p'. MakeItDaemon ndebug A p = (Returned True, p') \<and> pr_pid p' = fa_pid2 A \<and> \<not> pr_leader p' \<and> pr_cwd p' = ''/''
    \<and> pr_umask p' = 0 \<and> pr_notified p' = pr_notified p @ [''fork_prepare'', ''fork_child'']
    \<and> (\<not> ndebug \<longrightarrow> (0, ''/dev/null'') \<in> set (pr_fds p') \<and> free_fd (pr_fds p') = 1 \<and> free_fd ((1, n) # pr_fds p') = 2)
    \<and> (ndebug \<longrightarrow> set (pr_fds p) \<subseteq> set (pr_fds p'))"
proof -
  define fds where "fds = pr_fds (close_fd 2 (close_fd 1 (close_fd 0 p)))"
  have f: "0 \<notin> fst ` set fds" "1 \<notin> fst ` set fds" "2 \<notin> fst ` set fds" by (auto simp: fds_def close_fd_def)
  have free: "free_fd fds = 0" "free_fd ((0, m) # fds) = 1" "free_fd ((1, n) # (0, m) # fds) = 2" for m
    using f numeral_2_eq_2 by (simp_all add: free_fd_def upt_conv_Cons del: upt_Suc)
  have run: "MakeItDaemon ndebug A p = (Returned True, (open_fd ''/dev/null'' (if ndebug then q else close_fd 2 (close_fd 1 (close_fd 0 q))))
      \<lparr>pr_notified := pr_notified p @ [''fork_prepare'', ''fork_child'']\<rparr>)"
    if "q = p\<lparr>pr_notified := pr_notified p @ [''fork_prepare''], pr_pid := fa_pid2 A, pr_leader := False, pr_cwd := ''/'', pr_umask := 0\<rparr>" for q
    using assms that by (simp add: MakeItDaemon_def open_fd_def close_fd_def Let_def)
  define q where "q = p\<lparr>pr_notified := pr_notified p @ [''fork_prepare''], pr_pid := fa_pid2 A, pr_leader := False, pr_cwd := ''/'', pr_umask := 0\<rparr>"
  have "pr_fds (close_fd 2 (close_fd 1 (close_fd 0 q))) = fds" by (simp add: q_def fds_def close_fd_def)
  then show ?thesis
    unfolding run [OF q_def] using free by (auto simp: open_fd_def) (auto simp: q_def close_fd_def)
qed

lemma daemon_exits:
  "fa_first A > 0 \<or> fa_first A = 0 \<and> fa_second A > 0 \<longleftrightarrow> (\<exists>p'. MakeItDaemon ndebug A p = (Exited 0, p'))"
  "fst (MakeItDaemon ndebug A p) = Returned True \<longleftrightarrow> fa_first A = 0 \<and> fa_second A = 0 \<and> fa_null A"
  by (auto simp: MakeItDaemon_def Let_def)

end
