(* ===== verification/Log_File.thy ===== *)
theory Log_File
  imports Cpp_Std
begin

text \<open>
  The log (\<open>GLog.h/.cpp\<close>): a file per day in a directory. What the system calls answer (\<open>logos\<close>) and the local
  time are arguments of an operation; what it does to the file system is a list of events. The message
  \<open>vfprintf\<close> makes of the format and its arguments is an argument, \<open>None\<close> for a null format.
\<close>

datatype log_type = LOG_NORMAL | LOG_WARN | LOG_FAULT

fun LOG_TYPE_STR :: "log_type \<Rightarrow> string" where
  "LOG_TYPE_STR LOG_NORMAL = []"
| "LOG_TYPE_STR LOG_WARN = ''WARN: ''"
| "LOG_TYPE_STR LOG_FAULT = ''ERROR: ''"

text \<open>\<open>std::tm\<close>: the year from 1900, the month from 0.\<close>

record tm =
  tm_year :: int
  tm_mon :: int
  tm_mday :: int
  tm_hour :: int
  tm_min :: int
  tm_sec :: int

datatype stream = Stdout | Stderr | LogFile string

record glog =
  fd :: "stream option"
  dirName :: string
  prefix :: string
  dayOld :: int

record logos =
  os_exists :: bool   \<comment> \<open>\<open>access(dir, F_OK)\<close> succeeds\<close>
  os_usable :: bool   \<comment> \<open>\<open>access(dir, W_OK | X_OK)\<close> does, after \<open>mkdir\<close> if that was called\<close>
  os_opens :: bool    \<comment> \<open>\<open>fopen\<close> does\<close>

datatype log_event = MakeDir string | OpenLog string | Put stream string | Shut stream

section \<open>Construction\<close>

definition GLog_stream :: "stream option \<Rightarrow> glog" where
  "GLog_stream out = \<lparr>fd = (case out of None \<Rightarrow> Some Stderr | Some f \<Rightarrow> Some f), dirName = [], prefix = [], dayOld = 0\<rparr>"

text \<open>\<open>None\<close> is the null pointer; \<open>cwd\<close> is what \<open>getcwd\<close> gives.\<close>

definition GLog_dir :: "string \<Rightarrow> string option \<Rightarrow> string option \<Rightarrow> glog" where
  "GLog_dir cwd dir file =
     (let d = (case dir of None \<Rightarrow> [] | Some s \<Rightarrow> s);
          p = (case file of None \<Rightarrow> [] | Some s \<Rightarrow> s);
          d = (if d = [] then cwd else d);
          d = (if last d \<noteq> CHR ''/'' \<and> last d \<noteq> CHR 0x5C then d @ ''/'' else d);
          p = (if p = [] then ''gLog'' else p)
      in \<lparr>fd = None, dirName = d, prefix = p, dayOld = 0\<rparr>)"

definition GLog_destroy :: "glog \<Rightarrow> log_event list" where
  "GLog_destroy g = (case fd g of None \<Rightarrow> [] | Some f \<Rightarrow> if f \<noteq> Stdout \<and> f \<noteq> Stderr then [Shut f] else [])"

section \<open>Writing\<close>

definition MAXPATHLEN :: nat where "MAXPATHLEN = 4096"

definition log_path :: "glog \<Rightarrow> tm \<Rightarrow> string" where
  "log_path g t = snprintf_cut MAXPATHLEN
     (dirName g @ prefix g @ ''_'' @ show_int (tm_year t + 1900) @ fmt_d False True 2 (tm_mon t + 1)
       @ fmt_d False True 2 (tm_mday t) @ ''.log'')"

text \<open>Closing the file of another day, and opening a file when there is none.\<close>

definition close_old :: "tm \<Rightarrow> glog \<Rightarrow> glog \<times> log_event list" where
  "close_old t g =
     (if dayOld g \<noteq> tm_mday t then
        (case fd g of
           None \<Rightarrow> (g\<lparr>dayOld := tm_mday t\<rparr>, [])
         | Some f \<Rightarrow> (g\<lparr>dayOld := tm_mday t, fd := None\<rparr>, [Put f (replicate 69 (CHR ''>'') @ '' continue'' @ [CHR 0x0A]), Shut f]))
      else (g, []))"

definition open_new :: "logos \<Rightarrow> tm \<Rightarrow> glog \<Rightarrow> crash + (glog \<times> log_event list)" where
  "open_new S t g =
     (case fd g of
        Some f \<Rightarrow> Inr (g, [])
      | None \<Rightarrow>
          let mk = (if \<not> os_exists S then [MakeDir (dirName g)] else [])
          in if os_usable S then
               (if os_opens S then
                  let p = log_path g t
                  in Inr (g\<lparr>fd := Some (LogFile p)\<rparr>, mk @ [OpenLog p, Put (LogFile p) (replicate 79 (CHR ''-'') @ [CHR 0x0A])])
                else Inl NullDeref)
             else Inr (g, mk))"

text \<open>Whether there is a file to write to.\<close>

definition valid_file :: "logos \<Rightarrow> tm \<Rightarrow> glog \<Rightarrow> crash + (bool \<times> glog \<times> log_event list)" where
  "valid_file S t g =
     (if fd g = Some Stdout \<or> fd g = Some Stderr then Inr (True, g, [])
      else
        let (g1, ev1) = close_old t g
        in bindR (open_new S t g1) (\<lambda>(g2, ev2). Inr (fd g2 \<noteq> None, g2, ev1 @ ev2)))"

text \<open>The text of a message; the three overloads of \<open>Write\<close> give the type and the place or leave them out.\<close>

definition log_line :: "tm \<Rightarrow> log_type option \<Rightarrow> string option \<Rightarrow> string \<Rightarrow> string" where
  "log_line t ty place msg =
     fmt_d False True 2 (tm_hour t) @ '':'' @ fmt_d False True 2 (tm_min t) @ '':'' @ fmt_d False True 2 (tm_sec t) @ '' >> ''
       @ (case ty of None \<Rightarrow> [] | Some y \<Rightarrow> LOG_TYPE_STR y)
       @ (case place of None \<Rightarrow> [] | Some w \<Rightarrow> w @ '', '') @ msg @ [CHR 0x0A]"

definition log_write ::
  "logos \<Rightarrow> tm \<Rightarrow> log_type option \<Rightarrow> string option \<Rightarrow> string option \<Rightarrow> glog \<Rightarrow> crash + (glog \<times> log_event list)" where
  "log_write S t ty place msg g =
     (case msg of
        None \<Rightarrow> Inr (g, [])
      | Some m \<Rightarrow>
          bindR (valid_file S t g) (\<lambda>(ok, g, ev).
            case fd g of
              Some f \<Rightarrow> Inr (g, if ok then ev @ [Put f (log_line t ty place m)] else ev)
            | None \<Rightarrow> Inr (g, ev)))"

definition GLog_Write :: "logos \<Rightarrow> tm \<Rightarrow> string option \<Rightarrow> glog \<Rightarrow> crash + (glog \<times> log_event list)" where
  "GLog_Write S t msg g = log_write S t None None msg g"

definition GLog_Write_type :: "logos \<Rightarrow> tm \<Rightarrow> log_type \<Rightarrow> string option \<Rightarrow> glog \<Rightarrow> crash + (glog \<times> log_event list)" where
  "GLog_Write_type S t ty msg g = log_write S t (Some ty) None msg g"

definition GLog_Write_where ::
  "logos \<Rightarrow> tm \<Rightarrow> string option \<Rightarrow> log_type \<Rightarrow> string option \<Rightarrow> glog \<Rightarrow> crash + (glog \<times> log_event list)" where
  "GLog_Write_where S t place ty msg g = log_write S t (Some ty) place msg g"

section \<open>The log a reader expects\<close>

text \<open>A message with its time: type, place and text.\<close>

type_synonym log_msg = "tm \<times> log_type option \<times> string option \<times> string"

fun write_all :: "logos \<Rightarrow> log_msg list \<Rightarrow> glog \<Rightarrow> crash + (glog \<times> log_event list)" where
  "write_all S [] g = Inr (g, [])"
| "write_all S ((t, ty, place, m) # ms) g =
     bindR (log_write S t ty place (Some m) g) (\<lambda>(g, ev).
       bindR (write_all S ms g) (\<lambda>(g, ev'). Inr (g, ev @ ev')))"

definition date_of :: "tm \<Rightarrow> int \<times> int \<times> int" where
  "date_of t = (tm_year t, tm_mon t, tm_mday t)"

text \<open>
  One file per date: a message goes to the file of its date, which is opened when the date changes,
  after the file before has been closed. \<open>prev\<close> is the time of the message before.
\<close>

fun daily_log :: "glog \<Rightarrow> tm option \<Rightarrow> log_msg list \<Rightarrow> log_event list" where
  "daily_log g prev [] = []"
| "daily_log g prev ((t, ty, place, m) # ms) =
     (let f = LogFile (log_path g t);
          change = (case prev of
              None \<Rightarrow> [OpenLog (log_path g t), Put f (replicate 79 (CHR ''-'') @ [CHR 0x0A])]
            | Some u \<Rightarrow>
                if date_of u = date_of t then []
                else let old = LogFile (log_path g u)
                     in [Put old (replicate 69 (CHR ''>'') @ '' continue'' @ [CHR 0x0A]), Shut old,
                         OpenLog (log_path g t), Put f (replicate 79 (CHR ''-'') @ [CHR 0x0A])])
      in change @ [Put f (log_line t ty place m)] @ daily_log g (Some t) ms)"

text \<open>Messages of the same day of the month are of the same date: no silence of a month or more.\<close>

fun no_gap :: "tm list \<Rightarrow> bool" where
  "no_gap (t # u # ts) \<longleftrightarrow> (tm_mday t = tm_mday u \<longrightarrow> date_of t = date_of u) \<and> no_gap (u # ts)"
| "no_gap _ \<longleftrightarrow> True"

definition all_well :: logos where
  "all_well = \<lparr>os_exists = True, os_usable = True, os_opens = True\<rparr>"

lemma log_path_frame [simp]: "log_path (g\<lparr>fd := f\<rparr>) t = log_path g t" "log_path (g\<lparr>dayOld := d\<rparr>) t = log_path g t"
  by (simp_all add: log_path_def)

lemma log_path_date: "date_of t = date_of u \<Longrightarrow> log_path g t = log_path g u"
  by (simp add: log_path_def date_of_def)

lemma daily_log_frame: "log_path g = log_path g' \<Longrightarrow> daily_log g prev ms = daily_log g' prev ms"
  by (induction g prev ms rule: daily_log.induct) (simp_all add: Let_def split: option.splits)

text \<open>One message in the file that is open, and one that opens a file.\<close>

lemma write_same_day:
  assumes "fd g = Some (LogFile p)" and "dayOld g = tm_mday t"
  shows "log_write S t ty place (Some m) g = Inr (g, [Put (LogFile p) (log_line t ty place m)])"
  using assms by (simp add: log_write_def valid_file_def close_old_def open_new_def)

lemma write_new_day:
  assumes "fd g = None \<or> (\<exists>p. fd g = Some (LogFile p)) \<and> dayOld g \<noteq> tm_mday t"
  shows "log_write all_well t ty place (Some m) g =
    Inr (g\<lparr>fd := Some (LogFile (log_path g t)), dayOld := tm_mday t\<rparr>,
      (case fd g of None \<Rightarrow> [] | Some f \<Rightarrow> [Put f (replicate 69 (CHR ''>'') @ '' continue'' @ [CHR 0x0A]), Shut f])
      @ [OpenLog (log_path g t), Put (LogFile (log_path g t)) (replicate 79 (CHR ''-'') @ [CHR 0x0A]),
         Put (LogFile (log_path g t)) (log_line t ty place m)])"
  using assms
  by (auto simp: log_write_def valid_file_def close_old_def open_new_def all_well_def Let_def)

lemma log_follows_dates:
  assumes "no_gap (u # map fst ms)" and "fd g = Some (LogFile (log_path g u))" and "dayOld g = tm_mday u"
  shows "\<exists>g'. write_all all_well ms g = Inr (g', daily_log g (Some u) ms)"
  using assms
proof (induction ms arbitrary: u g)
  case (Cons x ms)
  obtain t ty place m where x: "x = (t, ty, place, m)" by (cases x)
  have gap: "no_gap (t # map fst ms)" "tm_mday u = tm_mday t \<longrightarrow> date_of u = date_of t" using Cons.prems(1) by (simp_all add: x)
  show ?case
  proof (cases "tm_mday u = tm_mday t")
    case True
    then have d: "date_of u = date_of t" using gap(2) by simp
    then have p: "log_path g t = log_path g u" using log_path_date by metis
    then obtain g' where "write_all all_well ms g = Inr (g', daily_log g (Some t) ms)"
      using Cons.IH [OF gap(1), of g] Cons.prems(2,3) True by auto
    then show ?thesis using write_same_day [OF Cons.prems(2)] Cons.prems(3) True d p by (simp add: x Let_def)
  next
    case False
    then have d: "date_of u \<noteq> date_of t" by (auto simp: date_of_def)
    define h where "h = g\<lparr>fd := Some (LogFile (log_path g t)), dayOld := tm_mday t\<rparr>"
    have h: "log_path h = log_path g" by (simp add: h_def fun_eq_iff)
    then obtain g' where w: "write_all all_well ms h = Inr (g', daily_log g (Some t) ms)"
      using Cons.IH [OF gap(1), of h] daily_log_frame [OF h] by (auto simp: h_def)
    have "log_write all_well t ty place (Some m) g =
        Inr (h, [Put (LogFile (log_path g u)) (replicate 69 (CHR ''>'') @ '' continue'' @ [CHR 0x0A]), Shut (LogFile (log_path g u)),
          OpenLog (log_path g t), Put (LogFile (log_path g t)) (replicate 79 (CHR ''-'') @ [CHR 0x0A]),
          Put (LogFile (log_path g t)) (log_line t ty place m)])"
      using write_new_day [of g t ty place m] Cons.prems(2,3) False by (simp add: h_def)
    then show ?thesis using w d by (simp add: x Let_def)
  qed
qed simp

text \<open>
  C16: as long as the log is never silent for a month, its directory can be written and files can be opened: every
  message is written, complete and in order, to the file named by its date; files are opened, headed and closed exactly
  where the date changes. A message on the same day of a later month, after a silence, goes to the old file. When the
  directory cannot be used nothing is written; when it can but the file cannot be opened the program goes down.
\<close>

theorem log_by_date:
  fixes cwd :: string and dir pre :: "string option"
  assumes "no_gap (map fst ms)" and "tm_mday t = tm_mday u"
  defines "g \<equiv> GLog_dir cwd dir pre"
  shows "(\<exists>g'. write_all all_well ms g = Inr (g', daily_log g None ms))
    \<and> (\<exists>g' ev. write_all all_well [(t, None, None, a), (u, None, None, b)] g = Inr (g', ev)
        \<and> last ev = Put (LogFile (log_path g t)) (log_line u None None b))
    \<and> log_write \<lparr>os_exists = e, os_usable = False, os_opens = f\<rparr> t None None (Some a) g
        = Inr (g\<lparr>dayOld := tm_mday t\<rparr>, if e then [] else [MakeDir (dirName g)])
    \<and> log_write \<lparr>os_exists = e, os_usable = True, os_opens = False\<rparr> t None None (Some a) g = Inl NullDeref"
proof (intro conjI)
  have new: "fd g = None" by (simp add: g_def GLog_dir_def Let_def)
  show "\<exists>g'. write_all all_well ms g = Inr (g', daily_log g None ms)"
  proof (cases ms)
    case (Cons x ms')
    obtain t ty place m where x: "x = (t, ty, place, m)" by (cases x)
    define h where "h = g\<lparr>fd := Some (LogFile (log_path g t)), dayOld := tm_mday t\<rparr>"
    have h: "log_path h = log_path g" by (simp add: h_def fun_eq_iff)
    obtain g' where "write_all all_well ms' h = Inr (g', daily_log g (Some t) ms')"
      using log_follows_dates [of t ms' h] assms(1) daily_log_frame [OF h] by (auto simp: h_def Cons x)
    then show ?thesis using write_new_day [of g t ty place m] new by (simp add: Cons x h_def Let_def)
  qed simp
  have "log_write all_well t None None (Some a) g = Inr (g\<lparr>fd := Some (LogFile (log_path g t)), dayOld := tm_mday t\<rparr>,
      [OpenLog (log_path g t), Put (LogFile (log_path g t)) (replicate 79 (CHR ''-'') @ [CHR 0x0A]),
       Put (LogFile (log_path g t)) (log_line t None None a)])"
    using write_new_day [of g t None None a] new by simp
  then show "\<exists>g' ev. write_all all_well [(t, None, None, a), (u, None, None, b)] g = Inr (g', ev)
      \<and> last ev = Put (LogFile (log_path g t)) (log_line u None None b)"
    using write_same_day [of "g\<lparr>fd := Some (LogFile (log_path g t)), dayOld := tm_mday t\<rparr>" "log_path g t" u all_well None None b] assms(2)
    by simp
  have "dayOld g = 0" by (simp add: g_def GLog_dir_def Let_def)
  then show "log_write \<lparr>os_exists = e, os_usable = False, os_opens = f\<rparr> t None None (Some a) g
        = Inr (g\<lparr>dayOld := tm_mday t\<rparr>, if e then [] else [MakeDir (dirName g)])"
    "log_write \<lparr>os_exists = e, os_usable = True, os_opens = False\<rparr> t None None (Some a) g = Inl NullDeref"
    using new by (auto simp: log_write_def valid_file_def close_old_def open_new_def Let_def)
qed

definition day :: "int \<Rightarrow> int \<Rightarrow> tm" where
  "day m d = \<lparr>tm_year = 124, tm_mon = m, tm_mday = d, tm_hour = 8, tm_min = 30, tm_sec = 5\<rparr>"

theorem log_by_date_witness:
  "\<exists>g'. write_all all_well [(day 0 5, None, None, ''up''), (day 0 6, Some LOG_WARN, None, ''no mount'')] (GLog_dir [] (Some ''/var/log/gtoaes'') (Some ''gtoaes''))
    = Inr (g', daily_log (GLog_dir [] (Some ''/var/log/gtoaes'') (Some ''gtoaes'')) None
        [(day 0 5, None, None, ''up''), (day 0 6, Some LOG_WARN, None, ''no mount'')])"
  using log_by_date [of "[(day 0 5, None, None, ''up''), (day 0 6, Some LOG_WARN, None, ''no mount'')]" "day 0 5" "day 1 5"
      "[]" "Some ''/var/log/gtoaes''" "Some ''gtoaes''"]
  by (simp add: day_def)

end
