(* ===== verification/Gtoaes.thy ===== *)
theory Gtoaes
  imports Control_Loop Daemon Log_File
begin









section \<open>What a start comes to\<close>























end
