(* ===== verification/Index_Loops.thy ===== *)
theory Index_Loops
  imports Main
begin

text \<open>
  Loops over index ranges, which the models write as folds over \<open>[m..<n]\<close>, their invariants, and the
  index arithmetic of row-major arrays.
\<close>

section \<open>Loops and row-major indices\<close>

lemma foldl_upt_inv:
  assumes "m \<le> n" and "P m s" and "\<And>i s. m \<le> i \<Longrightarrow> i < n \<Longrightarrow> P i s \<Longrightarrow> P (Suc i) (f s i)"
  shows "P n (foldl f s [m..<n])"
  using assms
proof (induction n)
  case (Suc n)
  show ?case
  proof (cases "m = Suc n")
    case False
    with Suc.prems(1) have "m \<le> n" by simp
    then have "P n (foldl f s [m..<n])" using Suc by simp
    then show ?thesis using Suc.prems(3) [of n] \<open>m \<le> n\<close> by simp
  qed (use Suc.prems(2) in simp)
qed simp

lemma foldl_down_inv:
  assumes "P n s" and "\<And>i s. i < n \<Longrightarrow> P (Suc i) s \<Longrightarrow> P i (f s i)"
  shows "P 0 (foldl f s (rev [0..<n]))"
  using assms by (induction n arbitrary: s) simp_all

lemma foldl_const [simp]: "foldl (\<lambda>s i. s) a xs = a"
  by (induction xs) simp_all

lemma foldl_sum: "foldl (\<lambda>s j. s + f j) (c::'a::comm_monoid_add) [m..<n] = c + (\<Sum>j = m..<n. f j)"
proof (induction n)
  case (Suc n)
  then show ?case by (cases "m \<le> n") (simp_all add: ac_simps)
qed simp

lemma foldl_diff: "foldl (\<lambda>s j. s - f j) (c::'a::ab_group_add) [m..<n] = c - (\<Sum>j = m..<n. f j)"
proof (induction n)
  case (Suc n)
  then show ?case by (cases "m \<le> n") (simp_all add: algebra_simps)
qed simp

lemma cell_eq [simp]:
  assumes "j < n" and "j' < n"
  shows "i * n + j = i' * n + j' \<longleftrightarrow> i = i' \<and> j = (j'::nat)"
proof
  assume *: "i * n + j = i' * n + j'"
  have "(i * n + j) div n = i" "(i' * n + j') div n = i'" using assms by simp_all
  with * show "i = i' \<and> j = j'" by simp
qed simp

lemma cell_less [simp]: "i < m \<Longrightarrow> j < n \<Longrightarrow> i * n + j < m * (n::nat)"
proof -
  assume "i < m" "j < n"
  then have "i * n + j < (i + 1) * n" by simp
  also have "\<dots> \<le> m * n" using \<open>i < m\<close> by (intro mult_le_mono1) simp
  finally show ?thesis .
qed

end
