(* ===== verification/AMath_Linear.thy ===== *)
theory AMath_Linear
  imports Cpp_Math Index_Loops
begin

text \<open>
  The linear algebra of class \<open>AMath\<close> (\<open>AMath.h\<close>, \<open>AMath.cpp\<close>): matrices are row-major arrays, here
  lists, and every routine works on them in place. The object keeps a pointer to the decomposed
  matrix; the contents of the array it points to are an argument of the routines that read it.
  Dimensions are natural numbers.
\<close>

section \<open>State\<close>

record ludcmp =
  lu_n :: int
  lu_np :: int
  lu_ptr :: "nat option"
  lu_idx :: "nat list"

definition LUdcmp_init :: ludcmp where
  "LUdcmp_init = \<lparr>lu_n = -1, lu_np = -1, lu_ptr = None, lu_idx = []\<rparr>"

definition resize :: "nat \<Rightarrow> 'a \<Rightarrow> 'a list \<Rightarrow> 'a list" where
  "resize n x xs = take n xs @ replicate (n - length xs) x"

definition Reset :: "nat \<Rightarrow> nat \<Rightarrow> ludcmp \<Rightarrow> ludcmp" where
  "Reset n p L = L\<lparr>lu_idx := (if int n \<noteq> lu_n L then resize n 0 (lu_idx L) else lu_idx L),
     lu_n := int n, lu_np := 0, lu_ptr := Some p\<rparr>"

definition IsSingular :: "ludcmp \<Rightarrow> bool" where
  "IsSingular L \<longleftrightarrow> lu_np L < 0"

record 'a amath =
  ma_lu :: ludcmp
  SD0 :: 'a
  CD0 :: 'a
  A0 :: 'a

definition AMath_new :: "'a::zero amath" where
  "AMath_new = \<lparr>ma_lu = LUdcmp_init, SD0 = 0, CD0 = 0, A0 = 0\<rparr>"

section \<open>LU decomposition\<close>

text \<open>The largest magnitude of row \<open>i\<close>; the scale factors, or \<open>None\<close> when a row is zero.\<close>

definition row_big :: "nat \<Rightarrow> 'a::{zero,abs,ord} list \<Rightarrow> nat \<Rightarrow> 'a" where
  "row_big n a i = foldl (\<lambda>big j. let t = \<bar>a ! (i * n + j)\<bar> in if big < t then t else big) 0 [0..<n]"

fun scale_loop :: "nat \<Rightarrow> 'a::{zero,one,inverse,abs,ord} list \<Rightarrow> nat list \<Rightarrow> 'a list \<Rightarrow> 'a list option" where
  "scale_loop n a [] s = Some s"
| "scale_loop n a (i # is) s =
     (let big = row_big n a i in if feq big 0 then None else scale_loop n a is (s[i := 1 / big]))"

text \<open>
  The search for the pivot of column \<open>k\<close>. The old \<open>imax\<close> stays when no candidate beats 0.
\<close>

definition find_pivot :: "nat \<Rightarrow> 'a::{zero,times,abs,ord} list \<Rightarrow> 'a list \<Rightarrow> nat \<Rightarrow> nat \<Rightarrow> nat" where
  "find_pivot n a s k imax =
     snd (foldl (\<lambda>(big, imax) i. let t = s ! i * \<bar>a ! (i * n + k)\<bar> in if big < t then (t, i) else (big, imax))
       (0, imax) [k..<n])"

definition swap_rows :: "nat \<Rightarrow> nat \<Rightarrow> nat \<Rightarrow> 'a list \<Rightarrow> 'a list" where
  "swap_rows n p q a = foldl (\<lambda>a j. a[p * n + j := a ! (q * n + j), q * n + j := a ! (p * n + j)]) a [0..<n]"

definition eliminate_row :: "nat \<Rightarrow> nat \<Rightarrow> 'a::{minus,times,inverse} list \<Rightarrow> nat \<Rightarrow> 'a list" where
  "eliminate_row n k a i =
     (let t = a ! (i * n + k) / a ! (k * n + k)
      in foldl (\<lambda>a j. a[i * n + j := a ! (i * n + j) - t * a ! (k * n + j)]) (a[i * n + k := t]) [k + 1..<n])"

text \<open>One turn of the main loop on \<open>(a, scale, imax, np, idx)\<close>.\<close>

definition lu_step :: "'a::{zero,minus,times,inverse,abs,ord} libm \<Rightarrow> nat \<Rightarrow> nat \<Rightarrow>
    'a list \<times> 'a list \<times> nat \<times> int \<times> nat list \<Rightarrow> 'a list \<times> 'a list \<times> nat \<times> int \<times> nat list" where
  "lu_step M n k = (\<lambda>(a, s, imax, np, idx).
     let imax = find_pivot n a s k imax;
         (a, s, np) = (if k \<noteq> imax then (swap_rows n imax k a, s[imax := s ! k], np + 1) else (a, s, np));
         idx = idx[k := imax];
         a = (if feq (a ! (k * n + k)) 0 then a[k * n + k := lib_dec M 1 (-30)] else a);
         a = foldl (eliminate_row n k) a [k + 1..<n]
     in (a, s, imax, np, idx))"

definition LUdcmp :: "'a::{zero,one,minus,times,inverse,abs,ord} libm \<Rightarrow> nat \<Rightarrow> nat \<Rightarrow> 'a list \<Rightarrow> 'a amath \<Rightarrow> bool \<times> 'a list \<times> 'a amath" where
  "LUdcmp M n p a A =
     (let L = Reset n p (ma_lu A) in
      case scale_loop n a [0..<n] (replicate n 0) of
        None \<Rightarrow> (False, a, A\<lparr>ma_lu := L\<lparr>lu_np := -1\<rparr>\<rparr>)
      | Some s \<Rightarrow>
          (let (a', s', imax, np, idx) = foldl (\<lambda>st k. lu_step M n k st) (a, s, 0, 0::int, lu_idx L) [0..<n]
           in (0 \<le> np, a', A\<lparr>ma_lu := L\<lparr>lu_np := np, lu_idx := idx\<rparr>\<rparr>)))"

section \<open>Solving\<close>

text \<open>Forward substitution skips the leading zeros: \<open>ii\<close> is 1 + the first non-zero position.\<close>

definition forward_step :: "nat \<Rightarrow> 'a::{zero,minus,times,ord} list \<Rightarrow> nat list \<Rightarrow> 'a list \<times> nat \<Rightarrow> nat \<Rightarrow> 'a list \<times> nat" where
  "forward_step n lu idx = (\<lambda>(x, ii) i.
     let k = idx ! i; sum = x ! k; x = x[k := x ! i] in
     if ii \<noteq> 0 then (x[i := foldl (\<lambda>sum j. sum - lu ! (i * n + j) * x ! j) sum [ii - 1..<i]], ii)
     else (x[i := sum], if feq sum 0 then 0 else i + 1))"

definition back_step :: "nat \<Rightarrow> 'a::{minus,times,inverse} list \<Rightarrow> 'a list \<Rightarrow> nat \<Rightarrow> 'a list" where
  "back_step n lu x i =
     x[i := foldl (\<lambda>sum j. sum - lu ! (i * n + j) * x ! j) (x ! i) [i + 1..<n] / lu ! (i * n + i)]"

definition substitute :: "nat \<Rightarrow> 'a::{zero,minus,times,inverse,ord} list \<Rightarrow> nat list \<Rightarrow> 'a list \<Rightarrow> 'a list" where
  "substitute n lu idx b = foldl (back_step n lu) (fst (foldl (forward_step n lu idx) (b, 0) [0..<n])) (rev [0..<n])"

text \<open>\<open>None\<close> is the answer \<open>false\<close>, which leaves the result array alone.\<close>

definition LUsolve :: "'a::{zero,minus,times,inverse,ord} amath \<Rightarrow> 'a list \<Rightarrow> 'a list \<Rightarrow> 'a list option" where
  "LUsolve A lu b =
     (if IsSingular (ma_lu A) then None
      else Some (substitute (nat (lu_n (ma_lu A))) lu (lu_idx (ma_lu A)) b))"

text \<open>
  \<open>m\<close> right-hand sides, one column after the other. With \<open>alias\<close> the arrays \<open>b\<close> and \<open>x\<close> are the same.
\<close>

definition LUsolve_matrix :: "'a::{zero,minus,times,inverse,ord} amath \<Rightarrow> 'a list \<Rightarrow> nat \<Rightarrow> bool \<Rightarrow> 'a list \<Rightarrow> 'a list \<Rightarrow> 'a list option" where
  "LUsolve_matrix A lu m alias b x =
     (if IsSingular (ma_lu A) then None
      else let n = nat (lu_n (ma_lu A)) in
        Some (foldl (\<lambda>x j.
          let src = (if alias then x else b);
              col = map (\<lambda>i. src ! (i * m + j)) [0..<n];
              col = (case LUsolve A lu col of Some c \<Rightarrow> c | None \<Rightarrow> col)
          in foldl (\<lambda>x i. x[i * m + j := col ! i]) x [0..<n]) x [0..<m]))"

definition LUDet :: "'a::{zero,one,uminus,minus,times,inverse,abs,ord} libm \<Rightarrow> nat \<Rightarrow> nat \<Rightarrow> 'a list \<Rightarrow> 'a amath \<Rightarrow> 'a \<times> 'a list \<times> 'a amath" where
  "LUDet M n p a A =
     (if lu_ptr (ma_lu A) = Some p \<and> lu_np (ma_lu A) < 0 then (0, a, A)
      else let (ok, a, A) = LUdcmp M n p a A in
        if \<not> ok then (0, a, A)
        else let t = foldl (\<lambda>t i. t * a ! (i * n + i)) 1 [0..<n]
             in (if odd (lu_np (ma_lu A)) then - t else t, a, A))"

definition unit_matrix :: "nat \<Rightarrow> 'a::{zero,one} list" where
  "unit_matrix n = foldl (\<lambda>y i. y[i * n + i := 1]) (replicate (n * n) 0) [0..<n]"

definition MatrixInvert :: "'a::{zero,one,minus,times,inverse,abs,ord} libm \<Rightarrow> nat \<Rightarrow> nat \<Rightarrow> 'a list \<Rightarrow> 'a amath \<Rightarrow> bool \<times> 'a list \<times> 'a amath" where
  "MatrixInvert M n p a A =
     (let (ok, a, A) = LUdcmp M n p a A in
      if ok then (case LUsolve_matrix A a n True (unit_matrix n) (unit_matrix n) of
                    Some y \<Rightarrow> (True, y, A) | None \<Rightarrow> (True, unit_matrix n, A))
      else (False, a, A))"

section \<open>Products\<close>

text \<open>The arguments are copied first, so \<open>Y\<close> may be one of them.\<close>

definition MatrixMultiply :: "nat \<Rightarrow> nat \<Rightarrow> nat \<Rightarrow> 'a::{zero,plus,times} list \<Rightarrow> 'a list \<Rightarrow> 'a list \<Rightarrow> 'a list" where
  "MatrixMultiply m p n L R Y =
     concat (map (\<lambda>j. map (\<lambda>i. foldl (\<lambda>sum k. sum + L ! (j * p + k) * R ! (k * n + i)) 0 [0..<p]) [0..<n]) [0..<m])
     @ drop (m * n) Y"

definition MatrixTranspose :: "nat \<Rightarrow> nat \<Rightarrow> 'a list \<Rightarrow> 'a list \<Rightarrow> 'a list" where
  "MatrixTranspose m n a b =
     concat (map (\<lambda>row. map (\<lambda>col. a ! (row + col * n)) [0..<m]) [0..<n]) @ drop (n * m) b"

text \<open>Least squares: \<open>x\<close> holds the \<open>n\<close> base functions at the \<open>m\<close> samples, a row per function.\<close>

definition dot :: "nat \<Rightarrow> 'a::{zero,plus,times} list \<Rightarrow> 'a list \<Rightarrow> nat \<Rightarrow> nat \<Rightarrow> 'a" where
  "dot m x y i j = foldl (\<lambda>t k. t + x ! (i * m + k) * y ! (j * m + k)) 0 [0..<m]"

definition LSFitLinear :: "'a::{zero,one,plus,minus,times,inverse,abs,ord} libm \<Rightarrow> nat \<Rightarrow> nat \<Rightarrow> nat \<Rightarrow>
    'a list \<Rightarrow> 'a list \<Rightarrow> 'a list \<Rightarrow> 'a amath \<Rightarrow> bool \<times> 'a list \<times> 'a amath" where
  "LSFitLinear M m n p x y c A =
     (let G = concat (map (\<lambda>i. map (\<lambda>j. dot m x x i j) [0..<n]) [0..<n]);
          Y = map (\<lambda>i. dot m x y i 0) [0..<n];
          (ok, G, A) = LUdcmp M n p G A
      in if ok then (True, (case LUsolve A G Y of Some c \<Rightarrow> c | None \<Rightarrow> c), A)
         else (False, c, A))"

end
