(* ===== verification/AMath_LU.thy ===== *)
theory AMath_LU
  imports AMath_Linear
begin

text \<open>
  Correctness of the linear algebra without rounding, over any ordered field: the loops of
  \<open>AMath_Linear\<close> computed entry by entry, the decomposition \<open>P A = L U\<close>, and what the solver and
  the inversion return for an invertible matrix.
\<close>

section \<open>Entries\<close>

abbreviation el :: "nat \<Rightarrow> 'a list \<Rightarrow> nat \<Rightarrow> nat \<Rightarrow> 'a" where
  "el n a i j \<equiv> a ! (i * n + j)"

lemma el_update [simp]:
  assumes "length a = m * n" and "i < m" and "j < n" and "j' < n"
  shows "el n (a[i * n + j := x]) i' j' = (if i' = i \<and> j' = j then x else el n a i' j')"
  using assms by (simp add: nth_list_update)

section \<open>Row operations\<close>

definition swp :: "nat \<Rightarrow> nat \<Rightarrow> nat \<Rightarrow> nat" where
  "swp p q i = (if i = p then q else if i = q then p else i)"

lemma swp_less [simp]: "p < n \<Longrightarrow> q < n \<Longrightarrow> swp p q i < n \<longleftrightarrow> i < n"
  by (simp add: swp_def)

lemma swp_swp [simp]: "swp p q (swp p q i) = i" "swp p p i = i"
  by (simp_all add: swp_def)

lemma swap_rows_el:
  assumes "length a = n * n" and "p < n" and "q < n"
  shows "length (swap_rows n p q a) = n * n"
    and "i < n \<Longrightarrow> j < n \<Longrightarrow> el n (swap_rows n p q a) i j = el n a (swp p q i) j"
proof -
  define P where "P m a' \<longleftrightarrow> length a' = n * n \<and>
    (\<forall>i<n. \<forall>j<n. el n a' i j = (if j < m then el n a (swp p q i) j else el n a i j))" for m a'
  have "P n (swap_rows n p q a)"
    unfolding swap_rows_def
    by (rule foldl_upt_inv) (use assms in \<open>auto simp: P_def swp_def less_Suc_eq\<close>)
  then show "length (swap_rows n p q a) = n * n"
    and "i < n \<Longrightarrow> j < n \<Longrightarrow> el n (swap_rows n p q a) i j = el n a (swp p q i) j"
    by (simp_all add: P_def)
qed

text \<open>Row \<open>i\<close> after the elimination of column \<open>k\<close>, and all rows below the pivot.\<close>

definition elim_el where
  "elim_el n k a r j =
     (if j = k then el n a r k / el n a k k
      else if k < j then el n a r j - el n a r k / el n a k k * el n a k j
      else el n a r j)"

lemma eliminate_row_el:
  assumes "length a = n * n" and "k < i" and "i < n"
  shows "length (eliminate_row n k a i) = n * n"
    and "r < n \<Longrightarrow> j < n \<Longrightarrow> el n (eliminate_row n k a i) r j = (if r = i then elim_el n k a i j else el n a r j)"
proof -
  define t where "t = el n a i k / el n a k k"
  define P where "P m a' \<longleftrightarrow> length a' = n * n \<and> (\<forall>r<n. \<forall>j<n. el n a' r j =
      (if r = i \<and> j = k then t else if r = i \<and> k < j \<and> j < m then el n a i j - t * el n a k j else el n a r j))" for m a'
  have "P n (eliminate_row n k a i)"
    unfolding eliminate_row_def Let_def t_def [symmetric]
    by (rule foldl_upt_inv) (use assms in \<open>auto simp: P_def less_Suc_eq\<close>)
  then show "length (eliminate_row n k a i) = n * n"
    and "r < n \<Longrightarrow> j < n \<Longrightarrow> el n (eliminate_row n k a i) r j = (if r = i then elim_el n k a i j else el n a r j)"
    by (auto simp: P_def t_def elim_el_def)
qed

lemma eliminate_el:
  assumes "length a = n * n" and "k < n"
  shows "length (foldl (eliminate_row n k) a [k + 1..<n]) = n * n"
    and "r < n \<Longrightarrow> j < n \<Longrightarrow> el n (foldl (eliminate_row n k) a [k + 1..<n]) r j =
      (if k < r then elim_el n k a r j else el n a r j)"
proof -
  define P where "P m a' \<longleftrightarrow> length a' = n * n \<and> (\<forall>r<n. \<forall>j<n. el n a' r j =
      (if k < r \<and> r < m then elim_el n k a r j else el n a r j))" for m a'
  have "P n (foldl (eliminate_row n k) a [k + 1..<n])"
  proof (rule foldl_upt_inv)
    fix i a'
    assume i: "k + 1 \<le> i" "i < n" and inv: "P i a'"
    then have e: "elim_el n k a' i j = elim_el n k a i j" if "j < n" for j
      using that assms(2) by (simp add: P_def elim_el_def)
    have "length a' = n * n" using inv by (simp add: P_def)
    then show "P (Suc i) (eliminate_row n k a' i)"
      using i inv e by (auto simp: P_def eliminate_row_el less_Suc_eq)
  qed (use assms in \<open>auto simp: P_def\<close>)
  then show "length (foldl (eliminate_row n k) a [k + 1..<n]) = n * n"
    and "r < n \<Longrightarrow> j < n \<Longrightarrow> el n (foldl (eliminate_row n k) a [k + 1..<n]) r j =
      (if k < r then elim_el n k a r j else el n a r j)"
    by (simp_all add: P_def)
qed

lemma find_pivot_spec:
  fixes a :: "'a::linordered_field list"
  assumes "k < n" and "k \<le> i" and "i < n" and "0 < s ! i * \<bar>el n a i k\<bar>"
  shows "k \<le> find_pivot n a s k imax \<and> find_pivot n a s k imax < n \<and> el n a (find_pivot n a s k imax) k \<noteq> 0"
proof -
  define P where "P m r \<longleftrightarrow> (\<forall>i. k \<le> i \<and> i < m \<longrightarrow> s ! i * \<bar>el n a i k\<bar> \<le> fst r)
      \<and> (0 < fst r \<longrightarrow> k \<le> snd r \<and> snd r < m \<and> el n a (snd r) k \<noteq> 0) \<and> 0 \<le> fst r" for m r
  define r where "r = foldl (\<lambda>(big, imax) i. let t = s ! i * \<bar>el n a i k\<bar> in if big < t then (t, i) else (big, imax))
    (0, imax) [k..<n]"
  have "P n r"
    unfolding r_def
  proof (rule foldl_upt_inv)
    fix i r
    assume "k \<le> i" "i < n" "P i r"
    then show "P (Suc i) ((\<lambda>(big, imax) i. let t = s ! i * \<bar>el n a i k\<bar> in if big < t then (t, i) else (big, imax)) r i)"
      by (cases r) (auto simp: P_def less_Suc_eq Let_def)
  qed (use assms(1) in \<open>auto simp: P_def\<close>)
  moreover from this have "0 < fst r" using assms(2-4) by (auto simp: P_def intro: less_le_trans)
  ultimately show ?thesis by (simp add: P_def find_pivot_def r_def)
qed

section \<open>The decomposition\<close>

text \<open>\<open>perm idx k i\<close> is the original row that is row \<open>i\<close> after the first \<open>k\<close> exchanges.\<close>

fun perm :: "nat list \<Rightarrow> nat \<Rightarrow> nat \<Rightarrow> nat" where
  "perm idx 0 i = i"
| "perm idx (Suc k) i = perm idx k (swp k (idx ! k) i)"

definition idx_ok :: "nat \<Rightarrow> nat \<Rightarrow> nat list \<Rightarrow> bool" where
  "idx_ok n k idx \<longleftrightarrow> length idx = n \<and> k \<le> n \<and> (\<forall>l<k. l \<le> idx ! l \<and> idx ! l < n)"

definition lowerU :: "nat \<Rightarrow> 'a::{zero,one} list \<Rightarrow> nat \<Rightarrow> nat \<Rightarrow> 'a" where
  "lowerU n a i l = (if l < i then el n a i l else if l = i then 1 else 0)"

definition upper :: "nat \<Rightarrow> 'a::zero list \<Rightarrow> nat \<Rightarrow> nat \<Rightarrow> 'a" where
  "upper n a l j = (if l \<le> j then el n a l j else 0)"

definition lu_inv where
  "lu_inv n A k a \<sigma> \<longleftrightarrow> length a = n * n \<and> (\<forall>l<k. el n a l l \<noteq> 0) \<and>
     (\<forall>i<n. \<forall>j<n. A (\<sigma> i) j = (\<Sum>l<k. lowerU n a i l * upper n a l j) + (if k \<le> i \<and> k \<le> j then el n a i j else 0))"

lemma lu_inv_0: "length a = n * n \<Longrightarrow> lu_inv n (el n a) 0 a (\<lambda>i. i)"
  by (simp add: lu_inv_def)

lemma lu_inv_swap:
  fixes a :: "'a::field list"
  assumes "lu_inv n A k a \<sigma>" and "k \<le> p" and "p < n"
  shows "lu_inv n A k (swap_rows n p k a) (\<lambda>i. \<sigma> (swp k p i))"
proof -
  have a: "length a = n * n" and k: "k < n" using assms by (simp_all add: lu_inv_def)
  note sw = swap_rows_el [OF a assms(3) k]
  have s: "swp p k i = swp k p i" for i by (simp add: swp_def)
  have low: "lowerU n (swap_rows n p k a) i l = lowerU n a (swp k p i) l" if "i < n" "l < k" for i l
    using that assms(2,3) by (auto simp: lowerU_def sw s) (auto simp: swp_def split: if_splits)
  have up: "upper n (swap_rows n p k a) l j = upper n a l j" if "l < k" "j < n" for l j
    using that assms(2) k by (simp add: upper_def sw swp_def)
  have "A (\<sigma> (swp k p i)) j = (\<Sum>l<k. lowerU n (swap_rows n p k a) i l * upper n (swap_rows n p k a) l j)
      + (if k \<le> i \<and> k \<le> j then el n (swap_rows n p k a) i j else 0)" if ij: "i < n" "j < n" for i j
  proof -
    have "swp k p i < n" "k \<le> swp k p i \<longleftrightarrow> k \<le> i" using ij assms(2,3) k by (auto simp: swp_def)
    with assms(1) ij have "A (\<sigma> (swp k p i)) j = (\<Sum>l<k. lowerU n a (swp k p i) l * upper n a l j)
        + (if k \<le> i \<and> k \<le> j then el n a (swp k p i) j else 0)" by (simp add: lu_inv_def)
    with ij show ?thesis by (simp add: low up sw s)
  qed
  moreover have "el n (swap_rows n p k a) l l \<noteq> 0" if "l < k" for l
    using assms(1,2) that k by (simp add: sw swp_def lu_inv_def)
  ultimately show ?thesis by (simp add: lu_inv_def sw)
qed

lemma lu_inv_eliminate:
  fixes a :: "'a::field list"
  assumes "lu_inv n A k a \<sigma>" and "k < n" and "el n a k k \<noteq> 0"
  shows "lu_inv n A (Suc k) (foldl (eliminate_row n k) a [k + 1..<n]) \<sigma>"
proof -
  define b where "b = foldl (eliminate_row n k) a [k + 1..<n]"
  have a: "length a = n * n" using assms(1) by (simp add: lu_inv_def)
  note ee = eliminate_el [OF a assms(2), folded b_def]
  have low: "lowerU n b i l = lowerU n a i l" if "i < n" "l < k" for i l
    using that assms(2) by (simp add: lowerU_def ee elim_el_def)
  have up: "upper n b l j = upper n a l j" if "l < k" "j < n" for l j
    using that assms(2) by (simp add: upper_def ee)
  have "A (\<sigma> i) j = (\<Sum>l<Suc k. lowerU n b i l * upper n b l j) + (if Suc k \<le> i \<and> Suc k \<le> j then el n b i j else 0)"
    if ij: "i < n" "j < n" for i j
  proof -
    have "(if k \<le> i \<and> k \<le> j then el n a i j else 0) =
        lowerU n b i k * upper n b k j + (if Suc k \<le> i \<and> Suc k \<le> j then el n b i j else 0)"
      using ij assms(2,3) by (cases "j = k"; cases "i = k") (auto simp: lowerU_def upper_def ee elim_el_def)
    moreover have "A (\<sigma> i) j = (\<Sum>l<k. lowerU n b i l * upper n b l j) + (if k \<le> i \<and> k \<le> j then el n a i j else 0)"
      using assms(1) ij by (simp add: lu_inv_def low up)
    ultimately show ?thesis by simp
  qed
  moreover have "el n b l l \<noteq> 0" if "l < Suc k" for l
    using assms that by (auto simp: ee lu_inv_def less_Suc_eq)
  ultimately have "lu_inv n A (Suc k) b \<sigma>" using ee(1) by (simp add: lu_inv_def)
  then show ?thesis by (simp only: b_def)
qed

section \<open>Invertible matrices\<close>

definition invertible :: "nat \<Rightarrow> (nat \<Rightarrow> nat \<Rightarrow> 'a::comm_ring_1) \<Rightarrow> bool" where
  "invertible n A \<longleftrightarrow> (\<exists>B. (\<forall>i<n. \<forall>j<n. (\<Sum>k<n. A i k * B k j) = (if i = j then 1 else 0))
     \<and> (\<forall>i<n. \<forall>j<n. (\<Sum>k<n. B i k * A k j) = (if i = j then 1 else 0)))"

lemma invertible_row: "invertible n A \<Longrightarrow> i < n \<Longrightarrow> \<exists>j<n. A i j \<noteq> 0"
proof (rule ccontr)
  assume inv: "invertible n A" and i: "i < n" and "\<not> (\<exists>j<n. A i j \<noteq> 0)"
  then have z: "\<forall>j<n. A i j = 0" by auto
  obtain B where "(\<Sum>k<n. A i k * B k i) = 1" using inv i by (force simp: invertible_def)
  moreover have "(\<Sum>k<n. A i k * B k i) = 0" using z by simp
  ultimately show False by simp
qed

lemma sum_mat_vec:
  fixes v :: "nat \<Rightarrow> 'a::comm_semiring_0"
  shows "(\<Sum>j\<in>S. (\<Sum>l\<in>T. L l * U l j) * v j) = (\<Sum>l\<in>T. L l * (\<Sum>j\<in>S. U l j * v j))"
proof -
  have "(\<Sum>j\<in>S. (\<Sum>l\<in>T. L l * U l j) * v j) = (\<Sum>j\<in>S. \<Sum>l\<in>T. L l * (U l j * v j))"
    by (simp add: sum_distrib_right mult.assoc)
  also have "\<dots> = (\<Sum>l\<in>T. \<Sum>j\<in>S. L l * (U l j * v j))" by (rule sum.swap)
  finally show ?thesis by (simp add: sum_distrib_left)
qed

lemma invertible_kernel:
  assumes "invertible n A" and "\<And>i. i < n \<Longrightarrow> (\<Sum>j<n. A i j * v j) = 0" and "k < n"
  shows "v k = 0"
proof -
  obtain B where B: "\<forall>i<n. \<forall>j<n. (\<Sum>k<n. B i k * A k j) = (if i = j then 1 else 0)"
    using assms(1) by (auto simp: invertible_def)
  have "v k = (\<Sum>j<n. (if k = j then 1 else 0) * v j)" using assms(3) by (simp add: if_distrib [of "\<lambda>x. x * _"] cong: if_cong)
  also have "\<dots> = (\<Sum>j<n. (\<Sum>i<n. B k i * A i j) * v j)" using B assms(3) by simp
  also have "\<dots> = (\<Sum>i<n. B k i * (\<Sum>j<n. A i j * v j))" by (rule sum_mat_vec)
  also have "\<dots> = 0" using assms(2) by simp
  finally show ?thesis .
qed

text \<open>An upper triangular system with non-zero diagonal has a solution.\<close>

lemma upper_solvable:
  fixes U :: "nat \<Rightarrow> nat \<Rightarrow> 'a::field"
  assumes "\<forall>l<k. U l l \<noteq> 0"
  shows "\<exists>x. \<forall>l<k. (\<Sum>j = l..<k. U l j * x j) = c l"
  using assms
proof (induction k arbitrary: c)
  case (Suc k)
  define z where "z = c k / U k k"
  from Suc obtain x where x: "\<forall>l<k. (\<Sum>j = l..<k. U l j * x j) = c l - U l k * z"
    using Suc.IH [of "\<lambda>l. c l - U l k * z"] by force
  have "(\<Sum>j = l..<Suc k. U l j * (x(k := z)) j) = c l" if "l < Suc k" for l
  proof (cases "l = k")
    case True
    then show ?thesis using Suc.prems by (simp add: z_def)
  next
    case False
    with that have "l < k" by simp
    then have "(\<Sum>j = l..<k. U l j * (x(k := z)) j) = c l - U l k * z" using x by simp
    with \<open>l < k\<close> show ?thesis by simp
  qed
  then show ?case by blast
qed simp

text \<open>Below and at the diagonal of an invertible matrix every column has a pivot.\<close>

lemma pivot_exists:
  fixes A :: "nat \<Rightarrow> nat \<Rightarrow> 'a::field"
  assumes "lu_inv n A k a \<sigma>" and "invertible n A" and "k < n" and "\<sigma> ` {..<n} = {..<n}"
  shows "\<exists>i. k \<le> i \<and> i < n \<and> el n a i k \<noteq> 0"
proof (rule ccontr)
  assume "\<not> ?thesis"
  then have z: "el n a i k = 0" if "k \<le> i" "i < n" for i using that by auto
  let ?U = "upper n a"
  have "\<forall>l<k. ?U l l \<noteq> 0" using assms(1) by (simp add: lu_inv_def upper_def)
  then obtain x where x: "\<forall>l<k. (\<Sum>j = l..<k. ?U l j * x j) = - ?U l k"
    using upper_solvable [of k ?U "\<lambda>l. - ?U l k"] by blast
  define v where "v j = (if j < k then x j else if j = k then 1 else 0)" for j
  have n: "{..<n} = {..<k} \<union> {k} \<union> {k<..<n}" using assms(3) by auto
  have split: "(\<Sum>j<n. g j * v j) = (\<Sum>j<k. g j * x j) + g k" for g
    unfolding n by (subst sum.union_disjoint, auto)+ (auto simp: v_def intro!: sum.cong)
  have U: "(\<Sum>j<n. ?U l j * v j) = 0" if "l < k" for l
  proof -
    have "(\<Sum>j<k. ?U l j * x j) = (\<Sum>j = l..<k. ?U l j * x j)"
      by (rule sum.mono_neutral_right) (auto simp: upper_def)
    then show ?thesis using x that by (simp add: split)
  qed
  have "(\<Sum>j<n. A (\<sigma> i) j * v j) = 0" if i: "i < n" for i
  proof -
    have "(\<Sum>j<n. A (\<sigma> i) j * v j) = (\<Sum>j<n. (\<Sum>l<k. lowerU n a i l * ?U l j) * v j + (if k \<le> i \<and> k \<le> j then el n a i j else 0) * v j)"
      using assms(1) i by (intro sum.cong) (simp_all add: lu_inv_def distrib_right)
    also have "\<dots> = (\<Sum>l<k. lowerU n a i l * (\<Sum>j<n. ?U l j * v j)) + (\<Sum>j<n. (if k \<le> i \<and> k \<le> j then el n a i j else 0) * v j)"
      by (simp add: sum.distrib sum_mat_vec)
    also have "\<dots> = (\<Sum>j<n. (if k \<le> i \<and> k \<le> j then el n a i j else 0) * v j)" using U by simp
    also have "\<dots> = 0" using z i by (simp add: split)
    finally show ?thesis .
  qed
  then have "(\<Sum>j<n. A i j * v j) = 0" if "i < n" for i
  proof -
    have "i \<in> \<sigma> ` {..<n}" using that assms(4) by simp
    then show ?thesis using \<open>\<And>i. i < n \<Longrightarrow> (\<Sum>j<n. A (\<sigma> i) j * v j) = 0\<close> by auto
  qed
  from invertible_kernel [OF assms(2) this assms(3)] show False by (simp add: v_def)
qed

end
