(* ===== verification/AMath_Solve.thy ===== *)
theory AMath_Solve
  imports AMath_LU
begin

text \<open>
  The routines built on the decomposition, without rounding: \<open>LUdcmp\<close> as a whole, substitution,
  inversion and least squares.
\<close>

section \<open>The whole decomposition\<close>

lemma row_big_spec:
  fixes a :: "'a::linordered_field list"
  shows "0 \<le> row_big n a i" and "j < n \<Longrightarrow> \<bar>el n a i j\<bar> \<le> row_big n a i"
proof -
  define P where "P m big \<longleftrightarrow> 0 \<le> big \<and> (\<forall>j<m. \<bar>el n a i j\<bar> \<le> big)" for m and big :: 'a
  have "P n (row_big n a i)"
    unfolding row_big_def
    by (rule foldl_upt_inv) (auto simp: P_def Let_def less_Suc_eq)
  then show "0 \<le> row_big n a i" and "j < n \<Longrightarrow> \<bar>el n a i j\<bar> \<le> row_big n a i" by (simp_all add: P_def)
qed

lemma scale_loop_ok:
  fixes a :: "'a::linordered_field list"
  assumes "\<forall>i \<in> set is. 0 < row_big n a i" and "distinct is" and "\<forall>i \<in> set is. i < length s"
  shows "\<exists>s'. scale_loop n a is s = Some s' \<and> length s' = length s
    \<and> (\<forall>i < length s. i \<in> set is \<or> 0 < s ! i \<longrightarrow> 0 < s' ! i)"
  using assms
proof (induction "is" arbitrary: s)
  case (Cons i "is")
  have "\<exists>s'. scale_loop n a is (s[i := 1 / row_big n a i]) = Some s' \<and> length s' = length s
    \<and> (\<forall>j < length s. j \<in> set is \<or> 0 < s[i := 1 / row_big n a i] ! j \<longrightarrow> 0 < s' ! j)"
    using Cons.IH [of "s[i := 1 / row_big n a i]"] Cons.prems by simp
  then show ?case using Cons.prems by (auto simp: Let_def nth_list_update split: if_splits)
qed simp

text \<open>The state of the main loop before turn \<open>k\<close>.\<close>

definition main_inv where
  "main_inv n A k = (\<lambda>(a, s, imax, np, idx). lu_inv n A k a (perm idx k) \<and> idx_ok n k idx
     \<and> length s = n \<and> (\<forall>i<n. 0 < s ! i) \<and> 0 \<le> (np::int))"

lemma perm_frame: "k \<le> l \<Longrightarrow> perm (idx[l := v]) k = perm idx k"
  by (induction k) (auto simp: fun_eq_iff)

lemma swp_image: "p < n \<Longrightarrow> q < n \<Longrightarrow> swp p q ` {..<n} = {..<n}"
  by (rule set_eqI) (metis imageE imageI lessThan_iff swp_less swp_swp)

lemma perm_image: "idx_ok n k idx \<Longrightarrow> perm idx k ` {..<n} = {..<n}"
proof (induction k)
  case (Suc k)
  have "idx_ok n k idx" "k < n" "idx ! k < n" using Suc.prems by (auto simp: idx_ok_def)
  moreover have "perm idx (Suc k) ` {..<n} = perm idx k ` (swp k (idx ! k) ` {..<n})"
    by (simp add: image_image)
  ultimately show ?case using Suc.IH by (simp only: swp_image)
qed simp

lemma main_step:
  fixes A :: "nat \<Rightarrow> nat \<Rightarrow> 'a::linordered_field"
  assumes inv: "main_inv n A k st" and k: "k < n" and "invertible n A"
  shows "main_inv n A (Suc k) (lu_step M n k st)"
proof -
  obtain a s imax np idx where st: "st = (a, s, imax, np, idx)" by (cases st)
  have a: "lu_inv n A k a (perm idx k)" "idx_ok n k idx" "length s = n" "\<forall>i<n. 0 < s ! i" "0 \<le> np"
    using inv by (simp_all add: main_inv_def st)
  obtain i where i: "k \<le> i" "i < n" "el n a i k \<noteq> 0"
    using pivot_exists [OF a(1) assms(3) k perm_image [OF a(2)]] by blast
  define p where "p = find_pivot n a s k imax"
  have p: "k \<le> p" "p < n" "el n a p k \<noteq> 0"
    using find_pivot_spec [OF k i(1,2), of s a imax] i a(4) by (simp_all add: p_def)
  define a1 where "a1 = (if k \<noteq> p then swap_rows n p k a else a)"
  define s1 where "s1 = (if k \<noteq> p then s[p := s ! k] else s)"
  define idx1 where "idx1 = idx[k := p]"
  have len: "length a = n * n" using a(1) by (simp add: lu_inv_def)
  have ix: "idx_ok n (Suc k) idx1" using a(2) k p by (auto simp: idx_ok_def idx1_def nth_list_update)
  have "perm idx1 (Suc k) = (\<lambda>i. perm idx k (swp k p i))"
    using a(2) k by (simp add: idx1_def perm_frame fun_eq_iff idx_ok_def)
  then have 1: "lu_inv n A k a1 (perm idx1 (Suc k))"
    using lu_inv_swap [OF a(1) p(1,2)] a(1) by (auto simp: a1_def)
  have piv: "el n a1 k k \<noteq> 0" using p k swap_rows_el(2) [OF len p(2) k k k] by (auto simp: a1_def swp_def)
  have "lu_inv n A (Suc k) (foldl (eliminate_row n k) a1 [k + 1..<n]) (perm idx1 (Suc k))"
    by (rule lu_inv_eliminate [OF 1 k piv])
  moreover have "lu_step M n k st =
      (foldl (eliminate_row n k) a1 [k + 1..<n], s1, p, if k \<noteq> p then np + 1 else np, idx1)"
    using piv p_def [symmetric] by (cases "k = p") (auto simp: st lu_step_def a1_def s1_def idx1_def Let_def)
  ultimately show ?thesis
    using a ix k p by (auto simp: main_inv_def s1_def nth_list_update)
qed

text \<open>What \<open>LUdcmp\<close> leaves: the factors of the row-permuted matrix.\<close>

definition decomposed where
  "decomposed n A a L \<longleftrightarrow> lu_n L = int n \<and> 0 \<le> lu_np L \<and> idx_ok n n (lu_idx L)
     \<and> lu_inv n A n a (perm (lu_idx L) n)"

text \<open>The index vector has the length of the dimension, once there is one.\<close>

definition lu_ok :: "ludcmp \<Rightarrow> bool" where
  "lu_ok L \<longleftrightarrow> lu_n L = -1 \<or> lu_n L = int (length (lu_idx L))"

lemma LUdcmp_invertible:
  fixes a :: "'a::linordered_field list"
  assumes "length a = n * n" and "invertible n (el n a)" and "lu_ok (ma_lu W)"
  shows "\<exists>a' W'. LUdcmp M n p a W = (True, a', W') \<and> decomposed n (el n a) a' (ma_lu W')"
proof -
  define L where "L = Reset n p (ma_lu W)"
  have len: "length (lu_idx L) = n" using assms(3) by (auto simp: L_def Reset_def resize_def lu_ok_def)
  have big: "0 < row_big n a i" if i: "i < n" for i
  proof -
    obtain j where "j < n" "el n a i j \<noteq> 0" using invertible_row [OF assms(2) i] by blast
    then have "0 < \<bar>el n a i j\<bar>" by simp
    with row_big_spec(2) [OF \<open>j < n\<close>, of a i] show ?thesis by (rule less_le_trans [rotated])
  qed
  obtain s where s: "scale_loop n a [0..<n] (replicate n 0) = Some s" "length s = n" "\<forall>i<n. 0 < s ! i"
    using scale_loop_ok [of "[0..<n]" n a "replicate n 0"] big by auto
  define st where "st = foldl (\<lambda>st k. lu_step M n k st) (a, s, 0, 0::int, lu_idx L) [0..<n]"
  have "main_inv n (el n a) n st"
    unfolding st_def
  proof (rule foldl_upt_inv [where P = "main_inv n (el n a)"])
    show "main_inv n (el n a) 0 (a, s, 0, 0, lu_idx L)"
      using s len assms(1) by (simp add: main_inv_def lu_inv_def idx_ok_def)
  qed (use main_step assms(2) in simp_all)
  moreover obtain a' s' imax np idx where "st = (a', s', imax, np, idx)" by (cases st)
  moreover have "lu_n L = int n" by (simp add: L_def Reset_def)
  ultimately show ?thesis
    using s by (auto simp: LUdcmp_def L_def [symmetric] st_def [symmetric] main_inv_def decomposed_def)
qed

section \<open>Substitution\<close>

lemma perm_stable: "idx_ok n k idx \<Longrightarrow> r < m \<Longrightarrow> m \<le> k \<Longrightarrow> perm idx m r = perm idx (Suc r) r"
proof (induction m)
  case (Suc m)
  show ?case
  proof (cases "r = m")
    case False
    then have "r < m" "m \<le> idx ! m" using Suc.prems by (auto simp: idx_ok_def)
    then have "swp m (idx ! m) r = r" by (simp add: swp_def)
    then show ?thesis using Suc \<open>r < m\<close> by simp
  qed simp
qed simp

text \<open>After forward substitution \<open>x\<close> solves \<open>L x = P b\<close>.\<close>

lemma forward_spec:
  fixes lu :: "'a::linordered_field list"
  assumes ix: "idx_ok n n idx" and len: "length b = n"
  defines "x \<equiv> fst (foldl (forward_step n lu idx) (b, 0) [0..<n])"
  shows "length x = n" and "r < n \<Longrightarrow> x ! r + (\<Sum>l<r. el n lu r l * x ! l) = b ! perm idx n r"
proof -
  define P where "P i st \<longleftrightarrow> length (fst st) = n
    \<and> (\<forall>r<i. fst st ! r + (\<Sum>l<r. el n lu r l * fst st ! l) = b ! perm idx (Suc r) r)
    \<and> (\<forall>r. i \<le> r \<and> r < n \<longrightarrow> fst st ! r = b ! perm idx i r)
    \<and> snd st \<le> i \<and> (\<forall>r < (if snd st = 0 then i else snd st - 1). fst st ! r = 0)" for i st
  have "P n (foldl (forward_step n lu idx) (b, 0) [0..<n])"
  proof (rule foldl_upt_inv)
    fix i st assume i: "0 \<le> i" "i < n" and inv: "P i st"
    obtain y ii where st: "st = (y, ii)" by (cases st)
    define k where "k = idx ! i"
    have k: "i \<le> k" "k < n" using ix i by (auto simp: idx_ok_def k_def)
    have y: "length y = n" "\<forall>r<i. y ! r + (\<Sum>l<r. el n lu r l * y ! l) = b ! perm idx (Suc r) r"
      "\<forall>r. i \<le> r \<and> r < n \<longrightarrow> y ! r = b ! perm idx i r" "ii \<le> i"
      "\<forall>r < (if ii = 0 then i else ii - 1). y ! r = 0"
      using inv by (simp_all add: P_def st)
    define sm where "sm = (\<Sum>l<i. el n lu i l * y ! l)"
    define z where "z = y[k := y ! i, i := y ! k - sm]"
    have lower: "(\<Sum>j = ii - 1..<i. el n lu i j * y ! j) = sm"
      unfolding sm_def using y(4,5) by (intro sum.mono_neutral_left) (auto split: if_splits)
    have "foldl (\<lambda>s j. s - el n lu i j * y[k := y ! i] ! j) (y ! k) [ii - 1..<i] = y ! k - sm"
    proof -
      have "(\<Sum>j = ii - 1..<i. el n lu i j * y[k := y ! i] ! j) = (\<Sum>j = ii - 1..<i. el n lu i j * y ! j)"
        by (rule sum.cong) (use k in auto)
      then show ?thesis by (simp add: foldl_diff lower [unfolded One_nat_def])
    qed
    moreover have "sm = 0" if "ii = 0" using y(5) that by (simp add: sm_def)
    ultimately have step: "forward_step n lu idx st i = (z, if ii \<noteq> 0 then ii else if y ! k = 0 then 0 else i + 1)"
      by (simp add: forward_step_def st Let_def z_def k_def)
    have zk: "z ! r = (if r = i then y ! k - sm else if r = k then y ! i else y ! r)" if "r < n" for r
      using that k i y(1) by (simp add: z_def nth_list_update)
    have "z ! r = b ! perm idx (Suc i) r" if "Suc i \<le> r" "r < n" for r
      using that y(3) k i by (auto simp: zk k_def [symmetric] swp_def)
    moreover have "z ! r + (\<Sum>l<r. el n lu r l * z ! l) = b ! perm idx (Suc r) r" if "r < Suc i" for r
    proof -
      have sum: "(\<Sum>l<r. el n lu r l * z ! l) = (\<Sum>l<r. el n lu r l * y ! l)"
        by (rule sum.cong) (use that k i zk in auto)
      show ?thesis
      proof (cases "r = i")
        case True
        have "z ! i = b ! perm idx i k - sm" using y(3) k i by (simp add: zk)
        then show ?thesis using True sum by (simp add: sm_def k_def [symmetric] swp_def)
      next
        case False
        then have "r < i" "z ! r = y ! r" using that k i by (auto simp: zk)
        then show ?thesis using sum y(2) by simp
      qed
    qed
    moreover have "\<forall>r < (if ii = 0 then if y ! k = 0 then Suc i else i else ii - 1). z ! r = 0"
      using y(4,5) k i \<open>ii = 0 \<Longrightarrow> sm = 0\<close> by (auto simp: zk less_Suc_eq)
    ultimately show "P (Suc i) (forward_step n lu idx st i)"
      using y(1,4) unfolding step P_def by (auto simp: z_def)
  qed (use len in \<open>auto simp: P_def\<close>)
  then show "length x = n" and "r < n \<Longrightarrow> x ! r + (\<Sum>l<r. el n lu r l * x ! l) = b ! perm idx n r"
    using perm_stable [OF ix, of r n] by (simp_all add: P_def x_def del: perm.simps)
qed

text \<open>After back substitution \<open>x\<close> solves \<open>U x = y\<close>.\<close>

lemma back_spec:
  fixes lu :: "'a::linordered_field list"
  assumes "length y = n" and "\<forall>l<n. el n lu l l \<noteq> 0"
  defines "x \<equiv> foldl (back_step n lu) y (rev [0..<n])"
  shows "length x = n" and "r < n \<Longrightarrow> (\<Sum>j = r..<n. el n lu r j * x ! j) = y ! r"
proof -
  define P where "P m z \<longleftrightarrow> length z = n \<and> (\<forall>r. m \<le> r \<and> r < n \<longrightarrow> (\<Sum>j = r..<n. el n lu r j * z ! j) = y ! r)
    \<and> (\<forall>r. r < m \<and> r < n \<longrightarrow> z ! r = y ! r)" for m z
  have "P 0 (foldl (back_step n lu) y (rev [0..<n]))"
  proof (rule foldl_down_inv)
    fix i z assume i: "i < n" and inv: "P (Suc i) z"
    define c where "c = (z ! i - (\<Sum>j = i + 1..<n. el n lu i j * z ! j)) / el n lu i i"
    have step: "back_step n lu z i = z[i := c]" by (simp add: back_step_def foldl_diff c_def)
    have z: "length z = n" using inv by (simp add: P_def)
    have sm: "(\<Sum>j = r..<n. el n lu r j * z[i := c] ! j) = (\<Sum>j = r..<n. el n lu r j * z ! j)" if "i < r" for r
      by (rule sum.cong) (use that in auto)
    have "(\<Sum>j = i..<n. el n lu i j * z[i := c] ! j) = el n lu i i * c + (\<Sum>j = Suc i..<n. el n lu i j * z[i := c] ! j)"
      using i z by (simp add: sum.atLeast_Suc_lessThan)
    also have "(\<Sum>j = Suc i..<n. el n lu i j * z[i := c] ! j) = (\<Sum>j = Suc i..<n. el n lu i j * z ! j)"
      by (rule sum.cong) auto
    finally have "(\<Sum>j = i..<n. el n lu i j * z[i := c] ! j) = z ! i" using assms(2) i by (simp add: c_def)
    then have "(\<Sum>j = r..<n. el n lu r j * z[i := c] ! j) = y ! r" if "i \<le> r" "r < n" for r
      using that inv sm by (cases "r = i") (auto simp: P_def)
    then show "P i (back_step n lu z i)" using inv i by (auto simp: P_def step)
  qed (use assms(1) in \<open>auto simp: P_def\<close>)
  then show "length x = n" and "r < n \<Longrightarrow> (\<Sum>j = r..<n. el n lu r j * x ! j) = y ! r"
    by (auto simp: P_def x_def)
qed

lemma substitute_spec:
  fixes lu :: "'a::linordered_field list"
  assumes dec: "decomposed n A lu L" and len: "length b = n"
  defines "x \<equiv> substitute n lu (lu_idx L) b"
  shows "length x = n" and "i < n \<Longrightarrow> (\<Sum>j<n. A i j * x ! j) = b ! i"
proof -
  let ?\<sigma> = "perm (lu_idx L) n"
  define y where "y = fst (foldl (forward_step n lu (lu_idx L)) (b, 0) [0..<n])"
  have ix: "idx_ok n n (lu_idx L)" and lu: "lu_inv n A n lu ?\<sigma>" using dec by (simp_all add: decomposed_def)
  note fw = forward_spec [OF ix len, where lu = lu, folded y_def]
  have x: "x = foldl (back_step n lu) y (rev [0..<n])" by (simp add: x_def substitute_def y_def)
  have diag: "\<forall>l<n. el n lu l l \<noteq> 0" using lu by (simp add: lu_inv_def)
  note bk = back_spec [OF fw(1) diag, folded x]
  show "length x = n" by (rule bk(1))
  have up: "(\<Sum>j<n. upper n lu l j * x ! j) = y ! l" if "l < n" for l
  proof -
    have "(\<Sum>j<n. upper n lu l j * x ! j) = (\<Sum>j = l..<n. el n lu l j * x ! j)"
      by (rule sum.mono_neutral_cong_right) (auto simp: upper_def)
    with bk(2) [OF that] show ?thesis by simp
  qed
  have row: "(\<Sum>j<n. A (?\<sigma> r) j * x ! j) = b ! ?\<sigma> r" if r: "r < n" for r
  proof -
    have "(\<Sum>j<n. A (?\<sigma> r) j * x ! j) = (\<Sum>j<n. (\<Sum>l<n. lowerU n lu r l * upper n lu l j) * x ! j)"
      using lu r by (intro sum.cong) (simp_all add: lu_inv_def)
    also have "\<dots> = (\<Sum>l<n. lowerU n lu r l * y ! l)" using up by (simp add: sum_mat_vec)
    also have "\<dots> = (\<Sum>l\<in>{..<r} \<union> {r}. lowerU n lu r l * y ! l)"
      using r by (intro sum.mono_neutral_right) (auto simp: lowerU_def)
    also have "\<dots> = y ! r + (\<Sum>l<r. el n lu r l * y ! l)"
      by (subst sum.union_disjoint) (auto simp: lowerU_def)
    finally show ?thesis using fw(2) [OF r] by simp
  qed
  assume "i < n"
  then have "i \<in> ?\<sigma> ` {..<n}" using perm_image [OF ix] by simp
  then show "(\<Sum>j<n. A i j * x ! j) = b ! i" using row by auto
qed

lemma LUsolve_spec:
  fixes lu :: "'a::linordered_field list"
  assumes "decomposed n A lu (ma_lu W)" and "length b = n"
  shows "\<exists>x. LUsolve W lu b = Some x \<and> length x = n \<and> (\<forall>i<n. (\<Sum>j<n. A i j * x ! j) = b ! i)"
  using substitute_spec [OF assms] assms(1) by (auto simp: LUsolve_def IsSingular_def decomposed_def)

section \<open>Products and inversion\<close>

lemma concat_blocks:
  assumes "\<And>i. i < m \<Longrightarrow> length (f i) = n"
  shows "length (concat (map f [0..<m])) = m * n"
    and "i < m \<Longrightarrow> j < n \<Longrightarrow> concat (map f [0..<m]) ! (i * n + j) = f i ! j"
proof -
  have "length (concat (map f [0..<m])) = m * n \<and> (\<forall>i<m. \<forall>j<n. concat (map f [0..<m]) ! (i * n + j) = f i ! j)"
    using assms
  proof (induction m)
    case (Suc m)
    then have ih: "length (concat (map f [0..<m])) = m * n" "\<forall>i<m. \<forall>j<n. concat (map f [0..<m]) ! (i * n + j) = f i ! j"
      by simp_all
    show ?case using ih Suc.prems by (auto simp: nth_append less_Suc_eq)
  qed simp
  then show "length (concat (map f [0..<m])) = m * n"
    and "i < m \<Longrightarrow> j < n \<Longrightarrow> concat (map f [0..<m]) ! (i * n + j) = f i ! j" by simp_all
qed

lemma multiply_el:
  fixes L :: "'a::comm_semiring_0 list"
  shows "length (MatrixMultiply m p n L R []) = m * n"
    and "i < m \<Longrightarrow> j < n \<Longrightarrow> MatrixMultiply m p n L R [] ! (i * n + j) = (\<Sum>k<p. L ! (i * p + k) * R ! (k * n + j))"
  using concat_blocks [of m "\<lambda>i. map (\<lambda>j. foldl (\<lambda>sum k. sum + L ! (i * p + k) * R ! (k * n + j)) 0 [0..<p]) [0..<n]" n]
  by (simp_all add: MatrixMultiply_def foldl_sum atLeast0LessThan)

lemma unit_el:
  shows "length (unit_matrix n :: 'a::zero_neq_one list) = n * n"
    and "i < n \<Longrightarrow> j < n \<Longrightarrow> el n (unit_matrix n :: 'a list) i j = (if i = j then 1 else 0)"
proof -
  define P where "P m y \<longleftrightarrow> length y = n * n \<and> (\<forall>i<n. \<forall>j<n. el n y i j = (if i = j \<and> i < m then 1 else 0))"
    for m and y :: "'a list"
  have "P n (unit_matrix n)"
    unfolding unit_matrix_def
    by (rule foldl_upt_inv) (auto simp: P_def less_Suc_eq)
  then show "length (unit_matrix n :: 'a list) = n * n"
    and "i < n \<Longrightarrow> j < n \<Longrightarrow> el n (unit_matrix n :: 'a list) i j = (if i = j then 1 else 0)"
    by (simp_all add: P_def)
qed

lemma matrix_eqI:
  assumes "length a = n * n" and "length b = n * n" and "\<And>i j. i < n \<Longrightarrow> j < n \<Longrightarrow> el n a i j = el n b i j"
  shows "a = b"
proof (rule nth_equalityI)
  fix l assume "l < length a"
  then have "l div n < n" "l mod n < n" "l = (l div n) * n + l mod n"
    using assms(1) by (auto simp: less_mult_imp_div_less) (metis mod_less_divisor mult_0_right not_gr_zero not_less_zero)
  then show "a ! l = b ! l" using assms(3) [of "l div n" "l mod n"] by simp
qed (simp add: assms)

lemma write_column:
  assumes "length x = n * m" and "j < m"
  shows "length (foldl (\<lambda>x i. x[i * m + j := col ! i]) x [0..<n]) = n * m"
    and "r < n \<Longrightarrow> c < m \<Longrightarrow> foldl (\<lambda>x i. x[i * m + j := col ! i]) x [0..<n] ! (r * m + c) = (if c = j then col ! r else x ! (r * m + c))"
proof -
  define P where "P k z \<longleftrightarrow> length z = n * m \<and>
    (\<forall>r<n. \<forall>c<m. z ! (r * m + c) = (if c = j \<and> r < k then col ! r else x ! (r * m + c)))" for k z
  have "P n (foldl (\<lambda>x i. x[i * m + j := col ! i]) x [0..<n])"
    by (rule foldl_upt_inv) (use assms in \<open>auto simp: P_def less_Suc_eq\<close>)
  then show "length (foldl (\<lambda>x i. x[i * m + j := col ! i]) x [0..<n]) = n * m"
    and "r < n \<Longrightarrow> c < m \<Longrightarrow> foldl (\<lambda>x i. x[i * m + j := col ! i]) x [0..<n] ! (r * m + c) = (if c = j then col ! r else x ! (r * m + c))"
    by (simp_all add: P_def)
qed

lemma solve_unit:
  fixes lu :: "'a::linordered_field list"
  assumes dec: "decomposed n A lu (ma_lu W)"
  shows "\<exists>y. LUsolve_matrix W lu n True (unit_matrix n) (unit_matrix n) = Some y \<and> length y = n * n
    \<and> (\<forall>i<n. \<forall>j<n. (\<Sum>k<n. A i k * el n y k j) = (if i = j then 1 else 0))"
proof -
  define f where "f x j = (let col = map (\<lambda>i. el n x i j) [0..<n];
      col = (case LUsolve W lu col of Some c \<Rightarrow> c | None \<Rightarrow> col)
    in foldl (\<lambda>x i. x[i * n + j := col ! i]) x [0..<n])" for x :: "'a list" and j
  define P where "P m y \<longleftrightarrow> length y = n * n
    \<and> (\<forall>j<m. \<forall>i<n. (\<Sum>k<n. A i k * el n y k j) = (if i = j then 1 else 0))
    \<and> (\<forall>i<n. \<forall>j<n. m \<le> j \<longrightarrow> el n y i j = (if i = j then 1 else 0))" for m and y :: "'a list"
  have "P n (foldl f (unit_matrix n) [0..<n])"
  proof (rule foldl_upt_inv)
    fix j y assume j: "0 \<le> j" "j < n" and inv: "P j y"
    define col where "col = map (\<lambda>i. el n y i j) [0..<n]"
    obtain c where c: "LUsolve W lu col = Some c" "length c = n" "\<forall>i<n. (\<Sum>k<n. A i k * c ! k) = col ! i"
      using LUsolve_spec [OF dec, of col] by (auto simp: col_def)
    have len: "length y = n * n" using inv by (simp add: P_def)
    have "f y j = foldl (\<lambda>x i. x[i * n + j := c ! i]) y [0..<n]"
      by (simp add: f_def col_def [symmetric] c(1))
    then show "P (Suc j) (f y j)"
      using write_column [OF len j(2), where col = c] inv c(3) j by (auto simp: P_def less_Suc_eq col_def)
  qed (auto simp: P_def unit_el)
  moreover have "LUsolve_matrix W lu n True (unit_matrix n) (unit_matrix n) = Some (foldl f (unit_matrix n) [0..<n])"
    using dec by (simp add: LUsolve_matrix_def IsSingular_def decomposed_def f_def [abs_def])
  ultimately show ?thesis by (auto simp: P_def)
qed

end
