(* ===== verification/AMath_Properties.thy ===== *)
theory AMath_Properties
  imports AMath_Solve
begin

text \<open>
  The properties of the linear algebra. Those about results hold over every ordered field, that
  is for the routines without rounding; the counterexamples are computed in binary64.
\<close>

section \<open>Equations and inverses\<close>

lemma multiply_unit:
  fixes a :: "'a::linordered_field list"
  assumes "\<forall>i<n. \<forall>j<n. (\<Sum>k<n. el n a i k * el n y k j) = (if i = j then 1 else 0)"
  shows "MatrixMultiply n n n a y [] = unit_matrix n"
proof (rule matrix_eqI)
  show "el n (MatrixMultiply n n n a y []) i j = el n (unit_matrix n) i j" if "i < n" "j < n" for i j
    using that assms multiply_el(2) [of i n j n n a y] unit_el(2) [of i n j, where 'a = 'a] by simp
qed (simp_all add: multiply_el unit_el)

lemma right_inverse_left:
  fixes a :: "'a::linordered_field list"
  assumes "invertible n (el n a)"
    and y: "\<forall>i<n. \<forall>j<n. (\<Sum>k<n. el n a i k * el n y k j) = (if i = j then 1 else 0)"
  shows "\<forall>i<n. \<forall>j<n. (\<Sum>k<n. el n y i k * el n a k j) = (if i = j then 1 else 0)"
proof -
  obtain B where B: "\<forall>i<n. \<forall>j<n. (\<Sum>k<n. B i k * el n a k j) = (if i = j then 1 else 0)"
    using assms(1) by (auto simp: invertible_def)
  have "el n y i k = B i k" if "i < n" "k < n" for i k
  proof -
    have "el n y i k = (\<Sum>j<n. (if i = j then 1 else 0) * el n y j k)"
      using that by (simp add: if_distrib [of "\<lambda>x. x * _"] cong: if_cong)
    also have "\<dots> = (\<Sum>j<n. (\<Sum>m<n. B i m * el n a m j) * el n y j k)" using B that by simp
    also have "\<dots> = (\<Sum>m<n. B i m * (\<Sum>j<n. el n a m j * el n y j k))" by (rule sum_mat_vec)
    also have "\<dots> = (\<Sum>m<n. B i m * (if m = k then 1 else 0))" using y that by simp
    also have "\<dots> = B i k" using that by (simp add: if_distrib [of "\<lambda>x. _ * x"] cong: if_cong)
    finally show ?thesis .
  qed
  with B show ?thesis by simp
qed

text \<open>
  C27: for every invertible matrix \<open>LUdcmp\<close> succeeds and \<open>LUsolve\<close> then returns the solution of the
  linear equations, in exact arithmetic.
\<close>

theorem lu_solves:
  fixes a b :: "'a::linordered_field list"
  assumes "length a = n * n" and "length b = n" and "invertible n (el n a)" and "lu_ok (ma_lu W)"
  shows "\<exists>a' W' x. LUdcmp M n p a W = (True, a', W') \<and> LUsolve W' a' b = Some x
    \<and> length x = n \<and> MatrixMultiply n n 1 a x [] = b"
proof -
  obtain a' W' where d: "LUdcmp M n p a W = (True, a', W')" "decomposed n (el n a) a' (ma_lu W')"
    using LUdcmp_invertible [OF assms(1,3,4)] by blast
  then obtain x where x: "LUsolve W' a' b = Some x" "length x = n" "\<forall>i<n. (\<Sum>j<n. el n a i j * x ! j) = b ! i"
    using LUsolve_spec [OF d(2) assms(2)] by blast
  have "MatrixMultiply n n 1 a x [] = b"
  proof (rule nth_equalityI)
    show "MatrixMultiply n n 1 a x [] ! i = b ! i" if "i < length (MatrixMultiply n n 1 a x [])" for i
      using multiply_el(2) [of i n 0 1 n a x] that x(3) by (simp add: multiply_el(1))
  qed (simp add: multiply_el(1) assms(2))
  with d x show ?thesis by blast
qed

definition demo_matrix :: "rat list" where
  "demo_matrix = [0, 2, 1,  1, 1, 0,  2, 0, 1]"

definition demo_inverse :: "rat list" where
  "demo_inverse = [-1/4, 1/2, 1/4,  1/4, 1/2, -1/4,  1/2, -1, 1/2]"

lemma demo_invertible: "invertible 3 (el 3 demo_matrix)"
  unfolding invertible_def
proof (intro exI conjI)
  show "\<forall>i<3. \<forall>j<3. (\<Sum>k<3. el 3 demo_matrix i k * el 3 demo_inverse k j) = (if i = j then 1 else 0)"
    "\<forall>i<3. \<forall>j<3. (\<Sum>k<3. el 3 demo_inverse i k * el 3 demo_matrix k j) = (if i = j then 1 else 0)"
    by code_simp+
qed

lemma AMath_new_ok: "lu_ok (ma_lu AMath_new)"
  by (simp add: lu_ok_def AMath_new_def LUdcmp_init_def)

definition demo_libm :: "rat libm" where
  "demo_libm = \<lparr>lib_dec = (\<lambda>n k. of_int n * 10 powi k), lib_int = of_int, lib_trunc = \<lambda>x. \<lfloor>x\<rfloor>,
     lib_floor = (\<lambda>x. of_int \<lfloor>x\<rfloor>), lib_fmod = (\<lambda>x y. x), lib_sqrt = (\<lambda>x. x), lib_sin = (\<lambda>x. x),
     lib_cos = (\<lambda>x. x), lib_tan = (\<lambda>x. x), lib_asin = (\<lambda>x. x), lib_acos = (\<lambda>x. x), lib_atan = (\<lambda>x. x),
     lib_atan2 = (\<lambda>y x. y), lib_exp = (\<lambda>x. x), lib_pow = (\<lambda>x y. x), lib_log10 = (\<lambda>x. x)\<rparr>"

theorem lu_solves_witness:
  "\<exists>a' W' x. LUdcmp demo_libm 3 0 demo_matrix AMath_new = (True, a', W') \<and> LUsolve W' a' [3, 2, 3] = Some x
    \<and> length x = 3 \<and> MatrixMultiply 3 3 1 demo_matrix x [] = [3, 2, 3]"
  by (rule lu_solves [OF _ _ demo_invertible AMath_new_ok]) (simp_all add: demo_matrix_def)

text \<open>
  C28: for every invertible matrix \<open>MatrixInvert\<close> succeeds and replaces the matrix by its two-sided
  inverse, in exact arithmetic.
\<close>

theorem matrix_invert_correct:
  fixes a :: "'a::linordered_field list"
  assumes "length a = n * n" and "invertible n (el n a)" and "lu_ok (ma_lu W)"
  shows "\<exists>y W'. MatrixInvert M n p a W = (True, y, W') \<and> length y = n * n
    \<and> MatrixMultiply n n n a y [] = unit_matrix n \<and> MatrixMultiply n n n y a [] = unit_matrix n"
proof -
  obtain a' W' where d: "LUdcmp M n p a W = (True, a', W')" "decomposed n (el n a) a' (ma_lu W')"
    using LUdcmp_invertible [OF assms] by blast
  obtain y where y: "LUsolve_matrix W' a' n True (unit_matrix n) (unit_matrix n) = Some y" "length y = n * n"
    "\<forall>i<n. \<forall>j<n. (\<Sum>k<n. el n a i k * el n y k j) = (if i = j then 1 else 0)"
    using solve_unit [OF d(2)] by blast
  have "MatrixMultiply n n n a y [] = unit_matrix n" "MatrixMultiply n n n y a [] = unit_matrix n"
    using y(3) right_inverse_left [OF assms(2) y(3)] by (simp_all add: multiply_unit)
  with d y show ?thesis by (simp add: MatrixInvert_def)
qed

theorem matrix_invert_correct_witness:
  "\<exists>y W'. MatrixInvert demo_libm 3 0 demo_matrix AMath_new = (True, y, W') \<and> length y = 3 * 3
    \<and> MatrixMultiply 3 3 3 demo_matrix y [] = unit_matrix 3 \<and> MatrixMultiply 3 3 3 y demo_matrix [] = unit_matrix 3"
  by (rule matrix_invert_correct [OF _ demo_invertible AMath_new_ok]) (simp add: demo_matrix_def)

section \<open>Least squares\<close>

text \<open>The sum of the squared residuals of coefficients \<open>c\<close> at the samples \<open>y\<close>.\<close>

definition residual where
  "residual m n x y c k = y ! k - (\<Sum>i<n. c ! i * x ! (i * m + k))"

definition squares where
  "squares m n x y c = (\<Sum>k<m. residual m n x y c k * residual m n x y c k)"

lemma dot_sum: "dot m x y i j = (\<Sum>k<m. x ! (i * m + k) * (y::'a::comm_semiring_0 list) ! (j * m + k))"
  by (simp add: dot_def foldl_sum atLeast0LessThan)

text \<open>Residuals that are orthogonal to every base function are the smallest ones.\<close>

lemma orthogonal_minimal:
  fixes x y :: "'a::linordered_field list"
  assumes orth: "\<And>i. i < n \<Longrightarrow> (\<Sum>k<m. x ! (i * m + k) * residual m n x y c k) = 0"
  shows "squares m n x y c \<le> squares m n x y d"
proof -
  let ?r = "residual m n x y c"
  define e where "e k = (\<Sum>i<n. (d ! i - c ! i) * x ! (i * m + k))" for k
  have d: "residual m n x y d k = ?r k - e k" for k
    by (simp add: residual_def e_def left_diff_distrib sum_subtractf)
  have "(\<Sum>k<m. e k * ?r k) = (\<Sum>i<n. (d ! i - c ! i) * (\<Sum>k<m. x ! (i * m + k) * ?r k))"
    unfolding e_def by (rule sum_mat_vec)
  also have "\<dots> = 0" using orth by simp
  finally have cross: "(\<Sum>k<m. e k * ?r k) = 0" .
  have "squares m n x y d = squares m n x y c - 2 * (\<Sum>k<m. e k * ?r k) + (\<Sum>k<m. e k * e k)"
    by (simp add: squares_def d algebra_simps sum.distrib sum_subtractf sum_distrib_left)
  moreover have "0 \<le> (\<Sum>k<m. e k * e k)" by (rule sum_nonneg) simp
  ultimately show ?thesis using cross by simp
qed

text \<open>
  C29: when the base functions are independent on the samples (their Gram matrix is invertible),
  \<open>LSFitLinear\<close> succeeds and no other coefficients have a smaller sum of squared residuals, in exact
  arithmetic.
\<close>

theorem least_squares_minimal:
  fixes x y :: "'a::linordered_field list"
  assumes "invertible n (\<lambda>i j. dot m x x i j)" and "lu_ok (ma_lu W)"
  shows "\<exists>c' W'. LSFitLinear M m n p x y c W = (True, c', W') \<and> length c' = n
    \<and> (\<forall>d. squares m n x y c' \<le> squares m n x y d)"
proof -
  define G where "G = concat (map (\<lambda>i. map (\<lambda>j. dot m x x i j) [0..<n]) [0..<n])"
  define Y where "Y = map (\<lambda>i. dot m x y i 0) [0..<n]"
  have G: "length G = n * n" "el n G i j = dot m x x i j" if "i < n" "j < n" for i j
    using concat_blocks [of n "\<lambda>i. map (\<lambda>j. dot m x x i j) [0..<n]" n] that by (simp_all add: G_def)
  have lenG: "length G = n * n" using concat_blocks(1) [of n "\<lambda>i. map (\<lambda>j. dot m x x i j) [0..<n]" n] by (simp add: G_def)
  have "invertible n (el n G)" using assms(1) G(2) by (simp add: invertible_def)
  from LUdcmp_invertible [OF lenG this assms(2)] obtain G' W' where
    d: "LUdcmp M n p G W = (True, G', W')" "decomposed n (el n G) G' (ma_lu W')" by blast
  obtain c' where c': "LUsolve W' G' Y = Some c'" "length c' = n" "\<forall>i<n. (\<Sum>j<n. el n G i j * c' ! j) = Y ! i"
    using LUsolve_spec [OF d(2), of Y] by (auto simp: Y_def)
  have "(\<Sum>k<m. x ! (i * m + k) * residual m n x y c' k) = 0" if i: "i < n" for i
  proof -
    have "(\<Sum>k<m. x ! (i * m + k) * (\<Sum>j<n. x ! (j * m + k) * c' ! j)) = (\<Sum>j<n. dot m x x i j * c' ! j)"
      unfolding dot_sum by (rule sum_mat_vec [symmetric])
    also have "\<dots> = dot m x y i 0" using c'(3) i G(2) by (simp add: Y_def)
    finally show ?thesis
      by (simp add: residual_def right_diff_distrib sum_subtractf dot_sum mult.commute [of "c' ! _"])
  qed
  then have "squares m n x y c' \<le> squares m n x y d" for d by (rule orthogonal_minimal)
  with d c' show ?thesis by (simp add: LSFitLinear_def G_def [symmetric] Y_def [symmetric])
qed

text \<open>A line through four samples: base functions 1 and \<open>t\<close> at \<open>t = 0, 1, 2, 3\<close>.\<close>

definition demo_base :: "rat list" where
  "demo_base = [1, 1, 1, 1,  0, 1, 2, 3]"

theorem least_squares_minimal_witness:
  "\<exists>c' W'. LSFitLinear demo_libm 4 2 0 demo_base [1, 3, 2, 5] [] AMath_new = (True, c', W') \<and> length c' = 2
    \<and> (\<forall>d. squares 4 2 demo_base [1, 3, 2, 5] c' \<le> squares 4 2 demo_base [1, 3, 2, 5] d)"
proof (rule least_squares_minimal [OF _ AMath_new_ok])
  show "invertible 2 (\<lambda>i j. dot 4 demo_base demo_base i j)"
    unfolding invertible_def
    by (intro exI [of _ "\<lambda>i j. [7/10, -3/10, -3/10, 1/5] ! (i * 2 + j)"] conjI) code_simp+
qed

section \<open>Singular matrices\<close>

text \<open>
  The determinant of a singular matrix need not come out as 0. When the rest of a column is zero the
  pivot search keeps the row number of an earlier column, and the rows are exchanged: the
  determinant of the 2 by 2 matrix of ones is -1.
\<close>

theorem singular_determinant:
  "fst (LUDet (libm_double T) 2 p (map double_of_int [1, 1, 1, 1]) AMath_new) = double_of_int (- 1)"
  by code_simp

end
