(* ===== verification/AMath_Select.thy ===== *)
theory AMath_Select
  imports "HOL-Library.Multiset" Index_Loops
begin

text \<open>
  \<open>k_select\<close> of \<open>AMath.h\<close>: the element a sorted copy of the array would have at index \<open>k\<close>, by
  partitioning in place. \<open>None\<close> is an access outside the array.
\<close>

section \<open>The routine\<close>

text \<open>\<open>while (array[++i] < a);\<close> and \<open>while (array[--j] > a);\<close>\<close>

function scan_up :: "'a::ord list \<Rightarrow> 'a \<Rightarrow> nat \<Rightarrow> nat option" where
  "scan_up xs a i = (if Suc i < length xs then if xs ! Suc i < a then scan_up xs a (Suc i) else Some (Suc i) else None)"
  by pat_completeness auto
termination
  by (relation "measure (\<lambda>(xs, a, i). length xs - i)") auto

fun scan_down :: "'a::ord list \<Rightarrow> 'a \<Rightarrow> nat \<Rightarrow> nat option" where
  "scan_down xs a 0 = None"
| "scan_down xs a (Suc j) = (if a < xs ! j then scan_down xs a j else Some j)"

declare scan_up.simps [simp del]

lemma scan_down_less: "scan_down xs a j = Some j' \<Longrightarrow> j' < j"
  by (induction xs a j rule: scan_down.induct) (auto split: if_splits)

lemma scan_up_less: "scan_up xs a i = Some i' \<Longrightarrow> i < i' \<and> i' < length xs"
proof (induction xs a i rule: scan_up.induct)
  case (1 xs a i)
  then show ?case by (subst (asm) (2) scan_up.simps) (auto split: if_splits)
qed

definition swap :: "nat \<Rightarrow> nat \<Rightarrow> 'a list \<Rightarrow> 'a list" where
  "swap u v xs = xs[u := xs ! v, v := xs ! u]"

text \<open>The \<open>while (1)\<close> loop: the array with the final \<open>i\<close> and \<open>j\<close>.\<close>

function partition_loop :: "'a::ord list \<Rightarrow> 'a \<Rightarrow> nat \<Rightarrow> nat \<Rightarrow> ('a list \<times> nat \<times> nat) option" where
  "partition_loop xs a i j =
     (case scan_up xs a i of None \<Rightarrow> None | Some i \<Rightarrow>
      case scan_down xs a j of None \<Rightarrow> None | Some j' \<Rightarrow>
        if j' \<le> i then Some (xs, i, j') else partition_loop (swap i j' xs) a i j')"
  by pat_completeness auto
termination
  by (relation "measure (\<lambda>(xs, a, i, j). j)") (auto dest: scan_down_less)

declare partition_loop.simps [simp del]

text \<open>The median of three that puts the pivot at \<open>l + 1\<close>.\<close>

definition median3 :: "nat \<Rightarrow> nat \<Rightarrow> 'a::ord list \<Rightarrow> 'a list" where
  "median3 l ir xs =
     (let xs = swap ((l + ir) div 2) (l + 1) xs;
          xs = (if xs ! ir < xs ! l then swap l ir xs else xs);
          xs = (if xs ! ir < xs ! (l + 1) then swap (l + 1) ir xs else xs)
      in if xs ! (l + 1) < xs ! l then swap l (l + 1) xs else xs)"

lemma length_swap [simp]: "length (swap u v xs) = length xs"
  by (simp add: swap_def)

lemma length_median3 [simp]: "length (median3 l ir xs) = length xs"
  by (simp add: median3_def Let_def)

lemma partition_bounds:
  "partition_loop xs a i j = Some (ys, i', j') \<Longrightarrow> i < i' \<and> i' < length xs \<and> j' < j \<and> length ys = length xs"
proof (induction xs a i j rule: partition_loop.induct)
  case (1 xs a i j)
  then show ?case
    by (subst (asm) (2) partition_loop.simps)
       (force dest: scan_up_less scan_down_less split: option.splits if_splits)
qed

function select_loop :: "'a::ord list \<Rightarrow> nat \<Rightarrow> nat \<Rightarrow> nat \<Rightarrow> 'a list option" where
  "select_loop xs k l ir =
     (if ir \<le> l + 1 then Some (if ir = l + 1 \<and> xs ! ir < xs ! l then swap l ir xs else xs)
      else let xs = median3 l ir xs; a = xs ! (l + 1) in
        case partition_loop xs a (l + 1) ir of
          None \<Rightarrow> None
        | Some (ys, i, j) \<Rightarrow>
            select_loop (ys[l + 1 := ys ! j, j := a]) k (if j \<le> k then i else l) (if k \<le> j then j - 1 else ir))"
  by pat_completeness auto
termination
  by (relation "measure (\<lambda>(xs, k, l, ir). ir - l)") (auto dest!: partition_bounds)

declare select_loop.simps [simp del]

text \<open>\<open>fail\<close> is \<open>(DType) -1\<close>. The result: the element, and the array as the routine leaves it.\<close>

definition k_select :: "'a::ord \<Rightarrow> 'a list \<Rightarrow> int \<Rightarrow> ('a \<times> 'a list) option" where
  "k_select fail xs k =
     (if k < 0 \<or> int (length xs) \<le> k then Some (fail, xs)
      else case select_loop xs (nat k) 0 (length xs - 1) of
        None \<Rightarrow> None
      | Some ys \<Rightarrow> Some (ys ! nat k, ys))"

section \<open>Facts about exchanges\<close>

lemma swap_nth:
  "u < length xs \<Longrightarrow> v < length xs \<Longrightarrow> p < length xs \<Longrightarrow>
   swap u v xs ! p = (if p = u then xs ! v else if p = v then xs ! u else xs ! p)"
  by (simp add: swap_def nth_list_update)

lemma mset_swap' [simp]: "u < length xs \<Longrightarrow> v < length xs \<Longrightarrow> mset (swap u v xs) = mset xs"
  by (simp add: swap_def mset_swap)

text \<open>Everything before index \<open>m\<close> is at most everything from \<open>m\<close> on.\<close>

definition split_at :: "nat \<Rightarrow> 'a::ord list \<Rightarrow> bool" where
  "split_at m xs \<longleftrightarrow> (\<forall>p q. p < m \<and> m \<le> q \<and> q < length xs \<longrightarrow> xs ! p \<le> xs ! q)"

lemma split_at_swap:
  assumes "split_at m xs" and "u < length xs" and "v < length xs" and "u < m \<longleftrightarrow> v < m"
  shows "split_at m (swap u v xs)"
proof -
  define h where "h p = (if p = u then v else if p = v then u else p)" for p
  have "swap u v xs ! p = xs ! h p" "h p < length xs" if "p < length xs" for p
    using that assms(2,3) by (auto simp: swap_nth h_def)
  moreover have "h p < m \<longleftrightarrow> p < m" for p using assms(4) by (simp add: h_def)
  ultimately show ?thesis
    using assms(1) by (auto simp: split_at_def not_less [symmetric])
qed

lemma split_at_placed:
  assumes "k < length xs" and "split_at k xs" and "split_at (Suc k) (xs::'a::linorder list)"
  shows "xs ! k = sort xs ! k"
proof -
  let ?ys = "sort (take k xs) @ xs ! k # sort (drop (Suc k) xs)"
  have "\<forall>x \<in> set (take k xs). \<forall>y \<in> set (drop k xs). x \<le> y" "\<forall>x \<in> set (take (Suc k) xs). \<forall>y \<in> set (drop (Suc k) xs). x \<le> y"
    using assms by (auto simp: split_at_def in_set_conv_nth)
  moreover have "set (drop k xs) = insert (xs ! k) (set (drop (Suc k) xs))" "set (take (Suc k) xs) = insert (xs ! k) (set (take k xs))"
    using assms(1) by (simp_all add: Cons_nth_drop_Suc [symmetric] take_Suc_conv_app_nth)
  ultimately have "sorted ?ys" by (auto simp: sorted_append)
  moreover have "mset ?ys = mset xs"
    using arg_cong [OF id_take_nth_drop [OF assms(1)], of mset] by simp
  ultimately have "sort xs = ?ys" by (metis properties_for_sort)
  then show ?thesis using assms(1) by (simp add: nth_append)
qed

section \<open>The partition\<close>

lemma scan_up_spec:
  assumes "j < length xs" and "\<not> xs ! j < a" and "i < j"
  shows "\<exists>i'. scan_up xs a i = Some i' \<and> i < i' \<and> i' \<le> j \<and> \<not> xs ! i' < a \<and> (\<forall>p. i < p \<and> p < i' \<longrightarrow> xs ! p < a)"
  using assms
proof (induction xs a i rule: scan_up.induct)
  case (1 xs a i)
  show ?case
  proof (cases "xs ! Suc i < a")
    case False
    with 1 show ?thesis by (subst scan_up.simps) auto
  next
    case True
    with 1(3,4) have "Suc i < j" by (metis Suc_lessI)
    then obtain i' where i': "scan_up xs a (Suc i) = Some i'" "Suc i < i'" "i' \<le> j" "\<not> xs ! i' < a"
      "\<forall>p. Suc i < p \<and> p < i' \<longrightarrow> xs ! p < a" using 1 True by auto
    have "xs ! p < a" if "i < p" "p < i'" for p using that i'(5) True by (cases "p = Suc i") auto
    moreover have "scan_up xs a i = Some i'" using i'(1) True \<open>Suc i < j\<close> 1(2) by (subst scan_up.simps) simp
    ultimately show ?thesis using i' by auto
  qed
qed

lemma scan_down_spec:
  assumes "i < j" and "\<not> a < xs ! i"
  shows "\<exists>j'. scan_down xs a j = Some j' \<and> j' < j \<and> i \<le> j' \<and> \<not> a < xs ! j' \<and> (\<forall>p. j' < p \<and> p < j \<longrightarrow> a < xs ! p)"
  using assms
proof (induction xs a j rule: scan_down.induct)
  case (2 xs a j)
  show ?case
  proof (cases "a < xs ! j")
    case True
    with 2 have "i < j" by (metis less_SucE)
    with 2 True obtain j' where "scan_down xs a j = Some j'" "j' < j" "i \<le> j'" "\<not> a < xs ! j'"
      "\<forall>p. j' < p \<and> p < j \<longrightarrow> a < xs ! p" by auto
    with True show ?thesis by (auto simp: less_Suc_eq)
  qed (use 2 in auto)
qed simp

text \<open>
  What holds of the range from \<open>l\<close> to \<open>ir\<close> while it is partitioned around the pivot \<open>a\<close> at \<open>l + 1\<close>.
\<close>

definition part_inv :: "'a::linorder \<Rightarrow> nat \<Rightarrow> nat \<Rightarrow> 'a list \<Rightarrow> nat \<Rightarrow> nat \<Rightarrow> bool" where
  "part_inv a l ir xs i j \<longleftrightarrow> l < i \<and> i < j \<and> j \<le> ir \<and> ir < length xs \<and> xs ! (l + 1) = a
     \<and> (\<forall>p. l \<le> p \<and> p \<le> i \<longrightarrow> xs ! p \<le> a) \<and> (\<forall>p. j \<le> p \<and> p \<le> ir \<longrightarrow> a \<le> xs ! p)"

text \<open>The result: a rearrangement of the range, with the two sides at \<open>i\<close> and \<open>j\<close>.\<close>

definition part_done :: "'a::linorder \<Rightarrow> nat \<Rightarrow> nat \<Rightarrow> 'a list \<Rightarrow> nat \<Rightarrow> nat \<Rightarrow> bool" where
  "part_done a l ir ys i j \<longleftrightarrow> l + 1 \<le> j \<and> j < i + 1 \<and> i \<le> j + 1 \<and> l + 1 < i \<and> i \<le> ir \<and> j < ir \<and> ys ! (l + 1) = a
     \<and> (\<forall>p. l \<le> p \<and> p < i \<longrightarrow> ys ! p \<le> a) \<and> (\<forall>p. j < p \<and> p \<le> ir \<longrightarrow> a \<le> ys ! p) \<and> ys ! j \<le> a"

definition rearranged :: "nat \<Rightarrow> nat \<Rightarrow> 'a::linorder list \<Rightarrow> 'a list \<Rightarrow> bool" where
  "rearranged l ir xs ys \<longleftrightarrow> mset ys = mset xs \<and> (split_at l xs \<longrightarrow> split_at l ys)
     \<and> (split_at (ir + 1) xs \<longrightarrow> split_at (ir + 1) ys)"

lemma rearranged_refl [simp]: "rearranged l ir xs xs"
  by (simp add: rearranged_def)

lemma rearranged_trans: "rearranged l ir xs ys \<Longrightarrow> rearranged l ir ys zs \<Longrightarrow> rearranged l ir xs zs"
  by (simp add: rearranged_def)

lemma rearranged_swap:
  "l \<le> u \<Longrightarrow> u \<le> ir \<Longrightarrow> l \<le> v \<Longrightarrow> v \<le> ir \<Longrightarrow> ir < length xs \<Longrightarrow> rearranged l ir xs (swap u v xs)"
  by (auto simp: rearranged_def intro!: split_at_swap)

lemma partition_spec:
  assumes "part_inv a l ir xs i j"
  shows "\<exists>ys i' j'. partition_loop xs a i j = Some (ys, i', j') \<and> part_done a l ir ys i' j' \<and> rearranged l ir xs ys"
  using assms
proof (induction xs a i j rule: partition_loop.induct)
  case (1 xs a i j)
  have inv: "l < i" "i < j" "j \<le> ir" "ir < length xs" "xs ! (l + 1) = a" "\<forall>p. l \<le> p \<and> p \<le> i \<longrightarrow> xs ! p \<le> a"
    "\<forall>p. j \<le> p \<and> p \<le> ir \<longrightarrow> a \<le> xs ! p" using 1(2) by (simp_all add: part_inv_def)
  obtain i' where up: "scan_up xs a i = Some i'" "i < i'" "i' \<le> j" "a \<le> xs ! i'" "\<forall>p. i < p \<and> p < i' \<longrightarrow> xs ! p < a"
    using scan_up_spec [of j xs a i] inv by (auto simp: not_less)
  obtain j' where down: "scan_down xs a j = Some j'" "j' < j" "i \<le> j'" "xs ! j' \<le> a" "\<forall>p. j' < p \<and> p < j \<longrightarrow> a < xs ! p"
    using scan_down_spec [of i j a xs] inv by (auto simp: not_less)
  have le: "xs ! p \<le> a" if "l \<le> p" "p < i'" for p using that inv(6) up(5) by (cases "p \<le> i") (auto intro: less_imp_le)
  have ge: "a \<le> xs ! p" if "j' < p" "p \<le> ir" for p using that inv(7) down(5) by (cases "j \<le> p") (auto intro: less_imp_le)
  show ?case
  proof (cases "j' \<le> i'")
    case True
    have "i' \<le> j' + 1"
    proof (rule ccontr)
      assume "\<not> i' \<le> j' + 1"
      then have "xs ! (j' + 1) < a" "a < xs ! (j' + 1)" using up(2,3,5) down(3,5) by auto
      then show False by simp
    qed
    then have "part_done a l ir xs i' j'" using True inv up down le ge by (auto simp: part_done_def)
    then show ?thesis using up down True by (subst partition_loop.simps) simp
  next
    case False
    let ?ys = "swap i' j' xs"
    have len: "i' < length xs" "j' < length xs" using False inv down by auto
    have sw: "?ys ! p = (if p = i' then xs ! j' else if p = j' then xs ! i' else xs ! p)" if "p < length xs" for p
      using that len by (simp add: swap_nth)
    have "part_inv a l ir ?ys i' j'"
      using False inv up down le ge len unfolding part_inv_def by (auto simp: sw)
    then obtain zs i'' j'' where z: "partition_loop ?ys a i' j' = Some (zs, i'', j'')" "part_done a l ir zs i'' j''"
      "rearranged l ir ?ys zs" using 1(1) [OF up(1) down(1) False] by blast
    have "rearranged l ir xs zs"
      by (rule rearranged_trans [OF rearranged_swap z(3)]) (use False inv up down in auto)
    then show ?thesis using z up down False by (subst partition_loop.simps) simp
  qed
qed

section \<open>The median and the main loop\<close>

lemma median3_spec:
  assumes "l + 1 < ir" and "ir < length xs"
  shows "part_inv (median3 l ir xs ! (l + 1)) l ir (median3 l ir xs) (l + 1) ir" and "rearranged l ir xs (median3 l ir xs)"
proof -
  define x1 where "x1 = swap ((l + ir) div 2) (l + 1) xs"
  define x2 where "x2 = (if x1 ! ir < x1 ! l then swap l ir x1 else x1)"
  define x3 where "x3 = (if x2 ! ir < x2 ! (l + 1) then swap (l + 1) ir x2 else x2)"
  define x4 where "x4 = (if x3 ! (l + 1) < x3 ! l then swap l (l + 1) x3 else x3)"
  have m: "median3 l ir xs = x4" by (simp add: median3_def Let_def x1_def x2_def x3_def x4_def)
  have len: "length x1 = length xs" "length x2 = length xs" "length x3 = length xs" "length x4 = length xs"
    by (simp_all add: x1_def x2_def x3_def x4_def)
  have "rearranged l ir xs x1" unfolding x1_def using assms by (intro rearranged_swap) auto
  moreover have "rearranged l ir x1 x2" unfolding x2_def using assms len by (auto intro: rearranged_swap)
  moreover have "rearranged l ir x2 x3" unfolding x3_def using assms len by (auto intro: rearranged_swap)
  moreover have "rearranged l ir x3 x4" unfolding x4_def using assms len by (auto intro: rearranged_swap)
  ultimately show "rearranged l ir xs (median3 l ir xs)" unfolding m by (blast intro: rearranged_trans)
  have 2: "x2 ! l \<le> x2 ! ir" using assms len by (auto simp: x2_def swap_nth)
  then have 3: "x3 ! l \<le> x3 ! ir" "x3 ! (l + 1) \<le> x3 ! ir" using assms len by (auto simp: x3_def swap_nth)
  then have "x4 ! l \<le> x4 ! (l + 1)" "x4 ! (l + 1) \<le> x4 ! ir" using assms len by (auto simp: x4_def swap_nth)
  then show "part_inv (median3 l ir xs ! (l + 1)) l ir (median3 l ir xs) (l + 1) ir"
    unfolding m part_inv_def using assms len by (auto simp: le_Suc_eq dest: le_antisym)
qed

text \<open>The invariant of the main loop: \<open>k\<close> is in the range, or already placed.\<close>

definition select_inv :: "nat \<Rightarrow> nat \<Rightarrow> nat \<Rightarrow> 'a::linorder list \<Rightarrow> bool" where
  "select_inv k l ir xs \<longleftrightarrow> k < length xs \<and> ir < length xs \<and> split_at l xs \<and> split_at (ir + 1) xs
     \<and> (l \<le> k \<and> k \<le> ir \<or> ir < l \<and> split_at k xs \<and> split_at (k + 1) xs)"

lemma final_swap:
  assumes "part_done a l ir ys i j" and "ir < length ys"
  defines "zs \<equiv> ys[l + 1 := ys ! j, j := a]"
  shows "rearranged l ir ys zs" and "zs ! j = a" and "l \<le> p \<Longrightarrow> p < i \<Longrightarrow> zs ! p \<le> a" and "j \<le> p \<Longrightarrow> p \<le> ir \<Longrightarrow> a \<le> zs ! p"
proof -
  have d: "l + 1 \<le> j" "j < ir" "i \<le> ir" "ys ! (l + 1) = a" "\<And>p. l \<le> p \<Longrightarrow> p < i \<Longrightarrow> ys ! p \<le> a"
    "\<And>p. j < p \<Longrightarrow> p \<le> ir \<Longrightarrow> a \<le> ys ! p" "ys ! j \<le> a" using assms(1) by (auto simp: part_done_def)
  have z: "zs = swap (l + 1) j ys" using d(4) by (simp add: zs_def swap_def)
  show "rearranged l ir ys zs" unfolding z using d assms(2) by (intro rearranged_swap) auto
  have nth: "zs ! p = (if p = j then a else if p = l + 1 then ys ! j else ys ! p)" if "p \<le> ir" for p
    using that d assms(2) by (auto simp: zs_def nth_list_update)
  show "zs ! j = a" "l \<le> p \<Longrightarrow> p < i \<Longrightarrow> zs ! p \<le> a" "j \<le> p \<Longrightarrow> p \<le> ir \<Longrightarrow> a \<le> zs ! p"
    using d nth by auto
qed

lemma split_inside:
  assumes "split_at l xs" and "split_at (ir + 1) xs" and "ir < length xs" and "l \<le> m" and "m \<le> ir + 1"
    and "\<And>p. l \<le> p \<Longrightarrow> p < m \<Longrightarrow> xs ! p \<le> (a::'a::linorder)" and "\<And>p. m \<le> p \<Longrightarrow> p \<le> ir \<Longrightarrow> a \<le> xs ! p"
  shows "split_at m xs"
  unfolding split_at_def
proof (intro allI impI)
  fix p q assume *: "p < m \<and> m \<le> q \<and> q < length xs"
  consider "p < l" | "ir < q" | "l \<le> p" "q \<le> ir" by linarith
  then show "xs ! p \<le> xs ! q"
  proof cases
    case 3
    then show ?thesis using * assms(6) [of p] assms(7) [of q] by auto
  qed (use * assms in \<open>auto simp: split_at_def\<close>)
qed

lemma select_loop_spec:
  assumes "select_inv k l ir xs"
  shows "\<exists>ys. select_loop xs k l ir = Some ys \<and> mset ys = mset xs \<and> split_at k ys \<and> split_at (k + 1) ys"
  using assms
proof (induction xs k l ir rule: select_loop.induct)
  case (1 xs k l ir)
  have inv: "k < length xs" "ir < length xs" "split_at l xs" "split_at (ir + 1) xs"
    "l \<le> k \<and> k \<le> ir \<or> ir < l \<and> split_at k xs \<and> split_at (k + 1) xs" using 1(2) by (simp_all add: select_inv_def)
  show ?case
  proof (cases "ir \<le> l + 1")
    case True
    define ys where "ys = (if ir = l + 1 \<and> xs ! ir < xs ! l then swap l ir xs else xs)"
    have r: "select_loop xs k l ir = Some ys" using True by (subst select_loop.simps) (simp add: ys_def)
    have len: "length ys = length xs" by (simp add: ys_def)
    show ?thesis
    proof (cases "ir < l")
      case True
      then show ?thesis using inv r by (auto simp: ys_def)
    next
      case False
      have "rearranged l ir xs ys" unfolding ys_def using inv by (auto intro: rearranged_swap)
      then have y: "mset ys = mset xs" "split_at l ys" "split_at (ir + 1) ys" using inv by (auto simp: rearranged_def)
      have "ir = l + 1 \<Longrightarrow> ys ! l \<le> ys ! ir" using inv by (auto simp: ys_def swap_nth)
      then have "split_at ir ys" if "ir = l + 1"
        using that y len inv by (intro split_inside [of l ys ir ir "ys ! l"]) (auto simp: le_Suc_eq less_Suc_eq)
      then show ?thesis using y r True False inv by (cases "ir = l"; cases "k = l") (auto simp: le_Suc_eq)
    qed
  next
    case False
    define ms where "ms = median3 l ir xs"
    define a where "a = ms ! (l + 1)"
    have lk: "l \<le> k" "k \<le> ir" using inv False by auto
    have m: "part_inv a l ir ms (l + 1) ir" "rearranged l ir xs ms"
      using median3_spec [of l ir xs] False inv by (simp_all add: ms_def a_def)
    obtain ys i j where p: "partition_loop ms a (l + 1) ir = Some (ys, i, j)" "part_done a l ir ys i j" "rearranged l ir ms ys"
      using partition_spec [OF m(1)] by blast
    have len: "length ys = length xs" using p(3) m(2) by (metis mset_eq_length rearranged_def)
    define zs where "zs = ys[l + 1 := ys ! j, j := a]"
    note fs = final_swap [OF p(2), folded zs_def, unfolded len, OF inv(2)]
    have lenz: "length zs = length xs" by (simp add: zs_def len)
    have d: "l + 1 \<le> j" "j \<le> i" "i \<le> j + 1" "i \<le> ir" "j < ir" "l + 1 < i" using p(2) by (auto simp: part_done_def)
    have r: "rearranged l ir xs zs" using m(2) p(3) fs(1) by (blast intro: rearranged_trans)
    then have z: "mset zs = mset xs" "split_at l zs" "split_at (ir + 1) zs" using inv by (auto simp: rearranged_def)
    have sj: "split_at j zs" by (rule split_inside [OF z(2,3), of j a]) (use lenz inv d fs in auto)
    have sj1: "split_at (j + 1) zs" by (rule split_inside [OF z(2,3), of "j + 1" a]) (use lenz inv d fs in \<open>auto simp: less_Suc_eq\<close>)
    have si: "split_at i zs" using d sj sj1 by (metis Suc_eq_plus1 le_SucE le_antisym)
    have "select_inv k (if j \<le> k then i else l) (if k \<le> j then j - 1 else ir) zs"
      unfolding select_inv_def using lenz inv d lk z sj sj1 si by (auto simp: le_Suc_eq)
    from 1(1) [OF False ms_def a_def p(1) refl refl, folded zs_def, OF this] obtain ws where
      "select_loop zs k (if j \<le> k then i else l) (if k \<le> j then j - 1 else ir) = Some ws" "mset ws = mset zs"
      "split_at k ws" "split_at (k + 1) ws" by blast
    moreover have "ms ! Suc l = a" "ys[Suc l := ys ! j, j := a] = zs" by (simp_all add: a_def zs_def)
    ultimately show ?thesis
      using False p(1) z(1) by (subst select_loop.simps) (simp add: Let_def ms_def [symmetric])
  qed
qed

section \<open>Properties\<close>

text \<open>
  C30: for an index inside the array \<open>k_select\<close> returns, without leaving the array, the element a
  sorted copy of the array has at that index; the array is only rearranged.
\<close>

theorem k_select_correct:
  fixes xs :: "'a::linorder list"
  assumes "0 \<le> k" and "k < int (length xs)"
  shows "\<exists>ys. k_select fail xs k = Some (sort xs ! nat k, ys) \<and> mset ys = mset xs"
proof -
  have "select_inv (nat k) 0 (length xs - 1) xs" using assms by (auto simp: select_inv_def split_at_def)
  from select_loop_spec [OF this] obtain ys where ys: "select_loop xs (nat k) 0 (length xs - 1) = Some ys" "mset ys = mset xs"
    "split_at (nat k) ys" "split_at (nat k + 1) ys" by blast
  have "ys ! nat k = sort ys ! nat k"
    using ys(3,4) mset_eq_length [OF ys(2)] assms by (intro split_at_placed) auto
  also have "sort ys = sort xs" using ys(2) by (metis mset_sort properties_for_sort sorted_sort)
  finally show ?thesis using ys assms by (simp add: k_select_def)
qed

theorem k_select_correct_witness: "\<exists>ys. k_select (-1) [5, 2, 9, 1, 7, 2, 8 :: int] 3 = Some (5, ys) \<and> mset ys = mset [5, 2, 9, 1, 7, 2, 8]"
  using k_select_correct [of 3 "[5, 2, 9, 1, 7, 2, 8 :: int]" "-1"] by simp

end
