(* ===== verification/AMath_Interp.thy ===== *)
theory AMath_Interp
  imports AMath_Linear
begin

text \<open>
  Interpolation and correlation of class \<open>AMath\<close> (\<open>AMath.cpp\<close>). Arrays are lists of the documented
  sizes; a result array is a list the routine updates. A routine that answers \<open>false\<close> leaves its
  result alone: \<open>None\<close>.
\<close>

section \<open>Cubic splines in one variable\<close>

text \<open>The first coefficients; \<open>u\<close> is the scratch array.\<close>

definition spline_start ::
  "'a::{zero,plus,minus,uminus,times,inverse,ord} libm \<Rightarrow> 'a list \<Rightarrow> 'a list \<Rightarrow> 'a \<Rightarrow> 'a list \<times> 'a list \<Rightarrow> 'a list \<times> 'a list" where
  "spline_start M x y c1 = (\<lambda>(c, u).
     if lib_dec M 99 (-2) * AU_MAX M < c1 then (c[0 := 0], u[0 := 0])
     else (c[0 := - lib_dec M 5 (-1)],
           u[0 := (lib_int M 3 * (y ! 1 - y ! 0) / (y ! 1 - y ! 0 - c1)) / (x ! 1 - x ! 0)]))"

definition spline_step ::
  "'a::{zero,one,plus,minus,times,inverse} libm \<Rightarrow> 'a list \<Rightarrow> 'a list \<Rightarrow> 'a list \<times> 'a list \<Rightarrow> nat \<Rightarrow> 'a list \<times> 'a list" where
  "spline_step M x y = (\<lambda>(c, u) i.
     let sig = (x ! i - x ! (i - 1)) / (x ! (i + 1) - x ! (i - 1));
         p = sig * c ! (i - 1) + lib_int M 2
     in (c[i := (sig - 1) / p],
         u[i := (lib_dec M 6 0 * ((y ! (i + 1) - y ! i) / (x ! (i + 1) - x ! i) - (y ! i - y ! (i - 1)) / (x ! i - x ! (i - 1)))
                   / (x ! (i + 1) - x ! (i - 1)) - sig * u ! (i - 1)) / p]))"

definition spline_end ::
  "'a::{zero,minus,times,inverse,ord} libm \<Rightarrow> nat \<Rightarrow> 'a list \<Rightarrow> 'a list \<Rightarrow> 'a \<Rightarrow> 'a \<times> 'a" where
  "spline_end M n x y cn =
     (if lib_dec M 99 (-2) * AU_MAX M < cn then (0, 0)
      else (lib_dec M 5 (-1), lib_dec M 3 0 / (x ! (n - 1) - x ! (n - 2))
              * (cn - (y ! (n - 1) - y ! (n - 2)) / (x ! (n - 1) - x ! (n - 2)))))"

definition spline ::
  "'a::{zero,one,plus,minus,uminus,times,inverse,ord} libm \<Rightarrow> nat \<Rightarrow> 'a list \<Rightarrow> 'a list \<Rightarrow> 'a \<Rightarrow> 'a \<Rightarrow> 'a list \<Rightarrow> 'a list" where
  "spline M n x y c1 cn c =
     (let (c, u) = foldl (spline_step M x y) (spline_start M x y c1 (c, replicate n 0)) [1..<n - 1];
          (qn, un) = spline_end M n x y cn;
          c = c[n - 1 := (un - qn * u ! (n - 2)) / (qn * c ! (n - 2) + lib_dec M 1 0)]
      in foldl (\<lambda>c i. c[i := c ! i * c ! (i + 1) + u ! i]) c (rev [0..<n - 1]))"

text \<open>The bisection for the interval that holds \<open>xo\<close>.\<close>

function bisect :: "'a::ord list \<Rightarrow> 'a \<Rightarrow> nat \<Rightarrow> nat \<Rightarrow> nat \<times> nat" where
  "bisect x xo klo khi =
     (if klo + 1 < khi then
        let k = (khi + klo) div 2 in if xo < x ! k then bisect x xo klo k else bisect x xo k khi
      else (klo, khi))"
  by pat_completeness auto
termination
  by (relation "measure (\<lambda>(x, xo, klo, khi). khi - klo)") auto

declare bisect.simps [simp del]

definition splint ::
  "'a::{zero,one,plus,minus,times,inverse,abs,ord} libm \<Rightarrow> nat \<Rightarrow> 'a list \<Rightarrow> 'a list \<Rightarrow> 'a list \<Rightarrow> 'a \<Rightarrow> 'a option" where
  "splint M n x y c xo =
     (let (klo, khi) = bisect x xo 0 (n - 1);
          h = x ! khi - x ! klo
      in if \<bar>h\<bar> < AU_EPS M then None
         else let a = (x ! khi - xo) / h; b = (xo - x ! klo) / h in
           Some (a * y ! klo + b * y ! khi
             + ((a * a - 1) * a * c ! klo + (b * b - 1) * b * c ! khi) * h * h / lib_int M 6))"

section \<open>Cubic splines in two variables\<close>

definition spline2 ::
  "'a::{zero,one,plus,minus,uminus,times,inverse,ord} libm \<Rightarrow> nat \<Rightarrow> nat \<Rightarrow> 'a list \<Rightarrow> 'a list \<Rightarrow> 'a list \<Rightarrow> 'a list \<Rightarrow> 'a list" where
  "spline2 M nr nc x1 x2 y c =
     fst (foldl (\<lambda>(c, ctmp) j.
       let ytmp = map (\<lambda>k. y ! (j * nc + k)) [0..<nc];
           ctmp = spline M nc x2 ytmp (AU_MAX M) (AU_MAX M) ctmp
       in (foldl (\<lambda>c k. c[j * nc + k := ctmp ! k]) c [0..<nc], ctmp)) (c, replicate nc 0) [0..<nr])"

text \<open>The rows at \<open>x2o\<close>; \<open>None\<close> as soon as one fails.\<close>

fun splint_rows ::
  "'a::{zero,one,plus,minus,times,inverse,abs,ord} libm \<Rightarrow> nat \<Rightarrow> 'a list \<Rightarrow> 'a list \<Rightarrow> 'a list \<Rightarrow> 'a \<Rightarrow> nat list \<Rightarrow> 'a list \<Rightarrow> 'a list option" where
  "splint_rows M nc x2 y c x2o [] yy = Some yy"
| "splint_rows M nc x2 y c x2o (j # js) yy =
     (case splint M nc x2 (map (\<lambda>k. y ! (j * nc + k)) [0..<nc]) (map (\<lambda>k. c ! (j * nc + k)) [0..<nc]) x2o of
        None \<Rightarrow> None
      | Some v \<Rightarrow> splint_rows M nc x2 y c x2o js (yy[j := v]))"

definition splint2 ::
  "'a::{zero,one,plus,minus,uminus,times,inverse,abs,ord} libm \<Rightarrow> nat \<Rightarrow> nat \<Rightarrow> 'a list \<Rightarrow> 'a list \<Rightarrow> 'a list \<Rightarrow> 'a list \<Rightarrow> 'a \<Rightarrow> 'a \<Rightarrow> 'a option" where
  "splint2 M nr nc x1 x2 y c x1o x2o =
     (case splint_rows M nc x2 y c x2o [0..<nr] (replicate nr 0) of
        None \<Rightarrow> None
      | Some yy \<Rightarrow>
          splint M nr x1 yy (spline M nr x1 yy (AU_MAX M) (AU_MAX M) (replicate (max nr nc) 0)) x1o)"

section \<open>Bilinear and Lagrange interpolation\<close>

definition Bilinear :: "'a::{plus,minus,times,inverse} list \<Rightarrow> 'a list \<Rightarrow> 'a list \<Rightarrow> 'a \<Rightarrow> 'a \<Rightarrow> 'a" where
  "Bilinear XI YI ZI X0 Y0 =
     (let f1 = ZI ! 0 * (XI ! 1 - X0) * (YI ! 1 - Y0);
          f2 = ZI ! 1 * (X0 - XI ! 0) * (YI ! 1 - Y0);
          f3 = ZI ! 2 * (XI ! 1 - X0) * (Y0 - YI ! 0);
          f4 = ZI ! 3 * (X0 - XI ! 0) * (Y0 - YI ! 0)
      in (f1 + f2 + f3 + f4) / (XI ! 1 - XI ! 0) / (YI ! 1 - YI ! 0))"

text \<open>The order, between 2 and the number of samples, and the samples that take part.\<close>

definition lagrange_order :: "nat \<Rightarrow> int \<Rightarrow> int" where
  "lagrange_order N OD = (let OD = (if OD < 2 then 2 else OD) in if int N < OD then int N else OD)"

fun first_greater :: "'a::ord list \<Rightarrow> 'a \<Rightarrow> nat" where
  "first_greater [] x = 0"
| "first_greater (xi # XI) x = (if x < xi then 0 else Suc (first_greater XI x))"

definition lagrange_window :: "nat \<Rightarrow> int \<Rightarrow> nat \<Rightarrow> int \<times> int" where
  "lagrange_window N OD j =
     (let SI = int j - OD div 2; EI = SI + OD - 1;
          (SI, EI) = (if SI < 0 then (0, OD - 1) else (SI, EI))
      in if int N \<le> EI then (int N - 1 - OD + 1, int N - 1) else (SI, EI))"

definition lagrange_weight :: "'a::{one,minus,times,inverse} list \<Rightarrow> 'a \<Rightarrow> nat \<Rightarrow> nat \<Rightarrow> nat \<Rightarrow> 'a" where
  "lagrange_weight XI x SI EI i =
     foldl (\<lambda>t1 j. t1 * (x - XI ! j) / (XI ! i - XI ! j))
       (foldl (\<lambda>t1 j. t1 * (x - XI ! j) / (XI ! i - XI ! j)) 1 [SI..<i]) [i + 1..<EI + 1]"

definition lagrange_at :: "nat \<Rightarrow> 'a::{zero,one,plus,minus,times,inverse,ord} list \<Rightarrow> 'a list \<Rightarrow> int \<Rightarrow> 'a \<Rightarrow> 'a" where
  "lagrange_at N XI YI OD x =
     (let (SI, EI) = lagrange_window N OD (first_greater (take N XI) x)
      in if EI < SI then 0
         else foldl (\<lambda>t0 i. t0 + lagrange_weight XI x (nat SI) (nat EI) i * YI ! i) 0 [nat SI..<nat EI + 1])"

definition Lagrange :: "nat \<Rightarrow> 'a::{zero,one,plus,minus,times,inverse,ord} list \<Rightarrow> 'a list \<Rightarrow> int \<Rightarrow> nat \<Rightarrow> 'a list \<Rightarrow> 'a list \<Rightarrow> 'a list" where
  "Lagrange N XI YI OD M XO YO =
     foldl (\<lambda>YO k. YO[k := lagrange_at N XI YI (lagrange_order N OD) (XO ! k)]) YO [0..<M]"

section \<open>Correlation\<close>

definition Correlation :: "'a::{zero,plus,minus,times,inverse} libm \<Rightarrow> nat \<Rightarrow> 'a list \<Rightarrow> 'a list \<Rightarrow> 'a" where
  "Correlation M N X Y =
     (let (sumx, sumy, sumxy, sqx, sqy) = foldl (\<lambda>(sumx, sumy, sumxy, sqx, sqy) i.
            (sumx + X ! i, sumy + Y ! i, sumxy + X ! i * Y ! i, sqx + X ! i * X ! i, sqy + Y ! i * Y ! i))
            (0, 0, 0, 0, 0) [0..<N];
          meanx = sumx / lib_int M (int N);
          meany = sumy / lib_int M (int N);
          rmsx = lib_sqrt M ((sqx - sumx * meanx) / lib_int M (int N - 1));
          rmsy = lib_sqrt M ((sqy - sumy * meany) / lib_int M (int N - 1))
      in (sumxy - lib_int M (int N) * meanx * meany) / rmsx / rmsy)"

end
