(* ===== verification/AMath_Interp_Properties.thy ===== *)
theory AMath_Interp_Properties
  imports AMath_Interp AMath_Properties
begin

text \<open>
  Properties of interpolation and correlation. Where rounding would blur a statement it is about the
  routine without rounding, over an ordered field.
\<close>

section \<open>Bisection\<close>

lemma bisect_spec:
  fixes x :: "'a::linorder list"
  assumes "klo < khi" and "bisect x xo klo khi = (l, h)"
  shows "h = l + 1 \<and> klo \<le> l \<and> h \<le> khi \<and> (l = klo \<or> x ! l \<le> xo) \<and> (h = khi \<or> xo < x ! h)"
  using assms
proof (induction x xo klo khi rule: bisect.induct)
  case (1 x xo klo khi)
  show ?case
  proof (cases "klo + 1 < khi")
    case False
    with 1(3,4) show ?thesis by (auto simp: bisect.simps [of x xo klo khi])
  next
    case True
    define k where "k = (khi + klo) div 2"
    have k: "klo < k" "k < khi" using True by (auto simp: k_def)
    show ?thesis
    proof (cases "xo < x ! k")
      case True
      with \<open>klo + 1 < khi\<close> have "bisect x xo klo k = (l, h)" using 1(4) by (simp add: bisect.simps [of x xo klo khi] k_def)
      from 1(1) [OF \<open>klo + 1 < khi\<close> k_def True k(1) this] k True show ?thesis by auto
    next
      case False
      with \<open>klo + 1 < khi\<close> have "bisect x xo k khi = (l, h)" using 1(4) by (simp add: bisect.simps [of x xo klo khi] k_def)
      from 1(2) [OF \<open>klo + 1 < khi\<close> k_def False k(2) this] k False show ?thesis by auto
    qed
  qed
qed

text \<open>
  Samples in increasing order, at least \<open>AU_EPS\<close> apart: the code refuses narrower intervals.
\<close>

definition spaced :: "nat \<Rightarrow> 'a::linordered_field list \<Rightarrow> bool" where
  "spaced n x \<longleftrightarrow> length x = n \<and> (\<forall>i. i + 1 < n \<longrightarrow> 10 powi (-6) \<le> x ! (i + 1) - x ! i)"

lemma spaced_less:
  assumes "spaced n x" and "j < n" and "i < j"
  shows "x ! i < x ! j"
  using assms(2,3)
proof (induction j)
  case (Suc j)
  have "(0::'a) < 10 powi (-6)" by (simp add: zero_less_power_int)
  moreover have "10 powi (-6) \<le> x ! (j + 1) - x ! j" using assms(1) Suc.prems unfolding spaced_def by simp
  ultimately have "x ! j < x ! (j + 1)" by linarith
  with Suc show ?case by (cases "i = j") (auto intro: less_trans)
qed simp

lemma bisect_knot:
  assumes "spaced n x" and "2 \<le> n" and "j < n" and "bisect x (x ! j) 0 (n - 1) = (l, h)"
  shows "h = l + 1 \<and> h < n \<and> (j = l \<or> j = h)"
proof -
  have *: "h = l + 1" "h \<le> n - 1" "l = 0 \<or> x ! l \<le> x ! j" "h = n - 1 \<or> x ! j < x ! h"
    using bisect_spec [of 0 "n - 1" x "x ! j" l h] assms by auto
  have n: "l < n" "h < n" using *(1,2) assms(2) by auto
  have "l \<le> j"
  proof (rule ccontr)
    assume "\<not> l \<le> j"
    then show False using *(3) spaced_less [OF assms(1) n(1), of j] by auto
  qed
  moreover have "j \<le> h"
  proof (rule ccontr)
    assume "\<not> j \<le> h"
    then show False using *(4) spaced_less [OF assms(1,3), of h] assms(3) by auto
  qed
  ultimately show ?thesis using * assms(2) by auto
qed

lemma splint_interpolates_aux:
  fixes x y c :: "'a::linordered_field list"
  assumes "exact_lib M" and "spaced n x" and "2 \<le> n" and "j < n"
  shows "splint M n x y c (x ! j) = Some (y ! j)"
proof -
  obtain l h where b: "bisect x (x ! j) 0 (n - 1) = (l, h)" by fastforce
  have lh: "h = l + 1" "h < n" "j = l \<or> j = h" using bisect_knot [OF assms(2-4) b] by auto
  have gap: "10 powi (-6) \<le> x ! h - x ! l" using assms(2) lh by (simp add: spaced_def)
  have "(0::'a) < 10 powi (-6)" by (simp add: zero_less_power_int)
  with gap have pos: "0 < x ! h - x ! l" by linarith
  have "AU_EPS M = 10 powi (-6)" using assms(1) by (simp add: AU_EPS_def del: power_int_numeral_neg_numeral)
  with gap pos have "\<not> \<bar>x ! h - x ! l\<bar> < AU_EPS M" by linarith
  moreover have "bisect x (x ! j) 0 (n - Suc 0) = (l, h)" using b by simp
  ultimately show ?thesis using lh(3) pos by (auto simp: splint_def)
qed

text \<open>
  At every sample position the cubic spline gives the sample back, whatever the
  coefficients are, provided neighbouring samples are at least \<open>AU_EPS\<close> apart (exact arithmetic).
\<close>

theorem splint_interpolates:
  fixes x y c :: "'a::linordered_field list"
  assumes "exact_lib M" and "spaced n x" and "2 \<le> n" and "j < n"
  shows "splint M n x y c (x ! j) = Some (y ! j)"
  by (rule splint_interpolates_aux [OF assms])

theorem splint_interpolates_witness:
  "splint demo_libm 3 [0, 1, 3] [4, 7, 2] [0, 5, 0] ([0, 1, 3 :: rat] ! 1) = Some 7"
proof -
  have "exact_lib demo_libm" by (simp add: exact_lib_def demo_libm_def)
  moreover have "spaced 3 [0, 1, 3 :: rat]"
    by (auto simp: spaced_def less_Suc_eq numeral_3_eq_3 power_int_minus)
  ultimately show ?thesis using splint_interpolates [of demo_libm 3 "[0, 1, 3]" 1 "[4, 7, 2]" "[0, 5, 0]"] by simp
qed

section \<open>The natural spline\<close>

text \<open>Elimination step \<open>i\<close> of the tridiagonal system.\<close>

definition sp_sig where "sp_sig x i = (x ! i - x ! (i - 1)) / (x ! (i + 1) - x ! (i - 1))"

definition sp_rhs where
  "sp_rhs x y i = 6 * ((y ! (i + 1) - y ! i) / (x ! (i + 1) - x ! i) - (y ! i - y ! (i - 1)) / (x ! i - x ! (i - 1)))
     / (x ! (i + 1) - x ! (i - 1))"

definition sp_inv where
  "sp_inv n x y m = (\<lambda>(c, u). length c = n \<and> length u = n \<and> c ! 0 = 0 \<and> u ! 0 = 0
     \<and> (\<forall>i<m. - 1 \<le> c ! i \<and> c ! i \<le> 0)
     \<and> (\<forall>i. 1 \<le> i \<and> i < m \<longrightarrow> (sp_sig x i * c ! (i - 1) + 2) * c ! i = sp_sig x i - 1
          \<and> (sp_sig x i * c ! (i - 1) + 2) * u ! i = sp_rhs x y i - sp_sig x i * u ! (i - 1)))"

lemma sp_sig_range:
  fixes x :: "'a::linordered_field list"
  assumes "\<forall>i. i + 1 < n \<longrightarrow> x ! i < x ! (i + 1)" and "1 \<le> i" and "i + 1 < n"
  shows "0 < sp_sig x i" and "sp_sig x i < 1"
proof -
  have "x ! (i - 1) < x ! i" "x ! i < x ! (i + 1)" using assms(1) [rule_format, of "i - 1"] assms by auto
  then show "0 < sp_sig x i" "sp_sig x i < 1" by (simp_all add: sp_sig_def field_simps)
qed

lemma spline_step_inv:
  fixes x :: "'a::linordered_field list"
  assumes M: "exact_lib M" and x: "\<forall>i. i + 1 < n \<longrightarrow> x ! i < x ! (i + 1)"
    and i: "1 \<le> i" "i + 1 < n" and inv: "sp_inv n x y i st"
  shows "sp_inv n x y (Suc i) (spline_step M x y st i)"
proof -
  obtain c u where st: "st = (c, u)" by (cases st)
  have c: "length c = n" "length u = n" "c ! 0 = 0" "u ! 0 = 0" "\<forall>l<i. - 1 \<le> c ! l \<and> c ! l \<le> 0"
    using inv by (simp_all add: sp_inv_def st)
  note s = sp_sig_range [OF x i]
  define p where "p = sp_sig x i * c ! (i - 1) + 2"
  have "- 1 \<le> c ! (i - 1)" "c ! (i - 1) \<le> 0" using c(5) i by auto
  with s have "- 1 \<le> sp_sig x i * c ! (i - 1)"
    by (smt (verit, best) mult_left_mono mult_minus_right mult_cancel_left2 order_trans neg_le_iff_le less_imp_le)
  then have p: "1 \<le> p" by (simp add: p_def)
  define d where "d = (sp_sig x i - 1) / p"
  define w where "w = (sp_rhs x y i - sp_sig x i * u ! (i - 1)) / p"
  have pd: "p * d = sp_sig x i - 1" "p * w = sp_rhs x y i - sp_sig x i * u ! (i - 1)" using p by (simp_all add: d_def w_def)
  have "d \<le> 0" using s p by (simp add: d_def divide_nonpos_pos)
  moreover have "- 1 \<le> d" using s p by (simp add: d_def field_simps)
  moreover have "spline_step M x y st i = (c[i := d], u[i := w])"
    using M by (simp add: spline_step_def st Let_def d_def w_def p_def sp_sig_def sp_rhs_def)
  ultimately show ?thesis
    using inv i pd unfolding st sp_inv_def by (auto simp: less_Suc_eq nth_list_update p_def)
qed

text \<open>
  With both end conditions unknown (at least \<open>AU_MAX\<close>) \<open>spline\<close> returns the natural cubic spline: zero
  curvature at both ends, and at every inner sample the equation that makes the slopes of the two
  neighbouring cubics agree (exact arithmetic, increasing positions).
\<close>

theorem natural_spline:
  fixes x y :: "'a::linordered_field list"
  assumes M: "exact_lib M" and n: "2 \<le> n" and len: "length c = n"
    and x: "\<forall>i. i + 1 < n \<longrightarrow> x ! i < x ! (i + 1)"
    and ends: "AU_MAX M \<le> c1" "AU_MAX M \<le> cn"
  defines "k \<equiv> spline M n x y c1 cn c"
  shows "k ! 0 = 0 \<and> k ! (n - 1) = 0 \<and> (\<forall>i. 1 \<le> i \<and> i + 1 < n \<longrightarrow>
    (x ! i - x ! (i - 1)) * k ! (i - 1) + 2 * (x ! (i + 1) - x ! (i - 1)) * k ! i + (x ! (i + 1) - x ! i) * k ! (i + 1)
      = 6 * ((y ! (i + 1) - y ! i) / (x ! (i + 1) - x ! i) - (y ! i - y ! (i - 1)) / (x ! i - x ! (i - 1))))"
proof -
  have "lib_dec M 99 (-2) * AU_MAX M < AU_MAX M" using M by (simp add: AU_MAX_def)
  then have lim: "lib_dec M 99 (-2) * AU_MAX M < c1" "lib_dec M 99 (-2) * AU_MAX M < cn" using ends by simp_all
  define st where "st = foldl (spline_step M x y) (spline_start M x y c1 (c, replicate n 0)) [1..<n - 1]"
  have "sp_inv n x y (n - 1) st"
    unfolding st_def
  proof (rule foldl_upt_inv [where P = "sp_inv n x y"])
    show "sp_inv n x y 1 (spline_start M x y c1 (c, replicate n 0))"
      using lim(1) len n by (simp add: spline_start_def sp_inv_def)
  qed (use n spline_step_inv [OF M x] in auto)
  then obtain d u where st2: "st = (d, u)" and d: "length d = n" "length u = n" "d ! 0 = 0" "u ! 0 = 0"
    "\<And>i. 1 \<le> i \<Longrightarrow> i < n - 1 \<Longrightarrow> (sp_sig x i * d ! (i - 1) + 2) * d ! i = sp_sig x i - 1"
    "\<And>i. 1 \<le> i \<Longrightarrow> i < n - 1 \<Longrightarrow> (sp_sig x i * d ! (i - 1) + 2) * u ! i = sp_rhs x y i - sp_sig x i * u ! (i - 1)"
    by (cases st) (auto simp: sp_inv_def)
  define P where "P m k \<longleftrightarrow> length k = n \<and> k ! (n - 1) = 0 \<and> (\<forall>i. m \<le> i \<and> i < n - 1 \<longrightarrow> k ! i = d ! i * k ! (i + 1) + u ! i)
    \<and> (\<forall>i<m. k ! i = d ! i)" for m k
  have "k = foldl (\<lambda>c i. c[i := c ! i * c ! (i + 1) + u ! i]) (d[n - 1 := 0]) (rev [0..<n - 1])"
    using lim(2) M st2 [unfolded st_def] by (simp add: k_def spline_def spline_end_def)
  also have "P 0 \<dots>"
  proof (rule foldl_down_inv)
    show "P (n - 1) (d[n - 1 := 0])" using d(1) n by (auto simp: P_def)
  qed (auto simp: P_def nth_list_update)
  finally have k: "k ! (n - 1) = 0" "\<And>i. i < n - 1 \<Longrightarrow> k ! i = d ! i * k ! (i + 1) + u ! i" by (auto simp: P_def)
  have "k ! 0 = 0" using k(2) [of 0] d(3,4) n by simp
  moreover have "(x ! i - x ! (i - 1)) * k ! (i - 1) + 2 * (x ! (i + 1) - x ! (i - 1)) * k ! i + (x ! (i + 1) - x ! i) * k ! (i + 1)
      = 6 * ((y ! (i + 1) - y ! i) / (x ! (i + 1) - x ! i) - (y ! i - y ! (i - 1)) / (x ! i - x ! (i - 1)))"
    if i: "1 \<le> i" "i + 1 < n" for i
  proof -
    let ?s = "sp_sig x i"
    have lt: "x ! (i - 1) < x ! i" "x ! i < x ! (i + 1)" using x [rule_format, of "i - 1"] x i by auto
    define w where "w = x ! (i + 1) - x ! (i - 1)"
    have w: "0 < w" "x ! i - x ! (i - 1) = w * ?s" "x ! (i + 1) - x ! i = w * (1 - ?s)"
      using lt by (simp_all add: w_def sp_sig_def field_simps)
    have "k ! (i - 1) = d ! (i - 1) * k ! i + u ! (i - 1)" "k ! i = d ! i * k ! (i + 1) + u ! i"
      using k(2) [of "i - 1"] k(2) [of i] i by simp_all
    then have "?s * k ! (i - 1) + 2 * k ! i + (1 - ?s) * k ! (i + 1)
        = (?s * d ! (i - 1) + 2) * (d ! i * k ! (i + 1) + u ! i) + ?s * u ! (i - 1) + (1 - ?s) * k ! (i + 1)"
      by (simp add: algebra_simps)
    also have "\<dots> = ((?s * d ! (i - 1) + 2) * d ! i) * k ! (i + 1) + (?s * d ! (i - 1) + 2) * u ! i + ?s * u ! (i - 1) + (1 - ?s) * k ! (i + 1)"
      by (simp add: algebra_simps)
    also have "\<dots> = sp_rhs x y i"
      unfolding d(5) [OF i(1) less_diff_conv [THEN iffD2, OF i(2)]] d(6) [OF i(1) less_diff_conv [THEN iffD2, OF i(2)]]
      by (simp add: algebra_simps)
    finally have "w * (?s * k ! (i - 1) + 2 * k ! i + (1 - ?s) * k ! (i + 1)) = w * sp_rhs x y i" by simp
    moreover have "w * sp_rhs x y i = 6 * ((y ! (i + 1) - y ! i) / (x ! (i + 1) - x ! i) - (y ! i - y ! (i - 1)) / (x ! i - x ! (i - 1)))"
      unfolding sp_rhs_def w_def [symmetric] using w(1) by simp
    ultimately show ?thesis unfolding w(2,3) w_def [symmetric] by (simp add: algebra_simps)
  qed
  ultimately show ?thesis using k(1) by simp
qed

theorem natural_spline_witness:
  "spline demo_libm 3 [0, 1, 3] [4, 7, 2] (AU_MAX demo_libm) (AU_MAX demo_libm) [0, 0, 0 :: rat] ! 2 = 0"
proof -
  have "exact_lib demo_libm" by (simp add: exact_lib_def demo_libm_def)
  moreover have "\<forall>i. i + 1 < 3 \<longrightarrow> [0, 1, 3 :: rat] ! i < [0, 1, 3] ! (i + 1)"
    by (auto simp: less_Suc_eq numeral_3_eq_3)
  ultimately show ?thesis
    using natural_spline [of demo_libm 3 "[0, 0, 0]" "[0, 1, 3]" "AU_MAX demo_libm" "AU_MAX demo_libm" "[4, 7, 2]"] by simp
qed

text \<open>
  A given end slope is not honoured: for samples on a line, with the slope of the line as end
  condition, the first coefficient is computed by a division by zero and every result is \<open>NaN\<close>.
\<close>

theorem clamped_spline_nan:
  "splint (libm_double T) 3 (map double_of_int [0, 1, 2]) (map double_of_int [0, 1, 2])
     (spline (libm_double T) 3 (map double_of_int [0, 1, 2]) (map double_of_int [0, 1, 2]) (double_of_int 1) (double_of_int 1)
        (map double_of_int [0, 0, 0]))
     (double_of_dec False 5 (-1)) = Some NaN"
  by code_simp

section \<open>Lagrange interpolation\<close>

text \<open>
  Whatever order is asked for and wherever the position lies, the window of samples that takes
  part stays inside the array and has the clamped order as its size.
\<close>

theorem lagrange_window_bounds:
  assumes "lagrange_window N (lagrange_order N OD) (first_greater (take N XI) x) = (SI, EI)"
  shows "0 \<le> SI \<and> EI < int N \<and> EI - SI + 1 = lagrange_order N OD"
proof -
  have "first_greater XI x \<le> length XI" for XI by (induction XI) auto
  from this [of "take N XI"] have "first_greater (take N XI) x \<le> N" by simp
  then show ?thesis
    using assms by (auto simp: lagrange_window_def lagrange_order_def Let_def split: if_splits)
qed

theorem lagrange_window_bounds_witness:
  "lagrange_window 5 (lagrange_order 5 3) (first_greater (take 5 [1, 2, 3, 4, 5 :: int]) 9) = (2, 4) \<and> (4::int) < 5"
  using lagrange_window_bounds [of 5 3 "[1, 2, 3, 4, 5]" "9 :: int" 2 4]
  by (simp add: lagrange_window_def lagrange_order_def)

lemma first_greater_knot:
  fixes XI :: "'a::linorder list"
  assumes "i < length XI" and "\<And>p q. p < q \<Longrightarrow> q < length XI \<Longrightarrow> XI ! p < XI ! q"
  shows "first_greater XI (XI ! i) = i + 1"
  using assms
proof (induction XI arbitrary: i)
  case (Cons a XI)
  have inc: "XI ! p < XI ! q" if "p < q" "q < length XI" for p q using Cons.prems(2) [of "Suc p" "Suc q"] that by simp
  show ?case
  proof (cases i)
    case 0
    have "first_greater XI a = 0" using Cons.prems(2) [of 0 1] by (cases XI) auto
    with 0 show ?thesis by simp
  next
    case (Suc m)
    moreover have "\<not> XI ! m < a" using Cons.prems(1) Cons.prems(2) [of 0 "Suc m"] Suc by auto
    ultimately show ?thesis using Cons.IH [OF _ inc, of m] Cons.prems(1) by simp
  qed
qed simp

lemma weight_factors:
  fixes XI :: "'a::field list"
  shows "foldl (\<lambda>t1 j. t1 * (x - XI ! j) / (XI ! i - XI ! j)) c [m..<n] = c * (\<Prod>j = m..<n. (x - XI ! j) / (XI ! i - XI ! j))"
proof (induction n)
  case (Suc n)
  then show ?case by (cases "m \<le> n") (simp_all add: ac_simps)
qed simp

text \<open>At a sample position the weight of that sample is 1, the others are 0.\<close>

lemma lagrange_weight_knot:
  fixes XI :: "'a::linordered_field list"
  assumes inc: "\<And>p q. p < q \<Longrightarrow> q < N \<Longrightarrow> XI ! p < XI ! q" and r: "s \<le> r" "r \<le> e" "e < N" and i: "s \<le> i" "i \<le> e"
  shows "lagrange_weight XI (XI ! r) s e i = (if i = r then 1 else 0)"
proof -
  let ?f = "\<lambda>j. (XI ! r - XI ! j) / (XI ! i - XI ! j)"
  have f: "lagrange_weight XI (XI ! r) s e i = (\<Prod>j = s..<i. ?f j) * (\<Prod>j = i + 1..<e + 1. ?f j)"
    by (simp add: lagrange_weight_def weight_factors)
  show ?thesis
  proof (cases "i = r")
    case True
    have "XI ! r - XI ! j \<noteq> 0" if "j \<noteq> r" "j < N" for j
      using that inc [of j r] inc [of r j] r by (cases "j < r") auto
    then have "(\<Prod>j = s..<i. ?f j) = 1" "(\<Prod>j = i + 1..<e + 1. ?f j) = 1"
      using r True by (auto intro!: prod.neutral)
    then show ?thesis using True f by simp
  next
    case False
    have zero: "(\<Prod>j \<in> J. ?f j) = 0" if "r \<in> J" "finite J" for J using that by (intro prod_zero bexI [of _ r]) simp_all
    have "r \<in> {s..<i} \<or> r \<in> {i + 1..<e + 1}" using False r by force
    then have "lagrange_weight XI (XI ! r) s e i = 0"
      unfolding f by (elim disjE; simp only: zero finite_atLeastLessThan mult_zero_left mult_zero_right)
    then show ?thesis using False by simp
  qed
qed

lemma lagrange_at_knot:
  fixes XI YI :: "'a::linordered_field list"
  assumes len: "length XI = N" and inc: "\<And>p q. p < q \<Longrightarrow> q < N \<Longrightarrow> XI ! p < XI ! q" and r: "r < N"
  shows "lagrange_at N XI YI (lagrange_order N OD) (XI ! r) = YI ! r"
proof -
  define d where "d = lagrange_order N OD"
  obtain S E where SE: "lagrange_window N d (r + 1) = (S, E)" by fastforce
  have b: "0 \<le> S" "E < int N" "S \<le> int r" "int r \<le> E"
    using SE r by (auto simp: d_def lagrange_window_def lagrange_order_def Let_def split: if_splits)
  define s e where "s = nat S" and "e = nat E"
  have se: "s \<le> r" "r \<le> e" "e < N" using b by (auto simp: s_def e_def)
  have "first_greater (take N XI) (XI ! r) = r + 1" using first_greater_knot [of r XI] len inc r by simp
  then have "lagrange_at N XI YI d (XI ! r) = foldl (\<lambda>t0 i. t0 + lagrange_weight XI (XI ! r) s e i * YI ! i) 0 [s..<e + 1]"
    using SE b by (simp add: lagrange_at_def s_def e_def)
  also have "\<dots> = (\<Sum>i = s..<e + 1. lagrange_weight XI (XI ! r) s e i * YI ! i)" by (simp only: foldl_sum add_0_left)
  also have "\<dots> = (\<Sum>i = s..<e + 1. if i = r then YI ! r else 0)"
    using lagrange_weight_knot [OF inc se] by (intro sum.cong) auto
  also have "\<dots> = YI ! r" using se by simp
  finally show ?thesis by (simp add: d_def)
qed

text \<open>
  C31: at a sample position inside the table Lagrange interpolation of any order gives the sample
  back (exact arithmetic, increasing positions).
\<close>

theorem lagrange_interpolates:
  fixes XI YI :: "'a::linordered_field list"
  assumes len: "length XI = N" and inc: "\<And>p q. p < q \<Longrightarrow> q < N \<Longrightarrow> XI ! p < XI ! q" and r: "r < N"
    and k: "k < M" "k < length YO" "XO ! k = XI ! r"
  shows "Lagrange N XI YI OD M XO YO ! k = YI ! r"
proof -
  define P where "P m Z \<longleftrightarrow> length Z = length YO \<and> (k < m \<longrightarrow> Z ! k = YI ! r)" for m and Z :: "'a list"
  have "P M (Lagrange N XI YI OD M XO YO)"
    unfolding Lagrange_def
  proof (rule foldl_upt_inv [where P = P])
    fix i Z assume "P i Z"
    then show "P (Suc i) (Z[i := lagrange_at N XI YI (lagrange_order N OD) (XO ! i)])"
      using lagrange_at_knot [OF len inc r] k(2,3) by (auto simp: P_def nth_list_update less_Suc_eq)
  qed (auto simp: P_def)
  then show ?thesis using k(1) by (simp add: P_def)
qed

theorem lagrange_interpolates_witness:
  "Lagrange 4 [0, 1, 3, 4] [5, 6, 2, 9 :: rat] 3 1 [3] [0] ! 0 = 2"
proof -
  have "\<And>p q. p < q \<Longrightarrow> q < 4 \<Longrightarrow> [0, 1, 3, 4 :: rat] ! p < [0, 1, 3, 4] ! q"
    by (auto simp: less_Suc_eq numeral_eq_Suc)
  then show ?thesis using lagrange_interpolates [of "[0, 1, 3, 4 :: rat]" 4 2 0 1 "[0]" "[3]" "[5, 6, 2, 9]" 3] by simp
qed

section \<open>Correlation\<close>

text \<open>The coefficient of the textbooks.\<close>

definition mean where "mean N X = (\<Sum>i<N. X ! i) / real N"

definition pearson where
  "pearson N X Y = (\<Sum>i<N. (X ! i - mean N X) * (Y ! i - mean N Y))
     / (sqrt (\<Sum>i<N. (X ! i - mean N X)\<^sup>2) * sqrt (\<Sum>i<N. (Y ! i - mean N Y)\<^sup>2))"

lemma centred_product:
  assumes "0 < N"
  shows "(\<Sum>i<N. (X ! i - mean N X) * (Y ! i - mean N Y)) = (\<Sum>i<N. X ! i * Y ! i) - (\<Sum>i<N. X ! i) * (\<Sum>i<N. Y ! i) / real N"
proof -
  have "(\<Sum>i<N. (X ! i - mean N X) * (Y ! i - mean N Y))
      = (\<Sum>i<N. X ! i * Y ! i) - mean N Y * (\<Sum>i<N. X ! i) - mean N X * (\<Sum>i<N. Y ! i) + real N * (mean N X * mean N Y)"
    by (simp add: algebra_simps sum.distrib sum_subtractf sum_distrib_left sum_distrib_right)
  also have "real N * (mean N X * mean N Y) = mean N X * (\<Sum>i<N. Y ! i)" using assms by (simp add: mean_def)
  finally show ?thesis by (simp add: mean_def)
qed

text \<open>
  \<open>Correlation\<close> is \<open>N - 1\<close> times the correlation coefficient: the covariance is not divided by the
  number of samples, the two deviations are (without rounding).
\<close>

theorem correlation_scaled:
  assumes "2 \<le> N"
  shows "Correlation libm_real N X Y = (real N - 1) * pearson N X Y"
proof -
  define ss where "ss = foldl (\<lambda>(sumx, sumy, sumxy, sqx, sqy) i.
    (sumx + X ! i, sumy + Y ! i, sumxy + X ! i * Y ! i, sqx + X ! i * X ! i, sqy + Y ! i * Y ! i))
    (0, 0, 0, 0, 0) [0..<N]"
  have ss: "ss = ((\<Sum>i<N. X ! i), (\<Sum>i<N. Y ! i), (\<Sum>i<N. X ! i * Y ! i), (\<Sum>i<N. X ! i * X ! i), (\<Sum>i<N. Y ! i * Y ! i))"
    unfolding ss_def by (induction N) simp_all
  have N: "0 < N" using assms by simp
  note c = centred_product [OF N]
  define A B C where "A = (\<Sum>i<N. (X ! i - mean N X)\<^sup>2)" and "B = (\<Sum>i<N. (Y ! i - mean N Y)\<^sup>2)"
    and "C = (\<Sum>i<N. (X ! i - mean N X) * (Y ! i - mean N Y))"
  have "Correlation libm_real N X Y = C / sqrt (A / (real N - 1)) / sqrt (B / (real N - 1))"
    using N assms c [of X X] c [of Y Y] c [of X Y]
    by (simp add: Correlation_def ss_def [symmetric] ss libm_real_def A_def B_def C_def power2_eq_square of_nat_diff)
  also have "\<dots> = C / (sqrt A * sqrt B) * (sqrt (real N - 1) * sqrt (real N - 1))" by (simp add: real_sqrt_divide)
  also have "sqrt (real N - 1) * sqrt (real N - 1) = real N - 1" using assms by simp
  finally show ?thesis by (simp add: pearson_def A_def B_def C_def)
qed

theorem correlation_scaled_witness: "Correlation libm_real 3 [0, 1, 2] [0, 1, 2] = 2"
proof -
  have "pearson 3 [0, 1, 2] [0, 1, 2] = 1" by (simp add: pearson_def mean_def numeral_3_eq_3 power2_eq_square)
  then show ?thesis using correlation_scaled [of 3 "[0, 1, 2]" "[0, 1, 2]"] by simp
qed

section \<open>The spline in two variables\<close>

lemma splint_rows_knot:
  fixes x2 :: "'a::linordered_field list"
  assumes "exact_lib M" and "spaced nc x2" and "2 \<le> nc" and "q < nc"
  shows "\<exists>yy'. splint_rows M nc x2 y c (x2 ! q) js yy = Some yy' \<and> length yy' = length yy
    \<and> (\<forall>i < length yy. yy' ! i = (if i \<in> set js then y ! (i * nc + q) else yy ! i))"
proof (induction js arbitrary: yy)
  case (Cons j js)
  have "splint M nc x2 (map (\<lambda>k. y ! (j * nc + k)) [0..<nc]) (map (\<lambda>k. c ! (j * nc + k)) [0..<nc]) (x2 ! q) = Some (y ! (j * nc + q))"
    by (subst splint_interpolates_aux [OF assms]) (simp add: assms(4))
  with Cons [of "yy[j := y ! (j * nc + q)]"] show ?case by (auto simp: nth_list_update)
qed simp

text \<open>
  The spline in two variables gives the sample back at every grid position, for any first
  coefficients (exact arithmetic, positions at least \<open>AU_EPS\<close> apart).
\<close>

theorem splint2_interpolates:
  fixes x1 x2 :: "'a::linordered_field list"
  assumes M: "exact_lib M" and x1: "spaced nr x1" "2 \<le> nr" "r < nr" and x2: "spaced nc x2" "2 \<le> nc" "q < nc"
  shows "splint2 M nr nc x1 x2 y c (x1 ! r) (x2 ! q) = Some (y ! (r * nc + q))"
proof -
  obtain yy where "splint_rows M nc x2 y c (x2 ! q) [0..<nr] (replicate nr 0) = Some yy" "yy ! r = y ! (r * nc + q)"
    using splint_rows_knot [OF M x2, of y c "[0..<nr]" "replicate nr 0"] x1(3) by auto
  then show ?thesis using splint_interpolates_aux [OF M x1] by (simp add: splint2_def)
qed

theorem splint2_interpolates_witness:
  "splint2 demo_libm 2 3 [0, 2] [0, 1, 3] [1, 2, 3, 4, 5, 6] [0, 0, 0, 0, 0, 0] ([0, 2 :: rat] ! 1) ([0, 1, 3 :: rat] ! 2) = Some 6"
proof -
  have "exact_lib demo_libm" by (simp add: exact_lib_def demo_libm_def)
  moreover have "spaced 3 [0, 1, 3 :: rat]" "spaced 2 [0, 2 :: rat]"
    by (auto simp: spaced_def less_Suc_eq numeral_3_eq_3 power_int_minus)
  ultimately show ?thesis
    using splint2_interpolates [of demo_libm 2 "[0, 2]" 1 3 "[0, 1, 3]" 2 "[1, 2, 3, 4, 5, 6]" "[0, 0, 0, 0, 0, 0]"] by simp
qed

end
