(* ===== verification/AMath_Functions.thy ===== *)
theory AMath_Functions
  imports AMath_Linear AMath_Select
begin

text \<open>
  The free functions of \<open>AMath.cpp\<close> (byte order, magnitudes, error function) and the spherical
  coordinates of class \<open>AMath\<close>.
\<close>

section \<open>Byte order\<close>

text \<open>The bytes of a \<open>short\<close> in memory order, on a little-endian or a big-endian machine.\<close>

definition short_bytes :: "bool \<Rightarrow> nat \<Rightarrow> nat list" where
  "short_bytes little v = (if little then [v mod 256, v div 256] else [v div 256, v mod 256])"

definition TestSwapEndian :: "bool \<Rightarrow> bool" where
  "TestSwapEndian little \<longleftrightarrow> short_bytes little (256 * 1 + 2) ! 0 = 2"

function swap_cell :: "'a list \<Rightarrow> nat \<Rightarrow> nat \<Rightarrow> 'a list" where
  "swap_cell xs p1 p2 = (if p1 < p2 then swap_cell (swap p1 p2 xs) (p1 + 1) (p2 - 1) else xs)"
  by pat_completeness auto
termination
  by (relation "measure (\<lambda>(xs, p1, p2). p2 - p1)") auto

declare swap_cell.simps [simp del]

definition SwapEndian :: "'a list \<Rightarrow> nat \<Rightarrow> nat \<Rightarrow> 'a list" where
  "SwapEndian xs nelement ncell =
     (if ncell mod 2 \<noteq> 0 then xs
      else foldl (\<lambda>xs i. swap_cell xs (i * ncell) (i * ncell + (ncell - 1))) xs [0..<nelement])"

section \<open>Magnitudes and angles\<close>

definition VisualGeo ::
  "'a::{zero,plus,minus,uminus,times,inverse,ord} libm \<Rightarrow> 'a \<Rightarrow> 'a" where
  "VisualGeo M lat =
     (let R = lib_dec M 6378135 (-3); H = lib_int M 35786; R1 = R + H;
          lat = lat * AU_D2R M;
          H1 = R * R + R1 * R1 - lib_int M 2 * R * R1 * lib_cos M lat;
          sina = R * lib_sin M lat / lib_sqrt M H1
      in (if 0 \<le> lat then - lib_asin M sina else lib_asin M sina) * AU_R2D M)"

definition Sr2Arcsec :: "'a::times libm \<Rightarrow> 'a \<Rightarrow> 'a" where
  "Sr2Arcsec M sr = sr * AU_R2AS M * AU_R2AS M"

definition Arcsec2Sr :: "'a::inverse libm \<Rightarrow> 'a \<Rightarrow> 'a" where
  "Arcsec2Sr M sas = sas / AU_R2AS M / AU_R2AS M"

definition Mag2Watt :: "'a::{times} libm \<Rightarrow> 'a \<Rightarrow> 'a" where
  "Mag2Watt M mag = lib_dec M 178 (-10) * lib_pow M (lib_dec M 10 0) (lib_dec M (-4) (-1) * mag)"

definition Watt2Mag :: "'a::{times,inverse} libm \<Rightarrow> 'a \<Rightarrow> 'a" where
  "Watt2Mag M watt = lib_dec M (-25) (-1) * lib_log10 M (lib_dec M 1 8 * watt / lib_dec M 178 (-2))"

definition Candela2Watt :: "'a::{times,inverse} libm \<Rightarrow> 'a \<Rightarrow> 'a" where
  "Candela2Watt M cd = lib_dec M 10000 0 * cd / lib_dec M 683 0"

definition Watt2Candela :: "'a::{times,inverse} libm \<Rightarrow> 'a \<Rightarrow> 'a" where
  "Watt2Candela M watt = watt * lib_dec M 683 0 / lib_dec M 10000 0"

text \<open>Planck's constant and the frequency of a wave length in nm.\<close>

definition planck :: "'a::times libm \<Rightarrow> 'a" where
  "planck M = lib_dec M 6626176 (-6) * lib_dec M 1 (-34)"

definition frequency :: "'a::{times,inverse} libm \<Rightarrow> 'a \<Rightarrow> 'a" where
  "frequency M wl = lib_dec M 30 (-1) * lib_dec M 1 8 / wl * lib_dec M 1 9"

definition Mag2Photo :: "'a::{times,inverse} libm \<Rightarrow> 'a \<Rightarrow> 'a \<Rightarrow> 'a" where
  "Mag2Photo M mag wl = Mag2Watt M mag / planck M / frequency M wl"

definition Photo2Mag :: "'a::{times,inverse} libm \<Rightarrow> 'a \<Rightarrow> 'a \<Rightarrow> 'a" where
  "Photo2Mag M photo wl = Watt2Mag M (photo * planck M * frequency M wl)"

section \<open>The error function\<close>

definition erf :: "'a::{zero,plus,minus,uminus,times,inverse,abs,ord} libm \<Rightarrow> 'a \<Rightarrow> 'a" where
  "erf M x =
     (let z = \<bar>x\<bar>; one = lib_dec M 10 (-1);
          t = one / (one + lib_dec M 5 (-1) * z);
          y = t * lib_exp M (- z * z - lib_dec M 126551223 (-8)
                + t * (lib_dec M 100002368 (-8) + t * (lib_dec M 37409196 (-8) + t
                * (lib_dec M 9678418 (-8) + t * (lib_dec M (-18628806) (-8) + t * (lib_dec M 27886807 (-8) + t
                * (lib_dec M (-113520398) (-8) + t * (lib_dec M 148851587 (-8) + t * (lib_dec M (-82215223) (-8)
                + t * lib_dec M 17087277 (-8))))))))))
      in if 0 \<le> x then one - y else y - one)"

text \<open>The bisection; the loop has no other exit than a close enough value.\<close>

partial_function (option) reverse_erf_loop ::
  "'a::{zero,plus,minus,uminus,times,inverse,abs,ord} libm \<Rightarrow> 'a \<Rightarrow> 'a \<Rightarrow> 'a \<Rightarrow> 'a \<Rightarrow> 'a option" where
  "reverse_erf_loop M z lo hi me =
     (let z1 = erf M me in
      if lib_dec M 12 (-8) < \<bar>z1 - z\<bar> then
        let lo' = (if z1 < z then me else lo); hi' = (if z1 < z then hi else me)
        in reverse_erf_loop M z lo' hi' ((lo' + hi') * lib_dec M 5 (-1))
      else Some me)"

definition reverse_erf :: "'a::{zero,plus,minus,uminus,times,inverse,abs,ord} libm \<Rightarrow> 'a \<Rightarrow> 'a option" where
  "reverse_erf M z =
     (let lo = (if 0 \<le> z then lib_int M 0 else - lib_int M 4);
          hi = (if 0 \<le> z then lib_int M 4 else lib_int M 0)
      in reverse_erf_loop M z lo hi ((lo + hi) * lib_dec M 5 (-1)))"

definition CNDF :: "'a::{zero,plus,minus,uminus,times,inverse,abs,ord} libm \<Rightarrow> 'a \<Rightarrow> 'a \<Rightarrow> 'a \<Rightarrow> 'a" where
  "CNDF M x mu sigma =
     (let z = (x - mu) / lib_sqrt M (lib_dec M 20 (-1)) / sigma in lib_dec M 5 (-1) * (lib_int M 1 + erf M z))"

definition RCNDF :: "'a::{zero,plus,minus,uminus,times,inverse,abs,ord} libm \<Rightarrow> 'a \<Rightarrow> 'a \<Rightarrow> 'a \<Rightarrow> 'a option" where
  "RCNDF M p mu sigma =
     map_option (\<lambda>z. z * lib_sqrt M (lib_dec M 20 (-1)) * sigma + mu) (reverse_erf M (p * lib_int M 2 - lib_int M 1))"

section \<open>Spherical coordinates\<close>

definition SphereRange :: "'a::{plus,minus,times} libm \<Rightarrow> 'a \<Rightarrow> 'a \<Rightarrow> 'a \<Rightarrow> 'a \<Rightarrow> 'a" where
  "SphereRange M A1 D1 A2 D2 =
     lib_acos M (lib_cos M D1 * lib_cos M D2 * lib_cos M (A1 - A2) + lib_sin M D1 * lib_sin M D2)"

definition Sphere2Cart :: "'a::times libm \<Rightarrow> 'a \<Rightarrow> 'a \<Rightarrow> 'a \<Rightarrow> 'a \<times> 'a \<times> 'a" where
  "Sphere2Cart M R A D =
     (let cd = lib_cos M D in (R * cd * lib_cos M A, R * cd * lib_sin M A, R * lib_sin M D))"

definition Cart2Sphere :: "'a::{zero,plus,times,abs,ord} libm \<Rightarrow> 'a \<Rightarrow> 'a \<Rightarrow> 'a \<Rightarrow> 'a \<times> 'a \<times> 'a" where
  "Cart2Sphere M x y z =
     (let R = lib_sqrt M (x * x + y * y + z * z);
          A = (if \<bar>y\<bar> < AU_EPS M \<and> \<bar>x\<bar> < AU_EPS M then lib_int M 0
               else let A = lib_atan2 M y x in if A < 0 then A + AU_2PI M else A);
          D = lib_atan2 M z (lib_sqrt M (x * x + y * y))
      in (R, A, D))"

definition PolarForward :: "'a::{zero,plus,minus,uminus,times,abs,ord} libm \<Rightarrow> 'a \<Rightarrow> 'a \<Rightarrow> 'a \<Rightarrow> 'a \<Rightarrow> 'a \<times> 'a" where
  "PolarForward M a0 d0 A D =
     (let sd = lib_sin M d0; cd = lib_cos M d0; sa = lib_sin M a0; ca = lib_cos M a0;
          (x1, y1, z1) = Sphere2Cart M (lib_dec M 10 (-1)) A D;
          x2 = sd * ca * x1 + sd * sa * y1 - cd * z1;
          y2 = - sa * x1 + ca * y1;
          z2 = cd * ca * x1 + cd * sa * y1 + sd * z1
      in snd (Cart2Sphere M x2 y2 z2))"

definition PolarReverse :: "'a::{zero,plus,minus,uminus,times,abs,ord} libm \<Rightarrow> 'a \<Rightarrow> 'a \<Rightarrow> 'a \<Rightarrow> 'a \<Rightarrow> 'a \<times> 'a" where
  "PolarReverse M a0 d0 A D =
     (let sd = lib_sin M d0; cd = lib_cos M d0; sa = lib_sin M a0; ca = lib_cos M a0;
          (x1, y1, z1) = Sphere2Cart M (lib_dec M 10 (-1)) A D;
          x2 = ca * sd * x1 - sa * y1 + ca * cd * z1;
          y2 = sa * sd * x1 + ca * y1 + sa * cd * z1;
          z2 = - cd * x1 + sd * z1
      in snd (Cart2Sphere M x2 y2 z2))"

definition PrepareProject :: "'a libm \<Rightarrow> 'a \<Rightarrow> 'a \<Rightarrow> 'a amath \<Rightarrow> 'a amath" where
  "PrepareProject M a0 d0 W = W\<lparr>SD0 := lib_sin M d0, CD0 := lib_cos M d0, A0 := a0\<rparr>"

definition Sphere2Plane :: "'a::{plus,minus,times,inverse} libm \<Rightarrow> 'a amath \<Rightarrow> 'a \<Rightarrow> 'a \<Rightarrow> 'a \<times> 'a" where
  "Sphere2Plane M W A D =
     (let fract = SD0 W * lib_sin M D + CD0 W * lib_cos M D * lib_cos M (A - A0 W)
      in (lib_cos M D * lib_sin M (A - A0 W) / fract,
          (CD0 W * lib_sin M D - SD0 W * lib_cos M D * lib_cos M (A - A0 W)) / fract))"

definition Plane2Sphere :: "'a::{plus,minus,times,inverse} libm \<Rightarrow> 'a amath \<Rightarrow> 'a \<Rightarrow> 'a \<Rightarrow> 'a \<times> 'a" where
  "Plane2Sphere M W xi eta =
     (let fract = CD0 W - eta * SD0 W;
          A = cycmod M (A0 W + lib_atan2 M xi fract) (AU_2PI M)
      in (A, lib_atan M (((eta * CD0 W + SD0 W) * lib_cos M (A - A0 W)) / fract)))"

end
