(* ===== verification/AMath_Function_Properties.thy ===== *)
theory AMath_Function_Properties
  imports AMath_Functions
begin

text \<open>
  Properties of the byte order and the spherical coordinates; the latter over the reals, where
  \<open>atan2 y x\<close> is the argument of the complex number \<open>x + i y\<close>.
\<close>

section \<open>Byte order\<close>

lemma swap_cell_nth:
  assumes "p2 < length xs"
  shows "length (swap_cell xs p1 p2) = length xs" and "p < length xs \<Longrightarrow>
    swap_cell xs p1 p2 ! p = (if p1 \<le> p \<and> p \<le> p2 then xs ! (p1 + p2 - p) else xs ! p)"
proof -
  have "length (swap_cell xs p1 p2) = length xs \<and> (\<forall>p < length xs.
    swap_cell xs p1 p2 ! p = (if p1 \<le> p \<and> p \<le> p2 then xs ! (p1 + p2 - p) else xs ! p))"
    using assms
  proof (induction xs p1 p2 rule: swap_cell.induct)
    case (1 xs p1 p2)
    show ?case
    proof (cases "p1 < p2")
      case False
      then have "swap_cell xs p1 p2 = xs" by (simp add: swap_cell.simps)
      moreover have "p1 + p2 - p = p" if "p1 \<le> p" "p \<le> p2" for p using that False by simp
      ultimately show ?thesis by auto
    next
      case True
      define ys where "ys = swap p1 p2 xs"
      have r: "swap_cell xs p1 p2 = swap_cell ys (p1 + 1) (p2 - 1)" using True by (simp add: swap_cell.simps [of xs p1 p2] ys_def)
      have y: "ys ! p = (if p = p1 then xs ! p2 else if p = p2 then xs ! p1 else xs ! p)" if "p < length xs" for p
        using that True 1(2) by (simp add: ys_def swap_nth)
      have ih: "length (swap_cell ys (p1 + 1) (p2 - 1)) = length xs" "\<forall>p < length xs.
          swap_cell ys (p1 + 1) (p2 - 1) ! p = (if p1 + 1 \<le> p \<and> p \<le> p2 - 1 then ys ! (p1 + 1 + (p2 - 1) - p) else ys ! p)"
        using 1(1) [OF True, folded ys_def] 1(2) by (simp_all add: ys_def)
      have "(if p1 + 1 \<le> p \<and> p \<le> p2 - 1 then ys ! (p1 + 1 + (p2 - 1) - p) else ys ! p)
          = (if p1 \<le> p \<and> p \<le> p2 then xs ! (p1 + p2 - p) else xs ! p)" if "p < length xs" for p
        using that True 1(2) y [of p] y [of "p1 + p2 - p"] by auto
      then show ?thesis using ih r by simp
    qed
  qed
  then show "length (swap_cell xs p1 p2) = length xs" and "p < length xs \<Longrightarrow>
    swap_cell xs p1 p2 ! p = (if p1 \<le> p \<and> p \<le> p2 then xs ! (p1 + p2 - p) else xs ! p)" by simp_all
qed

lemma swap_endian_aux:
  assumes "even c" and "0 < c" and "length xs = n * c"
  shows "length (SwapEndian xs n c) = n * c \<and>
    (\<forall>i<n. \<forall>j<c. SwapEndian xs n c ! (i * c + j) = xs ! (i * c + (c - 1 - j)))"
proof -
  define P where "P m ys \<longleftrightarrow> length ys = n * c
    \<and> (\<forall>i<n. \<forall>j<c. ys ! (i * c + j) = (if i < m then xs ! (i * c + (c - 1 - j)) else xs ! (i * c + j)))" for m ys
  have "P n (foldl (\<lambda>xs i. swap_cell xs (i * c) (i * c + (c - 1))) xs [0..<n])"
  proof (rule foldl_upt_inv [where P = P])
    fix m ys assume m: "0 \<le> m" "m < n" and inv: "P m ys"
    have len: "length ys = n * c" using inv by (simp add: P_def)
    have "m * c + (c - 1) < length ys" using m assms(2) cell_less [of m n "c - 1" c] by (simp add: len)
    note sc = swap_cell_nth [OF this, where ?p1.0 = "m * c"]
    have "swap_cell ys (m * c) (m * c + (c - 1)) ! (i * c + j)
        = (if i < Suc m then xs ! (i * c + (c - 1 - j)) else xs ! (i * c + j))" if ij: "i < n" "j < c" for i j
    proof -
      have lt: "i * c + j < length ys" using ij by (simp add: len)
      have inside: "m * c \<le> i * c + j \<and> i * c + j \<le> m * c + (c - 1) \<longleftrightarrow> i = m"
      proof
        assume *: "m * c \<le> i * c + j \<and> i * c + j \<le> m * c + (c - 1)"
        have "(i * c + j) div c = i" using ij by simp
        moreover have "(i * c + j) div c = m" using * assms(2) by (intro div_nat_eqI) (auto simp: mult.commute)
        ultimately show "i = m" by simp
      qed (use ij in auto)
      show ?thesis
      proof (cases "i = m")
        case True
        have "m * c + (m * c + (c - 1)) - (i * c + j) = m * c + (c - 1 - j)" using True ij by simp
        moreover have "ys ! (m * c + (c - 1 - j)) = xs ! (m * c + (c - 1 - j))"
          using inv [unfolded P_def, THEN conjunct2, rule_format, of m "c - 1 - j"] m ij by simp
        ultimately show ?thesis using True sc(2) [OF lt] inside by simp
      next
        case False
        with inside have "\<not> (m * c \<le> i * c + j \<and> i * c + j \<le> m * c + (c - 1))" by blast
        then have "swap_cell ys (m * c) (m * c + (c - 1)) ! (i * c + j) = ys ! (i * c + j)"
          using sc(2) [OF lt] by (simp only: if_False)
        also have "\<dots> = (if i < m then xs ! (i * c + (c - 1 - j)) else xs ! (i * c + j))"
          using inv ij unfolding P_def by blast
        finally show ?thesis using False by (simp add: less_Suc_eq)
      qed
    qed
    then show "P (Suc m) (swap_cell ys (m * c) (m * c + (c - 1)))" using sc(1) len by (simp add: P_def)
  qed (use assms(3) in \<open>auto simp: P_def\<close>)
  moreover have "SwapEndian xs n c = foldl (\<lambda>xs i. swap_cell xs (i * c) (i * c + (c - 1))) xs [0..<n]"
    using assms(1) by (simp add: SwapEndian_def even_iff_mod_2_eq_zero)
  ultimately show ?thesis by (simp add: P_def)
qed

lemmas swap_endian_length = swap_endian_aux [THEN conjunct1]
lemmas swap_endian_nth = swap_endian_aux [THEN conjunct2, rule_format]

text \<open>
  \<open>SwapEndian\<close> reverses the bytes of every element of an even size and leaves other sizes alone;
  applied twice it restores the array.
\<close>

theorem swap_endian_involution:
  assumes "length xs = n * c"
  shows "SwapEndian (SwapEndian xs n c) n c = xs
    \<and> (\<forall>i<n. \<forall>j<c. SwapEndian xs n c ! (i * c + j) = xs ! (i * c + (if even c then c - 1 - j else j)))"
proof -
  have "\<forall>i<n. \<forall>j<c. SwapEndian xs n c ! (i * c + j) = xs ! (i * c + (if even c then c - 1 - j else j))"
    using swap_endian_nth [OF _ _ assms] by (auto simp: SwapEndian_def)
  moreover have "SwapEndian (SwapEndian xs n c) n c = xs"
  proof (cases "even c \<and> 0 < c")
    case False
    then show ?thesis using assms by (auto simp: SwapEndian_def swap_cell.simps)
  next
    case True
    have len: "length (SwapEndian ys n c) = n * c" if "length ys = n * c" for ys :: "'a list"
      by (rule swap_endian_length) (use that True in auto)
    show ?thesis
    proof (rule nth_equalityI)
      fix p assume "p < length (SwapEndian (SwapEndian xs n c) n c)"
      then have p: "p < n * c" using len [OF len [OF assms]] by simp
      define i j where "i = p div c" and "j = p mod c"
      have ij: "i < n" "j < c" "p = i * c + j" "c - 1 - j < c"
        using p True by (auto simp: i_def j_def less_mult_imp_div_less)
      moreover from ij(2) have "c - 1 - (c - 1 - j) = j" by simp
      ultimately show "SwapEndian (SwapEndian xs n c) n c ! p = xs ! p"
        using swap_endian_nth [of c "SwapEndian xs n c" n i j] swap_endian_nth [of c xs n i "c - 1 - j"] True assms len by simp
    qed (simp add: len [OF len [OF assms]] assms)
  qed
  ultimately show ?thesis by simp
qed

theorem swap_endian_involution_witness:
  "SwapEndian (SwapEndian [1, 2, 3, 4, 5, 6, 7, 8 :: nat] 2 4) 2 4 = [1, 2, 3, 4, 5, 6, 7, 8]
    \<and> SwapEndian [1, 2, 3, 4, 5, 6, 7, 8 :: nat] 2 4 ! (1 * 4 + 0) = 8"
  using swap_endian_involution [of "[1, 2, 3, 4, 5, 6, 7, 8 :: nat]" 2 4]
    swap_endian_involution [of "[1, 2, 3, 4, 5, 6, 7, 8 :: nat]" 2 4, THEN conjunct2, rule_format, of 1 0] by simp

section \<open>Spherical coordinates\<close>

lemma libm_real_simps [simp]:
  "lib_sin libm_real = sin" "lib_cos libm_real = cos" "lib_tan libm_real = tan" "lib_sqrt libm_real = sqrt"
  "lib_asin libm_real = arcsin" "lib_acos libm_real = arccos" "lib_atan libm_real = arctan"
  "lib_atan2 libm_real = (\<lambda>y x. Arg (Complex x y))" "lib_floor libm_real = (\<lambda>x. of_int \<lfloor>x\<rfloor>)"
  by (simp_all add: libm_real_def)

text \<open>\<open>atan2\<close> finds the angle of a point given in polar coordinates.\<close>

lemma atan2_polar:
  assumes "0 < r" and "- pi < a" and "a \<le> pi"
  shows "Arg (Complex (r * cos a) (r * sin a)) = a"
proof (rule cis_Arg_unique)
  have "Complex (r * cos a) (r * sin a) = complex_of_real r * cis a" by (simp add: complex_eq_iff)
  then show "sgn (Complex (r * cos a) (r * sin a)) = cis a" using assms(1) by (simp add: sgn_mult sgn_of_real)
qed (use assms in auto)

lemma polar_norm: "r * cos a * (r * cos a) + r * sin a * (r * sin a) = (r::real)\<^sup>2"
proof -
  have "r * cos a * (r * cos a) + r * sin a * (r * sin a) = r * r * (cos a * cos a + sin a * sin a)"
    by (simp only: distrib_left) (simp add: ac_simps)
  then show ?thesis by (simp add: power2_eq_square)
qed

lemma AU_EPS_real: "AU_EPS libm_real = 1 / 10 ^ 6" "0 < AU_EPS libm_real"
  by (simp_all add: AU_EPS_def)

text \<open>
  \<open>Cart2Sphere\<close> takes the Cartesian coordinates \<open>Sphere2Cart\<close> computes back to the spherical ones, for
  every point outside the cone around the pole that the code maps to longitude 0, with the
  longitude between 0 and pi (without rounding; other longitudes are shifted by \<open>AU_2PI\<close>).
\<close>

theorem sphere_cart_roundtrip:
  assumes "0 < R" and "- pi / 2 < D" and "D < pi / 2" and "0 \<le> A" and "A \<le> pi"
    and pole: "AU_EPS libm_real \<le> \<bar>R * cos D * cos A\<bar> \<or> AU_EPS libm_real \<le> \<bar>R * cos D * sin A\<bar>"
  shows "(case Sphere2Cart libm_real R A D of (x, y, z) \<Rightarrow> Cart2Sphere libm_real x y z) = (R, A, D)"
proof -
  define c where "c = R * cos D"
  have c: "0 < c" using assms(1-3) cos_gt_zero_pi [of D] by (simp add: c_def)
  have xy: "c * cos A * (c * cos A) + c * sin A * (c * sin A) = c\<^sup>2" by (rule polar_norm)
  have R: "c\<^sup>2 + R * sin D * (R * sin D) = R\<^sup>2" using polar_norm [of R D] by (simp add: c_def power2_eq_square)
  have A: "Arg (Complex (c * cos A) (c * sin A)) = A"
    by (rule atan2_polar [OF c]) (use assms(4,5) pi_gt_zero in linarith)+
  have D: "Arg (Complex c (R * sin D)) = D"
    unfolding c_def by (rule atan2_polar [OF assms(1)]) (use assms(2,3) pi_gt_zero in linarith)+
  have "\<not> (\<bar>c * sin A\<bar> < AU_EPS libm_real \<and> \<bar>c * cos A\<bar> < AU_EPS libm_real)" using pole by (auto simp: c_def)
  then show ?thesis
    using assms(1,4) c A D by (auto simp: Sphere2Cart_def Cart2Sphere_def Let_def c_def [symmetric] xy R)
qed



theorem sphere_cart_roundtrip_witness:
  "(case Sphere2Cart libm_real 1 (pi / 2) 0 of (x, y, z) \<Rightarrow> Cart2Sphere libm_real x y z) = (1, pi / 2, 0)"
  by (rule sphere_cart_roundtrip) (simp_all add: AU_EPS_real)

end
