(* ===== verification/ATS_Calendar.thy ===== *)
theory ATS_Calendar
  imports Cpp_Math "HOL-Library.Signed_Division"
begin

text \<open>
  Calendar and time scales of \<open>ATimeSpace.cpp\<close>: modified Julian days, leap seconds, UTC, TAI and UT1.
  Formulas are written over any arithmetic type; literals and conversions come from the library
  record. Division of \<open>int\<close> truncates (\<open>sdiv\<close>), sums and products of \<open>int\<close> wrap (\<open>s32\<close>).
\<close>

section \<open>From a date to the modified Julian day\<close>

text \<open>The part computed in integers; the middle term is a \<open>long\<close>.\<close>

definition mjd_days :: "int \<Rightarrow> int \<Rightarrow> int \<Rightarrow> int" where
  "mjd_days iy im idy =
     (let my = (im - 14) sdiv 12;
          iypmy = s32 (iy + my)
      in s32 (1461 * s32 (iypmy + 4800)) sdiv 4
         + (367 * (im - 2 - 12 * my)) sdiv 12
         - (3 * (s32 (iypmy + 4900) sdiv 100)) sdiv 4
         + idy - 2432076)"

definition ModifiedJulianDay :: "'a::plus libm \<Rightarrow> int \<Rightarrow> int \<Rightarrow> int \<Rightarrow> 'a \<Rightarrow> 'a" where
  "ModifiedJulianDay M iy im idy fd = lib_int M (mjd_days iy im idy) + fd"

section \<open>From the modified Julian day to a date\<close>

definition cal_of_jdn :: "'a::{minus,times,inverse} libm \<Rightarrow> int \<Rightarrow> int \<times> int \<times> int" where
  "cal_of_jdn M jdn =
     (let A = (if 2299161 \<le> jdn then
                 let t = lib_trunc M ((lib_int M jdn - lib_dec M 186721625 (-2)) / lib_dec M 3652425 (-2))
                 in s32 (s32 (jdn + 1) + t - t sdiv 4)
               else jdn);
          B = s32 (A + 1524);
          C = lib_trunc M ((lib_int M B - lib_dec M 1221 (-1)) / lib_dec M 36525 (-2));
          D = lib_trunc M (lib_dec M 36525 (-2) * lib_int M C);
          E = lib_trunc M (lib_int M (s32 (B - D)) / lib_dec M 306000001 (-7));
          idy = s32 (s32 (B - D) - lib_trunc M (lib_dec M 306000001 (-7) * lib_int M E));
          im = (if E < 14 then s32 (E - 1) else s32 (E - 13));
          iy = (if 2 < im then s32 (C - 4716) else s32 (C - 4715))
      in (iy, im, idy))"

definition Mjd2Cal :: "'a::{plus,minus,times,inverse} libm \<Rightarrow> 'a \<Rightarrow> int \<times> int \<times> int \<times> 'a" where
  "Mjd2Cal M mjd =
     (let jdn = lib_trunc M (mjd + AU_MJD0 M + lib_dec M 5 (-1));
          (iy, im, idy) = cal_of_jdn M jdn
      in (iy, im, idy, lib_fmod M mjd (lib_dec M 10 (-1))))"

definition Jd2Cal :: "'a::{plus,minus,times,inverse} libm \<Rightarrow> 'a \<Rightarrow> int \<times> int \<times> int \<times> 'a" where
  "Jd2Cal M jd = Mjd2Cal M (jd - AU_MJD0 M)"

section \<open>Leap seconds\<close>

text \<open>Reference date and rate of the drift before 1972, in units of 1E-7.\<close>

definition drift :: "(int \<times> int) list" where
  "drift =
    [(37300, 12960), (37300, 12960), (37300, 12960), (37665, 11232), (37665, 11232),
     (38761, 12960), (38761, 12960), (38761, 12960), (38761, 12960), (38761, 12960),
     (38761, 12960), (38761, 12960), (39126, 25920), (39126, 25920)]"

text \<open>Year, month and TAI - UTC, in units of 1E-7.\<close>

definition changes :: "(int \<times> int \<times> int) list" where
  "changes =
    [(1960,  1, 14178180), (1961,  1, 14228180), (1961,  8, 13728180), (1962,  1, 18458580),
     (1963, 11, 19458580), (1964,  1, 32401300), (1964,  4, 33401300), (1964,  9, 34401300),
     (1965,  1, 35401300), (1965,  3, 36401300), (1965,  7, 37401300), (1965,  9, 38401300),
     (1966,  1, 43131700), (1968,  2, 42131700),
     (1972,  1, 100000000), (1972,  7, 110000000), (1973,  1, 120000000), (1974,  1, 130000000),
     (1975,  1, 140000000), (1976,  1, 150000000), (1977,  1, 160000000), (1978,  1, 170000000),
     (1979,  1, 180000000), (1980,  1, 190000000), (1981,  7, 200000000), (1982,  7, 210000000),
     (1983,  7, 220000000), (1985,  7, 230000000), (1988,  1, 240000000), (1990,  1, 250000000),
     (1991,  1, 260000000), (1992,  7, 270000000), (1993,  7, 280000000), (1994,  7, 290000000),
     (1996,  1, 300000000), (1997,  7, 310000000), (1999,  1, 320000000), (2006,  1, 330000000),
     (2009,  1, 340000000), (2012,  7, 350000000), (2015,  7, 360000000), (2017,  1, 370000000)]"

text \<open>The loop from the last entry down; \<open>None\<close> when it runs off the front of the table.\<close>

fun change_index :: "int \<Rightarrow> nat \<Rightarrow> nat option" where
  "change_index m 0 = None"
| "change_index m (Suc i) =
     (let (iyear, month, delat) = changes ! i in if 12 * iyear + month \<le> m then Some i else change_index m i)"

definition DeltaAT :: "'a::{plus,minus,times} libm \<Rightarrow> int \<Rightarrow> int \<Rightarrow> int \<Rightarrow> 'a \<Rightarrow> crash + 'a" where
  "DeltaAT M iy im idy fd =
     (case change_index (s32 (s32 (12 * iy) + im)) (length changes) of
        None \<Rightarrow> Inl BadIndex
      | Some i \<Rightarrow>
          let da = lib_dec M (snd (snd (changes ! i))) (-7) in
          Inr (if i < length drift
               then da + (ModifiedJulianDay M iy im idy fd + fd - lib_dec M (fst (drift ! i)) 0) * lib_dec M (snd (drift ! i)) (-7)
               else da))"

section \<open>Time scales\<close>

definition UTC2TAI :: "'a::{plus,minus,times,inverse} libm \<Rightarrow> 'a \<Rightarrow> crash + 'a" where
  "UTC2TAI M mjd =
     (let (iy, im, idy, fd) = Mjd2Cal M mjd;
          (iyt, imt, idt, fdt) = Mjd2Cal M (mjd - fd + lib_dec M 15 (-1))
      in bindR (DeltaAT M iy im idy (lib_dec M 0 0)) (\<lambda>dat0.
         bindR (DeltaAT M iy im idy (lib_dec M 5 (-1))) (\<lambda>dat12.
         bindR (DeltaAT M iyt imt idt (lib_dec M 0 0)) (\<lambda>dat24.
           let dlod = lib_dec M 20 (-1) * (dat12 - dat0);
               dleap = dat24 - (dat0 + dlod);
               fd = fd * ((AU_DAYSEC M + dleap) / AU_DAYSEC M);
               fd = fd * ((AU_DAYSEC M + dlod) / AU_DAYSEC M)
           in Inr (ModifiedJulianDay M iy im idy fd + dat0 / AU_DAYSEC M)))))"

definition TAI2UT1 :: "'a::{plus,inverse} libm \<Rightarrow> 'a \<Rightarrow> 'a \<Rightarrow> 'a" where
  "TAI2UT1 M mjd dta = mjd + dta / AU_DAYSEC M"

definition UTC2UT1 :: "'a::{plus,minus,times,inverse} libm \<Rightarrow> 'a \<Rightarrow> 'a \<Rightarrow> crash + 'a" where
  "UTC2UT1 M mjd dut =
     (let (iy, im, idy, fd) = Mjd2Cal M mjd
      in bindR (DeltaAT M iy im idy (lib_dec M 0 0)) (\<lambda>dat.
         bindR (UTC2TAI M mjd) (\<lambda>tai. Inr (TAI2UT1 M tai (dut - dat)))))"

definition JulianCentury :: "'a::{minus,inverse} libm \<Rightarrow> 'a \<Rightarrow> 'a" where
  "JulianCentury M mjd = (mjd - AU_MJD2K M) / lib_int M 36525"

definition Epoch :: "'a::{plus,minus,inverse} libm \<Rightarrow> 'a \<Rightarrow> 'a" where
  "Epoch M mjd = lib_dec M 20000 (-1) + (mjd - AU_MJD2K M) / lib_dec M 36525 (-2)"

end
