(* ===== verification/ATS_Series.thy ===== *)
theory ATS_Series
  imports ATS_Calendar AMath_Functions
begin

text \<open>
  The astronomical series of \<open>ATimeSpace.cpp\<close> as functions of the modified Julian day or of the Julian
  century: sidereal times, obliquity, nutation, the arguments of the Moon and the Sun, the position
  of the Sun. Types are inferred; every formula works over any arithmetic type.
\<close>

section \<open>Arguments of the Sun and the Moon\<close>

text \<open>An angle in degrees, reduced to a turn, in radians.\<close>

definition reduced where
  "reduced M x = cycmod M x (lib_dec M 3600 (-1)) * AU_D2R M"

definition MeanAnomalySun where
  "MeanAnomalySun M t =
     (let d = lib_dec M in
      reduced M ((d 1295965810481 (-4) + (d (-5532) (-4) + (d 136 (-6) - d 1149 (-8) * t) * t) * t) * t / d 36000 (-1)
                 + d 35752910918 (-8)))"

definition MeanAnomalyMoon where
  "MeanAnomalyMoon M t =
     (let d = lib_dec M in
      reduced M ((d 17179159232178 (-4) + (d 318792 (-4) + (d 51635 (-6) - d 2447 (-7) * t) * t) * t) * t / d 36000 (-1)
                 + d 13496340251 (-8)))"

definition MeanElongationMoonSun where
  "MeanElongationMoonSun M t =
     (let d = lib_dec M in
      reduced M ((d 1602961601209 (-3) + (d (-63706) (-4) + (d 6593 (-6) - d 3169 (-8) * t) * t) * t) * t / d 36000 (-1)
                 + d 29785019547 (-8)))"

definition MeanLongAscNodeMoon where
  "MeanLongAscNodeMoon M t =
     (let d = lib_dec M in
      reduced M ((d (-69628905432) (-4) + (d 74722 (-4) + (d 7702 (-6) - d 5939 (-8) * t) * t) * t) * t / d 36000 (-1)
                 + d 12504455501 (-8)))"

definition RelLongMoon where
  "RelLongMoon M t =
     (let d = lib_dec M in
      reduced M ((d 17395272628478 (-4) + (d (-127512) (-4) + (d (-1037) (-6) + d 417 (-8) * t) * t) * t) * t / d 36000 (-1)
                 + d 9327209062 (-8)))"

definition MeanLongSun where
  "MeanLongSun M t =
     (let d = lib_dec M in reduced M (d 28046646 (-5) + (d 3600076983 (-5) + d 3032 (-7) * t) * t))"

definition EccentricityEarth where
  "EccentricityEarth M t = (let d = lib_dec M in d 16708634 (-9) - (d 42037 (-9) + d 1267 (-10) * t) * t)"

definition PerihelionLongEarth where
  "PerihelionLongEarth M t =
     (let d = lib_dec M in (d 10293735 (-5) + (d 171946 (-5) + d 46 (-5) * t) * t) * AU_D2R M)"

text \<open>The equation of the centre from the mean anomaly.\<close>

definition center where
  "center M t ma =
     (let d = lib_dec M in
      ((d 1914602 (-6) - (d 4817 (-6) + d 14 (-6) * t) * t) * lib_sin M ma
       + (d 19993 (-6) - d 101 (-6) * t) * lib_sin M (lib_int M 2 * ma)
       + d 289 (-6) * lib_sin M (lib_int M 3 * ma)) * AU_D2R M)"

definition CenterSun where
  "CenterSun M t = center M t (MeanAnomalySun M t)"

definition TrueLongSun where
  "TrueLongSun M t = MeanLongSun M t + CenterSun M t"

section \<open>Obliquity and nutation\<close>

definition MeanObliquity where
  "MeanObliquity M t =
     (let d = lib_dec M in
      (d 84381406 (-3) + (d (-46836769) (-6) + (d (-1831) (-7) + (d 20034 (-4)
        + (d (-576) (-9) - d 434 (-10) * t) * t) * t) * t) * t) * AU_AS2R M)"

text \<open>
  A row of the series: the multiples of the five arguments, then the coefficients, which the table
  writes with one zero after the point.
\<close>

datatype nutation_term = NTerm (nt_l: int) (nt_lp: int) (nt_f: int) (nt_d: int) (nt_om: int)
  (nt_ps: int) (nt_pst: int) (nt_pc: int) (nt_ec: int) (nt_ect: int) (nt_es: int)

definition nutation_x :: "nutation_term list" where
  "nutation_x =
    [NTerm 0 0 0 0 1 (-172064161) (-174666) 33386 92052331 9086 15377,
     NTerm 0 0 2 (-2) 2 (-13170906) (-1675) (-13696) 5730336 (-3015) (-4587),
     NTerm 0 0 2 0 2 (-2276413) (-234) 2796 978459 (-485) 1374,
     NTerm 0 0 0 0 2 2074554 207 (-698) (-897492) 470 (-291),
     NTerm 0 1 0 0 0 1475877 (-3633) 11817 73871 (-184) (-1924),
     NTerm 0 1 2 (-2) 2 (-516821) 1226 (-524) 224386 (-677) (-174),
     NTerm 1 0 0 0 0 711159 73 (-872) (-6750) 0 358,
     NTerm 0 0 2 0 1 (-387298) (-367) 380 200728 18 318,
     NTerm 1 0 2 0 2 (-301461) (-36) 816 129025 (-63) 367,
     NTerm 0 (-1) 2 (-2) 2 215829 (-494) 111 (-95929) 299 132,
     NTerm 0 0 2 (-2) 1 128227 137 181 (-68982) (-9) 39,
     NTerm (-1) 0 2 0 2 123457 11 19 (-53311) 32 (-4),
     NTerm (-1) 0 0 2 0 156994 10 (-168) (-1235) 0 82,
     NTerm 1 0 0 0 1 63110 63 27 (-33228) 0 (-9),
     NTerm (-1) 0 0 0 1 (-57976) (-63) (-189) 31429 0 (-75),
     NTerm (-1) 0 2 2 2 (-59641) (-11) 149 25543 (-11) 66,
     NTerm 1 0 2 0 1 (-51613) (-42) 129 26366 0 78,
     NTerm (-2) 0 2 0 1 45893 50 31 (-24236) (-10) 20,
     NTerm 0 0 0 2 0 63384 11 (-150) (-1220) 0 29,
     NTerm 0 0 2 2 2 (-38571) (-1) 158 16452 (-11) 68,
     NTerm 0 (-2) 2 (-2) 2 32481 0 0 (-13870) 0 0,
     NTerm (-2) 0 0 2 0 (-47722) 0 (-18) 477 0 (-25),
     NTerm 2 0 2 0 2 (-31046) (-1) 131 13238 (-11) 59,
     NTerm 1 0 2 (-2) 2 28593 0 (-1) (-12338) 10 (-3),
     NTerm (-1) 0 2 0 1 20441 21 10 (-10758) 0 (-3),
     NTerm 2 0 0 0 0 29243 0 (-74) (-609) 0 13,
     NTerm 0 0 2 0 0 25887 0 (-66) (-550) 0 11,
     NTerm 0 1 0 0 1 (-14053) (-25) 79 8551 (-2) (-45),
     NTerm (-1) 0 0 2 1 15164 10 11 (-8001) 0 (-1),
     NTerm 0 2 2 (-2) 2 (-15794) 72 (-16) 6850 (-42) (-5),
     NTerm 0 0 (-2) 2 0 21783 0 13 (-167) 0 13,
     NTerm 1 0 0 (-2) 1 (-12873) (-10) (-37) 6953 0 (-14),
     NTerm 0 (-1) 0 0 1 (-12654) 11 63 6415 0 26,
     NTerm (-1) 0 2 2 1 (-10204) 0 25 5222 0 15,
     NTerm 0 2 0 0 0 16707 (-85) (-10) 168 (-1) 10,
     NTerm 1 0 2 2 2 (-7691) 0 44 3268 0 19,
     NTerm (-2) 0 2 0 0 (-11024) 0 (-14) 104 0 2,
     NTerm 0 1 2 0 2 7566 (-21) (-11) (-3250) 0 (-5),
     NTerm 0 0 2 2 1 (-6637) (-11) 25 3353 0 14,
     NTerm 0 (-1) 2 0 2 (-7141) 21 8 3070 0 4,
     NTerm 0 0 0 2 1 (-6302) (-11) 2 3272 0 4,
     NTerm 1 0 2 (-2) 1 5800 10 2 (-3045) 0 (-1),
     NTerm 2 0 2 (-2) 2 6443 0 (-7) (-2768) 0 (-4),
     NTerm (-2) 0 0 2 1 (-5774) (-11) (-15) 3041 0 (-5),
     NTerm 2 0 2 0 1 (-5350) 0 21 2695 0 12,
     NTerm 0 (-1) 2 (-2) 1 (-4752) (-11) (-3) 2719 0 (-3),
     NTerm 0 0 0 (-2) 1 (-4940) (-11) (-21) 2720 0 (-9),
     NTerm (-1) (-1) 0 2 0 7350 0 (-8) (-51) 0 4,
     NTerm 2 0 0 (-2) 1 4065 0 6 (-2206) 0 1,
     NTerm 1 0 0 2 0 6579 0 (-24) (-199) 0 2,
     NTerm 0 1 2 (-2) 1 3579 0 5 (-1900) 0 1,
     NTerm 1 (-1) 0 0 0 4725 0 (-6) (-41) 0 3,
     NTerm (-2) 0 2 0 2 (-3075) 0 (-2) 1313 0 (-1),
     NTerm 3 0 2 0 2 (-2904) 0 15 1233 0 7,
     NTerm 0 (-1) 0 2 0 4348 0 (-10) (-81) 0 2,
     NTerm 1 (-1) 2 0 2 (-2878) 0 8 1232 0 4,
     NTerm 0 0 0 1 0 (-4230) 0 5 (-20) 0 (-2),
     NTerm (-1) (-1) 2 2 2 (-2819) 0 7 1207 0 3,
     NTerm (-1) 0 2 0 0 (-4056) 0 5 40 0 (-2),
     NTerm 0 (-1) 2 2 2 (-2647) 0 11 1129 0 5,
     NTerm (-2) 0 0 0 1 (-2294) 0 (-10) 1266 0 (-4),
     NTerm 1 1 2 0 2 2481 0 (-7) (-1062) 0 (-3),
     NTerm 2 0 0 0 1 2179 0 (-2) (-1129) 0 (-2),
     NTerm (-1) 1 0 1 0 3276 0 1 (-9) 0 0,
     NTerm 1 1 0 0 0 (-3389) 0 5 35 0 (-2),
     NTerm 1 0 2 0 0 3339 0 (-13) (-107) 0 1,
     NTerm (-1) 0 2 (-2) 1 (-1987) 0 (-6) 1073 0 (-2),
     NTerm 1 0 0 0 2 (-1981) 0 0 854 0 0,
     NTerm (-1) 0 0 1 0 4026 0 (-353) (-553) 0 (-139),
     NTerm 0 0 2 1 2 1660 0 (-5) (-710) 0 (-2),
     NTerm (-1) 0 2 4 2 (-1521) 0 9 647 0 4,
     NTerm (-1) 1 0 1 1 1314 0 0 (-700) 0 0,
     NTerm 0 (-2) 2 (-2) 1 (-1283) 0 0 672 0 0,
     NTerm 1 0 2 2 1 (-1331) 0 8 663 0 4,
     NTerm (-2) 0 2 2 2 1383 0 (-2) (-594) 0 (-2),
     NTerm (-1) 0 0 0 2 1405 0 4 (-610) 0 2,
     NTerm 1 1 2 (-2) 2 1290 0 0 (-556) 0 0]"

definition nutation_x_cached :: "nutation_term list" where
  "nutation_x_cached =
    [NTerm 0 0 0 0 1 (-172064161) (-174666) 33386 92052331 9086 15377,
     NTerm 0 0 2 (-2) 2 (-13170906) (-1675) (-13696) 5730336 (-3015) (-4587),
     NTerm 0 0 2 0 2 (-2276413) (-234) 2796 978459 (-485) 1374,
     NTerm 0 0 0 0 2 2074554 207 (-698) (-897492) 470 (-291),
     NTerm 0 1 0 0 0 1475877 (-3633) 11817 73871 (-184) (-1924),
     NTerm 0 1 2 (-2) 2 (-516821) 1226 (-524) 224386 (-677) (-174),
     NTerm 1 0 0 0 0 711159 73 (-872) (-6750) 0 358,
     NTerm 0 0 2 0 1 (-387298) (-367) 380 200728 18 318,
     NTerm 1 0 2 0 2 (-301461) (-36) 816 129025 (-63) 367,
     NTerm 0 (-1) 2 (-2) 2 215829 (-494) 111 (-95929) 299 132,
     NTerm 0 0 2 (-2) 1 128227 137 181 (-68982) (-9) 39,
     NTerm (-1) 0 2 0 2 123457 11 19 (-53311) 32 (-4),
     NTerm (-1) 0 0 2 0 156994 10 (-168) (-1235) 0 82,
     NTerm 1 0 0 0 1 63110 63 27 (-33228) 0 (-9),
     NTerm (-1) 0 0 0 1 (-57976) (-63) (-189) 31429 0 (-75),
     NTerm (-1) 0 2 2 2 (-59641) (-11) 149 25543 (-11) 66,
     NTerm 1 0 2 0 1 (-51613) (-42) 129 26366 0 78,
     NTerm (-2) 0 2 0 1 45893 50 31 (-24236) (-10) 20,
     NTerm 0 0 0 2 0 63384 11 (-150) (-1220) 0 29,
     NTerm 0 0 2 2 2 (-38571) (-1) 158 16452 (-11) 68,
     NTerm 0 (-2) 2 (-2) 2 32481 0 0 (-13870) 0 0,
     NTerm (-2) 0 0 2 0 (-47722) 0 (-18) 477 0 (-25),
     NTerm 2 0 2 0 2 (-31046) (-1) 131 13238 (-11) 59,
     NTerm 1 0 2 (-2) 2 28593 0 (-1) (-12338) 10 (-3),
     NTerm (-1) 0 2 0 1 20441 21 10 (-10758) 0 (-3),
     NTerm 2 0 0 0 0 29243 0 (-74) (-609) 0 13,
     NTerm 0 0 2 0 0 25887 0 (-66) (-550) 0 11,
     NTerm 0 1 0 0 1 (-14053) (-25) 79 8551 (-2) (-45),
     NTerm (-1) 0 0 2 1 15164 10 11 (-8001) 0 (-1),
     NTerm 0 2 2 (-2) 2 (-15794) 72 (-16) 6850 (-42) (-5),
     NTerm 0 0 (-2) 2 0 21783 0 13 (-167) 0 13,
     NTerm 1 0 0 (-2) 1 (-12873) (-10) (-37) 6953 0 (-14),
     NTerm 0 (-1) 0 0 1 (-12654) 11 63 6415 0 26,
     NTerm (-1) 0 2 2 1 (-10204) 0 25 5222 0 15,
     NTerm 0 2 0 0 0 16707 (-85) (-10) 168 (-1) 10,
     NTerm 1 0 2 2 2 (-7691) 0 44 3268 0 19,
     NTerm (-2) 0 2 0 0 (-11024) 0 (-14) 104 0 2,
     NTerm 0 1 2 0 2 7566 (-21) (-11) (-3250) 0 (-5),
     NTerm 0 0 2 2 1 (-6637) (-11) 25 3353 0 14,
     NTerm 0 (-1) 2 0 2 (-7141) 21 8 3070 0 4,
     NTerm 0 0 0 2 1 (-6302) (-11) 2 3272 0 4,
     NTerm 1 0 2 (-2) 1 5800 10 2 (-3045) 0 (-1),
     NTerm 2 0 2 (-2) 2 6443 0 (-7) (-2768) 0 (-4),
     NTerm (-2) 0 0 2 1 (-5774) (-11) (-15) 3041 0 (-5),
     NTerm 2 0 2 0 1 (-5350) 0 21 2695 0 12,
     NTerm 0 (-1) 2 (-2) 1 (-4752) (-11) (-3) 2719 0 (-3),
     NTerm 0 0 0 (-2) 1 (-4940) (-11) (-21) 2720 0 (-9),
     NTerm (-1) (-1) 0 2 0 7350 0 (-8) (-51) 0 4,
     NTerm 2 0 0 (-2) 1 4065 0 6 (-2206) 0 1,
     NTerm 1 0 0 2 0 6579 0 (-24) (-199) 0 2,
     NTerm 0 1 2 (-2) 1 3579 0 5 (-1900) 0 1,
     NTerm 1 (-1) 0 0 0 4725 0 (-6) (-41) 0 3,
     NTerm (-2) 0 2 0 2 (-3075) 0 (-2) 1313 0 (-1),
     NTerm 3 0 2 0 2 (-2904) 0 15 1233 0 7,
     NTerm 0 (-1) 0 2 0 4348 0 (-10) (-81) 0 2,
     NTerm 1 (-1) 2 0 2 (-2878) 0 8 1232 0 4,
     NTerm 0 0 0 1 0 (-4230) 0 5 (-20) 0 (-2),
     NTerm (-1) (-1) 2 2 2 (-2819) 0 7 1207 0 3,
     NTerm (-1) 0 2 0 0 (-4056) 0 5 40 0 (-2),
     NTerm 0 (-1) 2 2 2 (-2647) 0 11 1129 0 5,
     NTerm (-2) 0 0 0 1 (-2294) 0 (-10) 1266 0 (-4),
     NTerm 1 1 2 0 2 2481 0 (-7) (-1062) 0 (-3),
     NTerm 2 0 0 0 1 2179 0 (-2) (-1129) 0 (-2),
     NTerm (-1) 1 0 1 0 3276 0 1 (-9) 0 0,
     NTerm 1 1 0 0 0 (-3389) 0 5 35 0 (-2),
     NTerm 1 0 2 0 0 3339 0 (-13) (-107) 0 1,
     NTerm (-1) 0 2 (-2) 1 (-1987) 0 (-6) 1073 0 (-2),
     NTerm 1 0 0 0 2 (-1981) 0 0 854 0 0,
     NTerm (-1) 0 0 1 0 4026 0 (-353) (-553) 0 (-139),
     NTerm 0 0 2 1 2 1660 0 (-5) (-710) 0 (-2),
     NTerm (-1) 0 2 4 2 (-1521) 0 9 647 0 4,
     NTerm (-1) 1 0 1 1 1314 0 0 (-700) 0 0,
     NTerm 0 (-2) 2 (-2) 1 (-1283) 0 0 672 0 0,
     NTerm 1 0 2 2 1 (-1331) 0 8 663 0 4,
     NTerm (-2) 0 2 2 2 1383 0 (-2) (-594) 0 (-2),
     NTerm (-1) 0 0 0 2 1405 0 4 (-610) 0 2,
     NTerm 1 1 2 (-2) 2 1290 0 0 (-556) 0 0]"

text \<open>The summation, from the last row to the first, and the final scaling.\<close>

definition nutation_step where
  "nutation_step M t el elp f d om = (\<lambda>(nl, no) x.
     let n = lib_int M; c = (\<lambda>v. lib_dec M v 0);
         arg = n (nt_l x) * el + n (nt_lp x) * elp + n (nt_f x) * f + n (nt_d x) * d + n (nt_om x) * om;
         sarg = lib_sin M arg;
         carg = lib_cos M arg
     in (nl + ((c (nt_ps x) + c (nt_pst x) * t) * sarg + c (nt_pc x) * carg),
         no + ((c (nt_ec x) + c (nt_ect x) * t) * carg + c (nt_es x) * sarg)))"

definition nutation_sum where
  "nutation_sum M x t el elp f d om =
     (let (nl, no) = foldl (nutation_step M t el elp f d om) (0, 0) (rev x);
          U2R = AU_AS2R M * lib_dec M 1 (-7)
      in (nl * U2R + lib_dec M (-135) (-9) * AU_AS2R M, no * U2R + lib_dec M 388 (-9) * AU_AS2R M))"

definition Nutation where
  "Nutation M t =
     nutation_sum M nutation_x t (MeanAnomalyMoon M t) (MeanAnomalySun M t) (RelLongMoon M t)
       (MeanElongationMoonSun M t) (MeanLongAscNodeMoon M t)"

definition TrueObliquity where
  "TrueObliquity M t = MeanObliquity M t + snd (Nutation M t)"

section \<open>Sidereal time\<close>

definition gmst_series where
  "gmst_series M t =
     (let d = lib_dec M in
      reduced M (d 28046061837 (-8) + t * (d 1318500077005374225 (-11) + t * (d 387933 (-9) - t / d 387100000 (-1)))))"

definition GreenwichMeanSiderealTime where
  "GreenwichMeanSiderealTime M mjd = gmst_series M (JulianCentury M mjd)"

definition GreenwichSiderealTime where
  "GreenwichSiderealTime M mjd =
     (let gmst0 = GreenwichMeanSiderealTime M mjd;
          t = JulianCentury M mjd;
          (nl, no) = Nutation M t;
          to = MeanObliquity M t + no
      in gmst0 + nl * lib_cos M to)"

definition LocalMeanSiderealTime where
  "LocalMeanSiderealTime M mjd lgt = cycmod M (GreenwichMeanSiderealTime M mjd + lgt) (AU_2PI M)"

definition LocalSiderealTime where
  "LocalSiderealTime M mjd lgt =
     (let lmst0 = LocalMeanSiderealTime M mjd lgt;
          t = JulianCentury M mjd;
          (nl, no) = Nutation M t;
          to = MeanObliquity M t + no
      in lmst0 + nl * lib_cos M to)"

section \<open>Position of the Sun\<close>

definition SunPosition where
  "SunPosition M t =
     (let d = lib_dec M;
          m = cycmod M (d 12504 (-2) - d 1934136 (-3) * t) (d 3600 (-1)) * AU_D2R M;
          l = TrueLongSun M t - (d 569 (-5) + d 478 (-5) * lib_sin M m) * AU_D2R M;
          eps = MeanObliquity M t + d 256 (-5) * lib_cos M m * AU_D2R M;
          ra = lib_atan2 M (lib_cos M eps * lib_sin M l) (lib_cos M l);
          ra = (if ra < 0 then ra + AU_2PI M else ra)
      in (ra, lib_asin M (lib_sin M eps * lib_sin M l)))"

end
