(* ===== verification/ATS_State.thy ===== *)
theory ATS_State
  imports ATS_Series
begin

text \<open>
  The object \<open>ATimeSpace\<close>: the site, the time, and the table of values computed so far with their
  validity flags. A getter returns its value and the object with the table filled in. Types of the
  formulas are inferred.
\<close>

section \<open>State\<close>

datatype ats =
    ATS_MJD | ATS_JD | ATS_TAI | ATS_DAT | ATS_JC | ATS_GMST | ATS_GST | ATS_LMST | ATS_LST
  | ATS_MO | ATS_NL | ATS_NO | ATS_MASUN | ATS_MAMOON | ATS_MELONG_MOON_SUN | ATS_MLAN_MOON
  | ATS_RLONG_MOON | ATS_ML_SUN | ATS_CENTER_SUN | ATS_TL_SUN | ATS_TA_SUN
  | ATS_ECCENTRICITY_EARTH | ATS_PL_EARTH
  | ATS_POSITION_SUN | ATS_POSITION_SUN_RA | ATS_POSITION_SUN_DEC
  | ATS_POSITION_MOON | ATS_POSITION_MOON_R | ATS_POSITION_MOON_RA | ATS_POSITION_MOON_DEC
  | ATS_POSITION_MOON_TOPO | ATS_POSITION_MOON_TOPO_R | ATS_POSITION_MOON_TOPO_RA | ATS_POSITION_MOON_TOPO_DEC

record 'a atimespace =
  at_lgt :: 'a
  at_lat :: 'a
  at_alt :: 'a
  at_tz :: int
  at_values :: "ats \<Rightarrow> 'a"
  at_valid :: "ats \<Rightarrow> bool"

definition invalid_values :: "'a atimespace \<Rightarrow> 'a atimespace" where
  "invalid_values S = S\<lparr>at_valid := (\<lambda>_. False)\<rparr>"

text \<open>The array of values is not initialised: \<open>raw\<close>.\<close>

definition ATimeSpace_new :: "'a libm \<Rightarrow> (ats \<Rightarrow> 'a) \<Rightarrow> 'a atimespace" where
  "ATimeSpace_new M raw = invalid_values
     \<lparr>at_lgt = lib_dec M 0 0, at_lat = lib_dec M 0 0, at_alt = lib_dec M 0 0, at_tz = 0, at_values = raw, at_valid = (\<lambda>_. True)\<rparr>"

definition SetSite :: "'a::times libm \<Rightarrow> 'a \<Rightarrow> 'a \<Rightarrow> 'a \<Rightarrow> int \<Rightarrow> 'a atimespace \<Rightarrow> 'a atimespace" where
  "SetSite M lgt lat alt tz S = S\<lparr>at_lgt := lgt * AU_D2R M, at_lat := lat * AU_D2R M, at_alt := alt, at_tz := tz\<rparr>"

definition mdays :: "int list" where
  "mdays = [0, 31, 28, 31, 30, 31, 30, 31, 31, 30, 31, 30, 31]"

definition set_value :: "ats \<Rightarrow> 'a \<Rightarrow> 'a atimespace \<Rightarrow> 'a atimespace" where
  "set_value i v S = S\<lparr>at_values := (at_values S)(i := v)\<rparr>"

definition set_valid :: "ats \<Rightarrow> 'a atimespace \<Rightarrow> 'a atimespace" where
  "set_valid i S = S\<lparr>at_valid := (at_valid S)(i := True)\<rparr>"

definition SetUTC :: "'a::{plus,minus,times,ord} libm \<Rightarrow> int \<Rightarrow> int \<Rightarrow> int \<Rightarrow> 'a \<Rightarrow> 'a atimespace \<Rightarrow> crash + (int \<times> 'a atimespace)" where
  "SetUTC M iy im idy fd S =
     (let ly = (if im = 2 \<and> iy smod 4 = 0 \<and> (iy smod 100 \<noteq> 0 \<or> iy smod 400 = 0) then 1 else 0) in
      if iy < -4799 then Inr (-1, S)
      else if im < 1 \<or> 12 < im then Inr (-2, S)
      else if idy < 1 \<or> mdays ! nat im + ly < idy then Inr (-3, S)
      else if fd < lib_dec M 0 0 \<or> lib_dec M 10 (-1) \<le> fd then Inr (-4, S)
      else bindR (DeltaAT M iy im idy fd) (\<lambda>dat.
        Inr (0, set_value ATS_MJD (ModifiedJulianDay M iy im idy fd) (set_value ATS_DAT dat (invalid_values S)))))"

text \<open>The callers drop the code \<open>SetUTC\<close> returns.\<close>

definition SetMJD where
  "SetMJD M mjd S = (let (iy, im, idy, fd) = Mjd2Cal M mjd in bindR (SetUTC M iy im idy fd S) (\<lambda>(_, S'). Inr S'))"

definition SetJD where
  "SetJD M jd S = (let (iy, im, idy, fd) = Mjd2Cal M (jd - AU_MJD0 M) in bindR (SetUTC M iy im idy fd S) (\<lambda>(_, S'). Inr S'))"

definition SetEpoch where
  "SetEpoch M t S =
     (let mjd = (t - lib_dec M 20000 (-1)) * lib_dec M 36525 (-2) + AU_MJD2K M;
          (iy, im, idy, fd) = Mjd2Cal M mjd
      in bindR (SetUTC M iy im idy fd S) (\<lambda>(_, S'). Inr S'))"

section \<open>Getters\<close>

text \<open>The pattern of every getter: compute, store and mark valid unless marked already.\<close>

definition cached :: "ats \<Rightarrow> ('a atimespace \<Rightarrow> 'a \<times> 'a atimespace) \<Rightarrow> 'a atimespace \<Rightarrow> 'a \<times> 'a atimespace" where
  "cached i f S =
     (if at_valid S i then (at_values S i, S)
      else let (v, S') = f S in (v, set_valid i (set_value i v S')))"

definition getMJD :: "'a atimespace \<Rightarrow> 'a" where "getMJD S = at_values S ATS_MJD"
definition getDAT :: "'a atimespace \<Rightarrow> 'a" where "getDAT S = at_values S ATS_DAT"
definition getEpoch where "getEpoch M S = Epoch M (getMJD S)"

definition getJC where
  "getJC M = cached ATS_JC (\<lambda>S. (JulianCentury M (getMJD S), S))"

definition getJD where
  "getJD M = cached ATS_JD (\<lambda>S. (getMJD S + AU_MJD0 M, S))"

definition getTAI where
  "getTAI M = cached ATS_TAI (\<lambda>S. (getMJD S + getDAT S / AU_DAYSEC M, S))"

definition getGMST where
  "getGMST M = cached ATS_GMST (\<lambda>S. let (t, S) = getJC M S in (gmst_series M t, S))"

text \<open>A function of the Julian century, cached.\<close>

definition getMASUN where
  "getMASUN M = cached ATS_MASUN (\<lambda>S. let (t, S) = getJC M S in (MeanAnomalySun M t, S))"

definition getMAMOON where
  "getMAMOON M = cached ATS_MAMOON (\<lambda>S. let (t, S) = getJC M S in (MeanAnomalyMoon M t, S))"

definition getMELONG where
  "getMELONG M = cached ATS_MELONG_MOON_SUN (\<lambda>S. let (t, S) = getJC M S in (MeanElongationMoonSun M t, S))"

definition getMLAN where
  "getMLAN M = cached ATS_MLAN_MOON (\<lambda>S. let (t, S) = getJC M S in (MeanLongAscNodeMoon M t, S))"

definition getRLONG where
  "getRLONG M = cached ATS_RLONG_MOON (\<lambda>S. let (t, S) = getJC M S in (RelLongMoon M t, S))"

definition getMLSUN where
  "getMLSUN M = cached ATS_ML_SUN (\<lambda>S. let (t, S) = getJC M S in (MeanLongSun M t, S))"

definition getECC where
  "getECC M = cached ATS_ECCENTRICITY_EARTH (\<lambda>S. let (t, S) = getJC M S in (EccentricityEarth M t, S))"

definition getPL where
  "getPL M = cached ATS_PL_EARTH (\<lambda>S. let (t, S) = getJC M S in (PerihelionLongEarth M t, S))"

definition getMO where
  "getMO M = cached ATS_MO (\<lambda>S. let (t, S) = getJC M S in (MeanObliquity M t, S))"

definition getCENTER where
  "getCENTER M = cached ATS_CENTER_SUN (\<lambda>S.
     let (t, S) = getJC M S; (ma, S) = getMASUN M S in (center M t ma, S))"

definition getTLSUN where
  "getTLSUN M = cached ATS_TL_SUN (\<lambda>S. let (l, S) = getMLSUN M S; (c, S) = getCENTER M S in (l + c, S))"

definition getTASUN where
  "getTASUN M = cached ATS_TA_SUN (\<lambda>S. let (a, S) = getMASUN M S; (c, S) = getCENTER M S in (a + c, S))"

text \<open>The object has its own copy of the series; both nutation angles are stored by either getter.\<close>

definition getNutation where
  "getNutation M S =
     (let (t, S) = getJC M S; (el, S) = getMAMOON M S; (elp, S) = getMASUN M S; (f, S) = getRLONG M S;
          (d, S) = getMELONG M S; (om, S) = getMLAN M S
      in (nutation_sum M nutation_x_cached t el elp f d om, S))"

definition getNL where
  "getNL M S =
     (if at_valid S ATS_NL then (at_values S ATS_NL, S)
      else let ((nl, no), S) = getNutation M S
           in (nl, set_valid ATS_NO (set_value ATS_NO no (set_valid ATS_NL (set_value ATS_NL nl S)))))"

definition getNO where
  "getNO M S =
     (if at_valid S ATS_NO then (at_values S ATS_NO, S)
      else let ((nl, no), S) = getNutation M S
           in (no, set_valid ATS_NL (set_value ATS_NL nl (set_valid ATS_NO (set_value ATS_NO no S)))))"

definition getTrueObliquity where
  "getTrueObliquity M S = (let (mo, S) = getMO M S; (no, S) = getNO M S in (mo + no, S))"

definition getGST where
  "getGST M = cached ATS_GST (\<lambda>S.
     let (gmst0, S) = getGMST M S; (nl, S) = getNL M S; (to, S) = getTrueObliquity M S
     in (gmst0 + nl * lib_cos M to, S))"

definition getLMST where
  "getLMST M = cached ATS_LMST (\<lambda>S. let (g, S) = getGMST M S in (cycmod M (g + at_lgt S) (AU_2PI M), S))"

definition getLST where
  "getLST M = cached ATS_LST (\<lambda>S. let (g, S) = getGST M S in (cycmod M (g + at_lgt S) (AU_2PI M), S))"

definition getSunPosition where
  "getSunPosition M S =
     (if at_valid S ATS_POSITION_SUN then ((at_values S ATS_POSITION_SUN_RA, at_values S ATS_POSITION_SUN_DEC), S)
      else let (t, S) = getJC M S; (ra, dec) = SunPosition M t
           in ((ra, dec), set_valid ATS_POSITION_SUN (set_value ATS_POSITION_SUN_DEC dec (set_value ATS_POSITION_SUN_RA ra S))))"

end
