(* ===== verification/ATS_Cache.thy ===== *)
theory ATS_Cache
  imports ATS_State
begin

text \<open>
  The cache is transparent: a getter returns what the formula gives for the stored time and site,
  whatever has been asked before. \<open>cached_getter\<close> is the contract of a getter, interpreted for all of
  them.
\<close>

section \<open>What the table should hold\<close>

text \<open>The inputs of all values: longitude, modified Julian day and TAI - UTC.\<close>

definition inputs :: "'a atimespace \<Rightarrow> 'a \<times> 'a \<times> 'a" where
  "inputs S = (at_lgt S, getMJD S, getDAT S)"

fun ats_spec where
  "ats_spec M (lgt, mjd, dat) i =
     (let t = JulianCentury M mjd in case i of
        ATS_MJD \<Rightarrow> mjd
      | ATS_DAT \<Rightarrow> dat
      | ATS_JD \<Rightarrow> mjd + AU_MJD0 M
      | ATS_TAI \<Rightarrow> mjd + dat / AU_DAYSEC M
      | ATS_JC \<Rightarrow> t
      | ATS_GMST \<Rightarrow> GreenwichMeanSiderealTime M mjd
      | ATS_GST \<Rightarrow> GreenwichSiderealTime M mjd
      | ATS_LMST \<Rightarrow> LocalMeanSiderealTime M mjd lgt
      | ATS_LST \<Rightarrow> cycmod M (GreenwichSiderealTime M mjd + lgt) (AU_2PI M)
      | ATS_MO \<Rightarrow> MeanObliquity M t
      | ATS_NL \<Rightarrow> fst (Nutation M t)
      | ATS_NO \<Rightarrow> snd (Nutation M t)
      | ATS_MASUN \<Rightarrow> MeanAnomalySun M t
      | ATS_MAMOON \<Rightarrow> MeanAnomalyMoon M t
      | ATS_MELONG_MOON_SUN \<Rightarrow> MeanElongationMoonSun M t
      | ATS_MLAN_MOON \<Rightarrow> MeanLongAscNodeMoon M t
      | ATS_RLONG_MOON \<Rightarrow> RelLongMoon M t
      | ATS_ML_SUN \<Rightarrow> MeanLongSun M t
      | ATS_CENTER_SUN \<Rightarrow> CenterSun M t
      | ATS_TL_SUN \<Rightarrow> TrueLongSun M t
      | ATS_TA_SUN \<Rightarrow> MeanAnomalySun M t + CenterSun M t
      | ATS_ECCENTRICITY_EARTH \<Rightarrow> EccentricityEarth M t
      | ATS_PL_EARTH \<Rightarrow> PerihelionLongEarth M t
      | ATS_POSITION_SUN_RA \<Rightarrow> fst (SunPosition M t)
      | ATS_POSITION_SUN_DEC \<Rightarrow> snd (SunPosition M t)
      | _ \<Rightarrow> mjd)"

text \<open>The entries a single number is cached in.\<close>

definition scalar :: "ats \<Rightarrow> bool" where
  "scalar i \<longleftrightarrow> i \<notin> {ATS_MJD, ATS_DAT, ATS_POSITION_SUN, ATS_POSITION_SUN_RA, ATS_POSITION_SUN_DEC,
     ATS_POSITION_MOON, ATS_POSITION_MOON_R, ATS_POSITION_MOON_RA, ATS_POSITION_MOON_DEC,
     ATS_POSITION_MOON_TOPO, ATS_POSITION_MOON_TOPO_R, ATS_POSITION_MOON_TOPO_RA, ATS_POSITION_MOON_TOPO_DEC}"

definition coherent where
  "coherent M S \<longleftrightarrow> (\<forall>i. scalar i \<and> at_valid S i \<longrightarrow> at_values S i = ats_spec M (inputs S) i)
     \<and> (at_valid S ATS_POSITION_SUN \<longrightarrow>
          (at_values S ATS_POSITION_SUN_RA, at_values S ATS_POSITION_SUN_DEC) = SunPosition M (JulianCentury M (getMJD S)))"

lemma store_simps [simp]:
  "at_valid (set_value i v S) = at_valid S" "at_values (set_valid i S) = at_values S"
  "at_valid (set_valid i S) = (at_valid S)(i := True)" "at_values (set_value i v S) = (at_values S)(i := v)"
  "at_lgt (set_value i v S) = at_lgt S" "at_lgt (set_valid i S) = at_lgt S"
  "getMJD (set_valid i S) = getMJD S" "getDAT (set_valid i S) = getDAT S" "inputs (set_valid i S) = inputs S"
  by (simp_all add: set_value_def set_valid_def getMJD_def getDAT_def inputs_def)

lemma store_inputs [simp]:
  "scalar i \<Longrightarrow> inputs (set_value i v S) = inputs S" "scalar i \<Longrightarrow> getMJD (set_value i v S) = getMJD S"
  "scalar i \<Longrightarrow> getDAT (set_value i v S) = getDAT S"
  by (auto simp: inputs_def getMJD_def getDAT_def scalar_def)

lemma store_coherent:
  assumes "coherent M S" and "scalar i" and "v = ats_spec M (inputs S) i"
  shows "coherent M (set_valid i (set_value i v S))"
proof -
  have "at_values (set_valid i (set_value i v S)) j = ats_spec M (inputs S) j"
    if "scalar j" "at_valid (set_valid i (set_value i v S)) j" for j
    using assms that by (cases "j = i") (simp_all add: coherent_def)
  moreover have "i \<noteq> ATS_POSITION_SUN" "i \<noteq> ATS_POSITION_SUN_RA" "i \<noteq> ATS_POSITION_SUN_DEC"
    using assms(2) by (auto simp: scalar_def)
  ultimately show ?thesis using assms(1,2) by (simp add: coherent_def)
qed

section \<open>The contract of a getter\<close>

locale cached_getter =
  fixes M :: "'a::{zero,plus,minus,times,inverse,ord} libm" and i :: ats and get :: "'a atimespace \<Rightarrow> 'a \<times> 'a atimespace"
  assumes ok: "coherent M S \<Longrightarrow> \<exists>S'. get S = (ats_spec M (inputs S) i, S') \<and> coherent M S' \<and> inputs S' = inputs S"
begin

lemma get_value: "coherent M S \<Longrightarrow> fst (get S) = ats_spec M (inputs S) i"
  using ok by fastforce

lemma get_keeps: "coherent M S \<Longrightarrow> coherent M (snd (get S)) \<and> inputs (snd (get S)) = inputs S"
  using ok by fastforce

lemma get_again: "coherent M S \<Longrightarrow> fst (get (snd (get S))) = fst (get S)"
  using get_value get_keeps by metis

end

text \<open>The pattern \<open>cached\<close> turns a computation of the right value into a getter.\<close>

lemma cached_returns:
  assumes "coherent M S" and "scalar i"
    and "\<exists>S'. f S = (ats_spec M (inputs S) i, S') \<and> coherent M S' \<and> inputs S' = inputs S"
  shows "\<exists>S'. cached i f S = (ats_spec M (inputs S) i, S') \<and> coherent M S' \<and> inputs S' = inputs S"
proof (cases "at_valid S i")
  case True
  then show ?thesis using assms(1,2) by (simp add: cached_def coherent_def)
next
  case False
  obtain S' where S': "f S = (ats_spec M (inputs S) i, S')" "coherent M S'" "inputs S' = inputs S" using assms(3) by blast
  then have "coherent M (set_valid i (set_value i (ats_spec M (inputs S) i) S'))"
    using store_coherent [OF S'(2) assms(2)] by simp
  with False S' assms(2) show ?thesis by (simp add: cached_def)
qed

lemma inputs_fields [simp]: "ats_spec M (inputs S) i = ats_spec M (at_lgt S, getMJD S, getDAT S) i"
  by (simp add: inputs_def)

lemma inputs_eq: "inputs S' = inputs S \<longleftrightarrow> at_lgt S' = at_lgt S \<and> getMJD S' = getMJD S \<and> getDAT S' = getDAT S"
  by (auto simp: inputs_def)

lemma jc_returns: "coherent M S \<Longrightarrow> \<exists>S'. getJC M S = (JulianCentury M (getMJD S), S') \<and> coherent M S' \<and> inputs S' = inputs S"
  using cached_returns [of M S ATS_JC "\<lambda>S. (JulianCentury M (getMJD S), S)"] by (simp add: getJC_def scalar_def Let_def)

text \<open>Values that depend on the Julian century only.\<close>

lemma jc_cached:
  assumes "coherent M S" and "scalar i" and "g (JulianCentury M (getMJD S)) = ats_spec M (inputs S) i"
  shows "\<exists>S'. cached i (\<lambda>S. let (t, S) = getJC M S in (g t, S)) S = (ats_spec M (inputs S) i, S') \<and> coherent M S' \<and> inputs S' = inputs S"
  using assms jc_returns [OF assms(1)] by (intro cached_returns) auto

section \<open>All getters\<close>

interpretation jc: cached_getter M ATS_JC "getJC M" for M :: "'a::{zero,plus,minus,times,inverse,ord} libm"
  by unfold_locales (use jc_returns in \<open>simp add: Let_def\<close>)

interpretation jd: cached_getter M ATS_JD "getJD M" for M :: "'a::{zero,plus,minus,times,inverse,ord} libm"
  by unfold_locales (unfold getJD_def, rule cached_returns, simp_all add: scalar_def Let_def)

interpretation tai: cached_getter M ATS_TAI "getTAI M" for M :: "'a::{zero,plus,minus,times,inverse,ord} libm"
  by unfold_locales (unfold getTAI_def, rule cached_returns, simp_all add: scalar_def Let_def)

interpretation masun: cached_getter M ATS_MASUN "getMASUN M" for M :: "'a::{zero,plus,minus,times,inverse,ord} libm"
  by unfold_locales (unfold getMASUN_def, rule jc_cached, simp_all add: scalar_def Let_def)

interpretation mamoon: cached_getter M ATS_MAMOON "getMAMOON M" for M :: "'a::{zero,plus,minus,times,inverse,ord} libm"
  by unfold_locales (unfold getMAMOON_def, rule jc_cached, simp_all add: scalar_def Let_def)

interpretation melong: cached_getter M ATS_MELONG_MOON_SUN "getMELONG M" for M :: "'a::{zero,plus,minus,times,inverse,ord} libm"
  by unfold_locales (unfold getMELONG_def, rule jc_cached, simp_all add: scalar_def Let_def)

interpretation mlan: cached_getter M ATS_MLAN_MOON "getMLAN M" for M :: "'a::{zero,plus,minus,times,inverse,ord} libm"
  by unfold_locales (unfold getMLAN_def, rule jc_cached, simp_all add: scalar_def Let_def)

interpretation rlong: cached_getter M ATS_RLONG_MOON "getRLONG M" for M :: "'a::{zero,plus,minus,times,inverse,ord} libm"
  by unfold_locales (unfold getRLONG_def, rule jc_cached, simp_all add: scalar_def Let_def)

interpretation mlsun: cached_getter M ATS_ML_SUN "getMLSUN M" for M :: "'a::{zero,plus,minus,times,inverse,ord} libm"
  by unfold_locales (unfold getMLSUN_def, rule jc_cached, simp_all add: scalar_def Let_def)

interpretation ecc: cached_getter M ATS_ECCENTRICITY_EARTH "getECC M" for M :: "'a::{zero,plus,minus,times,inverse,ord} libm"
  by unfold_locales (unfold getECC_def, rule jc_cached, simp_all add: scalar_def Let_def)

interpretation plearth: cached_getter M ATS_PL_EARTH "getPL M" for M :: "'a::{zero,plus,minus,times,inverse,ord} libm"
  by unfold_locales (unfold getPL_def, rule jc_cached, simp_all add: scalar_def Let_def)

interpretation mo: cached_getter M ATS_MO "getMO M" for M :: "'a::{zero,plus,minus,times,inverse,ord} libm"
  by unfold_locales (unfold getMO_def, rule jc_cached, simp_all add: scalar_def Let_def)

interpretation gmst: cached_getter M ATS_GMST "getGMST M" for M :: "'a::{zero,plus,minus,times,inverse,ord} libm"
  by unfold_locales (unfold getGMST_def, rule jc_cached, simp_all add: scalar_def Let_def GreenwichMeanSiderealTime_def)

interpretation center: cached_getter M ATS_CENTER_SUN "getCENTER M" for M :: "'a::{zero,plus,minus,times,inverse,ord} libm"
proof
  fix S :: "'a atimespace" assume c0: "coherent M S"
  from jc.ok [OF c0] obtain S1 where s1: "getJC M S = (ats_spec M (inputs S) ATS_JC, S1)" "coherent M S1" "inputs S1 = inputs S" by blast
  from masun.ok [OF s1(2)] obtain S2 where s2: "getMASUN M S1 = (ats_spec M (inputs S1) ATS_MASUN, S2)" "coherent M S2" "inputs S2 = inputs S1" by blast
  show "\<exists>S'. getCENTER M S = (ats_spec M (inputs S) ATS_CENTER_SUN, S') \<and> coherent M S' \<and> inputs S' = inputs S"
    unfolding getCENTER_def by (rule cached_returns [OF c0]) (use s1 s2 in \<open>simp_all add: scalar_def Let_def inputs_eq CenterSun_def\<close>)
qed

interpretation tlsun: cached_getter M ATS_TL_SUN "getTLSUN M" for M :: "'a::{zero,plus,minus,times,inverse,ord} libm"
proof
  fix S :: "'a atimespace" assume c0: "coherent M S"
  from mlsun.ok [OF c0] obtain S1 where s1: "getMLSUN M S = (ats_spec M (inputs S) ATS_ML_SUN, S1)" "coherent M S1" "inputs S1 = inputs S" by blast
  from center.ok [OF s1(2)] obtain S2 where s2: "getCENTER M S1 = (ats_spec M (inputs S1) ATS_CENTER_SUN, S2)" "coherent M S2" "inputs S2 = inputs S1" by blast
  show "\<exists>S'. getTLSUN M S = (ats_spec M (inputs S) ATS_TL_SUN, S') \<and> coherent M S' \<and> inputs S' = inputs S"
    unfolding getTLSUN_def by (rule cached_returns [OF c0]) (use s1 s2 in \<open>simp_all add: scalar_def Let_def inputs_eq TrueLongSun_def\<close>)
qed

interpretation tasun: cached_getter M ATS_TA_SUN "getTASUN M" for M :: "'a::{zero,plus,minus,times,inverse,ord} libm"
proof
  fix S :: "'a atimespace" assume c0: "coherent M S"
  from masun.ok [OF c0] obtain S1 where s1: "getMASUN M S = (ats_spec M (inputs S) ATS_MASUN, S1)" "coherent M S1" "inputs S1 = inputs S" by blast
  from center.ok [OF s1(2)] obtain S2 where s2: "getCENTER M S1 = (ats_spec M (inputs S1) ATS_CENTER_SUN, S2)" "coherent M S2" "inputs S2 = inputs S1" by blast
  show "\<exists>S'. getTASUN M S = (ats_spec M (inputs S) ATS_TA_SUN, S') \<and> coherent M S' \<and> inputs S' = inputs S"
    unfolding getTASUN_def by (rule cached_returns [OF c0]) (use s1 s2 in \<open>simp_all add: scalar_def Let_def inputs_eq\<close>)
qed

text \<open>The two copies of the nutation series agree.\<close>

lemma same_series: "nutation_x_cached = nutation_x"
  by (simp only: nutation_x_def nutation_x_cached_def)

lemma nutation_returns:
  fixes S :: "'a::{zero,plus,minus,times,inverse,ord} atimespace"
  assumes c0: "coherent M S"
  shows "\<exists>S'. getNutation M S = (Nutation M (JulianCentury M (getMJD S)), S') \<and> coherent M S' \<and> inputs S' = inputs S"
proof -
  from jc.ok [OF c0] obtain S1 where s1: "getJC M S = (ats_spec M (inputs S) ATS_JC, S1)" "coherent M S1" "inputs S1 = inputs S" by blast
  from mamoon.ok [OF s1(2)] obtain S2 where s2: "getMAMOON M S1 = (ats_spec M (inputs S1) ATS_MAMOON, S2)" "coherent M S2" "inputs S2 = inputs S1" by blast
  from masun.ok [OF s2(2)] obtain S3 where s3: "getMASUN M S2 = (ats_spec M (inputs S2) ATS_MASUN, S3)" "coherent M S3" "inputs S3 = inputs S2" by blast
  from rlong.ok [OF s3(2)] obtain S4 where s4: "getRLONG M S3 = (ats_spec M (inputs S3) ATS_RLONG_MOON, S4)" "coherent M S4" "inputs S4 = inputs S3" by blast
  from melong.ok [OF s4(2)] obtain S5 where s5: "getMELONG M S4 = (ats_spec M (inputs S4) ATS_MELONG_MOON_SUN, S5)" "coherent M S5" "inputs S5 = inputs S4" by blast
  from mlan.ok [OF s5(2)] obtain S6 where s6: "getMLAN M S5 = (ats_spec M (inputs S5) ATS_MLAN_MOON, S6)" "coherent M S6" "inputs S6 = inputs S5" by blast
  show ?thesis
    using s1 s2 s3 s4 s5 s6 by (simp add: getNutation_def Let_def inputs_eq Nutation_def same_series)
qed

interpretation nl: cached_getter M ATS_NL "getNL M" for M :: "'a::{zero,plus,minus,times,inverse,ord} libm"
proof
  fix S :: "'a atimespace" assume c0: "coherent M S"
  show "\<exists>S'. getNL M S = (ats_spec M (inputs S) ATS_NL, S') \<and> coherent M S' \<and> inputs S' = inputs S"
  proof (cases "at_valid S ATS_NL")
    case True
    then show ?thesis using c0 by (simp add: getNL_def coherent_def scalar_def)
  next
    case False
    obtain S1 where 1: "getNutation M S = (Nutation M (JulianCentury M (getMJD S)), S1)" "coherent M S1" "inputs S1 = inputs S"
      using nutation_returns [OF c0] by blast
    let ?N = "Nutation M (JulianCentury M (getMJD S))"
    let ?S2 = "set_valid ATS_NL (set_value ATS_NL (fst ?N) S1)"
    have 2: "coherent M ?S2" "inputs ?S2 = inputs S"
      using store_coherent [OF 1(2), of ATS_NL] 1(3) by (simp_all add: scalar_def Let_def inputs_eq)
    have "coherent M (set_valid ATS_NO (set_value ATS_NO (snd ?N) ?S2))"
      using store_coherent [OF 2(1), of ATS_NO] 2(2) by (simp add: scalar_def Let_def inputs_eq)
    with False 1 2 show ?thesis by (simp add: getNL_def case_prod_unfold Let_def scalar_def inputs_eq)
  qed
qed

interpretation no: cached_getter M ATS_NO "getNO M" for M :: "'a::{zero,plus,minus,times,inverse,ord} libm"
proof
  fix S :: "'a atimespace" assume c0: "coherent M S"
  show "\<exists>S'. getNO M S = (ats_spec M (inputs S) ATS_NO, S') \<and> coherent M S' \<and> inputs S' = inputs S"
  proof (cases "at_valid S ATS_NO")
    case True
    then show ?thesis using c0 by (simp add: getNO_def coherent_def scalar_def)
  next
    case False
    obtain S1 where 1: "getNutation M S = (Nutation M (JulianCentury M (getMJD S)), S1)" "coherent M S1" "inputs S1 = inputs S"
      using nutation_returns [OF c0] by blast
    let ?N = "Nutation M (JulianCentury M (getMJD S))"
    let ?S2 = "set_valid ATS_NO (set_value ATS_NO (snd ?N) S1)"
    have 2: "coherent M ?S2" "inputs ?S2 = inputs S"
      using store_coherent [OF 1(2), of ATS_NO] 1(3) by (simp_all add: scalar_def Let_def inputs_eq)
    have "coherent M (set_valid ATS_NL (set_value ATS_NL (fst ?N) ?S2))"
      using store_coherent [OF 2(1), of ATS_NL] 2(2) by (simp add: scalar_def Let_def inputs_eq)
    with False 1 2 show ?thesis by (simp add: getNO_def case_prod_unfold Let_def scalar_def inputs_eq)
  qed
qed

lemma true_obliquity_returns:
  fixes S :: "'a::{zero,plus,minus,times,inverse,ord} atimespace"
  assumes c0: "coherent M S"
  shows "\<exists>S'. getTrueObliquity M S = (TrueObliquity M (JulianCentury M (getMJD S)), S') \<and> coherent M S' \<and> inputs S' = inputs S"
proof -
  from mo.ok [OF c0] obtain S1 where s1: "getMO M S = (ats_spec M (inputs S) ATS_MO, S1)" "coherent M S1" "inputs S1 = inputs S" by blast
  from no.ok [OF s1(2)] obtain S2 where s2: "getNO M S1 = (ats_spec M (inputs S1) ATS_NO, S2)" "coherent M S2" "inputs S2 = inputs S1" by blast
  show ?thesis using s1 s2 by (simp add: getTrueObliquity_def Let_def inputs_eq TrueObliquity_def)
qed

interpretation gst: cached_getter M ATS_GST "getGST M" for M :: "'a::{zero,plus,minus,times,inverse,ord} libm"
proof
  fix S :: "'a atimespace" assume c0: "coherent M S"
  from gmst.ok [OF c0] obtain S1 where s1: "getGMST M S = (ats_spec M (inputs S) ATS_GMST, S1)" "coherent M S1" "inputs S1 = inputs S" by blast
  from nl.ok [OF s1(2)] obtain S2 where s2: "getNL M S1 = (ats_spec M (inputs S1) ATS_NL, S2)" "coherent M S2" "inputs S2 = inputs S1" by blast
  from true_obliquity_returns [OF s2(2)] obtain S3 where s3: "getTrueObliquity M S2 = (TrueObliquity M (JulianCentury M (getMJD S2)), S3)"
    "coherent M S3" "inputs S3 = inputs S2" by blast
  show "\<exists>S'. getGST M S = (ats_spec M (inputs S) ATS_GST, S') \<and> coherent M S' \<and> inputs S' = inputs S"
    unfolding getGST_def
    by (rule cached_returns [OF c0])
      (use s1 s2 s3 in \<open>simp_all add: scalar_def Let_def inputs_eq GreenwichSiderealTime_def TrueObliquity_def case_prod_unfold\<close>)
qed

interpretation lmst: cached_getter M ATS_LMST "getLMST M" for M :: "'a::{zero,plus,minus,times,inverse,ord} libm"
proof
  fix S :: "'a atimespace" assume c0: "coherent M S"
  from gmst.ok [OF c0] obtain S1 where s1: "getGMST M S = (ats_spec M (inputs S) ATS_GMST, S1)" "coherent M S1" "inputs S1 = inputs S" by blast
  show "\<exists>S'. getLMST M S = (ats_spec M (inputs S) ATS_LMST, S') \<and> coherent M S' \<and> inputs S' = inputs S"
    unfolding getLMST_def by (rule cached_returns [OF c0]) (use s1 in \<open>simp_all add: scalar_def Let_def inputs_eq LocalMeanSiderealTime_def\<close>)
qed

interpretation lst: cached_getter M ATS_LST "getLST M" for M :: "'a::{zero,plus,minus,times,inverse,ord} libm"
proof
  fix S :: "'a atimespace" assume c0: "coherent M S"
  from gst.ok [OF c0] obtain S1 where s1: "getGST M S = (ats_spec M (inputs S) ATS_GST, S1)" "coherent M S1" "inputs S1 = inputs S" by blast
  show "\<exists>S'. getLST M S = (ats_spec M (inputs S) ATS_LST, S') \<and> coherent M S' \<and> inputs S' = inputs S"
    unfolding getLST_def by (rule cached_returns [OF c0]) (use s1 in \<open>simp_all add: scalar_def Let_def inputs_eq\<close>)
qed

lemma sun_returns:
  fixes S :: "'a::{zero,plus,minus,times,inverse,ord} atimespace"
  assumes c0: "coherent M S"
  shows "\<exists>S'. getSunPosition M S = (SunPosition M (JulianCentury M (getMJD S)), S') \<and> coherent M S' \<and> inputs S' = inputs S"
proof (cases "at_valid S ATS_POSITION_SUN")
  case True
  then show ?thesis using c0 by (simp add: getSunPosition_def coherent_def)
next
  case False
  obtain S1 where 1: "getJC M S = (JulianCentury M (getMJD S), S1)" "coherent M S1" "inputs S1 = inputs S"
    using jc_returns [OF c0] by blast
  let ?p = "SunPosition M (JulianCentury M (getMJD S))"
  let ?S2 = "set_valid ATS_POSITION_SUN (set_value ATS_POSITION_SUN_DEC (snd ?p) (set_value ATS_POSITION_SUN_RA (fst ?p) S1))"
  have 2: "getMJD ?S2 = getMJD S" "getDAT ?S2 = getDAT S" "at_lgt ?S2 = at_lgt S"
    using 1(3) by (simp_all add: inputs_eq getMJD_def getDAT_def)
  then have "inputs ?S2 = inputs S" by (simp add: inputs_eq)
  moreover have "coherent M ?S2"
  proof -
    have "at_values ?S2 i = ats_spec M (inputs ?S2) i" if "scalar i" "at_valid ?S2 i" for i
      using that 1(2) \<open>inputs ?S2 = inputs S\<close> 1(3) by (auto simp: coherent_def scalar_def simp del: inputs_fields)
    then show ?thesis using 2(1) by (simp add: coherent_def del: inputs_fields)
  qed
  ultimately show ?thesis using False 1(1) by (simp add: getSunPosition_def case_prod_unfold Let_def)
qed

end
