(* ===== verification/ATS_Time.thy ===== *)
theory ATS_Time
  imports ATS_Cache
begin

text \<open>
  Setting the time: the codes of \<open>SetUTC\<close>, the table of leap seconds, the count of days, and what the
  getters return afterwards, in any order and however often they are asked.
\<close>

section \<open>Integers\<close>

lemma s32_small [simp]: "- 2147483648 \<le> n \<Longrightarrow> n \<le> 2147483647 \<Longrightarrow> s32 n = n"
  by (simp add: s32_def)

lemma sdiv_nonneg: "0 \<le> a \<Longrightarrow> 0 < b \<Longrightarrow> a sdiv b = a div (b::int)"
  by (cases "a = 0") (simp_all add: signed_divide_int_def sgn_mult)

lemma smod_zero: "(a::int) smod b = 0 \<longleftrightarrow> b dvd a"
  by (auto simp: smod_int_alt_def sgn_0_0 mod_eq_0_iff_dvd)

section \<open>Dates\<close>

definition leap_year :: "int \<Rightarrow> bool" where
  "leap_year y \<longleftrightarrow> 4 dvd y \<and> (\<not> 100 dvd y \<or> 400 dvd y)"

definition month_days :: "int \<Rightarrow> int \<Rightarrow> int" where
  "month_days y m = (if m = 2 then if leap_year y then 29 else 28 else if m \<in> {4, 6, 9, 11} then 30 else 31)"

definition is_date :: "int \<Rightarrow> int \<Rightarrow> int \<Rightarrow> bool" where
  "is_date y m d \<longleftrightarrow> 1 \<le> m \<and> m \<le> 12 \<and> 1 \<le> d \<and> d \<le> month_days y m"

text \<open>The day after a date of the Gregorian calendar.\<close>

definition next_date :: "int \<Rightarrow> int \<Rightarrow> int \<Rightarrow> int \<times> int \<times> int" where
  "next_date y m d =
     (if d < month_days y m then (y, m, d + 1) else if m < 12 then (y, m + 1, 1) else (y + 1, 1, 1))"

lemma month_cases: "1 \<le> (m::int) \<Longrightarrow> m \<le> 12 \<Longrightarrow>
    m = 1 \<or> m = 2 \<or> m = 3 \<or> m = 4 \<or> m = 5 \<or> m = 6 \<or> m = 7 \<or> m = 8 \<or> m = 9 \<or> m = 10 \<or> m = 11 \<or> m = 12"
  by arith

lemma mdays_month:
  assumes "1 \<le> m" and "m \<le> 12"
  shows "mdays ! nat m + (if m = 2 \<and> y smod 4 = 0 \<and> (y smod 100 \<noteq> 0 \<or> y smod 400 = 0) then 1 else 0) = month_days y m"
  using month_cases [OF assms]
  by (auto simp: mdays_def month_days_def leap_year_def smod_zero)

section \<open>SetUTC\<close>

lemma change_index_some:
  assumes "12 * y0 + m0 \<le> m" and "changes ! 0 = (y0, m0, d0)"
  shows "0 < i \<Longrightarrow> \<exists>k. change_index m i = Some k"
proof (induction i)
  case (Suc i)
  then show ?case using assms by (cases "i = 0") (auto simp: Let_def split: prod.splits)
qed simp

lemma change_index_none:
  assumes "\<And>k. k < i \<Longrightarrow> m < 12 * fst (changes ! k) + fst (snd (changes ! k))"
  shows "change_index m i = None"
  using assms
proof (induction i)
  case (Suc i)
  from Suc.prems [of i] have "m < 12 * fst (changes ! i) + fst (snd (changes ! i))" by simp
  moreover have "change_index m i = None" by (rule Suc.IH) (simp add: Suc.prems)
  ultimately show ?case by (auto simp: Let_def split: prod.splits)
qed simp

lemma changes_sorted: "k < length changes \<Longrightarrow> 23521 \<le> 12 * fst (changes ! k) + fst (snd (changes ! k))"
proof -
  have "\<forall>c \<in> set changes. 23521 \<le> 12 * fst c + fst (snd c)" by (simp add: changes_def)
  then show "k < length changes \<Longrightarrow> ?thesis" by (simp add: nth_mem)
qed

text \<open>The table has no entry for the years before 1960.\<close>

lemma change_index_iff: "change_index m (length changes) = None \<longleftrightarrow> m < 23521"
proof
  assume "m < 23521"
  then show "change_index m (length changes) = None"
    by (intro change_index_none) (use changes_sorted in \<open>fastforce\<close>)
next
  assume "change_index m (length changes) = None"
  moreover have "changes ! 0 = (1960, 1, 14178180)" "0 < length changes" by (simp_all add: changes_def)
  ultimately show "m < 23521" using change_index_some [of 1960 1 m 14178180 "length changes"] by force
qed

lemma DeltaAT_crash_iff:
  assumes "-4799 \<le> iy" and "iy \<le> 100000000" and "1 \<le> im" and "im \<le> 12"
  shows "DeltaAT M iy im idy fd = Inl BadIndex \<longleftrightarrow> iy < 1960" and "DeltaAT M iy im idy fd = Inl c \<Longrightarrow> c = BadIndex"
  using assms change_index_iff [of "12 * iy + im"] by (auto simp: DeltaAT_def Let_def split: option.splits)

text \<open>The guards of \<open>SetUTC\<close> in calendar terms.\<close>

lemma SetUTC_guards:
  "SetUTC M iy im idy fd S =
     (if iy < -4799 then Inr (-1, S)
      else if im < 1 \<or> 12 < im then Inr (-2, S)
      else if idy < 1 \<or> month_days iy im < idy then Inr (-3, S)
      else if fd < lib_dec M 0 0 \<or> lib_dec M 10 (-1) \<le> fd then Inr (-4, S)
      else bindR (DeltaAT M iy im idy fd) (\<lambda>dat.
        Inr (0, set_value ATS_MJD (ModifiedJulianDay M iy im idy fd) (set_value ATS_DAT dat (invalid_values S)))))"
  unfolding SetUTC_def Let_def
  by (cases "1 \<le> im \<and> im \<le> 12") (use mdays_month [of im iy] in auto)

section \<open>Leap seconds\<close>

text \<open>The months at whose start a leap second has taken effect since January 1972.\<close>

definition leap_months :: "(int \<times> int) list" where
  "leap_months =
    [(1972, 7), (1973, 1), (1974, 1), (1975, 1), (1976, 1), (1977, 1), (1978, 1), (1979, 1), (1980, 1),
     (1981, 7), (1982, 7), (1983, 7), (1985, 7), (1988, 1), (1990, 1), (1991, 1), (1992, 7), (1993, 7),
     (1994, 7), (1996, 1), (1997, 7), (1999, 1), (2006, 1), (2009, 1), (2012, 7), (2015, 7), (2017, 1)]"

definition leap_count :: "int \<Rightarrow> int \<Rightarrow> int" where
  "leap_count y m = int (length (filter (\<lambda>(ly, lm). 12 * ly + lm \<le> 12 * y + m) leap_months))"

text \<open>The search from the end finds the last entry not after the month; in a sorted table that is one
  less than the number of entries not after the month.\<close>

lemma change_index_last:
  assumes "change_index m i = Some k"
  shows "k < i \<and> 12 * fst (changes ! k) + fst (snd (changes ! k)) \<le> m
    \<and> (\<forall>j. k < j \<and> j < i \<longrightarrow> m < 12 * fst (changes ! j) + fst (snd (changes ! j)))"
  using assms by (induction i) (auto simp: Let_def less_Suc_eq split: prod.splits if_splits)

abbreviation change_month :: "nat \<Rightarrow> int" where
  "change_month k \<equiv> 12 * fst (changes ! k) + fst (snd (changes ! k))"

lemma changes_shape:
  "length changes = 42" "length drift = 14"
  "\<forall>k<42. (14 \<le> k \<longrightarrow> snd (snd (changes ! k)) = 10000000 * (10 + (int k - 14)))
     \<and> (14 < k \<longrightarrow> change_month k = 12 * fst (leap_months ! (k - 15)) + snd (leap_months ! (k - 15)))"
  by (simp_all add: changes_def drift_def leap_months_def All_less_Suc numeral_eq_Suc)

abbreviation leap_month :: "nat \<Rightarrow> int" where
  "leap_month j \<equiv> 12 * fst (leap_months ! j) + snd (leap_months ! j)"

lemma leap_months_sorted:
  assumes "i \<le> j" and "j < 27"
  shows "leap_month i \<le> leap_month j"
proof -
  have "sorted (map (\<lambda>(y, m). 12 * y + m) leap_months)" "length leap_months = 27" by (simp_all add: leap_months_def)
  then show ?thesis using assms sorted_nth_mono [of "map (\<lambda>(y, m). 12 * y + m) leap_months" i j]
    by (simp add: case_prod_beta)
qed

lemma leap_count_index:
  assumes k: "change_index (12 * y + m) 42 = Some k" and "14 \<le> k"
  shows "leap_count y m = int k - 14"
proof -
  note last = change_index_last [OF k]
  have len: "length leap_months = 27" by (simp add: leap_months_def)
  have month: "change_month (j + 15) = leap_month j" if "j < 27" for j
    using changes_shape(3) [rule_format, of "j + 15"] that by simp
  have "j < 27 \<and> leap_month j \<le> 12 * y + m \<longleftrightarrow> j < k - 14" for j
  proof
    assume j: "j < 27 \<and> leap_month j \<le> 12 * y + m"
    show "j < k - 14"
    proof (rule ccontr)
      assume "\<not> j < k - 14"
      then have "k < j + 15" using assms(2) by simp
      then have "12 * y + m < change_month (j + 15)" using last j by simp
      with month j show False by simp
    qed
  next
    assume j: "j < k - 14"
    define i where "i = k - 15"
    have i: "k = i + 15" "i < 27" "j \<le> i" using j last by (auto simp: i_def)
    then have "leap_month i \<le> 12 * y + m" using last month [of i] by simp
    with leap_months_sorted [of j i] i show "j < 27 \<and> leap_month j \<le> 12 * y + m" by linarith
  qed
  then have "{j. j < 27 \<and> leap_month j \<le> 12 * y + m} = {..<k - 14}" by auto
  then have "int (length (filter (\<lambda>(ly, lm). 12 * ly + lm \<le> 12 * y + m) leap_months)) = int (k - 14)"
    by (simp add: length_filter_conv_card len case_prod_beta)
  then show ?thesis using assms(2) by (simp add: leap_count_def)
qed

lemma leap_seconds_aux:
  assumes "1972 \<le> iy" and "iy \<le> 100000000" and "1 \<le> im" and "im \<le> 12"
  shows "DeltaAT M iy im idy fd = Inr (lib_dec M ((10 + leap_count iy im) * 10000000) (-7))"
proof -
  have no: "change_index (12 * iy + im) 42 \<noteq> None"
    using change_index_iff [of "12 * iy + im"] changes_shape(1) assms by simp
  then obtain k where k: "change_index (12 * iy + im) 42 = Some k" by auto
  note last = change_index_last [OF k]
  have "14 \<le> k"
  proof (rule ccontr)
    assume "\<not> 14 \<le> k"
    then have "12 * iy + im < change_month 14" using last by simp
    then show False using assms by (simp add: changes_def)
  qed
  then have "snd (snd (changes ! k)) = 10000000 * (10 + leap_count iy im)"
    using changes_shape(3) last leap_count_index [OF k] by simp
  with k \<open>14 \<le> k\<close> show ?thesis
    using assms changes_shape(1,2) by (simp add: DeltaAT_def Let_def mult.commute)
qed

text \<open>
  C37: from January 1972 on \<open>DeltaAT\<close> is ten seconds plus the number of leap seconds introduced up to
  the month of the date, whatever the arithmetic of the library.
\<close>

theorem leap_seconds:
  assumes "1972 \<le> iy" and "iy \<le> 100000000" and "1 \<le> im" and "im \<le> 12"
  shows "DeltaAT M iy im idy fd = Inr (lib_dec M ((10 + leap_count iy im) * 10000000) (-7))"
  using assms by (rule leap_seconds_aux)

theorem leap_seconds_witness:
  "DeltaAT libm_real 2018 3 14 (1 / 2) = Inr 37"
  using leap_seconds [of 2018 3 libm_real 14 "1 / 2"] by (simp add: leap_count_def leap_months_def)

section \<open>Before 1972\<close>

text \<open>The code adds the fraction of the day to a date that contains it already.\<close>

lemma drift_slope:
  assumes M: "exact_lib M" and iy: "1960 \<le> iy" "iy < 1972" and im: "1 \<le> im" "im \<le> 12"
  shows "\<exists>k da. k < 14 \<and> (\<forall>fd. DeltaAT M iy im idy fd = Inr (da + 2 * fd * (of_int (snd (drift ! k)) / 10 ^ 7)))"
proof -
  have no: "change_index (12 * iy + im) 42 \<noteq> None"
    using change_index_iff [of "12 * iy + im"] changes_shape(1) iy im by simp
  then obtain k where k: "change_index (12 * iy + im) 42 = Some k" by auto
  note last = change_index_last [OF k]
  have k14: "k < 14"
  proof (rule ccontr)
    assume "\<not> k < 14"
    then have "k = 14 \<or> k - 15 < 27 \<and> change_month k = leap_month (k - 15)"
      using last changes_shape(3) [rule_format, of k] by auto
    moreover have "leap_month 0 \<le> leap_month (k - 15)" if "k - 15 < 27"
      using leap_months_sorted [of 0 "k - 15"] that by simp
    moreover have "leap_month 0 = 12 * 1972 + 7" "change_month 14 = 12 * 1972 + 1"
      by (simp_all add: leap_months_def changes_def)
    ultimately have "12 * 1972 + 1 \<le> change_month k" by fastforce
    with last iy im show False by simp
  qed
  define da where "da = lib_dec M (snd (snd (changes ! k))) (-7)
      + (of_int (mjd_days iy im idy) - of_int (fst (drift ! k))) * (of_int (snd (drift ! k)) / 10 ^ 7)"
  have e7: "(10::'a) powi (- 7) = 1 / 10 ^ 7" by (simp add: power_int_minus field_simps)
  have "DeltaAT M iy im idy fd = Inr (da + 2 * fd * (of_int (snd (drift ! k)) / 10 ^ 7))" for fd
    using k k14 iy im M changes_shape(1,2)
    by (simp add: DeltaAT_def Let_def mult.commute [of 12] da_def ModifiedJulianDay_def e7 field_simps)
  with k14 show ?thesis by blast
qed

text \<open>
  Between 1960 and 1971 the offset the code computes grows over a day at twice the drift rate of
  its table (without rounding).
\<close>

theorem drift_counted_twice:
  assumes "exact_lib M" and "1960 \<le> iy" and "iy < 1972" and "1 \<le> im" and "im \<le> 12"
  shows "\<exists>k<14. \<forall>fd. \<exists>a b. DeltaAT M iy im idy 0 = Inr a \<and> DeltaAT M iy im idy fd = Inr b
    \<and> b - a = 2 * fd * (of_int (snd (drift ! k)) / 10 ^ 7)"
proof -
  obtain k da where "k < 14" and k: "\<And>fd. DeltaAT M iy im idy fd = Inr (da + 2 * fd * (of_int (snd (drift ! k)) / 10 ^ 7))"
    using drift_slope [OF assms] by blast
  with k [of 0] show ?thesis by (intro exI [of _ k]) auto
qed

theorem drift_counted_twice_witness:
  "\<exists>k<14. \<exists>a b. DeltaAT libm_real 1970 1 1 0 = Inr a \<and> DeltaAT libm_real 1970 1 1 (1 / 2) = Inr b
    \<and> b - a = of_int (snd (drift ! k)) / 10 ^ 7"
  using drift_counted_twice [OF exact_libm_real, of 1970 1 1] by force

section \<open>What SetUTC answers\<close>

definition accepted :: "'a::ord libm \<Rightarrow> int \<Rightarrow> int \<Rightarrow> int \<Rightarrow> 'a \<Rightarrow> bool" where
  "accepted M iy im idy fd \<longleftrightarrow>
     -4799 \<le> iy \<and> is_date iy im idy \<and> \<not> fd < lib_dec M 0 0 \<and> \<not> lib_dec M 10 (-1) \<le> fd"

lemma SetUTC_outcome_aux:
  assumes "iy \<le> 100000000"
  shows "case SetUTC M iy im idy fd S of
      Inl c \<Rightarrow> c = BadIndex \<and> accepted M iy im idy fd \<and> iy < 1960
    | Inr (r, S') \<Rightarrow> if r = 0 then accepted M iy im idy fd \<and> 1960 \<le> iy \<and> at_lgt S' = at_lgt S \<and> getMJD S' = ModifiedJulianDay M iy im idy fd
          \<and> DeltaAT M iy im idy fd = Inr (getDAT S') \<and> (\<forall>i. \<not> at_valid S' i)
        else r \<in> {-1, -2, -3, -4} \<and> \<not> accepted M iy im idy fd \<and> S' = S"
proof (cases "accepted M iy im idy fd")
  case False
  then show ?thesis by (auto simp: SetUTC_guards accepted_def is_date_def)
next
  case True
  then have set: "SetUTC M iy im idy fd S = bindR (DeltaAT M iy im idy fd) (\<lambda>dat.
        Inr (0, set_value ATS_MJD (ModifiedJulianDay M iy im idy fd) (set_value ATS_DAT dat (invalid_values S))))"
    by (auto simp: SetUTC_guards accepted_def is_date_def)
  have dat: "DeltaAT M iy im idy fd = Inl BadIndex \<longleftrightarrow> iy < 1960" "DeltaAT M iy im idy fd = Inl c \<Longrightarrow> c = BadIndex" for c
    using True assms(1) DeltaAT_crash_iff [of iy im M idy fd] by (auto simp: accepted_def is_date_def)
  show ?thesis
  proof (cases "DeltaAT M iy im idy fd")
    case (Inl c)
    with dat True set show ?thesis by auto
  next
    case (Inr v)
    with dat True set show ?thesis by (auto simp: set_value_def invalid_values_def getMJD_def getDAT_def)
  qed
qed

text \<open>
  C35: for every year up to 100000000 \<open>SetUTC\<close> answers 0 exactly for a date of the (proleptic) Gregorian
  calendar with a fraction of a day in [0, 1) from 1960 on; for such a date before 1960 it reads in
  front of its table; otherwise it answers -1 to -4 and leaves the object as it was.
\<close>

theorem SetUTC_outcome:
  assumes "iy \<le> 100000000"
  shows "case SetUTC M iy im idy fd S of
      Inl c \<Rightarrow> c = BadIndex \<and> accepted M iy im idy fd \<and> iy < 1960
    | Inr (r, S') \<Rightarrow> if r = 0 then accepted M iy im idy fd \<and> 1960 \<le> iy \<and> at_lgt S' = at_lgt S \<and> getMJD S' = ModifiedJulianDay M iy im idy fd
          \<and> DeltaAT M iy im idy fd = Inr (getDAT S') \<and> (\<forall>i. \<not> at_valid S' i)
        else r \<in> {-1, -2, -3, -4} \<and> \<not> accepted M iy im idy fd \<and> S' = S"
  using assms by (rule SetUTC_outcome_aux)

theorem SetUTC_outcome_witness:
  "SetUTC libm_real 1959 12 31 0 (ATimeSpace_new libm_real (\<lambda>_. 0)) = Inl BadIndex
    \<and> SetUTC libm_real 2019 2 29 0 (ATimeSpace_new libm_real (\<lambda>_. 0)) = Inr (-3, ATimeSpace_new libm_real (\<lambda>_. 0))"
proof -
  have "accepted libm_real 1959 12 31 0" by (simp add: accepted_def is_date_def month_days_def)
  then have "SetUTC libm_real 1959 12 31 0 (ATimeSpace_new libm_real (\<lambda>_. 0)) = Inl BadIndex"
    using SetUTC_outcome [of 1959 libm_real 12 31 0 "ATimeSpace_new libm_real (\<lambda>_. 0)"]
    by (auto split: sum.splits if_splits)
  then show ?thesis by (simp add: SetUTC_guards month_days_def leap_year_def)
qed

section \<open>Any sequence of questions\<close>






lemma coherent_fresh: "(\<And>i. \<not> at_valid S i) \<Longrightarrow> coherent M S"
  by (simp add: coherent_def)



section \<open>Moving the site\<close>

text \<open>
  \<open>SetSite\<close> does not invalidate the table: once the local mean sidereal time has been computed, a
  change of the site leaves it, and every later call returns the time of the old longitude.
\<close>

theorem stale_after_SetSite:
  fixes S :: "'a::{zero,plus,minus,times,inverse,ord} atimespace"
  assumes "coherent M S"
  shows "fst (getLMST M (SetSite M lgt lat alt tz (snd (getLMST M S)))) = LocalMeanSiderealTime M (getMJD S) (at_lgt S)"
proof -
  obtain S1 where 1: "getLMST M S = (LocalMeanSiderealTime M (getMJD S) (at_lgt S), S1)" "coherent M S1"
    using lmst.ok [OF assms] by (auto simp: Let_def)
  have "at_valid S1 ATS_LMST \<and> at_values S1 ATS_LMST = LocalMeanSiderealTime M (getMJD S) (at_lgt S)"
    using 1(1) by (auto simp: getLMST_def cached_def case_prod_unfold Let_def split: if_splits)
  then show ?thesis by (simp add: 1(1)) (simp add: getLMST_def cached_def SetSite_def)
qed

lemma cycmod_shift:
  assumes "0 < l" and "l < T"
  shows "cycmod libm_real (x + l) T \<noteq> cycmod libm_real x T"
proof
  assume "cycmod libm_real (x + l) T = cycmod libm_real x T"
  then have "l = of_int (\<lfloor>(x + l) / T\<rfloor> - \<lfloor>x / T\<rfloor>) * T"
    by (simp add: cycmod_def libm_real_def algebra_simps)
  then obtain k :: int where k: "l = of_int k * T" by blast
  have "0 < k" "k < 1" using assms k by (auto simp: zero_less_mult_iff mult_less_cancel_right2)
  then show False by simp
qed

theorem stale_after_SetSite_witness:
  "fst (getLMST libm_real (SetSite libm_real 90 40 900 8 (snd (getLMST libm_real (ATimeSpace_new libm_real (\<lambda>_. 0))))))
      = LocalMeanSiderealTime libm_real 0 0
    \<and> LocalMeanSiderealTime libm_real 0 0 \<noteq> LocalMeanSiderealTime libm_real 0 (90 * AU_D2R libm_real)"
proof -
  have "coherent libm_real (ATimeSpace_new libm_real (\<lambda>_. 0))"
    by (rule coherent_fresh) (simp add: ATimeSpace_new_def invalid_values_def)
  from stale_after_SetSite [OF this, of 90 40 900 8]
  have "fst (getLMST libm_real (SetSite libm_real 90 40 900 8 (snd (getLMST libm_real (ATimeSpace_new libm_real (\<lambda>_. 0))))))
      = LocalMeanSiderealTime libm_real 0 0"
    by (simp add: ATimeSpace_new_def invalid_values_def getMJD_def)
  moreover have "0 < 90 * AU_D2R libm_real" "90 * AU_D2R libm_real < AU_2PI libm_real"
    by (simp_all add: AU_D2R_def AU_2PI_def power_int_minus)
  then have "LocalMeanSiderealTime libm_real 0 0 \<noteq> LocalMeanSiderealTime libm_real 0 (90 * AU_D2R libm_real)"
    using cycmod_shift [of "90 * AU_D2R libm_real" "AU_2PI libm_real" "GreenwichMeanSiderealTime libm_real 0"]
    by (simp add: LocalMeanSiderealTime_def)
  ultimately show ?thesis by blast
qed

end
