(* ===== verification/ATS_Dates.thy ===== *)
theory ATS_Dates
  imports ATS_Time
begin

text \<open>
  Dates and days: \<open>ModifiedJulianDay\<close> counts the days of the Gregorian calendar, and \<open>Mjd2Cal\<close> finds the
  date again. What \<open>Mjd2Cal\<close> needs of the arithmetic are five truncations, the locale \<open>calendar_lib\<close>.
\<close>

section \<open>The count of days\<close>

text \<open>Years start in March: \<open>march_year\<close> and \<open>march_month\<close> (1 to 12).\<close>

definition march_year :: "int \<Rightarrow> int \<Rightarrow> int" where
  "march_year y m = (if m \<le> 2 then y - 1 else y)"

definition march_month :: "int \<Rightarrow> int" where
  "march_month m = (if m \<le> 2 then m + 10 else m - 2)"

definition march_days :: "int \<Rightarrow> int" where
  "march_days y = 1461 * (y + 4800) div 4 - 3 * ((y + 4900) div 100) div 4"

lemma mjd_days_march:
  assumes "1 \<le> m" and "m \<le> 12" and "-4799 \<le> y" and "y \<le> 1400000"
  shows "mjd_days y m d = march_days (march_year y m) + 367 * march_month m div 12 + d - 2432076"
proof -
  have my: "(m - 14) sdiv 12 = (if m \<le> 2 then -1 else 0)"
    using month_cases [OF assms(1,2)] by (auto simp: signed_divide_int_def)
  define Y where "Y = march_year y m"
  have Y: "-4800 \<le> Y" "Y \<le> 1400000" using assms by (auto simp: Y_def march_year_def)
  have s: "s32 (y + (if m \<le> 2 then -1 else 0)) = Y" using assms by (simp add: Y_def march_year_def)
  have mm: "m - 2 - 12 * (if m \<le> 2 then -1 else 0) = march_month m" by (simp add: march_month_def)
  have "0 \<le> (Y + 4900) div 100" "(Y + 4900) div 100 \<le> 14049" using Y by linarith+
  moreover have "0 < march_month m" using assms by (simp add: march_month_def)
  ultimately show ?thesis
    using Y unfolding mjd_days_def Let_def my s mm Y_def [symmetric]
    by (simp add: sdiv_nonneg march_days_def)
qed

text \<open>The length of a year, from March to March.\<close>

lemma dvd_chain: "(100::int) dvd y \<Longrightarrow> 4 dvd y" "(400::int) dvd y \<Longrightarrow> 100 dvd y"
  by (erule dvd_trans [rotated], simp)+
lemma year_days: "1461 * x div 4 = 365 * x + x div (4::int)"
proof -
  have "1461 * x = x + 4 * (365 * x)" by simp
  then show ?thesis by (metis div_mult_self2 add.commute zero_neq_numeral)
qed
lemma leap_day: "1461 * x div 4 = 1461 * (x - 1) div 4 + (if 4 dvd x then 366 else 365::int)"
proof -
  have "x div 4 = (x - 1) div 4 + (if 4 dvd x then 1 else 0)" by presburger
  then show ?thesis unfolding year_days by simp
qed
lemma century_step: "(y - 1 + 4900) div 100 = (if 100 dvd y then (y + 4900) div 100 - 1 else (y + 4900) div (100::int))"
proof -
  define c r where "c = (y + 4900) div 100" and "r = (y + 4900) mod 100"
  have y: "y + 4900 = 100 * c + r" "0 \<le> r" "r < 100" by (simp_all add: c_def r_def)
  have "100 dvd y \<longleftrightarrow> 100 dvd y + 4900" by (simp add: dvd_add_left_iff)
  also have "\<dots> \<longleftrightarrow> r = 0" by (simp add: r_def dvd_eq_mod_eq_0)
  finally have d: "100 dvd y \<longleftrightarrow> r = 0" .
  show ?thesis
  proof (cases "r = 0")
    case True
    with y have "y - 1 + 4900 = (c - 1) * 100 + 99" by simp
    then have "(y - 1 + 4900) div 100 = c - 1" by simp
    with d True show ?thesis by (simp add: c_def)
  next
    case False
    with y have "y - 1 + 4900 = c * 100 + (r - 1)" "0 \<le> r - 1" "r - 1 < 100" by simp_all
    then have "(y - 1 + 4900) div 100 = c" by simp
    with d False show ?thesis by (simp add: c_def)
  qed
qed
lemma century_leap: "3 * c div 4 - 3 * (c - 1) div 4 = (if 4 dvd c - 1 then 0 else 1 :: int)" by presburger
lemma century_400: "100 dvd y \<Longrightarrow> 4 dvd (y + 4900) div 100 - 1 \<longleftrightarrow> 400 dvd (y::int)" 
proof -
  assume "100 dvd y" then obtain k where "y = 100 * k" by blast
  moreover have "(100 * k + 4900) div 100 = k + 49" by simp
  moreover have "400 dvd 100 * k \<longleftrightarrow> 4 dvd k" using dvd_mult_cancel_left [of 100 4 k] by simp
  moreover have "4 dvd k + 49 - 1 \<longleftrightarrow> 4 dvd k" by presburger
  ultimately show ?thesis by simp
qed
lemma year_length: "march_days y = march_days (y - 1) + (if leap_year y then 366 else 365::int)"
proof -
  define x c where "x = y + 4800" and "c = (y + 4900) div 100"
  have x: "y - 1 + 4800 = x - 1" "4 dvd x \<longleftrightarrow> 4 dvd y" by (simp_all add: x_def dvd_add_left_iff)
  have c: "(y - 1 + 4900) div 100 = (if 100 dvd y then c - 1 else c)" unfolding c_def by (rule century_step)
  have g': "100 dvd y \<Longrightarrow> 4 dvd c - 1 \<longleftrightarrow> 400 dvd y" unfolding c_def by (rule century_400)
  define p q z where "p = 3 * c div 4" and "q = 3 * (c - 1) div 4" and "z = 1461 * (x - 1) div 4"
  have pq: "p - q = (if 4 dvd c - 1 then 0 else 1)" unfolding p_def q_def by (rule century_leap)
  have r: "3 * (if 100 dvd y then c - 1 else c) div 4 = (if 100 dvd y then q else p)" by (simp add: p_def q_def)
  have "z + (if 4 dvd y then 366 else 365) - p
      = z - (if 100 dvd y then q else p) + (if 4 dvd y \<and> (\<not> 100 dvd y \<or> 400 dvd y) then 366 else 365)"
    using pq g' dvd_chain [of y] by (cases "100 dvd y"; cases "4 dvd c - 1"; auto)
  then show ?thesis unfolding c x(1) x_def [symmetric] c_def [symmetric] leap_day [of x] x(2) r p_def [symmetric] z_def [symmetric] leap_year_def march_days_def .
qed

text \<open>
  One day after the other: the number of the next date is the next number, from the year -4799
  to the year 1400000, and number 0 is 17 November 1858.
\<close>

theorem mjd_counts_days:
  assumes "is_date y m d" and "-4799 \<le> y" and "y < 1400000" and "next_date y m d = (y', m', d')"
  shows "is_date y' m' d' \<and> mjd_days y' m' d' = mjd_days y m d + 1 \<and> mjd_days 1858 11 17 = 0"
proof -
  have z: "mjd_days 1858 11 17 = 0" by code_simp
  have m: "1 \<le> m" "m \<le> 12" and d: "1 \<le> d" "d \<le> month_days y m" using assms(1) by (auto simp: is_date_def)
  have nd: "-4799 \<le> y'" "y' \<le> 1400000" "1 \<le> m'" "m' \<le> 12"
    using assms m by (auto simp: next_date_def split: if_splits)
  have days: "mjd_days y m d = march_days (march_year y m) + 367 * march_month m div 12 + d - 2432076"
    "mjd_days y' m' d' = march_days (march_year y' m') + 367 * march_month m' div 12 + d' - 2432076"
    using mjd_days_march m nd assms by simp_all
  have "is_date y' m' d'" using assms m d by (auto simp: next_date_def is_date_def month_days_def split: if_splits)
  moreover have "mjd_days y' m' d' = mjd_days y m d + 1"
    unfolding days using month_cases [OF m] d assms(4) year_length [of y]
    by (elim disjE) (auto simp: next_date_def march_year_def march_month_def month_days_def split: if_splits)
  ultimately show ?thesis using z by simp
qed

theorem mjd_counts_days_witness:
  "mjd_days 2024 2 29 = mjd_days 2024 2 28 + 1"
  using mjd_counts_days [of 2024 2 28 2024 2 29] by (simp add: is_date_def month_days_def leap_year_def next_date_def)

section \<open>From the number to the date\<close>

text \<open>
  The five truncations of \<open>Mjd2Cal\<close>: with the literals of the code they must come out as if the numbers
  were exact, for the days up to the year 9999.
\<close>

locale calendar_lib =
  fixes M :: "'a::{plus,minus,times,inverse} libm"
  assumes century: "2299161 \<le> n \<Longrightarrow> n \<le> 5400000 \<Longrightarrow>
      lib_trunc M ((lib_int M n - lib_dec M 186721625 (-2)) / lib_dec M 3652425 (-2)) = (4 * n - 7468865) div 146097"
    and year: "2000000 \<le> n \<Longrightarrow> n \<le> 5500000 \<Longrightarrow>
      lib_trunc M ((lib_int M n - lib_dec M 1221 (-1)) / lib_dec M 36525 (-2)) = (20 * n - 2442) div 7305"
    and year_start: "0 \<le> n \<Longrightarrow> n \<le> 20000 \<Longrightarrow> lib_trunc M (lib_dec M 36525 (-2) * lib_int M n) = 1461 * n div 4"
    and month: "123 \<le> n \<Longrightarrow> n \<le> 500 \<Longrightarrow> lib_trunc M (lib_int M n / lib_dec M 306000001 (-7)) = 10000000 * n div 306000001"
    and month_start: "4 \<le> n \<Longrightarrow> n \<le> 15 \<Longrightarrow> lib_trunc M (lib_dec M 306000001 (-7) * lib_int M n) = 306000001 * n div 10000000"

lemma div_between: "b * q \<le> a \<Longrightarrow> a < b * (q + 1) \<Longrightarrow> a div b = (q::int)"
  by (rule int_div_pos_eq [where r = "a - b * q"]) (simp_all add: algebra_simps)

text \<open>Day of the year that starts on 1 March.\<close>

definition march_day :: "int \<Rightarrow> int \<Rightarrow> int" where
  "march_day m d = 367 * march_month m div 12 + d - 30"

lemma march_day_range:
  assumes "is_date y m d"
  shows "1 \<le> march_day m d" and "march_day m d \<le> 365 \<or> march_day m d = 366 \<and> leap_year (march_year y m + 1)"
proof -
  have m: "1 \<le> m" "m \<le> 12" using assms by (simp_all add: is_date_def)
  show "1 \<le> march_day m d" using month_cases [OF m] assms
    by (elim disjE) (simp_all add: march_day_def march_month_def is_date_def)
  show "march_day m d \<le> 365 \<or> march_day m d = 366 \<and> leap_year (march_year y m + 1)"
    using month_cases [OF m] assms
    by (elim disjE) (auto simp: march_day_def march_month_def march_year_def is_date_def month_days_def split: if_splits)
qed

lemma three_quarters: "(3 * t + 3) div 4 = t - t div (4::int)"
proof -
  define q r where "q = t div 4" and "r = t mod 4"
  have t: "t = 4 * q + r" "r \<in> {0, 1, 2, 3}" by (auto simp: q_def r_def)
  have "3 * t + 3 = (3 * r + 3) + 4 * (3 * q)" using t(1) by simp
  then have "(3 * t + 3) div 4 = 3 * q + (3 * r + 3) div 4" by (simp only: div_mult_self2 [of 4] zero_neq_numeral)
  with t show ?thesis by auto
qed

lemma quarter:
  fixes Y t s :: int
  assumes "Y = 100 * t + 400 + s"
  shows "(Y + 4800) div 4 = 25 * t + 1300 + s div 4"
proof -
  have "Y + 4800 = s + 4 * (25 * t + 1300)" using assms by simp
  then show ?thesis by (simp only: div_mult_self2 [of 4] zero_neq_numeral)
qed

text \<open>Centuries that start in the March of a year divisible by 100, counted from the year 400.\<close>

lemma march_century:
  fixes Y t s q :: int
  assumes "Y = 100 * t + 400 + s" and "0 \<le> s" and "s < 100"
  shows "march_days Y = 36525 * t + 365 * s + s div 4 + 1899261 - (3 * t + 3) div 4"
proof -
  define a b where "a = s div 4" and "b = (3 * t + 3) div 4"
  have c: "(Y + 4900) div 100 = t + 53" using assms by simp
  have "3 * (t + 53) = 3 * t + 3 + 4 * 39" by simp
  then have d: "3 * (t + 53) div 4 = 39 + b" unfolding b_def by (simp only: div_mult_self2 [of 4] zero_neq_numeral)
  have "march_days Y = 365 * (Y + 4800) + (25 * t + 1300 + a) - (39 + b)"
    unfolding march_days_def year_days quarter [OF assms(1)] c d a_def ..
  then show ?thesis unfolding a_def [symmetric] b_def [symmetric] using assms(1) by simp
qed

lemma century_found:
  fixes t s k :: int
  assumes "0 \<le> s" and "s < 100" and "1 \<le> k" and "k \<le> 365 \<or> k = 366 \<and> leap_year (100 * t + 400 + s + 1)"
  shows "(4 * (36525 * t - (3 * t + 3) div 4 + 365 * s + s div 4 + k - 1) + 3) div 146097 = t"
proof -
  define u where "u = 4 * ((3 * t + 3) div 4)"
  have u: "3 * t \<le> u" "u \<le> 3 * t + 3" unfolding u_def by linarith+
  have v: "4 * (s div 4) \<le> s" "s - 3 \<le> 4 * (s div 4)" by linarith+
  define r where "r = 365 * s + s div 4 + k - 1"
  have r0: "0 \<le> r" using assms(1,3) by (simp add: r_def)
  have "4 * r \<le> 146096 \<and> (4 * r \<le> 146092 \<or> u = 3 * t + 3)"
  proof (cases "k = 366 \<and> s = 99")
    case False
    have "s \<le> 98 \<or> s = 99" using assms(2) by arith
    with False v assms(4) show ?thesis unfolding r_def by auto
  next
    case True
    with assms(4) have "leap_year (100 * (t + 5))" by (simp add: algebra_simps)
    then have "400 dvd 100 * (t + 5)" by (simp add: leap_year_def)
    then have "4 dvd t + 5" using dvd_mult_cancel_left [of "100::int" 4 "t + 5"] by simp
    then have "4 dvd 3 * t + 3" by presburger
    then have "u = 3 * t + 3" by (simp add: u_def)
    with True show ?thesis by (simp add: r_def)
  qed
  then have "146097 * t \<le> 4 * (36525 * t + r) - u + 3" "4 * (36525 * t + r) - u + 3 < 146097 * (t + 1)"
    using u r0 by auto
  then have "(4 * (36525 * t + r) - u + 3) div 146097 = t" by (intro div_between) auto
  moreover have "4 * (36525 * t - (3 * t + 3) div 4 + 365 * s + s div 4 + k - 1) + 3 = 4 * (36525 * t + r) - u + 3"
    by (simp add: u_def r_def)
  ultimately show ?thesis by simp
qed

text \<open>Month and day from the day of the year.\<close>

lemma month_found:
  assumes "is_date y m d"
  defines "n \<equiv> 122 + march_day m d"
  shows "10000000 * n div 306000001 = march_month m + 3"
    and "n - 306000001 * (march_month m + 3) div 10000000 = d"
    and "123 \<le> n \<and> n \<le> 500" and "4 \<le> march_month m + 3 \<and> march_month m + 3 \<le> 15"
proof -
  have m: "1 \<le> m" "m \<le> 12" using assms(1) by (simp_all add: is_date_def)
  show "123 \<le> n \<and> n \<le> 500" using march_day_range [OF assms(1)] by (auto simp: n_def)
  show "4 \<le> march_month m + 3 \<and> march_month m + 3 \<le> 15" using m by (simp add: march_month_def)
  show "n - 306000001 * (march_month m + 3) div 10000000 = d"
    using month_cases [OF m] by (elim disjE) (simp_all add: n_def march_day_def march_month_def)
  have "306000001 * (march_month m + 3) \<le> 10000000 * n \<and> 10000000 * n < 306000001 * (march_month m + 3 + 1)"
    using month_cases [OF m] assms(1)
    by (elim disjE) (auto simp: n_def march_day_def march_month_def is_date_def month_days_def split: if_splits)
  then show "10000000 * n div 306000001 = march_month m + 3" by (intro div_between) auto
qed

text \<open>The year that starts in March, from the day number of the Julian calendar.\<close>

lemma year_found:
  fixes C k :: int
  assumes "1 \<le> k" and "k \<le> 365 \<or> k = 366 \<and> 4 dvd C + 1"
  shows "(20 * (365 * C + C div 4 + 122 + k) - 2442) div 7305 = C"
proof -
  define u where "u = C mod 4"
  have u: "4 * (C div 4) = C - u" "0 \<le> u" "u \<le> 3" "4 dvd C + 1 \<Longrightarrow> u = 3" unfolding u_def by presburger+
  then have "7305 * C \<le> 20 * (365 * C + C div 4 + 122 + k) - 2442"
    "20 * (365 * C + C div 4 + 122 + k) - 2442 < 7305 * (C + 1)" using assms by auto
  then show ?thesis by (intro div_between) auto
qed

context calendar_lib
begin

lemma date_found:
  assumes date: "is_date y m d" and y: "y \<le> 9999" "-4799 \<le> y"
    and jdn: "2299161 \<le> mjd_days y m d + 2400001"
  shows "cal_of_jdn M (mjd_days y m d + 2400001) = (y, m, d)"
proof -
  have m: "1 \<le> m" "m \<le> 12" using date by (simp_all add: is_date_def)
  define Y t s k where "Y = march_year y m" and "t = (Y - 400) div 100" and "s = (Y - 400) mod 100" and "k = march_day m d"
  have Y: "Y = 100 * t + 400 + s" "0 \<le> s" "s < 100" by (simp_all add: t_def s_def)
  define a b e where "a = s div 4" and "b = (3 * t + 3) div 4" and "e = t div 4"
  define J N C where "J = mjd_days y m d + 2400001" and "N = 36525 * t - b + 365 * s + a + k - 1"
    and "C = Y + 4716"
  have k: "1 \<le> k" "k \<le> 365 \<or> k = 366 \<and> leap_year (Y + 1)" using march_day_range [OF date] by (simp_all add: k_def Y_def)
  have J: "J = N + 1867217"
    using mjd_days_march [OF m, of y d] y march_century [OF Y]
    by (simp add: J_def N_def k_def march_day_def Y_def [symmetric] a_def [symmetric] b_def [symmetric])
  have J0: "2299161 \<le> J" using jdn by (simp add: J_def)
  have tJ: "(4 * J - 7468865) div 146097 = t"
    using century_found [of s k t, folded a_def b_def] Y k by (simp add: J N_def algebra_simps)
  have t0: "0 \<le> t" unfolding tJ [symmetric] using J0 by simp
  have "Y \<le> 9999" using y(1) by (simp add: Y_def march_year_def)
  then have t1: "t \<le> 95" using Y by linarith
  have c: "b = t - e" "0 \<le> e" "e \<le> t"
    using three_quarters t0 by (simp_all add: b_def e_def int_div_less_self zdiv_mono2 [of t 1 4, simplified])
  have a: "0 \<le> a" "a \<le> 24" using Y(2,3) unfolding a_def by linarith+
  have N1: "N \<le> 3506400" using t1 t0 c a Y(2,3) k(2) unfolding N_def by auto
  define A where "A = J + 1 + t - e"
  have A: "(if 2299161 \<le> J then s32 (s32 (J + 1) + t - t sdiv 4) else J) = A"
    using J0 N1 J t0 t1 c by (simp add: A_def sdiv_nonneg e_def [symmetric])
  define f where "f = C div 4"
  have "Y + 4800 = C + 4 * 21" by (simp add: C_def)
  then have yd: "f = 25 * t + 1279 + a"
    using quarter [OF Y(1)] div_mult_self2 [of 4 C 21] by (simp add: f_def a_def)
  have B: "A + 1524 = 365 * C + f + 122 + k"
    using Y(1) c(1) yd by (simp add: A_def J N_def C_def)
  have leap: "k \<le> 365 \<or> k = 366 \<and> 4 dvd C + 1"
  proof -
    have "C + 1 = Y + 1 + 4 * 1179" by (simp add: C_def)
    then have "4 dvd C + 1 \<longleftrightarrow> 4 dvd Y + 1" by (metis dvd_add_left_iff dvd_triv_left)
    with k(2) show ?thesis by (auto simp: leap_year_def)
  qed
  have A2: "2000000 \<le> A + 1524" "A + 1524 \<le> 5500000" using J0 N1 J t0 t1 c by (simp_all add: A_def)
  have yr: "lib_trunc M ((lib_int M (A + 1524) - lib_dec M 1221 (-1)) / lib_dec M 36525 (-2)) = C"
    using year [OF A2] year_found [OF k(1) leap, folded f_def] by (simp add: B)
  have C0: "0 \<le> C" "C \<le> 20000" using Y t0 t1 by (simp_all add: C_def)
  have ys: "lib_trunc M (lib_dec M 36525 (-2) * lib_int M C) = 365 * C + f"
    using year_start [OF C0] unfolding year_days f_def .
  have bd: "A + 1524 - (365 * C + f) = 122 + k" using B by simp
  note mf = month_found [OF date, folded k_def]
  have mo: "lib_trunc M (lib_int M (122 + k) / lib_dec M 306000001 (-7)) = march_month m + 3"
    using month mf(1,3) by simp
  have ms: "lib_trunc M (lib_dec M 306000001 (-7) * lib_int M (march_month m + 3)) = 122 + k - d"
    using month_start mf(2,4) by (simp add: algebra_simps)
  have cen: "lib_trunc M ((lib_int M J - lib_dec M 186721625 (-2)) / lib_dec M 3652425 (-2)) = t"
    using century [OF J0] J N1 tJ by simp
  have s: "s32 (A + 1524) = A + 1524" "s32 (122 + k) = 122 + k" "s32 d = d" using A2 mf(3) date
    by (auto simp: is_date_def month_days_def split: if_splits)
  have "cal_of_jdn M J = (if 2 < (if march_month m + 3 < 14 then march_month m + 2 else march_month m - 10) then C - 4716 else C - 4715,
      if march_month m + 3 < 14 then march_month m + 2 else march_month m - 10, d)"
    using C0 mf(4) unfolding cal_of_jdn_def Let_def cen A s yr ys bd mo ms by (auto simp: s)
  then show ?thesis using m unfolding J_def [symmetric] by (auto simp: C_def Y_def march_year_def march_month_def)
qed

end

section \<open>Without rounding\<close>

lemma trunc_real_div:
  assumes "x = of_int a / of_int b" and "0 \<le> a" and "0 < b"
  shows "lib_trunc libm_real x = a div b"
  using assms by (simp add: libm_real_def floor_divide_of_int_eq)

lemma powi_decimals [simp]: "(10::'a::linordered_field) powi (-1) = 1 / 10" "(10::'a) powi (-2) = 1 / 100" "(10::'a) powi (-7) = 1 / 10000000"
  by (simp_all add: power_int_minus field_simps)

interpretation real_calendar: calendar_lib libm_real
proof
  show "lib_trunc libm_real ((lib_int libm_real n - lib_dec libm_real 186721625 (-2)) / lib_dec libm_real 3652425 (-2))
      = (4 * n - 7468865) div 146097" if "2299161 \<le> n" "n \<le> 5400000" for n
    by (rule trunc_real_div) (use that in \<open>simp_all add: field_simps\<close>)
  show "lib_trunc libm_real ((lib_int libm_real n - lib_dec libm_real 1221 (-1)) / lib_dec libm_real 36525 (-2))
      = (20 * n - 2442) div 7305" if "2000000 \<le> n" "n \<le> 5500000" for n
    by (rule trunc_real_div) (use that in \<open>simp_all add: field_simps\<close>)
  show "lib_trunc libm_real (lib_dec libm_real 36525 (-2) * lib_int libm_real n) = 1461 * n div 4" if "0 \<le> n" "n \<le> 20000" for n
    by (rule trunc_real_div) (use that in \<open>simp_all add: field_simps\<close>)
  show "lib_trunc libm_real (lib_int libm_real n / lib_dec libm_real 306000001 (-7)) = 10000000 * n div 306000001"
    if "123 \<le> n" "n \<le> 500" for n
    by (rule trunc_real_div) (use that in \<open>simp_all add: field_simps\<close>)
  show "lib_trunc libm_real (lib_dec libm_real 306000001 (-7) * lib_int libm_real n) = 306000001 * n div 10000000"
    if "4 \<le> n" "n \<le> 15" for n
    by (rule trunc_real_div) (use that in \<open>simp_all add: field_simps\<close>)
qed

text \<open>
  From 17 November 1858, the origin of the count, to the year 9999 \<open>Mjd2Cal\<close> takes the modified
  Julian day of a date and a fraction of a day back to the date and the fraction (without rounding).
\<close>

theorem calendar_roundtrip:
  assumes "is_date y m d" and "-4799 \<le> y" and "y \<le> 9999" and "0 \<le> mjd_days y m d" and "0 \<le> fd" and "fd < 1"
  shows "Mjd2Cal libm_real (ModifiedJulianDay libm_real y m d fd) = (y, m, d, fd)"
proof -
  define n where "n = mjd_days y m d"
  have f: "\<lfloor>of_int n + fd\<rfloor> = n" using assms(5,6) by (simp add: floor_eq_iff)
  have "lib_trunc libm_real (of_int n + fd + AU_MJD0 libm_real + lib_dec libm_real 5 (-1)) = n + 2400001"
    using assms(4-6) f by (simp add: AU_MJD0_def libm_real_def n_def [symmetric] floor_eq_iff)
  moreover have "cal_of_jdn libm_real (n + 2400001) = (y, m, d)"
    using real_calendar.date_found [OF assms(1,3,2)] assms(4) by (simp add: n_def)
  moreover have "lib_fmod libm_real (of_int n + fd) 1 = fd" using assms(4,5) f by (simp add: libm_real_def n_def [symmetric])
  ultimately show ?thesis by (simp add: Mjd2Cal_def ModifiedJulianDay_def n_def [symmetric] Let_def)
qed

theorem calendar_roundtrip_witness:
  "Mjd2Cal libm_real (ModifiedJulianDay libm_real 2000 2 29 (3 / 4)) = (2000, 2, 29, 3 / 4)"
proof -
  have "mjd_days 2000 2 29 = 51603" by code_simp
  then show ?thesis by (intro calendar_roundtrip) (simp_all add: is_date_def month_days_def leap_year_def)
qed

end
