(* ===== verification/ATS_Binary64.thy ===== *)
theory ATS_Binary64
  imports ATS_Dates
begin

text \<open>
  The calendar in binary64: the rounding of the five expressions \<open>Mjd2Cal\<close> truncates never carries
  them across an integer. Rounding to 53 bits changes a number by at most half a unit of its last
  place; what is truncated stays further away from the next integer than that.
\<close>

section \<open>Truncating a rounded number\<close>

lemma div_bounds: "0 < b \<Longrightarrow> (a div b) * b \<le> a \<and> a < (a div b + 1) * (b::int)"
  using pos_mod_sign [of b a] pos_mod_bound [of b a] div_mult_mod_eq [of a b] unfolding distrib_right by linarith

lemma bits_nonneg: "0 \<le> bits n"
proof (induction n rule: bits.induct)
  case (1 n)
  then show ?case by (subst bits.simps) auto
qed

text \<open>What rounding does to a number below \<open>2 ^ b\<close>.\<close>

lemma mk_double_round:
  assumes "0 \<le> v" and "v < 2 ^ b" and "b \<le> 300" and "-700 \<le> e" and "e \<le> 0"
  obtains s m where "s \<le> b - 53" and "mk_double False v e = (case canon m (e + int s) of (m', e') \<Rightarrow> Fin False m' e')"
    and "0 \<le> m" and "2 * \<bar>m * 2 ^ s - v\<bar> \<le> (if s = 0 then 0 else 2 ^ s)"
proof -
  define s where "s = nat (bits v - 53)"
  have bv: "bits v \<le> int b" using assms(2) by (rule bits_le)
  have sb: "s \<le> b - 53" using bv by (simp add: s_def)
  define m where "m = (if s = 0 then v else rne v (2 ^ s))"
  have err: "2 * \<bar>m * 2 ^ s - v\<bar> \<le> (if s = 0 then 0 else 2 ^ s)" using rne_error [of "2 ^ s" v] by (simp add: m_def)
  have m0: "0 \<le> m" using assms(1) by (auto simp: m_def rne_def Let_def pos_imp_zdiv_nonneg_iff)
  have "m \<le> v + 1"
  proof (cases "s = 0")
    case False
    have "v div 2 ^ s \<le> v" using assms(1) by (simp add: int_div_less_self zdiv_mono2 [of v 1 "2 ^ s", simplified])
    with False show ?thesis by (simp add: m_def rne_def Let_def)
  qed (simp add: m_def)
  moreover have "(0::int) < 2 ^ b" by simp
  ultimately have "m < 2 ^ (b + 1)" using assms(2) unfolding power_add power_one_right by linarith
  then have bm: "bits m \<le> int b + 1" using bits_le by fastforce
  have sh: "max (bits v - 53) (-1074 - e) \<le> 0 \<longleftrightarrow> s = 0" "s \<noteq> 0 \<Longrightarrow> max (bits v - 53) (-1074 - e) = int s"
    using assms(4) by (auto simp: s_def)
  have "\<not> 1024 < bits m + (e + int s)" using bm sb assms(3,5) by linarith
  then have eq: "mk_double False v e = (case canon m (e + int s) of (m', e') \<Rightarrow> Fin False m' e')"
    using sh by (cases "s = 0") (simp_all add: mk_double_def Let_def m_def)
  show thesis by (rule that [OF sb eq m0 err])
qed

text \<open>Truncation of the canonical form.\<close>

lemma int_cast_canon:
  assumes "0 \<le> m"
  shows "int_cast (case canon m e of (m', e') \<Rightarrow> Fin False m' e')
    = (let t = (if 0 \<le> e then m * 2 ^ nat e else m div 2 ^ nat (- e)) in if in_s32 t then t else INT_MIN)"
proof (cases "m = 0")
  case True
  then show ?thesis by (simp add: in_s32_def)
next
  case False
  obtain m' e' where c: "canon m e = (m', e')" by fastforce
  with canon_value [OF c] False assms have e: "e \<le> e'" "m = m' * 2 ^ nat (e' - e)" by auto
  have "(if 0 \<le> e' then m' * 2 ^ nat e' else m' div 2 ^ nat (- e')) = (if 0 \<le> e then m * 2 ^ nat e else m div 2 ^ nat (- e))"
  proof (cases "0 \<le> e")
    case True
    then have "nat e' = nat (e' - e) + nat e" using e(1) by simp
    with True e show ?thesis by (simp add: power_add)
  next
    case neg: False
    show ?thesis
    proof (cases "0 \<le> e'")
      case True
      then have "nat (e' - e) = nat e' + nat (- e)" using neg by simp
      with True neg e(2) show ?thesis by (simp add: power_add)
    next
      case False
      then have "nat (- e) = nat (- e') + nat (e' - e)" using e(1) by simp
      then have "(2::int) ^ nat (- e) = 2 ^ nat (- e') * 2 ^ nat (e' - e)" by (simp add: power_add)
      then have "m div 2 ^ nat (- e) = m' div 2 ^ nat (- e')" by (simp add: e(2))
      with False neg show ?thesis by simp
    qed
  qed
  then show ?thesis by (simp add: c Let_def)
qed

text \<open>The scaled quotient with its sticky bit, for a quotient at least \<open>2 ^ -32\<close> below the next integer.\<close>

lemma sticky_quotient:
  fixes n d w :: int
  assumes d: "0 < d" and w: "0 \<le> w" and n: "w * d \<le> n" "n * 2 ^ 32 \<le> ((w + 1) * 2 ^ 32 - 1) * d" and K: "37 \<le> K"
  defines "v \<equiv> 2 * ((n * 2 ^ K) div d) + (if (n * 2 ^ K) mod d = 0 then 0 else 1)"
  shows "w * 2 ^ (K + 1) \<le> v" and "v \<le> (w + 1) * 2 ^ (K + 1) - 2 ^ (K - 37) * 64 + 1"
proof -
  define q where "q = (n * 2 ^ K) div d"
  define P where "P = (2::int) ^ (K - 37)"
  obtain j where "K = j + 37" using K by (intro that [of "K - 37"]) simp
  then have P: "(2::int) ^ K = P * 2 ^ 37" "(2::int) ^ (K + 1) = P * 2 ^ 38" by (simp_all add: P_def power_add)
  have "w * 2 ^ K * d \<le> n * 2 ^ K" using n(1) by (simp add: mult.commute mult.left_commute)
  then have "w * 2 ^ K \<le> q" unfolding q_def using d by (metis zdiv_mono1 nonzero_mult_div_cancel_right less_irrefl)
  then show "w * 2 ^ (K + 1) \<le> v" by (simp add: v_def q_def)
  have "q * d \<le> n * 2 ^ K" using d div_bounds by (simp add: q_def)
  then have "q * d * 2 ^ 32 \<le> n * 2 ^ 32 * 2 ^ K" by simp
  also have "\<dots> \<le> ((w + 1) * 2 ^ 32 - 1) * d * 2 ^ K" using n(2) by (intro mult_right_mono) simp_all
  finally have "(q * 2 ^ 32) * d \<le> (((w + 1) * 2 ^ 32 - 1) * 2 ^ K) * d" by (simp add: algebra_simps)
  then have "q * 2 ^ 32 \<le> ((w + 1) * 2 ^ 32 - 1) * (P * 2 ^ 37)" using d by (simp add: P(1))
  then have "q \<le> ((w + 1) * 2 ^ 32 - 1) * (P * 32)" by (simp add: algebra_simps)
  then show "v \<le> (w + 1) * 2 ^ (K + 1) - 2 ^ (K - 37) * 64 + 1"
    unfolding v_def q_def [symmetric] P(2) P_def [symmetric] by (simp add: algebra_simps)
qed

text \<open>Rounding moves it by less than that.\<close>

lemma rounded_between:
  fixes m v w :: int
  assumes v: "w * 2 ^ (K + 1) \<le> v" "v \<le> (w + 1) * 2 ^ (K + 1) - 2 ^ (K - 37) * 64 + 1"
    and s: "s \<le> K - 37" "37 \<le> K" and m: "2 * \<bar>m * 2 ^ s - v\<bar> \<le> (if s = 0 then 0 else 2 ^ s)"
  shows "m div 2 ^ (K + 1 - s) = w"
proof -
  define t S P Z where "t = K + 1 - s" and "S = (2::int) ^ s" and "P = (2::int) ^ (K - 37)" and "Z = m * S"
  have t: "(2::int) ^ (K + 1) = 2 ^ t * S" using s by (simp add: t_def S_def power_add [symmetric])
  have "0 < S" "S \<le> P" "1 \<le> P" using s(1) by (simp_all add: S_def P_def power_increasing)
  have diff: "2 * \<bar>Z - v\<bar> \<le> S" using m \<open>0 < S\<close> unfolding Z_def S_def by (simp split: if_splits)
  have "Z < (w + 1) * 2 ^ (K + 1) \<and> w * 2 ^ (K + 1) - S < Z"
  proof -
    define X Y where "X = (w + 1) * 2 ^ (K + 1)" and "Y = w * 2 ^ (K + 1)"
    have "v \<le> X - P * 64 + 1" "Y \<le> v" using v by (simp_all add: P_def X_def Y_def)
    moreover have "2 * (Z - v) \<le> 2 * \<bar>Z - v\<bar>" "2 * (v - Z) \<le> 2 * \<bar>Z - v\<bar>"
      by (rule mult_left_mono [OF abs_ge_self], simp, rule mult_left_mono, simp_all add: abs_minus_commute)
    then have "2 * (Z - v) \<le> S" "2 * (v - Z) \<le> S" using diff by (blast intro: order_trans)+
    ultimately have "Z < X" "Y - S < Z" using \<open>0 < S\<close> \<open>S \<le> P\<close> \<open>1 \<le> P\<close> by simp_all
    then show ?thesis unfolding X_def Y_def ..
  qed
  then have "m * S < ((w + 1) * 2 ^ t) * S" "(w * 2 ^ t - 1) * S < m * S"
    unfolding t Z_def by (simp_all add: algebra_simps)
  then have "m < (w + 1) * 2 ^ t" "w * 2 ^ t \<le> m" using \<open>0 < S\<close> by simp_all
  then show ?thesis unfolding t_def [symmetric] by (intro div_between) (simp_all add: mult.commute)
qed

text \<open>A quotient below \<open>2 ^ 15\<close> at least \<open>2 ^ -32\<close> below the next integer.\<close>

lemma frac_trunc:
  assumes d: "0 < d" "d < 2 ^ 150" and w: "0 \<le> w" "w < 2 ^ 15"
    and n: "w * d \<le> n" "n * 2 ^ 32 \<le> ((w + 1) * 2 ^ 32 - 1) * d"
  shows "int_cast (double_of_frac False n d) = w"
proof -
  define K where "K = nat (bits d + 56)"
  have bd: "0 \<le> bits d" "bits d \<le> 150" using bits_le [OF d(2)] bits_nonneg by simp_all
  have K: "56 \<le> K" "K \<le> 206" "int K = bits d + 56" "37 \<le> K" using bd by (simp_all add: K_def)
  define v where "v = 2 * ((n * 2 ^ K) div d) + (if (n * 2 ^ K) mod d = 0 then 0 else 1)"
  note v = sticky_quotient [OF d(1) w(1) n K(4), folded v_def]
  have v0: "0 \<le> v" using v(1) w(1) by (meson order_trans zero_le_mult_iff zero_le_power zero_le_numeral)
  have "(w + 1) * 2 ^ (K + 1) \<le> 2 ^ 15 * 2 ^ (K + 1)" using w by (intro mult_right_mono) auto
  moreover have "(1::int) \<le> 2 ^ (K - 37)" by simp
  ultimately have "v < 2 ^ 15 * 2 ^ (K + 1)" using v(2) by linarith
  then have vb: "v < 2 ^ (K + 16)" by (simp add: power_add)
  obtain s m where sm: "s \<le> K + 16 - 53" "mk_double False v (- int K - 1) = (case canon m (- int K - 1 + int s) of (m', e') \<Rightarrow> Fin False m' e')"
    "0 \<le> m" "2 * \<bar>m * 2 ^ s - v\<bar> \<le> (if s = 0 then 0 else 2 ^ s)"
    using mk_double_round [OF v0 vb, of "- int K - 1"] K by auto
  have "m div 2 ^ (K + 1 - s) = w" using sm(1) by (intro rounded_between [OF v _ K(4) sm(4)]) simp
  moreover have "nat (- (- int K - 1 + int s)) = K + 1 - s" "\<not> 0 \<le> - int K - 1 + int s" using sm(1) K(1) by auto
  ultimately have "int_cast (mk_double False v (- int K - 1)) = w"
    unfolding sm(2) int_cast_canon [OF sm(3)] using w by (simp add: in_s32_def INT_MAX_def INT_MIN_def)
  moreover have "double_of_frac False n d = mk_double False v (- int K - 1)"
    unfolding double_of_frac_def Let_def K(3) [symmetric] by (simp add: v_def)
  ultimately show ?thesis by simp
qed

section \<open>The five truncations\<close>

text \<open>The literals.\<close>

lemma calendar_literals:
  "double_of_dec False 186721625 (-2) = Fin False 7468865 (-2)" "double_of_dec False 3652425 (-2) = Fin False 146097 (-2)"
  "double_of_dec False 1221 (-1) = Fin False 4296011832046387 (-45)" "double_of_dec False 36525 (-2) = Fin False 1461 (-2)"
  "double_of_dec False 306000001 (-7) = Fin False 8613134315493571 (-48)"
  by code_simp+

lemma int_double:
  assumes "0 < n" and "n < 2 ^ 31"
  obtains m e where "double_of_int n = Fin False m e" and "0 \<le> e" and "n = m * 2 ^ nat e" and "0 < m"
proof -
  obtain m e where c: "canon n 0 = (m, e)" by fastforce
  with canon_value [OF c assms(1)] assms have "0 \<le> e" "n = m * 2 ^ nat e" by auto
  moreover have "double_of_int n = Fin False m e" using assms c by (simp add: double_of_int_def mk_double_exact)
  moreover have "0 < m" using assms(1) calculation(2) by (simp add: zero_less_mult_iff)
  ultimately show thesis using that by blast
qed

lemma canon_pos:
  assumes "0 < n" and "canon n e = (m', e')"
  shows "e \<le> e'" and "n = m' * 2 ^ nat (e' - e)" and "0 < m'"
  using canon_value [OF assms(2,1)] assms(1) by (auto simp: zero_less_mult_iff)

text \<open>The century: the difference is exact, one division.\<close>

lemma century_double:
  assumes "2299161 \<le> n" and "n \<le> 5400000"
  shows "int_cast (ddiv (dsub (double_of_int n) (Fin False 7468865 (-2))) (Fin False 146097 (-2))) = (4 * n - 7468865) div 146097"
proof -
  obtain m e where n: "double_of_int n = Fin False m e" "0 \<le> e" "n = m * 2 ^ nat e" "0 < m"
    by (rule int_double [of n]) (use assms in simp, use assms in simp, rule that)
  obtain m' e' where c: "canon (4 * n - 7468865) (-2) = (m', e')" by fastforce
  note m' = canon_pos [OF _ c]
  have "nat (e + 2) = nat e + 2" using n(2) by simp
  then have "m * 2 ^ nat (e + 2) = 4 * n" by (simp add: n(3) power_add)
  then have "dsub (double_of_int n) (Fin False 7468865 (-2)) = mk_double False (4 * n - 7468865) (-2)"
    using assms n(2) by (simp add: dsub_def n(1) scaled_def Let_def)
  also have "\<dots> = Fin False m' e'" using assms by (simp add: mk_double_exact c)
  finally have x: "dsub (double_of_int n) (Fin False 7468865 (-2)) = Fin False m' e'" .
  have "ddiv (Fin False m' e') (Fin False 146097 (-2)) = double_of_frac False (4 * n - 7468865) 146097"
    using m' assms by simp
  moreover define w where "w = (4 * n - 7468865) div 146097"
  have "w * 146097 \<le> 4 * n - 7468865" "4 * n - 7468865 < (w + 1) * 146097" using div_bounds [of 146097 "4 * n - 7468865"] unfolding w_def by simp_all
  then have "int_cast (double_of_frac False (4 * n - 7468865) 146097) = w"
    using assms by (intro frac_trunc) auto
  ultimately show ?thesis by (simp add: x w_def)
qed

text \<open>The first day of a year: an exact product.\<close>

lemma year_start_double:
  assumes "0 \<le> n" and "n \<le> 20000"
  shows "int_cast (dmul (Fin False 1461 (-2)) (double_of_int n)) = 1461 * n div 4"
proof (cases "n = 0")
  case True
  have "int_cast (dmul (Fin False 1461 (-2)) (double_of_int 0)) = 0" by code_simp
  with True show ?thesis by simp
next
  case False
  obtain m e where n: "double_of_int n = Fin False m e" "0 \<le> e" "n = m * 2 ^ nat e" "0 < m"
    by (rule int_double [of n]) (use assms False in simp, use assms in simp, rule that)
  have "(1::int) \<le> 2 ^ nat e" by simp
  then have "m * 1 \<le> m * 2 ^ nat e" using n(4) by (intro mult_left_mono) auto
  then have m: "m \<le> 20000" using n(3) assms by simp
  have "e \<le> 20"
  proof (rule ccontr)
    assume "\<not> e \<le> 20"
    then have "(2::int) ^ 20 \<le> 2 ^ nat e" by (intro power_increasing) auto
    moreover have "1 * 2 ^ nat e \<le> m * (2::int) ^ nat e" using n(4) by (intro mult_right_mono) auto
    ultimately show False using assms n(3) by simp
  qed
  then have "dmul (Fin False 1461 (-2)) (double_of_int n) = (case canon (1461 * m) (e - 2) of (m', e') \<Rightarrow> Fin False m' e')"
    using m n(2) by (simp add: n(1) mk_double_exact Let_def)
  moreover have "(if 0 \<le> e - 2 then 1461 * m * 2 ^ nat (e - 2) else 1461 * m div 2 ^ nat (- (e - 2))) = 1461 * n div 4"
  proof (cases "2 \<le> e")
    case True
    then have "nat e = nat (e - 2) + 2" by simp
    then have "1461 * n = 4 * (1461 * m * 2 ^ nat (e - 2))" by (simp add: n(3) power_add)
    with True show ?thesis by simp
  next
    case False
    with n(2) have "e = 0 \<or> e = 1" by arith
    with n(3) show ?thesis by auto
  qed
  moreover have "- 2147483648 \<le> 1461 * n div 4" "1461 * n div 4 \<le> 2147483647" using assms by linarith+
  ultimately show ?thesis using int_cast_canon [of "1461 * m" "e - 2"] n(4)
    by (simp add: Let_def in_s32_def INT_MAX_def INT_MIN_def)
qed

text \<open>The month: one division.\<close>

lemma month_double:
  assumes "123 \<le> n" and "n \<le> 500"
  shows "int_cast (ddiv (double_of_int n) (Fin False 8613134315493571 (-48))) = 10000000 * n div 306000001"
proof -
  obtain m e where n: "double_of_int n = Fin False m e" "0 \<le> e" "n = m * 2 ^ nat e" "0 < m"
    by (rule int_double [of n]) (use assms in simp, use assms in simp, rule that)
  have "nat (e + 48) = nat e + 48" using n(2) by simp
  then have "m * 2 ^ nat (e + 48) = n * 2 ^ 48" by (simp add: n(3) power_add)
  then have eq: "ddiv (double_of_int n) (Fin False 8613134315493571 (-48)) = double_of_frac False (n * 2 ^ 48) 8613134315493571"
    using n(2,4) by (simp add: n(1))
  define w where "w = 10000000 * n div 306000001"
  have w: "w * 306000001 \<le> 10000000 * n" "10000000 * n < (w + 1) * 306000001" using div_bounds [of 306000001 "10000000 * n"] unfolding w_def by simp_all
  have "4 \<le> w" "w \<le> 16" unfolding w_def using assms by linarith+
  then have "int_cast (double_of_frac False (n * 2 ^ 48) 8613134315493571) = w"
    using assms w by (intro frac_trunc) auto
  with eq show ?thesis by (simp add: w_def)
qed

text \<open>The year: the difference is rounded, then the quotient.\<close>

lemma year_difference:
  assumes "2000000 \<le> n" and "n \<le> 5500000"
  obtains m e where "dsub (double_of_int n) (Fin False 4296011832046387 (-45)) = Fin False m e" and "0 < m" and "-45 \<le> e"
    and "2 * \<bar>m * 2 ^ nat (e + 45) - (n * 2 ^ 45 - 4296011832046387)\<bar> \<le> 2 ^ 15"
proof -
  obtain m0 e0 where n: "double_of_int n = Fin False m0 e0" "0 \<le> e0" "n = m0 * 2 ^ nat e0" "0 < m0"
    by (rule int_double [of n]) (use assms in simp, use assms in simp, rule that)
  define v where "v = n * 2 ^ 45 - 4296011832046387"
  have v: "0 \<le> v" "v < 2 ^ 68" using assms by (simp_all add: v_def)
  have "nat (e0 + 45) = nat e0 + 45" using n(2) by simp
  then have "m0 * 2 ^ nat (e0 + 45) = n * 2 ^ 45" by (simp add: n(3) power_add)
  then have sub: "dsub (double_of_int n) (Fin False 4296011832046387 (-45)) = mk_double False v (-45)"
    using assms n(2) by (simp add: dsub_def n(1) scaled_def Let_def v_def)
  obtain s m1 where r: "s \<le> 68 - 53" "mk_double False v (-45) = (case canon m1 (-45 + int s) of (m', e') \<Rightarrow> Fin False m' e')"
    "0 \<le> m1" "2 * \<bar>m1 * 2 ^ s - v\<bar> \<le> (if s = 0 then 0 else 2 ^ s)"
    by (rule mk_double_round [OF v, of "-45"]) (simp, simp, simp, rule that)
  have "(2::int) ^ s \<le> 2 ^ 15" using r(1) by (intro power_increasing) auto
  then have err: "2 * \<bar>m1 * 2 ^ s - v\<bar> \<le> 2 ^ 15" using r(4) by (auto split: if_splits)
  have "0 < m1"
  proof (rule ccontr)
    assume "\<not> 0 < m1"
    then have "m1 = 0" using r(3) by simp
    then show False using err assms by (simp add: v_def)
  qed
  obtain m e where c: "canon m1 (-45 + int s) = (m, e)" by fastforce
  note m = canon_pos [OF \<open>0 < m1\<close> c]
  have "nat (e + 45) = nat (e - (-45 + int s)) + s" using m(1) by simp
  then have "m * 2 ^ nat (e + 45) = m1 * 2 ^ s" by (simp add: m(2) power_add)
  with that [of m e] show thesis using sub r(2) c m err by (simp add: v_def)
qed

lemma year_double:
  assumes "2000000 \<le> n" and "n \<le> 5500000"
  shows "int_cast (ddiv (dsub (double_of_int n) (Fin False 4296011832046387 (-45))) (Fin False 1461 (-2))) = (20 * n - 2442) div 7305"
proof -
  obtain m e where x: "dsub (double_of_int n) (Fin False 4296011832046387 (-45)) = Fin False m e" "0 < m" "-45 \<le> e"
    "2 * \<bar>m * 2 ^ nat (e + 45) - (n * 2 ^ 45 - 4296011832046387)\<bar> \<le> 2 ^ 15"
    by (rule year_difference [OF assms]) (rule that)
  define w where "w = (20 * n - 2442) div 7305"
  have w: "w * 7305 \<le> 20 * n - 2442" "20 * n - 2442 < (w + 1) * 7305" using div_bounds [of 7305 "20 * n - 2442"] unfolding w_def by simp_all
  define g where "g = (w + 1) * 1461 - 4 * n"
  have g: "5 * g = (w + 1) * 7305 - 20 * n" by (simp add: g_def)
  with w have "-488 \<le> g" "g \<le> 972" by simp_all
  with g have w2: "20 * n - 2442 \<le> (w + 1) * 7305 - 2" "w * 7305 + 3 \<le> 20 * n - 2442" by simp_all
  define N where "N = m * 2 ^ nat (e + 45)"
  have N: "w * 1461 * 2 ^ 43 \<le> N" "N * 2 ^ 32 \<le> ((w + 1) * 2 ^ 32 - 1) * (1461 * 2 ^ 43)"
    using x(4) w2 unfolding N_def [symmetric] by simp_all
  have ww: "0 \<le> w" "w < 2 ^ 15" using w assms by simp_all
  show ?thesis
  proof (cases "-2 \<le> e")
    case True
    then have "nat (e + 45) = nat (e + 2) + 43" by simp
    then have NN: "N = m * 2 ^ nat (e + 2) * 2 ^ 43" by (simp add: N_def power_add)
    have "ddiv (Fin False m e) (Fin False 1461 (-2)) = double_of_frac False (m * 2 ^ nat (e + 2)) 1461"
      using True x(2) by simp
    moreover have "int_cast (double_of_frac False (m * 2 ^ nat (e + 2)) 1461) = w"
      using N ww unfolding NN by (intro frac_trunc) simp_all
    ultimately show ?thesis by (simp add: x(1) w_def)
  next
    case False
    define j where "j = nat (-2 - e)"
    have j: "nat (e + 45) + j = 43" "j \<le> 43" using False x(3) by (simp_all add: j_def)
    have p43: "(2::int) ^ 43 = 2 ^ nat (e + 45) * 2 ^ j" by (simp only: j(1) [symmetric] power_add)
    have "(w * (1461 * 2 ^ j)) * 2 ^ nat (e + 45) \<le> m * 2 ^ nat (e + 45)"
      using N(1) unfolding N_def p43 by (simp only: ac_simps)
    then have N1: "w * (1461 * 2 ^ j) \<le> m" by (rule mult_right_le_imp_le) simp
    have "(m * 2 ^ 32) * 2 ^ nat (e + 45) \<le> (((w + 1) * 2 ^ 32 - 1) * (1461 * 2 ^ j)) * 2 ^ nat (e + 45)"
      using N(2) unfolding N_def p43 by (simp only: ac_simps)
    then have N2: "m * 2 ^ 32 \<le> ((w + 1) * 2 ^ 32 - 1) * (1461 * 2 ^ j)" by (rule mult_right_le_imp_le) simp
    have "(2::int) ^ j \<le> 2 ^ 43" using j(2) by (intro power_increasing) auto
    then have d: "1461 * 2 ^ j < (2::int) ^ 150" by simp
    have "ddiv (Fin False m e) (Fin False 1461 (-2)) = double_of_frac False m (1461 * 2 ^ j)"
      using False x(2) by (simp add: j_def)
    moreover have "int_cast (double_of_frac False m (1461 * 2 ^ j)) = w"
      by (rule frac_trunc [OF _ d ww N1 N2]) simp
    ultimately show ?thesis by (simp add: x(1) w_def)
  qed
qed

section \<open>The calendar of the compiled code\<close>

interpretation double_calendar: calendar_lib "libm_double T" for T
proof
  show "lib_trunc (libm_double T) (lib_dec (libm_double T) 306000001 (-7) * lib_int (libm_double T) n) = 306000001 * n div 10000000"
    if "4 \<le> n" "n \<le> 15" for n
  proof -
    have all: "\<forall>n \<in> set [4..15]. int_cast (dmul (double_of_dec False 306000001 (-7)) (double_of_int n)) = 306000001 * n div 10000000"
      by code_simp
    have "n \<in> {4..15}" using that by simp
    then have "n \<in> set [4..15]" by (simp only: set_upto)
    with all have "int_cast (dmul (double_of_dec False 306000001 (-7)) (double_of_int n)) = 306000001 * n div 10000000" by blast
    then show ?thesis by (simp add: double_classes)
  qed
qed (simp_all add: double_classes calendar_literals century_double year_double year_start_double month_double)

lemma double_int_plus_0:
  assumes "0 \<le> n" and "n < 2 ^ 31"
  shows "double_of_int n + double_of_dec False 0 0 = double_of_int n"
proof (cases "n = 0")
  case True
  have "double_of_int 0 + double_of_dec False 0 0 = double_of_int 0" by code_simp
  with True show ?thesis by simp
next
  case False
  obtain m e where c: "canon n 0 = (m, e)" by fastforce
  have n: "double_of_int n = Fin False m e" using assms c by (simp add: double_of_int_def mk_double_exact)
  have m: "0 \<le> e" "n = m * 2 ^ nat e" "0 < m" using canon_pos [OF _ c] False assms by auto
  have "double_of_dec False 0 0 = Fin False 0 0" by code_simp
  then have "double_of_int n + double_of_dec False 0 0 = mk_double False n 0"
    using m(1,3) assms(1) by (simp add: double_classes n scaled_def Let_def flip: m(2))
  then show ?thesis using assms by (simp add: n mk_double_exact c)
qed

lemma double_jdn:
  assumes "0 \<le> n" and "n \<le> 3000000"
  shows "int_cast (double_of_int n + double_of_dec False 24000005 (-1) + double_of_dec False 5 (-1)) = n + 2400001"
proof (cases "n = 0")
  case True
  have "int_cast (double_of_int 0 + double_of_dec False 24000005 (-1) + double_of_dec False 5 (-1)) = 2400001" by code_simp
  with True show ?thesis by simp
next
  case False
  obtain m e where n: "double_of_int n = Fin False m e" "0 \<le> e" "n = m * 2 ^ nat e" "0 < m"
    by (rule int_double [of n]) (use assms False in simp, use assms in simp, rule that)
  have lit: "double_of_dec False 24000005 (-1) = Fin False 4800001 (-1)" "double_of_dec False 5 (-1) = Fin False 1 (-1)" by code_simp+
  have "nat (e + 1) = nat e + 1" using n(2) by simp
  then have "m * 2 ^ nat (e + 1) = 2 * n" by (simp add: n(3) power_add)
  then have "dadd (double_of_int n) (Fin False 4800001 (-1)) = mk_double False (2 * n + 4800001) (-1)"
    using assms n(2) by (simp add: n(1) scaled_def Let_def)
  also have "\<dots> = Fin False (2 * n + 4800001) (-1)"
    using assms by (simp add: mk_double_exact canon.simps [of "2 * n + 4800001"])
  finally have "double_of_int n + double_of_dec False 24000005 (-1) + double_of_dec False 5 (-1) = mk_double False (2 * n + 4800002) (-1)"
    using assms by (simp add: add.commute [of "2 * n"] double_classes lit scaled_def Let_def)
  also have "\<dots> = (case canon (2 * n + 4800002) (-1) of (m', e') \<Rightarrow> Fin False m' e')"
    using assms by (simp add: mk_double_exact Let_def)
  finally show ?thesis using int_cast_canon [of "2 * n + 4800002" "-1"] assms
    by (simp add: Let_def in_s32_def INT_MAX_def INT_MIN_def)
qed

lemma mjd_days_bound:
  assumes "is_date y m d" and "-4799 \<le> y" and "y \<le> 9999"
  shows "mjd_days y m d \<le> 3000000"
proof -
  have m: "1 \<le> m" "m \<le> 12" using assms(1) by (simp_all add: is_date_def)
  define Y where "Y = march_year y m"
  have "Y \<le> 9999" using assms(3) by (simp add: Y_def march_year_def)
  moreover define x c g where "x = (Y + 4800) div 4" and "c = (Y + 4900) div 100" and "g = 3 * c div 4"
  then have "4 * x \<le> Y + 4800" "Y + 4801 \<le> 100 * c" "3 * c - 3 \<le> 4 * g" by linarith+
  moreover have "march_days Y = 365 * (Y + 4800) + x - g" by (simp only: march_days_def year_days x_def c_def g_def)
  ultimately have "march_days Y \<le> 5405600" by (simp only: distrib_left)
  moreover have "367 * march_month m div 12 + d \<le> 400" using march_day_range(2) [OF assms(1)] by (auto simp: march_day_def)
  ultimately show ?thesis using mjd_days_march [OF m assms(2), of d] assms(3) by (simp add: Y_def)
qed

text \<open>
  C36: in binary64, whatever the mathematical library: from 17 November 1858 to the year 9999 \<open>Mjd2Cal\<close>
  takes the modified Julian day of midnight back to the date.
\<close>

theorem calendar_binary64:
  assumes "is_date y m d" and "-4799 \<le> y" and "y \<le> 9999" and "0 \<le> mjd_days y m d"
  shows "Mjd2Cal (libm_double T) (ModifiedJulianDay (libm_double T) y m d 0) = (y, m, d, 0)"
proof -
  define n where "n = mjd_days y m d"
  have n: "0 \<le> n" "n \<le> 3000000" using assms(4) mjd_days_bound [OF assms(1-3)] by (simp_all add: n_def)
  have z: "(0::double) = double_of_dec False 0 0" "double_of_dec False 10 (-1) = Fin False 1 0" "double_of_dec False 0 0 = 0"
    by code_simp+
  have mjd: "double_of_int n + 0 = double_of_int n" using double_int_plus_0 [of n] n z(3) by simp
  have "int_cast (double_of_int n + AU_MJD0 (libm_double T) + double_of_dec False 5 (-1)) = n + 2400001"
    using double_jdn [OF n] by (simp add: AU_MJD0_def)
  moreover have "cal_of_jdn (libm_double T) (n + 2400001) = (y, m, d)"
    using double_calendar.date_found [OF assms(1,3,2)] assms(4) by (simp add: n_def)
  moreover have "dfmod (double_of_int n) (Fin False 1 0) = 0"
  proof (cases "n = 0")
    case True
    have "dfmod (double_of_int 0) (Fin False 1 0) = 0" by code_simp
    with True show ?thesis by simp
  next
    case False
    obtain m e where "double_of_int n = Fin False m e" "0 \<le> e" "n = m * 2 ^ nat e" "0 < m"
      by (rule int_double [of n]) (use n False in simp, use n in simp, rule that)
    then show ?thesis by (simp add: Let_def zero_double_def)
  qed
  ultimately show ?thesis
    by (simp add: Mjd2Cal_def ModifiedJulianDay_def n_def [symmetric] Let_def mjd z(2))
qed

text \<open>A library without mathematical functions.\<close>

definition libm_none :: "double libm" where
  "libm_none = \<lparr>lib_dec = (\<lambda>n k. NaN), lib_int = (\<lambda>n. NaN), lib_trunc = (\<lambda>x. 0), lib_floor = (\<lambda>x. NaN),
     lib_fmod = (\<lambda>x y. NaN), lib_sqrt = (\<lambda>x. NaN), lib_sin = (\<lambda>x. NaN), lib_cos = (\<lambda>x. NaN), lib_tan = (\<lambda>x. NaN),
     lib_asin = (\<lambda>x. NaN), lib_acos = (\<lambda>x. NaN), lib_atan = (\<lambda>x. NaN), lib_atan2 = (\<lambda>x y. NaN), lib_exp = (\<lambda>x. NaN),
     lib_pow = (\<lambda>x y. NaN), lib_log10 = (\<lambda>x. NaN)\<rparr>"

theorem calendar_binary64_witness:
  "Mjd2Cal (libm_double (libm_none)) (ModifiedJulianDay (libm_double (libm_none)) 2000 2 29 0) = (2000, 2, 29, 0)"
proof -
  have "mjd_days 2000 2 29 = 51603" by code_simp
  then show ?thesis by (intro calendar_binary64) (simp_all add: is_date_def month_days_def leap_year_def)
qed

end
