(* ===== verification/ATS_Coords.thy ===== *)
theory ATS_Coords
  imports ATS_Cache AMath_Functions
begin

text \<open>
  The Moon, the conversions between coordinate systems and the times of twilight of
  \<open>ATimeSpace.cpp\<close>. Operations that call getters thread the object through them.
\<close>

section \<open>Horizon, equator, ecliptic\<close>

text \<open>\<open>atan2\<close> gives (-pi, pi]; negative angles are shifted by a turn.\<close>

definition turn where
  "turn M a = (if a < 0 then a + AU_2PI M else a)"

definition Eq2Horizon where
  "Eq2Horizon M S ha dec =
     (let cha = lib_cos M ha; slat = lib_sin M (at_lat S); clat = lib_cos M (at_lat S);
          azi = lib_atan2 M (lib_sin M ha) (cha * slat - lib_tan M dec * clat);
          alt = lib_asin M (slat * lib_sin M dec + clat * lib_cos M dec * cha)
      in (turn M azi, alt))"

definition Horizon2Eq where
  "Horizon2Eq M S azi alt =
     (let caz = lib_cos M azi; slat = lib_sin M (at_lat S); clat = lib_cos M (at_lat S);
          ha = lib_atan2 M (lib_sin M azi) (caz * slat + lib_tan M alt * clat);
          dec = lib_asin M (slat * lib_sin M alt - clat * lib_cos M alt * caz)
      in (turn M ha, dec))"

definition Eq2Eclip where
  "Eq2Eclip M ra dec eo =
     (let sra = lib_sin M ra; seo = lib_sin M eo; ceo = lib_cos M eo;
          l = lib_atan2 M (sra * ceo + lib_tan M dec * seo) (lib_cos M ra);
          b = lib_asin M (lib_sin M dec * ceo - lib_cos M dec * lib_sin M eo * sra)
      in (turn M l, b))"

definition Eclip2Eq where
  "Eclip2Eq M l b eo =
     (let sl = lib_sin M l; seo = lib_sin M eo; ceo = lib_cos M eo;
          ra = lib_atan2 M (sl * ceo - lib_tan M b * seo) (lib_cos M l);
          dec = lib_asin M (lib_sin M b * ceo + lib_cos M b * seo * sl)
      in (turn M ra, dec))"

definition ParallacticAngle where
  "ParallacticAngle M S ha dec =
     lib_atan2 M (lib_sin M ha) (lib_tan M (at_lat S) * lib_cos M dec - lib_sin M dec * lib_cos M ha)"

section \<open>Refraction and distance\<close>

definition TrueRefract where
  "TrueRefract M h0 airp temp =
     (let d = lib_dec M;
          k = (airp / d 10100 (-1)) * (d 2830 (-1) / (d 2730 (-1) + temp));
          h0 = h0 * AU_R2D M;
          R0 = d 102 (-2) / lib_tan M ((h0 + d 103 (-1) / (h0 + d 511 (-2))) * AU_D2R M) + d 19279 (-7)
      in R0 * k)"

definition VisualRefract where
  "VisualRefract M h airp temp =
     (let d = lib_dec M;
          k = (airp / d 10100 (-1)) * (d 2830 (-1) / (d 2730 (-1) + temp));
          h = h * AU_R2D M;
          R0 = d 10 (-1) / lib_tan M ((h + d 731 (-2) / (h + d 44 (-1))) * AU_D2R M) + d 13515 (-7)
      in R0 * k)"

definition SphereAngle where
  "SphereAngle M l1 b1 l2 b2 =
     lib_acos M (lib_sin M b1 * lib_sin M b2 + lib_cos M b1 * lib_cos M b2 * lib_cos M (l1 - l2))"

section \<open>From and to the epoch 2000\<close>

definition aberration where
  "aberration M lsun ec pl l b =
     (let K = lib_dec M (-2049552) (-5) * AU_AS2R M
      in (K * (lib_cos M (lsun - l) - ec * lib_cos M (pl - l)) / lib_cos M b,
          K * lib_sin M b * (lib_sin M (lsun - l) - ec * lib_sin M (pl - l))))"

definition precess where
  "precess M x y z l b =
     (let cx = lib_cos M x; cb = lib_cos M b; syml = lib_sin M (y - l); sx = lib_sin M x; sb = lib_sin M b;
          A = cx * cb * syml - sx * sb;
          B = cb * lib_cos M (y - l);
          C = cx * sb + sx * cb * syml
      in (y + z - lib_atan2 M A B, lib_asin M C))"

definition EqTransfer where
  "EqTransfer M rai deci S =
     (let d = lib_dec M;
          (t, S) = getJC M S;
          eps0 = d 84381406 (-3) * AU_AS2R M;
          (eps, S) = getMO M S; (nl, S) = getNL M S; (no, S) = getNO M S;
          (ml, S) = getMLSUN M S; (ce, S) = getCENTER M S; lsun = ml + ce;
          (ec, S) = getECC M S; (pl, S) = getPL M S;
          (l, b) = Eq2Eclip M rai deci eps0;
          x = (d 470029 (-4) - (d 3302 (-5) - d 6 (-5) * t) * t) * t * AU_AS2R M;
          y = (d 6295549824 (-4) - (d 8698089 (-4) - d 3536 (-5) * t) * t) * AU_AS2R M;
          z = (d 50290966 (-4) + (d 111113 (-5) - d 6 (-6) * t) * t) * t * AU_AS2R M;
          (l, b) = precess M x y z l b;
          (dl, db) = aberration M lsun ec pl l b
      in (Eclip2Eq M (l + (nl + dl)) (b + db) (eps + no), S))"

definition EqReTransfer where
  "EqReTransfer M rai deci S =
     (let d = lib_dec M;
          (jc, S) = getJC M S; t = lib_int M (-1) * jc;
          eps0 = d 84381406 (-3) * AU_AS2R M;
          (eps, S) = getMO M S; (nl, S) = getNL M S; (no, S) = getNO M S;
          (ml, S) = getMLSUN M S; (ce, S) = getCENTER M S; lsun = ml + ce;
          (ec, S) = getECC M S; (pl, S) = getPL M S;
          (l0, b0) = Eq2Eclip M rai deci (eps + no);
          (dl, db) = aberration M lsun ec pl l0 b0;
          l = l0 - nl - dl; b = b0 - db;
          (dl, db) = aberration M lsun ec pl l b;
          l = l0 - nl - dl; b = b0 - db;
          x = (d 470029 (-4) + (d 3301 (-5) + d 6 (-5) * t) * t) * t * AU_AS2R M;
          y = (d 6295549824 (-4) - (d 41592878 (-4) - d 114649 (-5) * t) * t) * AU_AS2R M;
          z = (d 50290966 (-4) - (d 111113 (-5) + d 6 (-6) * t) * t) * t * AU_AS2R M;
          (l, b) = precess M x y z l b
      in (Eclip2Eq M l b eps0, S))"

section \<open>The Moon\<close>

text \<open>Newton's iteration for the eccentric anomaly; nothing bounds the number of steps.\<close>

definition kepler_next :: "'a::{plus,minus,times,inverse} libm \<Rightarrow> 'a \<Rightarrow> 'a \<Rightarrow> 'a \<Rightarrow> 'a" where
  "kepler_next M e ma E = E - (E - e * lib_sin M E - ma) / (lib_int M 1 - e * lib_cos M E)"

partial_function (option) kepler_loop ::
  "'a::{plus,minus,times,inverse,abs,ord} libm \<Rightarrow> 'a \<Rightarrow> 'a \<Rightarrow> 'a \<Rightarrow> 'a \<Rightarrow> 'a option" where
  "kepler_loop M e ma E0 E1 =
     (if lib_dec M 5 (-3) < \<bar>E0 - E1\<bar> then kepler_loop M e ma E1 (kepler_next M e ma E1) else Some E1)"

text \<open>Eccentric anomaly, starting with two explicit steps.\<close>

definition eccentric_anomaly where
  "eccentric_anomaly M e ma =
     (let E0 = cycmod M (ma + e * lib_sin M ma * (lib_int M 1 + e * lib_cos M ma)) (AU_2PI M);
          E1 = cycmod M (kepler_next M e ma E0) (AU_2PI M)
      in kepler_loop M e ma E0 E1)"

text \<open>The perturbations, in degrees and Earth radii.\<close>

definition moon_longitude where
  "moon_longitude M ma D F Ms lon =
     (let d = lib_dec M; s = lib_sin M; two = lib_dec M 20 (-1) in
      lon * AU_R2D M - d 1274 (-3) * s (ma - two * D) + d 658 (-3) * s (two * D)
        - d 186 (-3) * s Ms - d 59 (-3) * s (two * (ma - D)) - d 57 (-3) * s (ma - lib_int M 2 * D + Ms)
        + d 53 (-3) * s (ma + two * D) + d 46 (-3) * s (two * D - Ms) + d 41 (-3) * s (ma - Ms)
        - d 35 (-3) * s D - d 31 (-3) * s (ma + Ms) - d 15 (-3) * s (two * (F - D))
        + d 11 (-3) * s (ma - d 40 (-1) * D))"

definition moon_latitude where
  "moon_latitude M ma D F lat =
     (let d = lib_dec M; s = lib_sin M; two = lib_dec M 20 (-1) in
      lat * AU_R2D M - d 173 (-3) * s (F - two * D) - d 55 (-3) * s (ma - F - two * D)
        - d 46 (-3) * s (ma + F - two * D) + d 33 (-3) * s (F + two * D) + d 17 (-3) * s (two * ma + F))"

definition moon_distance where
  "moon_distance M ma D r =
     (let d = lib_dec M; two = lib_dec M 20 (-1) in
      r - d 58 (-2) * lib_cos M (ma - two * D) - d 46 (-2) * lib_cos M (two * D))"

text \<open>\<open>None\<close>: the iteration does not end. The obliquity and the Sun are those of the stored time.\<close>

definition MoonPosition_at where
  "MoonPosition_at M mjd S =
     (let d = lib_dec M;
          mjd0 = mjd - lib_int M 51543;
          nd = (d 1251228 (-4) - d 529538083 (-10) * mjd0) * AU_D2R M;
          i = d 51454 (-4) * AU_D2R M;
          w = (d 3180634 (-4) + d 1643573223 (-10) * mjd0) * AU_D2R M;
          a = d 602666 (-4);
          e = d 54900 (-6);
          ma = (d 1153654 (-4) + d 130649929509 (-10) * mjd0) * AU_D2R M;
          (eo, S) = getTrueObliquity M S;
          (Ls, S) = getMLSUN M S;
          Lm = nd + w + ma;
          (Ms, S) = getMASUN M S;
          D = Lm - Ls;
          F = Lm - nd
      in case eccentric_anomaly M e ma of
           None \<Rightarrow> None
         | Some E0 \<Rightarrow>
             let x = a * (lib_cos M E0 - e);
                 y = a * lib_sqrt M (lib_int M 1 - e * e) * lib_sin M E0;
                 r = lib_sqrt M (x * x + y * y);
                 v = lib_atan2 M y x;
                 xeclip = r * (lib_cos M nd * lib_cos M (v + w) - lib_sin M nd * lib_sin M (v + w) * lib_cos M i);
                 yeclip = r * (lib_sin M nd * lib_cos M (v + w) + lib_cos M nd * lib_sin M (v + w) * lib_cos M i);
                 zeclip = r * lib_sin M (v + w) * lib_sin M i;
                 (r, longitude, latitude) = Cart2Sphere M xeclip yeclip zeclip;
                 longitude = moon_longitude M ma D F Ms longitude;
                 latitude = moon_latitude M ma D F latitude;
                 r = moon_distance M ma D r;
                 (xeclip, yeclip, zeclip) = Sphere2Cart M r (longitude * AU_D2R M) (latitude * AU_D2R M);
                 xequat = xeclip;
                 yequat = yeclip * lib_cos M eo - zeclip * lib_sin M eo;
                 zequat = yeclip * lib_sin M eo + zeclip * lib_cos M eo
             in Some (Cart2Sphere M xequat yequat zequat, S))"

text \<open>The flag of the table that says the position is known is never set: the value is.\<close>

definition MoonPosition where
  "MoonPosition M S =
     (if at_valid S ATS_POSITION_MOON then
        Some ((at_values S ATS_POSITION_MOON_R, at_values S ATS_POSITION_MOON_RA, at_values S ATS_POSITION_MOON_DEC), S)
      else case MoonPosition_at M (getMJD S) S of
          None \<Rightarrow> None
        | Some ((r, ra, dec), S) \<Rightarrow>
            Some ((r, ra, dec),
              set_value ATS_POSITION_MOON (lib_int M 1) (set_value ATS_POSITION_MOON_DEC dec
                (set_value ATS_POSITION_MOON_RA ra (set_value ATS_POSITION_MOON_R r S)))))"

definition MoonTopo where
  "MoonTopo M S =
     (if at_valid S ATS_POSITION_MOON_TOPO then
        Some ((at_values S ATS_POSITION_MOON_TOPO_R, at_values S ATS_POSITION_MOON_TOPO_RA, at_values S ATS_POSITION_MOON_TOPO_DEC), S)
      else
        let d = lib_dec M; lat = at_lat S;
            gclat = (lat * AU_R2D M - d 1924 (-4) * lib_sin M (d 20 (-1) * lat)) * AU_D2R M;
            rho = d 99883 (-5) + d 167 (-5) * lib_cos M (d 20 (-1) * lat);
            (lmst, S) = getLMST M S
        in case MoonPosition M S of
             None \<Rightarrow> None
           | Some ((r, ra, dec), S) \<Rightarrow>
               let ha = lmst - ra;
                   mpar = lib_asin M (d 10 (-1) / r);
                   g = lib_atan2 M (lib_tan M gclat) (lib_cos M ha);
                   ra = ra - mpar * rho * lib_cos M gclat * lib_sin M ha / lib_cos M dec;
                   dec = (if d 1 (-4) \<le> \<bar>g\<bar>
                          then dec - mpar * rho * lib_sin M gclat * lib_sin M (g - dec) / lib_sin M g
                          else dec + mpar * rho * lib_sin M gclat * lib_sin M dec * lib_cos M ha)
               in Some ((r, ra, dec),
                    set_value ATS_POSITION_MOON_TOPO_DEC dec (set_value ATS_POSITION_MOON_TOPO_RA ra
                      (set_value ATS_POSITION_MOON_TOPO_R r (set_valid ATS_POSITION_MOON_TOPO S)))))"

section \<open>Sunrise, sunset, twilight\<close>

text \<open>One of the two events, from the first estimate \<open>m\<close> of its time as a fraction of the day.\<close>

definition sun_event where
  "sun_event M S jdn t0 h0 m =
     (let t = t0 + lib_dec M 360985647 (-6) * m * AU_D2R M;
          (ra, dec) = SunPosition M (JulianCentury M (lib_int M jdn + m));
          (azi, h) = Eq2Horizon M S (t + at_lgt S - ra) dec;
          m = m + (h - h0) / (AU_2PI M * lib_cos M dec * lib_cos M (at_lat S) * lib_sin M (t + at_lgt S - ra))
      in cycmod M (cycmod M m (lib_dec M 10 (-1)) * lib_dec M 240 (-1) + lib_int M (at_tz S)) (lib_dec M 240 (-1)))"

text \<open>The code and, when it is 0, the times of sunrise and sunset.\<close>

definition TimeOfSunAlt where
  "TimeOfSunAlt M S alt =
     (let jdn = lib_trunc M (getMJD S);
          h0 = alt * AU_D2R M;
          (ra, dec) = SunPosition M (JulianCentury M (lib_int M jdn));
          y = lib_sin M h0 - lib_sin M (at_lat S) * lib_sin M dec;
          x = lib_cos M (at_lat S) * lib_cos M dec;
          dm = y / x
      in if x < lib_dec M 1 (-4) \<and> lib_dec M 0 0 < y then (1, None)
         else if x < lib_dec M 1 (-4) \<and> y < lib_dec M 0 0 then (-1, None)
         else if lib_dec M 10 (-1) \<le> dm then (1 :: int, None)
         else if dm \<le> lib_dec M (-10) (-1) then (-1, None)
         else
           let dm = lib_acos M dm;
               t0 = GreenwichSiderealTime M (lib_int M jdn);
               m0 = cycmod M ((ra - at_lgt S - t0) / AU_2PI M) (lib_dec M 10 (-1));
               sunrise = sun_event M S jdn t0 h0 (cycmod M (m0 - dm / AU_2PI M) (lib_dec M 10 (-1)));
               sunset = sun_event M S jdn t0 h0 (cycmod M (m0 + dm / AU_2PI M) (lib_dec M 10 (-1)))
           in (0, Some (sunrise, sunset)))"

definition TwilightTime where
  "TwilightTime M S ty =
     TimeOfSunAlt M S (if ty = (1::int) then lib_dec M (-60) (-1) else if ty = 2 then lib_dec M (-120) (-1)
       else if ty = 3 then lib_dec M (-180) (-1) else lib_dec M 0 0)"

end
