(* ===== verification/ATS_Text.thy ===== *)
theory ATS_Text
  imports ATS_Coords
begin

text \<open>
  Hours and degrees as sexagesimal strings. The parsers collect the characters of a field in
  \<open>char buff[20]\<close>; writing past it is \<open>BufferOverrun\<close>. The printers first bring the number into a
  range by repeated addition or subtraction, a loop that need not end.
\<close>

section \<open>Library functions\<close>

text \<open>\<open>atof\<close> on a text of digits with at most one point, all a field can hold.\<close>

definition atof :: "'a libm \<Rightarrow> string \<Rightarrow> 'a" where
  "atof M s = (let (ip, fp, r) = split_mantissa isdigit s in lib_dec M (dec_val (ip @ fp)) (- int (length fp)))"

text \<open>\<open>%0<w>.<p>f\<close> for a number with the sign and the rounded magnitude \<open>n / 10 ^ p\<close>.\<close>

definition fmt_fixed :: "nat \<Rightarrow> nat \<Rightarrow> bool \<Rightarrow> int \<Rightarrow> string" where
  "fmt_fixed w p neg n =
     (let sg = (if neg then ''-'' else []);
          ds = show_dec (n div 10 ^ p) @ ''.'' @ fmt_d False True p (n mod 10 ^ p)
      in sg @ replicate (w - length sg - length ds) (CHR ''0'') @ ds)"

fun printf_double :: "nat \<Rightarrow> nat \<Rightarrow> double \<Rightarrow> string" where
  "printf_double w p (Fin s m e) =
     fmt_fixed w p s (if 0 \<le> e then m * 2 ^ nat e * 10 ^ p else rne (m * 10 ^ p) (2 ^ nat (- e)))"
| "printf_double w p (Inf s) = (let t = (if s then ''-inf'' else ''inf'') in replicate (w - length t) (CHR '' '') @ t)"
| "printf_double w p NaN = replicate (w - 3) (CHR '' '') @ ''nan''"

text \<open>Nearest integer, ties to even.\<close>

definition round_even :: "real \<Rightarrow> int" where
  "round_even x = (let f = \<lfloor>x\<rfloor>; r = x - of_int f in if 1 / 2 < r \<or> (r = 1 / 2 \<and> odd f) then f + 1 else f)"

definition printf_real :: "nat \<Rightarrow> nat \<Rightarrow> real \<Rightarrow> string" where
  "printf_real w p x = fmt_fixed w p (x < 0) (round_even (\<bar>x\<bar> * 10 ^ p))"

section \<open>Reading\<close>

text \<open>The variables of the loop; \<open>ts_buff\<close> is what \<open>buff\<close> holds up to \<open>j\<close>.\<close>

record 'a scan =
  ts_h :: 'a
  ts_m :: 'a
  ts_part :: int
  ts_dot :: int
  ts_buff :: string

text \<open>\<open>buff[j++] = ch\<close>, and \<open>buff[j] = 0\<close> followed by \<open>atof(buff)\<close>.\<close>

definition buff_put :: "char \<Rightarrow> 'a scan \<Rightarrow> crash + 'a scan" where
  "buff_put ch T = (if length (ts_buff T) < 20 then Inr (T\<lparr>ts_buff := ts_buff T @ [ch]\<rparr>) else Inl BufferOverrun)"

definition buff_end :: "'a libm \<Rightarrow> 'a scan \<Rightarrow> crash + 'a" where
  "buff_end M T = (if length (ts_buff T) < 20 then Inr (atof M (ts_buff T)) else Inl BufferOverrun)"

text \<open>The end of a field: the value goes to the hours or the minutes.\<close>

definition next_part :: "'a libm \<Rightarrow> 'a scan \<Rightarrow> crash + 'a scan" where
  "next_part M T = bindR (buff_end M T) (\<lambda>v.
     Inr (if ts_part T = 0 then T\<lparr>ts_h := v, ts_part := 1, ts_buff := []\<rparr>
          else if ts_part T = 1 then T\<lparr>ts_m := v, ts_part := 2, ts_buff := []\<rparr>
          else T\<lparr>ts_part := ts_part T + 1, ts_buff := []\<rparr>))"

text \<open>One character: \<open>Inl\<close> the code of an early return. \<open>full\<close>: the field has all its digits.\<close>

definition scan_char :: "'a libm \<Rightarrow> (int \<Rightarrow> nat \<Rightarrow> bool) \<Rightarrow> 'a scan \<Rightarrow> char \<Rightarrow> crash + (int + 'a scan)" where
  "scan_char M full T ch =
     (if isdigit ch then
        bindR (if ts_dot T = 0 \<and> full (ts_part T) (length (ts_buff T)) then next_part M T else Inr T)
          (\<lambda>T. bindR (buff_put ch T) (\<lambda>T. Inr (Inr T)))
      else if ch = CHR '' '' \<or> ch = CHR '':'' then
        (if 0 < ts_dot T \<or> 2 \<le> ts_part T then Inr (Inl (-2))
         else if ts_buff T \<noteq> [] then bindR (next_part M T) (\<lambda>T. Inr (Inr T))
         else Inr (Inr T))
      else if ch = CHR ''.'' then
        (if 0 < ts_dot T then Inr (Inl (-3))
         else bindR (buff_put ch (T\<lparr>ts_dot := ts_dot T + 1\<rparr>)) (\<lambda>T. Inr (Inr T)))
      else Inr (Inl (-4)))"

fun scan_loop :: "'a libm \<Rightarrow> (int \<Rightarrow> nat \<Rightarrow> bool) \<Rightarrow> 'a scan \<Rightarrow> string \<Rightarrow> crash + (int + 'a scan)" where
  "scan_loop M full T [] = Inr (Inr T)"
| "scan_loop M full T (ch # s) =
     bindR (scan_char M full T ch) (\<lambda>r. case r of Inl c \<Rightarrow> Inr (Inl c) | Inr T \<Rightarrow> scan_loop M full T s)"

definition scan_new :: "'a libm \<Rightarrow> 'a scan" where
  "scan_new M = \<lparr>ts_h = lib_dec M 0 0, ts_m = lib_dec M 0 0, ts_part = 0, ts_dot = 0, ts_buff = []\<rparr>"

text \<open>The value of the fields read.\<close>

definition scan_value :: "'a::{plus,inverse} libm \<Rightarrow> 'a scan \<Rightarrow> 'a \<Rightarrow> 'a" where
  "scan_value M T v =
     (let sixty = lib_dec M 600 (-1) in
      if ts_part T = 0 then v
      else if ts_part T = 1 then ts_h T + v / sixty
      else ts_h T + (ts_m T + v / sixty) / sixty)"

definition hour_full :: "int \<Rightarrow> nat \<Rightarrow> bool" where
  "hour_full part j \<longleftrightarrow> part \<le> 1 \<and> j = 2"

definition deg_full :: "int \<Rightarrow> nat \<Rightarrow> bool" where
  "deg_full part j \<longleftrightarrow> part = 0 \<and> j = 3 \<or> part = 1 \<and> j = 2"

text \<open>\<open>None\<close> is the null pointer. The code, and the number when the code is 0.\<close>

definition HourStr2Dbl :: "'a::{plus,inverse} libm \<Rightarrow> string option \<Rightarrow> crash + (int \<times> 'a option)" where
  "HourStr2Dbl M str =
     (case str of
        None \<Rightarrow> Inr (-1, None)
      | Some s \<Rightarrow>
          if s = [] then Inr (-1, None)
          else bindR (scan_loop M hour_full (scan_new M) s) (\<lambda>r.
            case r of
              Inl c \<Rightarrow> Inr (c, None)
            | Inr T \<Rightarrow> bindR (buff_end M T) (\<lambda>v. Inr (0, Some (scan_value M T v)))))"

definition DegStr2Dbl :: "'a::{plus,times,inverse} libm \<Rightarrow> string option \<Rightarrow> crash + (int \<times> 'a option)" where
  "DegStr2Dbl M str =
     (case str of
        None \<Rightarrow> Inr (-1, None)
      | Some [] \<Rightarrow> Inr (-1, None)
      | Some (ch # s) \<Rightarrow>
          let sign = (if ch = CHR ''-'' then lib_dec M (-10) (-1) else lib_dec M 10 (-1));
              t = (if ch = CHR ''+'' \<or> ch = CHR ''-'' then s else ch # s)
          in bindR (scan_loop M deg_full (scan_new M) t) (\<lambda>r.
            case r of
              Inl c \<Rightarrow> Inr (c, None)
            | Inr T \<Rightarrow> bindR (buff_end M T) (\<lambda>v. Inr (0, Some (scan_value M T v * sign)))))"

section \<open>Writing\<close>

text \<open>The two loops that bring the number into the range.\<close>

partial_function (option) add_turns :: "'a::{plus,ord} \<Rightarrow> 'a \<Rightarrow> 'a \<Rightarrow> 'a option" where
  "add_turns lo T x = (if x < lo then add_turns lo T (x + T) else Some x)"

partial_function (option) sub_turns :: "'a::{minus,ord} \<Rightarrow> 'a \<Rightarrow> 'a \<Rightarrow> 'a option" where
  "sub_turns hi T x = (if hi \<le> x then sub_turns hi T (x - T) else Some x)"

text \<open>
  Whole part, minutes and seconds; seconds above \<open>cap\<close> become \<open>cap\<close>. The factor 60 of the seconds is
  an \<open>int\<close> in the hours and a \<open>double\<close> in the degrees, which is the same number.
\<close>

definition sexagesimal :: "'a::{minus,times,ord} libm \<Rightarrow> 'a \<Rightarrow> 'a \<Rightarrow> int \<times> int \<times> 'a" where
  "sexagesimal M cap x =
     (let sixty = lib_dec M 600 (-1);
          h = lib_trunc M x;
          m = lib_trunc M ((x - lib_int M h) * sixty);
          s = ((x - lib_int M h) * sixty - lib_int M m) * sixty
      in (h, m, if cap < s then cap else s))"

text \<open>\<open>pf w p\<close> is the conversion \<open>%0<w>.<p>f\<close>.\<close>

definition HourDbl2Str :: "'a::{plus,minus,times,ord} libm \<Rightarrow> (nat \<Rightarrow> nat \<Rightarrow> 'a \<Rightarrow> string) \<Rightarrow> 'a \<Rightarrow> string option" where
  "HourDbl2Str M pf hour =
     Option.bind (add_turns (lib_int M 0) (lib_dec M 240 (-1)) hour) (\<lambda>hour.
     Option.bind (sub_turns (lib_dec M 360 (-1)) (lib_dec M 240 (-1)) hour) (\<lambda>hour.
       let (h, m, s) = sexagesimal M (lib_dec M 59999 (-3)) hour
       in Some (fmt_d False True 2 h @ '':'' @ fmt_d False True 2 m @ '':'' @ pf 6 3 s)))"

definition DegDbl2Str :: "'a::{plus,minus,times,ord} libm \<Rightarrow> (nat \<Rightarrow> nat \<Rightarrow> 'a \<Rightarrow> string) \<Rightarrow> 'a \<Rightarrow> string option" where
  "DegDbl2Str M pf degree =
     Option.bind (add_turns (lib_int M 0) (lib_dec M 3600 (-1)) degree) (\<lambda>degree.
     Option.bind (sub_turns (lib_dec M 3600 (-1)) (lib_dec M 3600 (-1)) degree) (\<lambda>degree.
       let (d, m, s) = sexagesimal M (lib_dec M 5999 (-2)) degree
       in Some (show_int d @ '':'' @ fmt_d False True 2 m @ '':'' @ pf 5 2 s)))"

text \<open>\<open>None\<close> is the null pointer, for a declination out of range.\<close>

definition DecDbl2Str :: "'a::{minus,uminus,times,ord} libm \<Rightarrow> (nat \<Rightarrow> nat \<Rightarrow> 'a \<Rightarrow> string) \<Rightarrow> 'a \<Rightarrow> string option" where
  "DecDbl2Str M pf dec =
     (if dec < - lib_dec M 900 (-1) \<or> lib_dec M 900 (-1) < dec then None
      else
        let neg = dec < lib_int M 0;
            dec = (if neg then - dec else dec);
            (d, m, s) = sexagesimal M (lib_dec M 5999 (-2)) dec
        in Some ((if neg then ''-'' else ''+'') @ fmt_d False True 2 d @ '':'' @ fmt_d False True 2 m @ '':'' @ pf 5 2 s))"

end
