(* ===== verification/ATS_Text_Properties.thy ===== *)
theory ATS_Text_Properties
  imports ATS_Text ATS_Dates
begin

text \<open>
  Properties of the sexagesimal strings: which texts fit into the buffer of the parsers, what is
  printed is read back, and for which numbers the printers return.
\<close>

section \<open>The buffer\<close>

lemma buff_simps:
  "length (ts_buff T) < 20 \<Longrightarrow> buff_put ch T = Inr (T\<lparr>ts_buff := ts_buff T @ [ch]\<rparr>)"
  "length (ts_buff T) < 20 \<Longrightarrow> buff_end M T = Inr (atof M (ts_buff T))"
  "length (ts_buff T) < 20 \<Longrightarrow> \<exists>T'. next_part M T = Inr T' \<and> ts_buff T' = [] \<and> ts_dot T' = ts_dot T"
  by (simp_all add: buff_put_def buff_end_def next_part_def)

text \<open>A character makes the field at most one longer.\<close>

lemma scan_char_grows:
  assumes "length (ts_buff T) < 20"
  shows "(\<exists>c \<in> {-2, -3, -4}. scan_char M full T ch = Inr (Inl c))
    \<or> (\<exists>T'. scan_char M full T ch = Inr (Inr T') \<and> length (ts_buff T') \<le> Suc (length (ts_buff T)))"
proof -
  obtain T1 where T1: "next_part M T = Inr T1" "ts_buff T1 = []" using buff_simps(3) [OF assms] by blast
  then show ?thesis using assms by (auto simp: scan_char_def buff_simps(1))
qed

lemma scan_loop_fits:
  assumes "length (ts_buff T) + length s < 20"
  shows "(\<exists>c \<in> {-2, -3, -4}. scan_loop M full T s = Inr (Inl c))
    \<or> (\<exists>T'. scan_loop M full T s = Inr (Inr T') \<and> length (ts_buff T') < 20)"
  using assms
proof (induction s arbitrary: T)
  case (Cons ch s)
  then have "length (ts_buff T) < 20" by simp
  from scan_char_grows [OF this, of M full ch] show ?case
  proof (elim disjE bexE exE conjE)
    fix T' assume T': "scan_char M full T ch = Inr (Inr T')" "length (ts_buff T') \<le> Suc (length (ts_buff T))"
    then have "length (ts_buff T') + length s < 20" using Cons.prems by simp
    from Cons.IH [OF this] T'(1) show ?thesis by simp
  qed auto
qed simp

text \<open>Digits go to the field as long as it is not full.\<close>

lemma scan_digits:
  assumes "\<forall>c \<in> set ds. isdigit c" and "length (ts_buff T) + length ds \<le> 20"
    and "ts_dot T \<noteq> 0 \<or> (\<forall>j < length (ts_buff T) + length ds. \<not> full (ts_part T) j)"
  shows "scan_loop M full T (ds @ s) = scan_loop M full (T\<lparr>ts_buff := ts_buff T @ ds\<rparr>) s"
  using assms
proof (induction ds arbitrary: T)
  case (Cons c ds)
  have "\<not> (ts_dot T = 0 \<and> full (ts_part T) (length (ts_buff T)))" using Cons.prems(3) by auto
  then have "scan_char M full T c = Inr (Inr (T\<lparr>ts_buff := ts_buff T @ [c]\<rparr>))"
    using Cons.prems(1,2) by (auto simp: scan_char_def buff_simps)
  then show ?case using Cons.IH [of "T\<lparr>ts_buff := ts_buff T @ [c]\<rparr>"] Cons.prems by simp
qed simp

lemma scan_overrun:
  assumes "\<forall>c \<in> set ds. isdigit c" and "ts_dot T \<noteq> 0" and "20 \<le> length (ts_buff T) + length ds" and "length (ts_buff T) \<le> 20"
  shows "bindR (scan_loop M full T ds) (\<lambda>r. case r of Inl c \<Rightarrow> f c | Inr T \<Rightarrow> bindR (buff_end M T) (g T)) = Inl BufferOverrun"
proof -
  define k where "k = 20 - length (ts_buff T)"
  have k: "length (ts_buff T) + length (take k ds) = 20" using assms(3,4) by (simp add: k_def)
  define T' where "T' = T\<lparr>ts_buff := ts_buff T @ take k ds\<rparr>"
  have "scan_loop M full T (take k ds @ drop k ds) = scan_loop M full T' (drop k ds)"
    unfolding T'_def using assms(1,2) k by (intro scan_digits) (auto dest: in_set_takeD)
  then have "scan_loop M full T ds = scan_loop M full T' (drop k ds)" by (simp only: append_take_drop_id)
  moreover have "length (ts_buff T') = 20" "ts_dot T' \<noteq> 0" using k assms(2) by (simp_all add: T'_def)
  moreover have "\<forall>c \<in> set (drop k ds). isdigit c" using assms(1) by (auto dest: in_set_dropD)
  ultimately show ?thesis
    by (cases "drop k ds") (auto simp: scan_char_def buff_put_def buff_end_def)
qed

text \<open>
  C38: a text of at most 19 characters never overruns the buffer of \<open>HourStr2Dbl\<close> or \<open>DegStr2Dbl\<close>, whatever
  the characters: the code is 0 to -4 and a number is given exactly when it is 0. A point followed
  by 19 or more digits overruns the buffer of both.
\<close>

theorem parse_fits:
  assumes "\<And>s. str = Some s \<Longrightarrow> length s \<le> 19" and "19 \<le> length ds" and "\<forall>c \<in> set ds. isdigit c"
  shows "(\<exists>c v. HourStr2Dbl M str = Inr (c, v) \<and> c \<in> {0, -1, -2, -3, -4} \<and> (c = 0 \<longleftrightarrow> v \<noteq> None))
    \<and> (\<exists>c v. DegStr2Dbl M str = Inr (c, v) \<and> c \<in> {0, -1, -2, -3, -4} \<and> (c = 0 \<longleftrightarrow> v \<noteq> None))
    \<and> HourStr2Dbl M (Some (CHR ''.'' # ds)) = Inl BufferOverrun
    \<and> DegStr2Dbl M (Some (CHR ''.'' # ds)) = Inl BufferOverrun"
proof (intro conjI)
  have new: "length (ts_buff (scan_new M)) = 0" "ts_dot (scan_new M) = 0" by (simp_all add: scan_new_def)
  show "\<exists>c v. HourStr2Dbl M str = Inr (c, v) \<and> c \<in> {0, -1, -2, -3, -4} \<and> (c = 0 \<longleftrightarrow> v \<noteq> None)"
  proof (cases str)
    case (Some s)
    then show ?thesis using scan_loop_fits [of "scan_new M" s M hour_full] assms(1)
      by (auto simp: HourStr2Dbl_def new buff_simps)
  qed (simp add: HourStr2Dbl_def)
  show "\<exists>c v. DegStr2Dbl M str = Inr (c, v) \<and> c \<in> {0, -1, -2, -3, -4} \<and> (c = 0 \<longleftrightarrow> v \<noteq> None)"
  proof (cases str)
    case (Some s)
    show ?thesis
    proof (cases s)
      case (Cons ch u)
      then have "length u < 20" "length (ch # u) < 20" using assms(1) [OF Some] by simp_all
      with scan_loop_fits [of "scan_new M" u M deg_full] scan_loop_fits [of "scan_new M" "ch # u" M deg_full] show ?thesis
        by (auto simp: DegStr2Dbl_def Some Cons new buff_simps Let_def)
    qed (simp add: DegStr2Dbl_def Some)
  qed (simp add: DegStr2Dbl_def)
  define T where "T = (scan_new M)\<lparr>ts_dot := 1, ts_buff := ''.''\<rparr>"
  have T: "scan_char M full (scan_new M) (CHR ''.'') = Inr (Inr T)" for full
    by (simp add: scan_char_def scan_new_def T_def buff_put_def isdigit_def code_of_def)
  have T2: "ts_dot T \<noteq> 0" "20 \<le> length (ts_buff T) + length ds" "length (ts_buff T) \<le> 20" using assms(2) by (simp_all add: T_def)
  show "HourStr2Dbl M (Some (CHR ''.'' # ds)) = Inl BufferOverrun"
    using scan_overrun [OF assms(3) T2] by (simp add: HourStr2Dbl_def T)
  show "DegStr2Dbl M (Some (CHR ''.'' # ds)) = Inl BufferOverrun"
    using scan_overrun [OF assms(3) T2] by (simp add: DegStr2Dbl_def T Let_def)
qed

theorem parse_fits_witness:
  "HourStr2Dbl libm_real (Some (''.'' @ replicate 19 (CHR ''3''))) = Inl BufferOverrun"
  using parse_fits [of None "replicate 19 (CHR ''3'')" libm_real] by (simp add: isdigit_def code_of_def)

section \<open>What is printed is read back\<close>

lemma scan_separator:
  assumes "ts_dot T = 0" and "ts_part T < 2" and "ts_buff T \<noteq> []" and "length (ts_buff T) < 20" and "next_part M T = Inr T'"
  shows "scan_loop M full T (CHR '':'' # s) = scan_loop M full T' s"
  using assms by (simp add: scan_char_def isdigit_def code_of_def)

lemma scan_point:
  assumes "ts_dot T = 0" and "length (ts_buff T) < 20"
  shows "scan_loop M full T (CHR ''.'' # s) = scan_loop M full (T\<lparr>ts_dot := 1, ts_buff := ts_buff T @ ''.''\<rparr>) s"
  using assms by (simp add: scan_char_def buff_put_def isdigit_def code_of_def)

text \<open>Three fields, the last with a point.\<close>

lemma scan_fields:
  assumes "\<forall>c \<in> set (a @ b @ s @ t). isdigit c" and "a \<noteq> []" and "b \<noteq> []"
    and "length a < 20" and "length b < 20" and "length s + length t < 19"
    and "\<forall>j < length a. \<not> full 0 j" and "\<forall>j < length b. \<not> full 1 j" and "\<forall>j. \<not> full 2 j"
  shows "scan_loop M full (scan_new M) (a @ '':'' @ b @ '':'' @ s @ ''.'' @ t)
    = Inr (Inr \<lparr>ts_h = atof M a, ts_m = atof M b, ts_part = 2, ts_dot = 1, ts_buff = s @ ''.'' @ t\<rparr>)"
proof -
  let ?T = "\<lambda>h m p d b. \<lparr>ts_h = h, ts_m = m, ts_part = p, ts_dot = d, ts_buff = b\<rparr>"
  have "scan_loop M full (scan_new M) (a @ '':'' @ b @ '':'' @ s @ ''.'' @ t)
      = scan_loop M full (?T (lib_dec M 0 0) (lib_dec M 0 0) 0 0 a) ('':'' @ b @ '':'' @ s @ ''.'' @ t)"
    using assms by (subst scan_digits) (auto simp: scan_new_def)
  also have "\<dots> = scan_loop M full (?T (atof M a) (lib_dec M 0 0) 1 0 []) (b @ '':'' @ s @ ''.'' @ t)"
    unfolding append_Cons append_Nil using assms(2,4) by (intro scan_separator) (simp_all add: next_part_def buff_simps)
  also have "\<dots> = scan_loop M full (?T (atof M a) (lib_dec M 0 0) 1 0 b) ('':'' @ s @ ''.'' @ t)"
    using assms by (subst scan_digits) auto
  also have "\<dots> = scan_loop M full (?T (atof M a) (atof M b) 2 0 []) (s @ ''.'' @ t)"
    unfolding append_Cons append_Nil using assms(3,5) by (intro scan_separator) (simp_all add: next_part_def buff_simps)
  also have "\<dots> = scan_loop M full (?T (atof M a) (atof M b) 2 0 s) (''.'' @ t)"
    using assms by (subst scan_digits) auto
  also have "\<dots> = scan_loop M full (?T (atof M a) (atof M b) 2 1 (s @ ''.'')) (t @ [])"
    unfolding append_Cons append_Nil append_Nil2 using assms(6) by (subst scan_point) simp_all
  also have "\<dots> = Inr (Inr (?T (atof M a) (atof M b) 2 1 (s @ ''.'' @ t)))"
    using assms by (subst scan_digits) auto
  finally show ?thesis .
qed

lemma atof_digits: "\<forall>c \<in> set ds. isdigit c \<Longrightarrow> atof M ds = lib_dec M (dec_val ds) 0"
proof -
  assume d: "\<forall>c \<in> set ds. isdigit c"
  then have td: "takeWhile isdigit ds = ds" "dropWhile isdigit ds = []" by (simp_all add: takeWhile_all)
  show ?thesis unfolding atof_def split_mantissa_def td by (simp add: Let_def)
qed

lemma atof_point:
  assumes "\<forall>c \<in> set (s @ t). isdigit c"
  shows "atof M (s @ ''.'' @ t) = lib_dec M (dec_val (s @ t)) (- int (length t))"
proof -
  have "\<not> isdigit (CHR ''.'')" by (simp add: isdigit_def code_of_def)
  then have td: "takeWhile isdigit (s @ ''.'' @ t) = s" "dropWhile isdigit (s @ ''.'' @ t) = CHR ''.'' # t" "takeWhile isdigit t = t"
    using assms by (simp_all add: takeWhile_all)
  show ?thesis unfolding atof_def split_mantissa_def td by (simp add: Let_def td(3))
qed

lemma foldl_digits: "foldl (\<lambda>a c. 10 * a + digit_val c) x ds = x * 10 ^ length ds + dec_val ds"
  unfolding dec_val_def
proof (induction ds arbitrary: x)
  case (Cons d ds)
  show ?case using Cons [of "10 * x + digit_val d"] Cons [of "digit_val d"] by (simp add: algebra_simps)
qed simp

lemma dec_val_append: "dec_val (s @ t) = dec_val s * 10 ^ length t + dec_val t"
  using foldl_digits [of "dec_val s" t] by (simp add: dec_val_def)

lemma dec_val_fmt_d: "0 \<le> n \<Longrightarrow> dec_val (fmt_d False True w n) = n"
  by (simp add: fmt_d_def Let_def dec_val_zeros)

text \<open>The two formats of the seconds.\<close>

lemma fmt_fixed_fields:
  assumes "0 \<le> n" and "n < 100 * 10 ^ p" and "0 < p"
  shows "fmt_fixed (p + 3) p False n = fmt_d False True 2 (n div 10 ^ p) @ ''.'' @ fmt_d False True p (n mod 10 ^ p)"
proof -
  have "length (fmt_d False True p (n mod 10 ^ p)) = p" using assms(3) by (intro length_fmt_d0) simp_all
  moreover have "fmt_d False True 2 (n div 10 ^ p)
      = replicate (2 - length (show_dec (n div 10 ^ p))) (CHR ''0'') @ show_dec (n div 10 ^ p)"
    using assms(1) by (simp add: fmt_d_def Let_def pos_imp_zdiv_neg_iff not_less pos_imp_zdiv_nonneg_iff)
  ultimately show ?thesis by (simp add: fmt_fixed_def Let_def)
qed

text \<open>Reading three printed fields.\<close>

lemma read_fields:
  assumes "\<forall>c \<in> set a. isdigit c" and "a \<noteq> []" and "length a < 20" and "\<forall>j < length a. \<not> full 0 j"
    and "\<forall>j < 2. \<not> full 1 j" and "\<forall>j. \<not> full 2 j"
    and "0 \<le> m" and "m < 100" and "0 \<le> n" and "n < 100 * 10 ^ p" and "0 < p" and "p < 17" and M: "exact_lib M"
  defines "text \<equiv> a @ '':'' @ fmt_d False True 2 m @ '':'' @ fmt_fixed (p + 3) p False n"
  shows "\<exists>T v. scan_loop M full (scan_new M) text = Inr (Inr T) \<and> buff_end M T = Inr v
    \<and> scan_value M T v = of_int (dec_val a) + (of_int m + of_int n / 10 ^ p / 60) / 60"
proof -
  let ?b = "fmt_d False True 2 m" and ?s = "fmt_d False True 2 (n div 10 ^ p)" and ?t = "fmt_d False True p (n mod 10 ^ p)"
  have "n div 10 ^ p < 100"
  proof (rule ccontr)
    assume "\<not> n div 10 ^ p < 100"
    then have "100 * 10 ^ p \<le> (n div 10 ^ p) * 10 ^ p" by (intro mult_right_mono) simp_all
    also have "\<dots> \<le> n"
    proof -
      have "0 \<le> n mod 10 ^ p" by simp
      then show ?thesis using div_mult_mod_eq [of n "10 ^ p"] by linarith
    qed
    finally show False using assms(10) by simp
  qed
  then have n2: "0 \<le> n div 10 ^ p" "n div 10 ^ p < 100" "0 \<le> n mod 10 ^ p"
    using assms(9) by (simp_all add: pos_imp_zdiv_nonneg_iff)
  have len: "length ?b = 2" "length ?s = 2" "length ?t = p"
    using assms(7,8,11) n2 by (auto intro!: length_fmt_d0)
  have digits: "\<forall>c \<in> set (a @ ?b @ ?s @ ?t). isdigit c"
    using assms(1,7) n2 fmt_d0_digits by (metis UnE set_append)
  define T where "T = \<lparr>ts_h = atof M a, ts_m = atof M ?b, ts_part = 2, ts_dot = 1, ts_buff = ?s @ ''.'' @ ?t\<rparr>"
  have "text = a @ '':'' @ ?b @ '':'' @ ?s @ ''.'' @ ?t"
    unfolding text_def fmt_fixed_fields [OF assms(9-11)] ..
  then have scan: "scan_loop M full (scan_new M) text = Inr (Inr T)"
    unfolding T_def using assms(2-6,12) len digits by (simp only:) (rule scan_fields, simp_all)
  have "length (ts_buff T) < 20" using len assms(12) by (simp add: T_def)
  then have buff: "buff_end M T = Inr (atof M (?s @ ''.'' @ ?t))" by (simp add: buff_simps) (simp add: T_def)
  have "dec_val (?s @ ?t) = n" using n2 len(3) by (simp only: dec_val_append dec_val_fmt_d div_mult_mod_eq)
  then have v: "atof M (?s @ ''.'' @ ?t) = of_int n / 10 ^ p"
    using digits M len(3) by (subst atof_point) (auto simp: power_int_minus field_simps)
  have "atof M a = of_int (dec_val a)" "atof M ?b = of_int m"
    using digits M assms(7) by (simp_all add: atof_digits dec_val_fmt_d)
  then have "scan_value M T (of_int n / 10 ^ p) = of_int (dec_val a) + (of_int m + of_int n / 10 ^ p / 60) / 60"
    using M by (simp add: scan_value_def T_def Let_def)
  with scan buff v show ?thesis by auto
qed

section \<open>Printing a number and reading it back\<close>

lemma round_even_near: "\<bar>of_int (round_even x) - x\<bar> \<le> 1 / 2"
proof -
  define f where "f = \<lfloor>x\<rfloor>"
  have "of_int f \<le> x" "x < of_int f + 1" unfolding f_def by linarith+
  then show ?thesis by (auto simp: round_even_def Let_def f_def [symmetric])
qed

text \<open>Hours, minutes and seconds of a number, without rounding; the seconds are cut just below 60.\<close>

lemma sexagesimal_real:
  assumes "0 \<le> x" and "sexagesimal libm_real (60 - 1 / 10 ^ p) x = (h, m, s)" and "n = round_even (s * 10 ^ p)"
  shows "h = \<lfloor>x\<rfloor>" and "0 \<le> m" and "m < 60" and "0 \<le> s" and "0 \<le> n" and "n < 60 * 10 ^ p"
    and "\<bar>of_int h + (of_int m + of_int n / 10 ^ p / 60) / 60 - x\<bar> \<le> 1 / (3600 * 10 ^ p)"
proof -
  define u where "u = (x - of_int \<lfloor>x\<rfloor>) * 60"
  have "0 \<le> x - of_int \<lfloor>x\<rfloor>" "x - of_int \<lfloor>x\<rfloor> < 1" by linarith+
  then have u: "0 \<le> u" "u < 60" by (simp_all add: u_def)
  define w where "w = (u - of_int \<lfloor>u\<rfloor>) * 60"
  have "0 \<le> u - of_int \<lfloor>u\<rfloor>" "u - of_int \<lfloor>u\<rfloor> < 1" by linarith+
  then have w: "0 \<le> w" "w < 60" by (simp_all add: w_def)
  have six: "lib_dec libm_real 600 (-1) = 60" by simp
  have hms: "h = \<lfloor>x\<rfloor>" "m = \<lfloor>u\<rfloor>" "s = (if 60 - 1 / 10 ^ p < w then 60 - 1 / 10 ^ p else w)"
    using assms(1,2) u(1) six by (auto simp: sexagesimal_def Let_def libm_real_def u_def w_def)
  show "h = \<lfloor>x\<rfloor>" by (rule hms)
  show m: "0 \<le> m" "m < 60" using u by (simp_all add: hms floor_less_iff)
  have p: "(1::real) \<le> 10 ^ p" by simp
  then have e: "0 < 1 / (10::real) ^ p" "1 / (10::real) ^ p \<le> 1" by (simp_all add: divide_simps)
  have "1 / (10::real) ^ p \<le> 60" using e by linarith
  then show s: "0 \<le> s" using w by (auto simp: hms(3))
  have sp: "s * 10 ^ p \<le> 60 * 10 ^ p - 1"
  proof -
    have "s \<le> 60 - 1 / 10 ^ p" by (simp add: hms(3))
    then have "s * 10 ^ p \<le> (60 - 1 / 10 ^ p) * 10 ^ p" by (intro mult_right_mono) simp_all
    then show ?thesis by (simp add: left_diff_distrib)
  qed
  note near = round_even_near [of "s * 10 ^ p", folded assms(3)]
  have "0 \<le> s * 10 ^ p" using s by simp
  then have "-1 < (of_int n :: real)" using near by linarith
  then show "0 \<le> n" by linarith
  have "(of_int n :: real) < 60 * 10 ^ p" using near sp by arith
  then have "(of_int n :: real) < of_int (60 * 10 ^ p)" by simp
  then show "n < 60 * 10 ^ p" by (simp only: of_int_less_iff)
  have "\<bar>of_int n / 10 ^ p - w\<bar> \<le> 1 / 10 ^ p"
  proof (cases "60 - 1 / 10 ^ p < w")
    case False
    then have "\<bar>of_int n - w * 10 ^ p\<bar> \<le> 1" using near by (simp add: hms(3))
    then show ?thesis using p by (simp add: abs_le_iff field_simps)
  next
    case True
    then have "s * 10 ^ p = of_int (60 * 10 ^ p - 1)" by (simp add: hms(3) left_diff_distrib)
    then have "\<bar>of_int (n - (60 * 10 ^ p - 1))\<bar> \<le> (1 / 2 :: real)" using near by simp
    then have "n = 60 * 10 ^ p - 1" by linarith
    then have "of_int n / 10 ^ p = 60 - 1 / (10::real) ^ p" by (simp add: diff_divide_distrib)
    with True w(2) show ?thesis by simp
  qed
  moreover have "w = (u - of_int m) * 60" unfolding w_def hms(2) ..
  moreover have "u = (x - of_int h) * 60" unfolding u_def hms(1) ..
  ultimately have "\<bar>of_int n / 10 ^ p - w\<bar> \<le> 1 / 10 ^ p" "w / 60 = u - of_int m" "u / 60 = x - of_int h" by simp_all
  then have "of_int h + (of_int m + of_int n / 10 ^ p / 60) / 60 - x = (of_int n / 10 ^ p - w) / 3600" by simp
  with \<open>\<bar>of_int n / 10 ^ p - w\<bar> \<le> 1 / 10 ^ p\<close> show "\<bar>of_int h + (of_int m + of_int n / 10 ^ p / 60) / 60 - x\<bar> \<le> 1 / (3600 * 10 ^ p)"
    by (simp add: abs_divide field_simps)
qed

lemma hour_fields:
  assumes "0 \<le> (x::real)" and "x < 24"
  shows "add_turns 0 24 x = Some x" and "sub_turns 36 24 x = Some x"
  using assms by (subst add_turns.simps sub_turns.simps; simp)+

text \<open>
  C39: without rounding, an hour angle in [0, 24) printed by \<open>HourDbl2Str\<close> and read by \<open>HourStr2Dbl\<close> comes back to
  within a thousandth of a second of time.
\<close>

theorem hour_roundtrip:
  assumes "0 \<le> x" and "x < 24"
  shows "\<exists>s y. HourDbl2Str libm_real printf_real x = Some s \<and> HourStr2Dbl libm_real (Some s) = Inr (0, Some y)
    \<and> \<bar>y - x\<bar> \<le> 1 / 3600000"
proof -
  obtain h m s where hms: "sexagesimal libm_real (60 - 1 / 10 ^ 3) x = (h, m, s)" by (metis prod_cases3)
  define n where "n = round_even (s * 10 ^ 3)"
  note r = sexagesimal_real [OF assms(1) hms n_def]
  have cap: "lib_dec libm_real 59999 (-3) = 60 - 1 / 10 ^ 3" by (simp add: power_int_minus)
  define str where "str = fmt_d False True 2 h @ '':'' @ fmt_d False True 2 m @ '':'' @ fmt_fixed (3 + 3) 3 False n"
  have "HourDbl2Str libm_real printf_real x = Some str"
    using hour_fields [OF assms] hms r(4) by (simp add: HourDbl2Str_def cap printf_real_def str_def n_def)
  have h: "0 \<le> h" "h < 100" using assms r(1) by (simp_all add: floor_less_iff)
  have "length (fmt_d False True 2 h) = 2" using h by (intro length_fmt_d0) simp_all
  with read_fields [of "fmt_d False True 2 h" hour_full m n 3 libm_real] h r
  obtain T v where T: "scan_loop libm_real hour_full (scan_new libm_real) str = Inr (Inr T)" "buff_end libm_real T = Inr v"
    "scan_value libm_real T v = of_int h + (of_int m + of_int n / 10 ^ 3 / 60) / 60"
    unfolding str_def by (auto simp: fmt_d0_digits hour_full_def dec_val_fmt_d)
  have "str \<noteq> []" by (simp add: str_def)
  then have "HourStr2Dbl libm_real (Some str) = Inr (0, Some (scan_value libm_real T v))"
    using T by (simp add: HourStr2Dbl_def)
  with T(3) r(7) \<open>HourDbl2Str libm_real printf_real x = Some str\<close> show ?thesis by auto
qed

theorem hour_roundtrip_witness:
  "\<exists>s y. HourDbl2Str libm_real printf_real (49 / 4) = Some s \<and> HourStr2Dbl libm_real (Some s) = Inr (0, Some y)
    \<and> \<bar>y - 49 / 4\<bar> \<le> 1 / 3600000"
  by (rule hour_roundtrip) simp_all

section \<open>The loops of the printers\<close>










end
