(* ===== verification/Spec2Isabelle.thy ===== *)
theory Spec2Isabelle
  imports KV_Plan_Codec KV_Facts NonKV_Commands Tcp_Conn Message_Queue
    Obs_Properties Obs_Devices Control_Loop Gtoaes
    AMath_Properties AMath_Select AMath_Interp_Properties AMath_Function_Properties
    ATS_Binary64 ATS_Coord_Properties ATS_Text_Properties
begin

text \<open>
  gtoaesv2 is the server of a general telescope observation and control system
  (\<open>src/src\<close>). Clients send it plans and manual commands; mounts, cameras and focusers connect to
  it over TCP; it groups them into observation systems by a group and a unit identification,
  executes the plans and reports the state of plans and devices to the clients.

  \<^bold>\<open>Parts and theories.\<close>

  \<^item> \<open>Prelude\<close>, \<open>Cpp_Std\<close>, \<open>Cpp_Double\<close>: crashes and exceptions as values, list updates, and what
    the sources use of the C++ standard library: 32-bit \<open>int\<close> with wrap-around written out,
    \<open>std::stoi\<close>, \<open>std::stod\<close>, \<open>atoi\<close>, \<open>snprintf\<close> with its cut, streaming of \<open>int\<close> and
    \<open>double\<close>. A \<open>double\<close> is a binary64 value \<open>m * 2 ^ e\<close> with correct rounding.
  \<^item> \<open>Boost_Env\<close>: the Boost functions the sources call are a parameter, a record of functions
    (\<open>boost\<close>); \<open>boost_ok\<close> says what their documentation promises, \<open>boost_ref\<close> is a concrete
    instance with which every witness is evaluated.
  \<^item> \<open>Astro_Device_Def\<close> (\<open>AstroDeviceDef.h\<close>): device states, commands and their names.
  \<^item> \<open>Proto_KV\<close> (\<open>ProtoKVBase.h\<close>, \<open>ProtoKV.h\<close>): the key-value messages, one record per struct,
    with their constructors and \<open>ToString\<close>. \<open>KV_Protocol\<close> (\<open>KVProtocol.cpp\<close>): \<open>Resolve\<close> and all
    \<open>resolve_*\<close> functions. \<open>KV_Codec\<close>, \<open>KV_Messages\<close>, \<open>KV_Plan_Codec\<close>: printing a message and
    resolving the line gives the message back, proved once in the locale \<open>kv_codec\<close> and
    interpreted for every message type. \<open>KV_Facts\<close>: what \<open>Resolve\<close> can answer.
  \<^item> \<open>NonKV_Protocol\<close>, \<open>NonKV_Commands\<close> (\<open>NonKVProtocol.cpp\<close>): the fixed-format protocol of the
    GWAC mounts and focusers, received lines and encoded commands with their serial numbers; the
    contract of an encoder is the locale \<open>nonkv_encoder\<close>.
  \<^item> \<open>Tcp_Client\<close> (\<open>AsioTCP.cpp\<close>): the buffers of a connection; \<open>line_source\<close> is what the
    message handlers rely on. \<open>Tcp_Conn\<close> (\<open>AsioTCP.h/.cpp\<close>, \<open>BoostAsioKeep.h/.cpp\<close>): the connection around them,
    its callbacks and asynchronous operations, and the thread that serves it. \<open>Message_Queue\<close> (\<open>MessageQueue.cpp\<close>): the
    queue; \<open>Message_Loop\<close>: the loop, start and stop, over any state that holds a queue (\<open>message_state\<close>), with
    handlers that may crash, never return, or post messages themselves.
  \<^item> \<open>Obs_State\<close>, \<open>Obs_System\<close>, \<open>Obs_Commands\<close> (\<open>ObservationSystem.h/.cpp\<close>): one observation
    system, one operation per public function or message handler and one per turn of its threads;
    the buffer of commands to send again is used through the locale \<open>retry_buffer\<close>.
    \<open>Obs_Invariant\<close>: the step relation \<open>obs_step\<close> of everything that happens to a system, and the
    invariants of the reachable states; \<open>Obs_Mount\<close>, \<open>Obs_Properties\<close>, \<open>Obs_Devices\<close>: properties;
    \<open>Obs_Ids\<close>: which fields the operations keep. \<open>Obs_Loop\<close>: the message thread of a system at work on the
    connections of its cameras, an interpretation of \<open>message_state\<close>, and \<open>Stop\<close>.
  \<^item> \<open>General_Control\<close> (\<open>GeneralControl.h/.cpp\<close>): the controller, its connection pools, the routing
    of every received line to observation systems, the periodic threads.
    \<open>Control_Invariant\<close>: what every controller operation keeps; \<open>Control_Reach\<close>: the receive loop
    and the step relation \<open>gc_step\<close> of the controller; \<open>Control_Properties\<close>: its properties.
    \<open>Control_Loop\<close>: the servers (\<open>TcpServer\<close> of \<open>AsioTCP.h/.cpp\<close>), start and stop, and the message thread
    with the handlers of the controller, the other interpretation of \<open>message_state\<close>.
  \<^item> \<open>Config\<close> (\<open>Parameter.h/.cpp\<close>): the configuration file, saved and loaded. \<open>Log_File\<close>
    (\<open>GLog.h/.cpp\<close>): the log, one file per date. \<open>Daemon\<close> (\<open>daemon.h/.cpp\<close>): going into the background, and the
    locked process file, also as single system calls that interleave with those of other instances.
    \<open>Gtoaes\<close> (\<open>main.cpp\<close>, \<open>globaldef.h\<close>): the program, composed of all of these, with its exit status.
  \<^item> \<open>Cpp_Math\<close>: what the numerical libraries use of \<open><math.h>\<close> and the constants of
    \<open>ADefine.h\<close>. \<open>Index_Loops\<close>: invariants of counting loops over arrays stored by rows.
  \<^item> \<open>AMath_Linear\<close>, \<open>AMath_Select\<close>, \<open>AMath_Interp\<close>, \<open>AMath_Functions\<close> (\<open>AMath.h/.cpp\<close>): linear
    equations, selection, interpolation, and the formulas. \<open>AMath_LU\<close>, \<open>AMath_Solve\<close>,
    \<open>AMath_Properties\<close>: LU decomposition, solving, inversion and least squares are right for
    invertible matrices; \<open>AMath_Interp_Properties\<close>, \<open>AMath_Function_Properties\<close>: interpolation
    gives the samples back, projections and spherical coordinates are undone.
  \<^item> \<open>ATS_Calendar\<close>, \<open>ATS_Series\<close>, \<open>ATS_State\<close>, \<open>ATS_Coords\<close> (\<open>ATimeSpace.h/.cpp\<close>): calendar and time
    scales; the series; the object with its table of values; coordinates, Moon and twilight.
    \<open>ATS_Cache\<close>: the contract of a getter is the locale \<open>cached_getter\<close>, interpreted for each of
    them; \<open>ATS_Time\<close>: setting the time, leap seconds, any sequence of getters. \<open>ATS_Dates\<close>: days
    and dates; what \<open>Mjd2Cal\<close> needs of the arithmetic is the locale \<open>calendar_lib\<close>, interpreted
    without rounding and, in \<open>ATS_Binary64\<close>, for binary64. \<open>ATS_Text\<close>: sexagesimal strings;
    \<open>ATS_Text_Properties\<close>: the buffer of the parsers, the loops of the printers, the round trip;
    \<open>ATS_Coord_Properties\<close>: horizon and equator.

  \<^bold>\<open>Floating point.\<close> The numerical routines are definitions over any type with the arithmetic
  operations and a record \<open>libm\<close> of literals, conversions and mathematical functions.
  \<open>libm_double T\<close> is binary64, with the transcendental functions \<open>T\<close> left free; this is the code.
  \<open>exact_lib\<close> and \<open>libm_real\<close> are the same routines without rounding; a theorem stated for them
  says what the algorithm computes, up to rounding errors. Theorems without such a restriction
  hold for binary64 as well.

  \<^bold>\<open>How state and effects are modelled.\<close> An object is a record of its member variables; an
  operation returns it updated. Lines written to a connection, posted messages, callbacks and
  notifications are appended to an event list; what the operating system and the file system answer are arguments. An exception that leaves a handler, a
  dereferenced null pointer, an index or a buffer out of range are \<open>Inl\<close> values of type \<open>crash\<close>.
  Uninitialised members are read from \<open>raw\<close>, the clock and the number of other owners of a shared
  plan from \<open>env\<close>. \<open>plan_.unique()\<close> counts the owners: the other observation systems and the
  message handler that delivers the plan.

  \<^bold>\<open>Termination.\<close> The receive loops, the message loop, the wait for an interrupted thread, the bisection of \<open>reverse_erf\<close>, Newton's iteration for the
  Moon and the reduction of angles before printing are \<open>partial_function (option)\<close>: \<open>None\<close> is a loop that never ends. No fuel is used anywhere.

  \<^bold>\<open>Not modelled.\<close> The inside of sockets, threads and locks (operations are atomic as the locks make them; that
  an interrupted thread ends is a hypothesis of what is said of \<open>Stop\<close>); the capacity of a message
  queue, at which posting would wait; the messages to the log outside \<open>main.cpp\<close>, whose arguments are kept where
  they can crash; the conversions of character sets for Windows in \<open>BoostInclude.cpp\<close>.
\<close>

end
